(* ===== verification/Prelude.thy ===== *)
theory Prelude
  imports Main "HOL-Library.AList" "HOL-Library.Sublist" "HOL-Library.Char_ord"
begin

text \<open>
  Shared vocabulary of the development: what every component of the driver uses of Go and
  of its standard library.

  \<^item> \<open>goerr\<close> and \<open>go\<close>: error values and the three ways a Go call can end (a
    value, an error, a run-time panic), with the combinators that sequence such calls, pure
    and over an explicit state;
  \<^item> \<open>gomap\<close>: Go maps as association lists with distinct keys. The order of the list is
    the order in which \<open>range\<close> visits the map. Go leaves that order open, so every
    theorem quantifies over all lists;
  \<^item> decimal printing and parsing (\<open>%d\<close>, \<open>%04d\<close>, \<open>strconv.Atoi\<close>) and the functions
    of package \<open>strings\<close> the driver calls;
  \<^item> \<open>update_first\<close>: the in-place update of the first entry of a slice that matches.
\<close>

named_theorems go_simps "unfolding rules of the error and state combinators"
named_theorems map_simps "lookup, update and deletion on Go maps"

section \<open>Errors and outcomes\<close>

text \<open>
  \<open>Errorf\<close> is \<open>fmt.Errorf\<close> with no \<open>%w\<close> verb, \<open>Wrapf\<close> one with it: only the latter
  keeps the wrapped error visible to \<open>errors.As\<close> and \<open>errors.Is\<close>. \<open>PermanentError\<close> is
  the \<open>permanentError\<close> struct of the kubelet plugins, \<open>TerminalError\<close> the error that
  controller-runtime does not requeue (it does unwrap), and the \<open>Api\<close> constructors are the
  answers of the API server the code distinguishes.
\<close>

datatype goerr =
    Errorf string
  | Wrapf string goerr
  | PermanentError goerr
  | TerminalError goerr
  | ApiNotFound
  | ApiAlreadyExists
  | ApiError string

datatype 'a go = Ok 'a | Err goerr | Panic string

text \<open>\<open>errors.As(err, &permanentError{})\<close>: some error on the chain of wrapped errors is a
  \<open>permanentError\<close>.\<close>

fun isPermanentError :: "goerr \<Rightarrow> bool" where
  "isPermanentError (PermanentError e) = True"
| "isPermanentError (Wrapf m e) = isPermanentError e"
| "isPermanentError (TerminalError e) = isPermanentError e"
| "isPermanentError _ = False"

text \<open>\<open>apierrors.IsNotFound\<close> looks through the chain of wrapped errors; an embedded error of
  a \<open>permanentError\<close> is not unwrapped (the struct has no \<open>Unwrap\<close> method).\<close>

fun IsNotFound :: "goerr \<Rightarrow> bool" where
  "IsNotFound ApiNotFound = True"
| "IsNotFound (Wrapf m e) = IsNotFound e"
| "IsNotFound (TerminalError e) = IsNotFound e"
| "IsNotFound _ = False"

fun IsAlreadyExists :: "goerr \<Rightarrow> bool" where
  "IsAlreadyExists ApiAlreadyExists = True"
| "IsAlreadyExists (Wrapf m e) = IsAlreadyExists e"
| "IsAlreadyExists (TerminalError e) = IsAlreadyExists e"
| "IsAlreadyExists _ = False"

fun is_ok :: "'a go \<Rightarrow> bool" where
  "is_ok (Ok _) = True"
| "is_ok _ = False"

fun is_panic :: "'a go \<Rightarrow> bool" where
  "is_panic (Panic _) = True"
| "is_panic _ = False"

fun bind_go :: "'a go \<Rightarrow> ('a \<Rightarrow> 'b go) \<Rightarrow> 'b go" where
  "bind_go (Ok a) f = f a"
| "bind_go (Err e) f = Err e"
| "bind_go (Panic p) f = Panic p"

text \<open>\<open>wrap_go f r\<close> turns the error of \<open>r\<close> into \<open>f\<close> of it and leaves values and panics
  alone: the \<open>if err != nil \{ return fmt.Errorf(...) \}\<close> idiom.\<close>

fun wrap_go :: "(goerr \<Rightarrow> goerr) \<Rightarrow> 'a go \<Rightarrow> 'a go" where
  "wrap_go f (Ok a) = Ok a"
| "wrap_go f (Err e) = Err (f e)"
| "wrap_go f (Panic p) = Panic p"

lemma bind_go_eq_Ok [simp]: "bind_go m f = Ok b \<longleftrightarrow> (\<exists>a. m = Ok a \<and> f a = Ok b)"
  by (cases m) auto

lemma wrap_go_eq_Ok [simp]: "wrap_go f m = Ok b \<longleftrightarrow> m = Ok b"
  by (cases m) auto

lemma wrap_go_eq_Panic [simp]: "wrap_go f m = Panic p \<longleftrightarrow> m = Panic p"
  by (cases m) auto

lemma is_ok_iff: "is_ok m \<longleftrightarrow> (\<exists>a. m = Ok a)"
  by (cases m) auto

lemma is_panic_iff: "is_panic m \<longleftrightarrow> (\<exists>p. m = Panic p)"
  by (cases m) auto

lemma is_ok_wrap_go [simp]: "is_ok (wrap_go f m) = is_ok m"
  by (cases m) auto

text \<open>Calls over a state: the outcome and the state afterwards, which keeps the effects made
  before an error.\<close>

type_synonym ('s, 'a) gost = "'s \<Rightarrow> 'a go \<times> 's"

definition ret_st :: "'a \<Rightarrow> ('s, 'a) gost" where
  [go_simps]: "ret_st a = (\<lambda>s. (Ok a, s))"

definition err_st :: "goerr \<Rightarrow> ('s, 'a) gost" where
  [go_simps]: "err_st e = (\<lambda>s. (Err e, s))"

definition lift_st :: "'a go \<Rightarrow> ('s, 'a) gost" where
  [go_simps]: "lift_st r = (\<lambda>s. (r, s))"

definition bind_st :: "('s, 'a) gost \<Rightarrow> ('a \<Rightarrow> ('s, 'b) gost) \<Rightarrow> ('s, 'b) gost" where
  "bind_st m f = (\<lambda>s. case m s of
     (Ok a, s') \<Rightarrow> f a s'
   | (Err e, s') \<Rightarrow> (Err e, s')
   | (Panic p, s') \<Rightarrow> (Panic p, s'))"

definition wrap_st :: "(goerr \<Rightarrow> goerr) \<Rightarrow> ('s, 'a) gost \<Rightarrow> ('s, 'a) gost" where
  "wrap_st f m = (\<lambda>s. case m s of (r, s') \<Rightarrow> (wrap_go f r, s'))"

lemma bind_st_eq_Ok:
  "bind_st m f s = (Ok b, t) \<longleftrightarrow> (\<exists>a s'. m s = (Ok a, s') \<and> f a s' = (Ok b, t))"
  by (auto simp: bind_st_def split: prod.splits go.splits)

lemma bind_st_Ok: "m s = (Ok a, s') \<Longrightarrow> bind_st m f s = f a s'"
  by (simp add: bind_st_def)

lemma bind_lift_st [simp]:
  "bind_st (lift_st (Ok a)) f = f a" "bind_st (lift_st (Err e)) f = err_st e"
  "bind_st (lift_st (Panic p)) g = lift_st (Panic p)" "bind_st (ret_st a) f = f a"
  by (simp_all add: bind_st_def lift_st_def err_st_def ret_st_def)

lemma basic_st [simp]:
  "snd (ret_st a s) = s" "snd (err_st e s) = s" "snd (lift_st r s) = s"
  "fst (ret_st a s) = Ok a" "fst (err_st e s) = Err e" "fst (lift_st r s) = r"
  by (simp_all add: ret_st_def err_st_def lift_st_def)

lemma wrap_st_eq_Ok: "wrap_st f m s = (Ok b, t) \<longleftrightarrow> m s = (Ok b, t)"
  by (auto simp: wrap_st_def split: prod.splits)

lemma fst_wrap_st: "fst (wrap_st f m s) = wrap_go f (fst (m s))"
  by (simp add: wrap_st_def split: prod.splits)

lemma snd_wrap_st [simp]: "snd (wrap_st f m s) = snd (m s)"
  by (simp add: wrap_st_def split: prod.splits)

text \<open>A property of the state that each part of a sequence keeps is kept by the sequence.\<close>

definition keeps :: "('s \<Rightarrow> bool) \<Rightarrow> ('s, 'a) gost \<Rightarrow> bool" where
  "keeps P m \<longleftrightarrow> (\<forall>s. P s \<longrightarrow> P (snd (m s)))"

lemma keepsI: "(\<And>s. P s \<Longrightarrow> P (snd (m s))) \<Longrightarrow> keeps P m"
  by (simp add: keeps_def)

lemma keepsD: "keeps P m \<Longrightarrow> P s \<Longrightarrow> P (snd (m s))"
  by (simp add: keeps_def)

lemma keeps_ret [simp]: "keeps P (ret_st a)"
  by (simp add: keeps_def ret_st_def)

lemma keeps_err [simp]: "keeps P (err_st e)"
  by (simp add: keeps_def err_st_def)

lemma keeps_lift [simp]: "keeps P (lift_st r)"
  by (simp add: keeps_def lift_st_def)

lemma keeps_bind: "keeps P m \<Longrightarrow> (\<And>a. keeps P (f a)) \<Longrightarrow> keeps P (bind_st m f)"
  by (auto simp: keeps_def bind_st_def split: prod.splits go.splits)

lemma keeps_wrap: "keeps P m \<Longrightarrow> keeps P (wrap_st f m)"
  by (simp add: keeps_def)

text \<open>Reading the state, and a loop over a slice.\<close>

definition gets :: "('s \<Rightarrow> 'a) \<Rightarrow> ('s, 'a) gost" where
  "gets f s = (Ok (f s), s)"

fun each :: "('a \<Rightarrow> ('s, unit) gost) \<Rightarrow> 'a list \<Rightarrow> ('s, unit) gost" where
  "each f [] = ret_st ()"
| "each f (x # xs) = bind_st (f x) (\<lambda>_. each f xs)"

lemma keeps_gets [simp]: "keeps P (gets f)"
  by (simp add: keeps_def gets_def)

lemma keeps_each: "(\<And>x. keeps P (f x)) \<Longrightarrow> keeps P (each f xs)"
  by (induction xs) (auto intro: keeps_bind)

lemmas keeps_rules = keeps_bind keeps_wrap keeps_each

lemma keeps_each_in: "(\<And>x. x \<in> set xs \<Longrightarrow> keeps P (f x)) \<Longrightarrow> keeps P (each f xs)"
  by (induction xs) (auto intro: keeps_bind)

text \<open>How a sequence of calls can end, and the state it ends in.\<close>

lemma bind_cases:
  assumes "bind_st m f s = (r, s')"
  obtains (ok) a t where "m s = (Ok a, t)" and "f a t = (r, s')"
  | (fail) r0 where "m s = (r0, s')" and "\<not> is_ok r0" and "\<not> is_ok r"
  using assms by (auto simp: bind_st_def split: prod.splits go.splits)

lemma wrap_cases:
  assumes "wrap_st w m s = (r, s')"
  obtains r0 where "m s = (r0, s')" and "is_ok r0 = is_ok r"
  using assms by (auto simp: wrap_st_def split: prod.splits)

lemma snd_bind_st: "snd (bind_st m f s) = (case m s of (Ok a, t) \<Rightarrow> snd (f a t) | (_, t) \<Rightarrow> t)"
  by (auto simp: bind_st_def split: prod.splits go.splits)

section \<open>Go maps\<close>

type_synonym ('k, 'v) gomap = "('k \<times> 'v) list"

abbreviation gomap :: "('k, 'v) gomap \<Rightarrow> bool" where
  "gomap m \<equiv> distinct (map fst m)"

lemmas [map_simps] = update_conv' delete_conv'
lemmas [simp] = distinct_update distinct_delete

lemma map_of_update_same [simp]: "map_of (AList.update k v m) k = Some v"
  by (simp add: update_conv')

lemma map_of_update_other [simp]: "k \<noteq> k' \<Longrightarrow> map_of (AList.update k v m) k' = map_of m k'"
  by (simp add: update_conv')

lemma map_of_delete_same [simp]: "map_of (AList.delete k m) k = None"
  by (simp add: delete_conv')

lemma map_of_delete_other [simp]: "k \<noteq> k' \<Longrightarrow> map_of (AList.delete k m) k' = map_of m k'"
  by (simp add: delete_conv')

lemma set_update_subset: "set (AList.update k v m) \<subseteq> insert (k, v) (set m)"
  by (induction m) auto

text \<open>An entry of a map is what a lookup of its key returns.\<close>

lemma update_twice: "map_of (AList.update k v (AList.update k w m)) = map_of (AList.update k v m)"
  by (simp add: update_conv')

lemma map_of_iff: "gomap m \<Longrightarrow> map_of m k = Some v \<longleftrightarrow> (k, v) \<in> set m"
  by (metis map_of_eq_Some_iff)

text \<open>\<open>maps.Equal\<close>: equally long, and every entry of the first is an entry of the second.\<close>

definition maps_Equal :: "('k, 'v) gomap \<Rightarrow> ('k, 'v) gomap \<Rightarrow> bool" where
  "maps_Equal m1 m2 \<longleftrightarrow> length m1 = length m2 \<and> (\<forall>(k, v) \<in> set m1. map_of m2 k = Some v)"

lemma maps_Equal_iff:
  assumes "gomap m1" and "gomap m2"
  shows "maps_Equal m1 m2 \<longleftrightarrow> map_of m1 = map_of m2"
proof
  assume eq: "maps_Equal m1 m2"
  then have sub: "set m1 \<subseteq> set m2"
    using assms by (auto simp: maps_Equal_def map_of_iff)
  have "card (set m1) = length m1" "card (set m2) = length m2"
    using assms by (simp_all add: distinct_card distinct_map)
  with eq sub have "set m1 = set m2"
    by (simp add: maps_Equal_def card_subset_eq)
  then show "map_of m1 = map_of m2"
    using assms by (simp add: map_of_inject_set)
next
  assume eq: "map_of m1 = map_of m2"
  then have "set m1 = set m2"
    using assms by (simp add: map_of_inject_set)
  moreover from this have "length m1 = length m2"
    using assms by (metis distinct_card distinct_map)
  ultimately show "maps_Equal m1 m2"
    using assms by (auto simp: maps_Equal_def)
qed

section \<open>Slices\<close>

text \<open>The pointer a loop with \<open>break\<close> finds is the first matching entry; assigning through it
  changes that entry of the slice.\<close>

fun update_first :: "('a \<Rightarrow> bool) \<Rightarrow> ('a \<Rightarrow> 'a) \<Rightarrow> 'a list \<Rightarrow> 'a list" where
  "update_first P f [] = []"
| "update_first P f (x # xs) = (if P x then f x # xs else x # update_first P f xs)"

lemma length_update_first [simp]: "length (update_first P f xs) = length xs"
  by (induction xs) auto

lemma update_first_none [simp]: "\<forall>x \<in> set xs. \<not> P x \<Longrightarrow> update_first P f xs = xs"
  by (induction xs) auto

lemma map_update_first:
  "(\<And>x. g (f x) = g x) \<Longrightarrow> map g (update_first P f xs) = map g xs"
  by (induction xs) auto

lemma set_update_first:
  "y \<in> set (update_first P f xs) \<Longrightarrow> y \<in> set xs \<or> (\<exists>x \<in> set xs. P x \<and> y = f x)"
  by (induction xs) (auto split: if_splits)

lemma find_update_first:
  "find P xs = Some x \<Longrightarrow> (\<And>x. P x \<Longrightarrow> P (f x)) \<Longrightarrow> find P (update_first P f xs) = Some (f x)"
  by (induction xs) (auto split: if_splits)

lemma distinct_map_eqD:
  "distinct (map f xs) \<Longrightarrow> x \<in> set xs \<Longrightarrow> y \<in> set xs \<Longrightarrow> f x = f y \<Longrightarrow> x = y"
  by (simp add: distinct_map inj_on_def)

lemma find_None_iff2: "find P xs = None \<longleftrightarrow> (\<forall>x \<in> set xs. \<not> P x)"
  by (auto simp: find_None_iff)

lemma find_SomeD: "find P xs = Some x \<Longrightarrow> x \<in> set xs \<and> P x"
  by (auto simp: find_Some_iff)

section \<open>Decimal numbers\<close>

definition digit_char :: "nat \<Rightarrow> char" where
  "digit_char d = char_of (48 + d)"

definition is_digit :: "char \<Rightarrow> bool" where
  "is_digit c \<longleftrightarrow> 48 \<le> (of_char c :: nat) \<and> (of_char c :: nat) \<le> 57"

definition digit_val :: "char \<Rightarrow> nat" where
  "digit_val c = of_char c - 48"

text \<open>The verb \<open>%d\<close>.\<close>

fun show_nat :: "nat \<Rightarrow> string" where
  "show_nat n = (if n < 10 then [digit_char n] else show_nat (n div 10) @ [digit_char (n mod 10)])"

declare show_nat.simps [simp del]

definition show_int :: "int \<Rightarrow> string" where
  "show_int i = (if i < 0 then CHR ''-'' # show_nat (nat (- i)) else show_nat (nat i))"

text \<open>The verb \<open>%04d\<close> on a number that is not negative.\<close>

definition show_pad4 :: "nat \<Rightarrow> string" where
  "show_pad4 n = replicate (4 - length (show_nat n)) CHR ''0'' @ show_nat n"

fun read_nat :: "nat \<Rightarrow> string \<Rightarrow> nat" where
  "read_nat acc [] = acc"
| "read_nat acc (c # cs) = read_nat (10 * acc + digit_val c) cs"

text \<open>\<open>strconv.Atoi\<close> on a 64-bit platform: an optional sign, at least one digit, only digits,
  and a value in the range of \<open>int64\<close>; anything else is an error (\<open>None\<close>).\<close>

definition max_int64 :: int where "max_int64 = 2 ^ 63 - 1"
definition min_int64 :: int where "min_int64 = - (2 ^ 63)"

definition in_int64 :: "int \<Rightarrow> bool" where
  "in_int64 i \<longleftrightarrow> min_int64 \<le> i \<and> i \<le> max_int64"

definition Atoi :: "string \<Rightarrow> int option" where
  "Atoi s =
     (let (neg, ds) = (case s of
            [] \<Rightarrow> (False, [])
          | c # cs \<Rightarrow> if c = CHR ''-'' then (True, cs) else if c = CHR ''+'' then (False, cs)
                      else (False, s));
          v = int (read_nat 0 ds);
          i = (if neg then - v else v)
      in if ds \<noteq> [] \<and> list_all is_digit ds \<and> in_int64 i then Some i else None)"

lemma digit_char_range [simp]: "d < 10 \<Longrightarrow> is_digit (digit_char d)"
  by (simp add: is_digit_def digit_char_def of_char_of)

lemma digit_val_char [simp]: "d < 10 \<Longrightarrow> digit_val (digit_char d) = d"
  by (simp add: digit_val_def digit_char_def of_char_of)

lemma read_nat_append: "read_nat acc (xs @ ys) = read_nat (read_nat acc xs) ys"
  by (induction xs arbitrary: acc) auto

lemma show_nat_nonempty [simp]: "show_nat n \<noteq> []"
  by (subst show_nat.simps) simp

lemma show_nat_digits: "list_all is_digit (show_nat n)"
proof (induction n rule: show_nat.induct)
  case (1 n)
  then show ?case by (subst show_nat.simps) (simp add: list_all_iff)
qed

lemma read_show_nat: "read_nat 0 (show_nat n) = n"
proof (induction n rule: show_nat.induct)
  case (1 n)
  show ?case
  proof (cases "n < 10")
    case True
    then show ?thesis by (simp add: show_nat.simps [of n])
  next
    case False
    with 1 have "read_nat 0 (show_nat (n div 10)) = n div 10" by simp
    with False show ?thesis by (simp add: show_nat.simps [of n] read_nat_append)
  qed
qed

lemma show_nat_inject [simp]: "show_nat m = show_nat n \<longleftrightarrow> m = n"
  by (metis read_show_nat)

lemma not_digit_sign [simp]: "\<not> is_digit CHR ''-''" "\<not> is_digit CHR ''+''"
  by (simp_all add: is_digit_def)

lemma show_nat_head: "\<exists>c cs. show_nat n = c # cs \<and> is_digit c"
  using show_nat_digits [of n] by (cases "show_nat n") auto

text \<open>Parsing what was printed gives the number back, for every \<open>int64\<close>.\<close>

lemma Atoi_show_nat: "int n \<le> max_int64 \<Longrightarrow> Atoi (show_nat n) = Some (int n)"
proof -
  assume le: "int n \<le> max_int64"
  obtain c cs where c: "show_nat n = c # cs" "is_digit c"
    using show_nat_head by blast
  then have "c \<noteq> CHR ''-''" "c \<noteq> CHR ''+''" by auto
  with c le show_nat_digits [of n] read_show_nat [of n] show ?thesis
    by (auto simp: Atoi_def Let_def in_int64_def min_int64_def)
qed

lemma show_int_inject [simp]: "show_int i = show_int j \<longleftrightarrow> i = j"
proof -
  have "hd (show_nat n) \<noteq> CHR ''-''" for n
    using show_nat_head [of n] by auto
  then have "show_nat n \<noteq> CHR ''-'' # s" for n s
    by (metis list.sel(1))
  then show ?thesis
    by (auto simp: show_int_def dest: sym)
qed

lemma Atoi_show_int: "in_int64 i \<Longrightarrow> Atoi (show_int i) = Some i"
proof (cases "i < 0")
  case True
  moreover assume "in_int64 i"
  ultimately show ?thesis
    using show_nat_digits [of "nat (- i)"] read_show_nat [of "nat (- i)"]
    by (simp add: show_int_def Atoi_def Let_def)
next
  case False
  moreover assume "in_int64 i"
  ultimately show ?thesis
    using Atoi_show_nat [of "nat i"] by (simp add: show_int_def in_int64_def)
qed

lemma read_replicate_zero: "read_nat 0 (replicate k CHR ''0'' @ s) = read_nat 0 s"
  by (induction k) (simp_all add: digit_val_def)

lemma show_pad4_inject [simp]: "show_pad4 m = show_pad4 n \<longleftrightarrow> m = n"
  by (metis read_replicate_zero read_show_nat show_pad4_def)

section \<open>Package strings\<close>

definition strings_Contains :: "string \<Rightarrow> string \<Rightarrow> bool" where
  "strings_Contains s sub \<longleftrightarrow> sublist sub s"

lemma strings_Contains_code [code]:
  "strings_Contains s sub \<longleftrightarrow> list_ex (prefix sub) (suffixes s)"
  by (auto simp: strings_Contains_def sublist_altdef' list_ex_iff)

text \<open>\<open>strings.Split(s, sep)\<close> for a separator of one byte.\<close>

fun strings_Split :: "char \<Rightarrow> string \<Rightarrow> string list" where
  "strings_Split c [] = [[]]"
| "strings_Split c (x # xs) =
     (if x = c then [] # strings_Split c xs
      else (case strings_Split c xs of [] \<Rightarrow> [[x]] | l # ls \<Rightarrow> (x # l) # ls))"

definition is_space :: "char \<Rightarrow> bool" where
  "is_space c \<longleftrightarrow> c = CHR '' '' \<or> (9 \<le> (of_char c :: nat) \<and> (of_char c :: nat) \<le> 13)"

definition strings_Trim :: "(char \<Rightarrow> bool) \<Rightarrow> string \<Rightarrow> string" where
  "strings_Trim P s = rev (dropWhile P (rev (dropWhile P s)))"

abbreviation strings_TrimSpace :: "string \<Rightarrow> string" where
  "strings_TrimSpace \<equiv> strings_Trim is_space"

fun strings_Join :: "string \<Rightarrow> string list \<Rightarrow> string" where
  "strings_Join sep [] = []"
| "strings_Join sep [x] = x"
| "strings_Join sep (x # y # ys) = x @ sep @ strings_Join sep (y # ys)"

definition char_ToLower :: "char \<Rightarrow> char" where
  "char_ToLower c =
     (if 65 \<le> (of_char c :: nat) \<and> (of_char c :: nat) \<le> 90 then char_of (of_char c + 32 :: nat)
      else c)"

lemma strings_Split_nonempty [simp]: "strings_Split c s \<noteq> []"
  by (induction s) (auto split: list.splits)

end
