(* ===== verification/Featuregates.thy ===== *)
theory Featuregates
  imports Prelude
begin

text \<open>
  Package \<open>pkg/featuregates\<close>: the project's feature gates, their defaults and the dependency
  check every binary runs at start-up. The registry singleton is a parameter \<open>g\<close> of the
  definitions that consult it: a function from gates to their values.
\<close>

datatype Feature =
    TimeSlicingSettings
  | MPSSupport
  | IMEXDaemonsWithDNSNames
  | PassthroughSupport
  | NVMLDeviceHealthCheck
  | DynamicMIG
  | ComputeDomainCliques
  | CrashOnNVLinkFabricErrors
  | DeviceMetadata

type_synonym gates = "Feature \<Rightarrow> bool"

datatype prerelease = Alpha | Beta

record FeatureSpec =
  fs_Default :: bool
  fs_PreRelease :: prerelease
  fs_Version :: "nat \<times> nat"

definition defaultFeatureGates :: "(Feature, FeatureSpec) gomap" where
  "defaultFeatureGates =
    [(TimeSlicingSettings, \<lparr>fs_Default = False, fs_PreRelease = Alpha, fs_Version = (25, 8)\<rparr>),
     (MPSSupport, \<lparr>fs_Default = False, fs_PreRelease = Alpha, fs_Version = (25, 8)\<rparr>),
     (IMEXDaemonsWithDNSNames, \<lparr>fs_Default = True, fs_PreRelease = Beta, fs_Version = (25, 8)\<rparr>),
     (PassthroughSupport, \<lparr>fs_Default = False, fs_PreRelease = Alpha, fs_Version = (25, 12)\<rparr>),
     (DynamicMIG, \<lparr>fs_Default = False, fs_PreRelease = Alpha, fs_Version = (25, 12)\<rparr>),
     (NVMLDeviceHealthCheck, \<lparr>fs_Default = False, fs_PreRelease = Alpha, fs_Version = (25, 12)\<rparr>),
     (ComputeDomainCliques, \<lparr>fs_Default = True, fs_PreRelease = Beta, fs_Version = (25, 12)\<rparr>),
     (CrashOnNVLinkFabricErrors, \<lparr>fs_Default = True, fs_PreRelease = Beta, fs_Version = (25, 12)\<rparr>),
     (DeviceMetadata, \<lparr>fs_Default = False, fs_PreRelease = Alpha, fs_Version = (26, 4)\<rparr>)]"

text \<open>The gates of a run in which no flag overrides a default.\<close>

definition default_gates :: gates where
  "default_gates f = (case map_of defaultFeatureGates f of None \<Rightarrow> False | Some sp \<Rightarrow> fs_Default sp)"

definition ValidateFeatureGates :: "gates \<Rightarrow> unit go" where
  "ValidateFeatureGates g =
    (if g ComputeDomainCliques \<and> \<not> g IMEXDaemonsWithDNSNames then
       Err (Errorf ''ComputeDomainCliques requires IMEXDaemonsWithDNSNames'')
     else if g DynamicMIG \<and> g PassthroughSupport then
       Err (Errorf ''DynamicMIG is mutually exclusive with PassthroughSupport'')
     else if g DynamicMIG \<and> g NVMLDeviceHealthCheck then
       Err (Errorf ''DynamicMIG is mutually exclusive with NVMLDeviceHealthCheck'')
     else if g DynamicMIG \<and> g MPSSupport then
       Err (Errorf ''DynamicMIG is mutually exclusive with MPSSupport'')
     else if g PassthroughSupport \<and> g NVMLDeviceHealthCheck then
       Err (Errorf ''PassthroughSupport is mutually exclusive with NVMLDeviceHealthCheck'')
     else if g DeviceMetadata \<and> \<not> g PassthroughSupport then
       Err (Errorf ''DeviceMetadata requires PassthroughSupport'')
     else Ok ())"

lemma ValidateFeatureGates_Ok:
  "ValidateFeatureGates g = Ok () \<longleftrightarrow>
     (g ComputeDomainCliques \<longrightarrow> g IMEXDaemonsWithDNSNames) \<and>
     (g DynamicMIG \<longrightarrow> \<not> g PassthroughSupport \<and> \<not> g NVMLDeviceHealthCheck \<and> \<not> g MPSSupport) \<and>
     (g PassthroughSupport \<longrightarrow> \<not> g NVMLDeviceHealthCheck) \<and>
     (g DeviceMetadata \<longrightarrow> g PassthroughSupport)"
  by (auto simp: ValidateFeatureGates_def)

lemma ValidateFeatureGates_not_panic: "ValidateFeatureGates g \<noteq> Panic p"
  by (simp add: ValidateFeatureGates_def)

lemma default_gates_valid: "ValidateFeatureGates default_gates = Ok ()"
  by (simp add: ValidateFeatureGates_def default_gates_def defaultFeatureGates_def)

end
