(* ===== verification/Api_Config.thy ===== *)
theory Api_Config
  imports Featuregates
begin

text \<open>
  Package \<open>api/nvidia.com/resource/v1beta1\<close>: the opaque device configurations a user attaches
  to a ResourceClaim, with the \<open>Normalize\<close> and \<open>Validate\<close> methods of the package's
  \<open>Interface\<close>, the GPU sharing settings and the MPS memory limits.

  Pointers are options, and a dereference of a nil pointer is the outcome \<open>Panic\<close>. A
  \<open>resource.Quantity\<close> is the \<open>int64\<close> its \<open>Value\<close> method returns, the only thing the code
  reads of it.
\<close>

section \<open>Data\<close>

record TypeMeta =
  APIVersion :: string
  Kind :: string

definition GroupName :: string where "GroupName = ''resource.nvidia.com''"
definition Version :: string where "Version = ''v1beta1''"

definition api_TypeMeta :: "string \<Rightarrow> TypeMeta" where
  "api_TypeMeta k = \<lparr>APIVersion = GroupName @ ''/'' @ Version, Kind = k\<rparr>"

definition TimeSlicingStrategy :: string where "TimeSlicingStrategy = ''TimeSlicing''"
definition MpsStrategy :: string where "MpsStrategy = ''MPS''"

definition DefaultTimeSlice :: string where "DefaultTimeSlice = ''Default''"
definition ShortTimeSlice :: string where "ShortTimeSlice = ''Short''"
definition MediumTimeSlice :: string where "MediumTimeSlice = ''Medium''"
definition LongTimeSlice :: string where "LongTimeSlice = ''Long''"

lemmas strategy_defs = TimeSlicingStrategy_def MpsStrategy_def
lemmas timeslice_defs = DefaultTimeSlice_def ShortTimeSlice_def MediumTimeSlice_def LongTimeSlice_def

type_synonym Quantity = int

record TimeSlicingConfig =
  Interval :: "string option"

record MpsConfig =
  DefaultActiveThreadPercentage :: "int option"
  DefaultPinnedDeviceMemoryLimit :: "Quantity option"
  DefaultPerDevicePinnedMemoryLimit :: "(string, Quantity) gomap"

record GpuSharing =
  gs_Strategy :: string
  gs_TimeSlicingConfig :: "TimeSlicingConfig option"
  gs_MpsConfig :: "MpsConfig option"

record MigDeviceSharing =
  ms_Strategy :: string
  ms_MpsConfig :: "MpsConfig option"

record GpuConfig =
  gc_TypeMeta :: TypeMeta
  gc_Sharing :: "GpuSharing option"

record MigDeviceConfig =
  mc_TypeMeta :: TypeMeta
  mc_Sharing :: "MigDeviceSharing option"

record IOMMUConfig =
  BackendPolicy :: string
  EnableAPIDevice :: "bool option"

record VfioDeviceConfig =
  vc_TypeMeta :: TypeMeta
  vc_Iommu :: "IOMMUConfig option"

record ComputeDomainChannelConfig =
  chc_TypeMeta :: TypeMeta
  chc_DomainID :: string
  chc_AllocationMode :: string

record ComputeDomainDaemonConfig =
  dc_TypeMeta :: TypeMeta
  dc_DomainID :: string

record KVCachePoolConfig =
  kc_TypeMeta :: TypeMeta
  kc_PoolName :: string
  kc_CapacityBytes :: int
  kc_LatencyTier :: string
  kc_Engine :: string
  kc_ModelFamily :: string
  kc_Dtype :: string
  kc_BlockSizeTokens :: int

definition empty_MpsConfig :: MpsConfig where
  "empty_MpsConfig = \<lparr>DefaultActiveThreadPercentage = None, DefaultPinnedDeviceMemoryLimit = None,
     DefaultPerDevicePinnedMemoryLimit = []\<rparr>"

definition default_TimeSlicingConfig :: TimeSlicingConfig where
  "default_TimeSlicingConfig = \<lparr>Interval = Some DefaultTimeSlice\<rparr>"

section \<open>Sharing strategies (sharing.go, validate.go)\<close>

definition GpuSharing_IsTimeSlicing :: "GpuSharing option \<Rightarrow> bool" where
  "GpuSharing_IsTimeSlicing s = (case s of None \<Rightarrow> False | Some s \<Rightarrow> gs_Strategy s = TimeSlicingStrategy)"

definition GpuSharing_IsMps :: "GpuSharing option \<Rightarrow> bool" where
  "GpuSharing_IsMps s = (case s of None \<Rightarrow> False | Some s \<Rightarrow> gs_Strategy s = MpsStrategy)"

definition MigDeviceSharing_IsTimeSlicing :: "MigDeviceSharing option \<Rightarrow> bool" where
  "MigDeviceSharing_IsTimeSlicing s =
     (case s of None \<Rightarrow> False | Some s \<Rightarrow> ms_Strategy s = TimeSlicingStrategy)"

definition MigDeviceSharing_IsMps :: "MigDeviceSharing option \<Rightarrow> bool" where
  "MigDeviceSharing_IsMps s = (case s of None \<Rightarrow> False | Some s \<Rightarrow> ms_Strategy s = MpsStrategy)"

definition GpuSharing_GetTimeSlicingConfig :: "GpuSharing option \<Rightarrow> TimeSlicingConfig option go" where
  "GpuSharing_GetTimeSlicingConfig s = (case s of
     None \<Rightarrow> Err (Errorf ''no sharing set to get config from'')
   | Some s \<Rightarrow>
       if gs_Strategy s \<noteq> TimeSlicingStrategy then Err (Errorf ''strategy is not set to TimeSlicing'')
       else if gs_MpsConfig s \<noteq> None then
         Err (Errorf ''cannot use MpsConfig with the TimeSlicing strategy'')
       else Ok (gs_TimeSlicingConfig s))"

definition MigDeviceSharing_GetTimeSlicingConfig ::
  "MigDeviceSharing option \<Rightarrow> TimeSlicingConfig option go" where
  "MigDeviceSharing_GetTimeSlicingConfig s = Ok None"

definition GpuSharing_GetMpsConfig :: "GpuSharing option \<Rightarrow> MpsConfig option go" where
  "GpuSharing_GetMpsConfig s = (case s of
     None \<Rightarrow> Err (Errorf ''no sharing set to get config from'')
   | Some s \<Rightarrow>
       if gs_Strategy s \<noteq> MpsStrategy then Err (Errorf ''strategy is not set to MPS'')
       else if gs_TimeSlicingConfig s \<noteq> None then
         Err (Errorf ''cannot use TimeSlicingConfig with the MPS strategy'')
       else Ok (gs_MpsConfig s))"

definition MigDeviceSharing_GetMpsConfig :: "MigDeviceSharing option \<Rightarrow> MpsConfig option go" where
  "MigDeviceSharing_GetMpsConfig s = (case s of
     None \<Rightarrow> Err (Errorf ''no sharing set to get config from'')
   | Some s \<Rightarrow>
       if ms_Strategy s \<noteq> MpsStrategy then Err (Errorf ''strategy is not set to MPS'')
       else Ok (ms_MpsConfig s))"

definition TimeSliceInterval_Int :: "string \<Rightarrow> int" where
  "TimeSliceInterval_Int t =
     (if t = DefaultTimeSlice then 0
      else if t = ShortTimeSlice then 1
      else if t = MediumTimeSlice then 2
      else if t = LongTimeSlice then 3
      else - 1)"

definition validateSharingStrategy :: "gates \<Rightarrow> string \<Rightarrow> unit go" where
  "validateSharingStrategy g s =
     (if s = TimeSlicingStrategy then
        (if g TimeSlicingSettings then Ok ()
         else Err (Errorf ''the TimeSlicingSettings feature gate is not enabled''))
      else if s = MpsStrategy then
        (if g MPSSupport then Ok () else Err (Errorf ''the MPSSupport feature gate is not enabled''))
      else Err (Errorf ''unknown GPU sharing strategy''))"

definition TimeSliceInterval_Validate :: "string \<Rightarrow> unit go" where
  "TimeSliceInterval_Validate t =
     (if t \<in> {DefaultTimeSlice, ShortTimeSlice, MediumTimeSlice, LongTimeSlice} then Ok ()
      else Err (Errorf ''unknown time-slice interval''))"

text \<open>\<open>c.Interval.Validate()\<close> has a value receiver: a nil receiver \<open>c\<close> and a nil \<open>Interval\<close>
  are both dereferenced.\<close>

definition TimeSlicingConfig_Validate :: "TimeSlicingConfig option \<Rightarrow> unit go" where
  "TimeSlicingConfig_Validate c = (case c of
     None \<Rightarrow> Panic ''nil TimeSlicingConfig''
   | Some c \<Rightarrow> (case Interval c of
       None \<Rightarrow> Panic ''nil Interval''
     | Some t \<Rightarrow> TimeSliceInterval_Validate t))"

definition MpsConfig_Validate :: "MpsConfig option \<Rightarrow> unit go" where
  "MpsConfig_Validate c = (case c of
     None \<Rightarrow> Panic ''nil MpsConfig''
   | Some c \<Rightarrow> (case DefaultActiveThreadPercentage c of
       None \<Rightarrow> Ok ()
     | Some p \<Rightarrow>
         if p < 0 then Err (Errorf ''active thread percentage must not be negative'')
         else if p > 100 then Err (Errorf ''active thread percentage must not be greater than 100'')
         else Ok ()))"

definition GpuSharing_Validate :: "gates \<Rightarrow> GpuSharing \<Rightarrow> unit go" where
  "GpuSharing_Validate g s = bind_go (validateSharingStrategy g (gs_Strategy s)) (\<lambda>_.
     if g TimeSlicingSettings \<and> GpuSharing_IsTimeSlicing (Some s) then
       TimeSlicingConfig_Validate (gs_TimeSlicingConfig s)
     else if g MPSSupport \<and> GpuSharing_IsMps (Some s) then MpsConfig_Validate (gs_MpsConfig s)
     else Err (Errorf ''invalid GPU sharing settings''))"

definition MigDeviceSharing_Validate :: "gates \<Rightarrow> MigDeviceSharing \<Rightarrow> unit go" where
  "MigDeviceSharing_Validate g s = bind_go (validateSharingStrategy g (ms_Strategy s)) (\<lambda>_.
     if g TimeSlicingSettings \<and> MigDeviceSharing_IsTimeSlicing (Some s) then Ok ()
     else if g MPSSupport \<and> MigDeviceSharing_IsMps (Some s) then MpsConfig_Validate (ms_MpsConfig s)
     else Err (Errorf ''invalid MIG device sharing settings''))"

section \<open>Device configurations\<close>

definition DefaultGpuConfig :: "gates \<Rightarrow> GpuConfig" where
  "DefaultGpuConfig g =
     \<lparr>gc_TypeMeta = api_TypeMeta ''GpuConfig'',
      gc_Sharing =
        (if g TimeSlicingSettings then
           Some \<lparr>gs_Strategy = TimeSlicingStrategy,
                 gs_TimeSlicingConfig = Some default_TimeSlicingConfig,
                 gs_MpsConfig = None\<rparr>
         else None)\<rparr>"

text \<open>The two blocks that follow the nil check read \<open>c.Sharing\<close>, which is set there.\<close>

definition GpuConfig_Normalize :: "gates \<Rightarrow> GpuConfig \<Rightarrow> GpuConfig go" where
  "GpuConfig_Normalize g c =
     (if gc_Sharing c = None \<and> \<not> g TimeSlicingSettings then Ok c
      else
        let s0 = (case gc_Sharing c of
                    None \<Rightarrow> \<lparr>gs_Strategy = TimeSlicingStrategy, gs_TimeSlicingConfig = None,
                              gs_MpsConfig = None\<rparr>
                  | Some s \<Rightarrow> s);
            s1 = (if g TimeSlicingSettings \<and> gs_Strategy s0 = TimeSlicingStrategy \<and>
                     gs_TimeSlicingConfig s0 = None
                  then s0\<lparr>gs_TimeSlicingConfig := Some default_TimeSlicingConfig\<rparr> else s0);
            s2 = (if g MPSSupport \<and> gs_Strategy s1 = MpsStrategy \<and> gs_MpsConfig s1 = None
                  then s1\<lparr>gs_MpsConfig := Some empty_MpsConfig\<rparr> else s1)
        in Ok (c\<lparr>gc_Sharing := Some s2\<rparr>))"

definition GpuConfig_Validate :: "gates \<Rightarrow> GpuConfig \<Rightarrow> unit go" where
  "GpuConfig_Validate g c =
     (case gc_Sharing c of None \<Rightarrow> Ok () | Some s \<Rightarrow> GpuSharing_Validate g s)"

definition DefaultMigDeviceConfig :: "gates \<Rightarrow> MigDeviceConfig" where
  "DefaultMigDeviceConfig g =
     \<lparr>mc_TypeMeta = api_TypeMeta ''MigDeviceConfig'',
      mc_Sharing =
        (if g TimeSlicingSettings then
           Some \<lparr>ms_Strategy = TimeSlicingStrategy, ms_MpsConfig = None\<rparr>
         else None)\<rparr>"

definition MigDeviceConfig_Normalize :: "gates \<Rightarrow> MigDeviceConfig \<Rightarrow> MigDeviceConfig go" where
  "MigDeviceConfig_Normalize g c =
     (if mc_Sharing c = None \<and> \<not> g TimeSlicingSettings then Ok c
      else
        let s0 = (case mc_Sharing c of
                    None \<Rightarrow> \<lparr>ms_Strategy = TimeSlicingStrategy, ms_MpsConfig = None\<rparr>
                  | Some s \<Rightarrow> s);
            s1 = (if g MPSSupport \<and> ms_Strategy s0 = MpsStrategy \<and> ms_MpsConfig s0 = None
                  then s0\<lparr>ms_MpsConfig := Some empty_MpsConfig\<rparr> else s0)
        in Ok (c\<lparr>mc_Sharing := Some s1\<rparr>))"

definition MigDeviceConfig_Validate :: "gates \<Rightarrow> MigDeviceConfig \<Rightarrow> unit go" where
  "MigDeviceConfig_Validate g c =
     (case mc_Sharing c of None \<Rightarrow> Ok () | Some s \<Rightarrow> MigDeviceSharing_Validate g s)"

definition IOMMUBackendPolicyLegacyOnly :: string where
  "IOMMUBackendPolicyLegacyOnly = ''LegacyOnly''"
definition IOMMUBackendPolicyPreferIommuFD :: string where
  "IOMMUBackendPolicyPreferIommuFD = ''PreferIommuFD''"

definition IOMMUBackendPolicy_Validate :: "string \<Rightarrow> unit go" where
  "IOMMUBackendPolicy_Validate p =
     (if p \<in> {IOMMUBackendPolicyLegacyOnly, IOMMUBackendPolicyPreferIommuFD} then Ok ()
      else Err (Errorf ''unknown IOMMU backend policy''))"

definition ShouldPreferIommuFD :: "IOMMUConfig \<Rightarrow> bool" where
  "ShouldPreferIommuFD c \<longleftrightarrow> BackendPolicy c = IOMMUBackendPolicyPreferIommuFD"

definition ShouldEnableAPIDevice :: "IOMMUConfig \<Rightarrow> bool" where
  "ShouldEnableAPIDevice c \<longleftrightarrow> EnableAPIDevice c = Some True"

definition IOMMUConfig_Validate :: "IOMMUConfig \<Rightarrow> unit go" where
  "IOMMUConfig_Validate c = IOMMUBackendPolicy_Validate (BackendPolicy c)"

definition default_IOMMUConfig :: IOMMUConfig where
  "default_IOMMUConfig =
     \<lparr>BackendPolicy = IOMMUBackendPolicyLegacyOnly, EnableAPIDevice = Some False\<rparr>"

definition DefaultVfioDeviceConfig :: "gates \<Rightarrow> VfioDeviceConfig option" where
  "DefaultVfioDeviceConfig g =
     (if \<not> g PassthroughSupport then None
      else Some \<lparr>vc_TypeMeta = api_TypeMeta ''VfioDeviceConfig'',
                 vc_Iommu = Some default_IOMMUConfig\<rparr>)"

definition VfioDeviceConfig_Normalize :: "VfioDeviceConfig \<Rightarrow> VfioDeviceConfig go" where
  "VfioDeviceConfig_Normalize c = (case vc_Iommu c of
     None \<Rightarrow> Ok (c\<lparr>vc_Iommu := Some default_IOMMUConfig\<rparr>)
   | Some i \<Rightarrow>
       let i1 = (if BackendPolicy i = '''' then i\<lparr>BackendPolicy := IOMMUBackendPolicyLegacyOnly\<rparr> else i);
           i2 = (if EnableAPIDevice i1 = None then i1\<lparr>EnableAPIDevice := Some False\<rparr> else i1)
       in Ok (c\<lparr>vc_Iommu := Some i2\<rparr>))"

definition VfioDeviceConfig_Validate :: "VfioDeviceConfig \<Rightarrow> unit go" where
  "VfioDeviceConfig_Validate c =
     (case vc_Iommu c of None \<Rightarrow> Ok () | Some i \<Rightarrow> IOMMUConfig_Validate i)"

definition DefaultComputeDomainChannelConfig :: ComputeDomainChannelConfig where
  "DefaultComputeDomainChannelConfig =
     \<lparr>chc_TypeMeta = api_TypeMeta ''ComputeDomainChannelConfig'', chc_DomainID = '''',
      chc_AllocationMode = ''''\<rparr>"

definition ComputeDomainChannelConfig_Normalize ::
  "ComputeDomainChannelConfig \<Rightarrow> ComputeDomainChannelConfig go" where
  "ComputeDomainChannelConfig_Normalize c = Ok c"

definition ComputeDomainChannelConfig_Validate :: "ComputeDomainChannelConfig \<Rightarrow> unit go" where
  "ComputeDomainChannelConfig_Validate c =
     (if chc_DomainID c = '''' then Err (Errorf ''domainID cannot be empty'') else Ok ())"

definition DefaultComputeDomainDaemonConfig :: ComputeDomainDaemonConfig where
  "DefaultComputeDomainDaemonConfig =
     \<lparr>dc_TypeMeta = api_TypeMeta ''ComputeDomainDaemonConfig'', dc_DomainID = ''''\<rparr>"

definition ComputeDomainDaemonConfig_Normalize ::
  "ComputeDomainDaemonConfig \<Rightarrow> ComputeDomainDaemonConfig go" where
  "ComputeDomainDaemonConfig_Normalize c = Ok c"

definition ComputeDomainDaemonConfig_Validate :: "ComputeDomainDaemonConfig \<Rightarrow> unit go" where
  "ComputeDomainDaemonConfig_Validate c =
     (if dc_DomainID c = '''' then Err (Errorf ''domainID cannot be empty'') else Ok ())"

subsection \<open>KVCachePoolConfig (kvcachepoolconfig.go)\<close>

definition KVCacheLatencyTierHBM :: string where "KVCacheLatencyTierHBM = ''HBM''"
definition KVCacheLatencyTierDRAM :: string where "KVCacheLatencyTierDRAM = ''DRAM''"
definition KVCacheEngineVLLM :: string where "KVCacheEngineVLLM = ''vllm''"
definition KVCacheEngineTRTLLM :: string where "KVCacheEngineTRTLLM = ''trtllm''"
definition KVCacheEngineSGLang :: string where "KVCacheEngineSGLang = ''sglang''"

lemmas kv_const_defs = KVCacheLatencyTierHBM_def KVCacheLatencyTierDRAM_def KVCacheEngineVLLM_def
  KVCacheEngineTRTLLM_def KVCacheEngineSGLang_def

definition KVCachePoolClaimAnnotationKey :: string where
  "KVCachePoolClaimAnnotationKey = ''kvcache.nvidia.com/kvcache-pool-name''"

definition DefaultKVCachePoolConfig :: KVCachePoolConfig where
  "DefaultKVCachePoolConfig =
     \<lparr>kc_TypeMeta = api_TypeMeta ''KVCachePoolConfig'', kc_PoolName = '''', kc_CapacityBytes = 0,
      kc_LatencyTier = '''', kc_Engine = '''', kc_ModelFamily = '''', kc_Dtype = '''',
      kc_BlockSizeTokens = 0\<rparr>"

definition KVCachePoolConfig_Normalize :: "KVCachePoolConfig \<Rightarrow> KVCachePoolConfig go" where
  "KVCachePoolConfig_Normalize c =
     Ok (if kc_LatencyTier c = '''' then c\<lparr>kc_LatencyTier := KVCacheLatencyTierDRAM\<rparr> else c)"

definition KVCachePoolConfig_Validate :: "KVCachePoolConfig \<Rightarrow> unit go" where
  "KVCachePoolConfig_Validate c =
     (if kc_CapacityBytes c < 1 then Err (Errorf ''capacityBytes must be at least 1'')
      else if kc_LatencyTier c \<notin> {KVCacheLatencyTierDRAM, KVCacheLatencyTierHBM} then
        Err (Errorf ''latencyTier must be one of DRAM or HBM'')
      else if kc_Engine c \<notin> {KVCacheEngineVLLM, KVCacheEngineTRTLLM, KVCacheEngineSGLang} then
        Err (Errorf ''engine must be one of vllm, trtllm, or sglang'')
      else if kc_ModelFamily c = '''' then Err (Errorf ''modelFamily cannot be empty'')
      else if kc_Dtype c = '''' then Err (Errorf ''dtype cannot be empty'')
      else if kc_BlockSizeTokens c < 1 then Err (Errorf ''blockSizeTokens must be at least 1'')
      else Ok ())"

text \<open>A Go lookup of a missing key, or in a nil map, gives the empty string.\<close>

definition ResolvedPoolName :: "KVCachePoolConfig \<Rightarrow> (string, string) gomap option \<Rightarrow> string go" where
  "ResolvedPoolName c annotations =
     (if kc_PoolName c \<noteq> '''' then Ok (kc_PoolName c)
      else
        let name = (case annotations of
                      None \<Rightarrow> ''''
                    | Some m \<Rightarrow> (case map_of m KVCachePoolClaimAnnotationKey of
                                   None \<Rightarrow> '''' | Some n \<Rightarrow> n))
        in if name \<noteq> '''' then Ok name else Err (Errorf ''no KVCachePool bound to claim''))"

section \<open>The Interface contract\<close>

text \<open>
  What the webhook and the kubelet plugins rely on when they call \<open>Normalize\<close> and then
  \<open>Validate\<close> on a configuration: normalising always succeeds and a normalised
  configuration is a fixed point. The verdict on a configuration is then stable: whoever
  repeats the two calls on the normalised configuration gets the same answer.
\<close>

locale config_interface =
  fixes norm :: "'c \<Rightarrow> 'c go"
    and val :: "'c \<Rightarrow> unit go"
  assumes norm_total: "\<exists>c'. norm c = Ok c'"
    and norm_idem: "norm c = Ok c' \<Longrightarrow> norm c' = Ok c'"
begin

definition verdict :: "'c \<Rightarrow> unit go" where
  "verdict c = bind_go (norm c) val"

lemma verdict_normalised: "norm c = Ok c' \<Longrightarrow> verdict c' = val c'"
  by (simp add: verdict_def norm_idem)

lemma verdict_stable: "norm c = Ok c' \<Longrightarrow> verdict c' = verdict c"
  by (simp add: verdict_def norm_idem)

lemma verdict_cases:
  obtains c' where "norm c = Ok c'" and "verdict c = val c'"
  using norm_total [of c] by (auto simp: verdict_def)

end

lemmas config_defs =
  GpuConfig_Normalize_def MigDeviceConfig_Normalize_def VfioDeviceConfig_Normalize_def
  ComputeDomainChannelConfig_Normalize_def ComputeDomainDaemonConfig_Normalize_def
  KVCachePoolConfig_Normalize_def default_IOMMUConfig_def IOMMUBackendPolicyLegacyOnly_def

interpretation gpu_cfg: config_interface "GpuConfig_Normalize g" "GpuConfig_Validate g" for g
  by unfold_locales (auto simp: config_defs Let_def strategy_defs split: if_splits option.splits)

interpretation mig_cfg: config_interface "MigDeviceConfig_Normalize g" "MigDeviceConfig_Validate g" for g
  by unfold_locales (auto simp: config_defs Let_def strategy_defs split: if_splits option.splits)

interpretation vfio_cfg: config_interface VfioDeviceConfig_Normalize VfioDeviceConfig_Validate
  by unfold_locales (auto simp: config_defs Let_def split: if_splits option.splits)

interpretation channel_cfg: config_interface
  ComputeDomainChannelConfig_Normalize ComputeDomainChannelConfig_Validate
  by unfold_locales (auto simp: config_defs)

interpretation daemon_cfg: config_interface
  ComputeDomainDaemonConfig_Normalize ComputeDomainDaemonConfig_Validate
  by unfold_locales (auto simp: config_defs)

interpretation kvcache_cfg: config_interface KVCachePoolConfig_Normalize KVCachePoolConfig_Validate
  by unfold_locales (auto simp: config_defs KVCacheLatencyTierDRAM_def)

section \<open>Properties\<close>

lemmas sharing_defs =
  GpuSharing_Validate_def MigDeviceSharing_Validate_def validateSharingStrategy_def
  GpuSharing_IsTimeSlicing_def GpuSharing_IsMps_def MigDeviceSharing_IsTimeSlicing_def
  MigDeviceSharing_IsMps_def TimeSlicingConfig_Validate_def MpsConfig_Validate_def
  TimeSliceInterval_Validate_def empty_MpsConfig_def default_TimeSlicingConfig_def

text \<open>Thread percentages an MPS configuration may carry.\<close>

definition thread_percentage_ok :: "MpsConfig \<Rightarrow> bool" where
  "thread_percentage_ok c \<longleftrightarrow>
     (case DefaultActiveThreadPercentage c of None \<Rightarrow> True | Some p \<Rightarrow> 0 \<le> p \<and> p \<le> 100)"

lemma MpsConfig_Validate_Ok:
  "MpsConfig_Validate c = Ok () \<longleftrightarrow> (\<exists>m. c = Some m \<and> thread_percentage_ok m)"
  by (auto simp: MpsConfig_Validate_def thread_percentage_ok_def split: option.splits)

text \<open>C23. Normalising and then validating a \<open>GpuConfig\<close> accepts exactly these: no sharing settings;
  time-slicing under its feature gate, with no interval settings or a known interval; MPS under
  its feature gate, with no MPS settings or a thread percentage from 0 to 100.\<close>

theorem gpu_config_accepted_iff:
  "bind_go (GpuConfig_Normalize g c) (GpuConfig_Validate g) = Ok () \<longleftrightarrow>
     (case gc_Sharing c of
        None \<Rightarrow> True
      | Some s \<Rightarrow>
          gs_Strategy s = TimeSlicingStrategy \<and> g TimeSlicingSettings \<and>
          (case gs_TimeSlicingConfig s of
             None \<Rightarrow> True
           | Some t \<Rightarrow> Interval t \<in>
               Some ` {DefaultTimeSlice, ShortTimeSlice, MediumTimeSlice, LongTimeSlice}) \<or>
          gs_Strategy s = MpsStrategy \<and> g MPSSupport \<and>
          (case gs_MpsConfig s of None \<Rightarrow> True | Some m \<Rightarrow> thread_percentage_ok m))"
proof (cases "gc_Sharing c")
  case None
  then show ?thesis
    by (simp add: GpuConfig_Normalize_def GpuConfig_Validate_def sharing_defs strategy_defs Let_def)
next
  case (Some s)
  consider "gs_Strategy s = TimeSlicingStrategy" | "gs_Strategy s = MpsStrategy"
    | "gs_Strategy s \<noteq> TimeSlicingStrategy" "gs_Strategy s \<noteq> MpsStrategy"
    by blast
  then show ?thesis
  proof cases
    case 1
    with Some show ?thesis
      by (auto simp: GpuConfig_Normalize_def GpuConfig_Validate_def sharing_defs strategy_defs Let_def
          split: option.splits if_splits)
  next
    case 2
    with Some show ?thesis
      by (auto simp: GpuConfig_Normalize_def GpuConfig_Validate_def sharing_defs strategy_defs Let_def
          thread_percentage_ok_def split: option.splits if_splits)
  next
    case 3
    with Some show ?thesis
      by (auto simp: GpuConfig_Normalize_def GpuConfig_Validate_def sharing_defs Let_def)
  qed
qed

text \<open>The same two calls panic exactly on a time-slicing configuration that is present but has no
  interval, when the time-slicing gate is on: \<open>Normalize\<close> fills in a missing configuration but
  not a missing interval, and \<open>Validate\<close> dereferences it.\<close>

theorem gpu_config_panics_iff:
  "is_panic (bind_go (GpuConfig_Normalize g c) (GpuConfig_Validate g)) \<longleftrightarrow>
     g TimeSlicingSettings \<and>
     (\<exists>s t. gc_Sharing c = Some s \<and> gs_Strategy s = TimeSlicingStrategy \<and>
            gs_TimeSlicingConfig s = Some t \<and> Interval t = None)"
  by (cases "gc_Sharing c")
    (auto simp: GpuConfig_Normalize_def GpuConfig_Validate_def sharing_defs strategy_defs Let_def
      split: option.splits if_splits)

text \<open>The configurations the driver falls back to are accepted, whatever the feature gates say,
  so a claim without opaque parameters never fails validation.\<close>

theorem default_configs_accepted:
  "bind_go (GpuConfig_Normalize g (DefaultGpuConfig g)) (GpuConfig_Validate g) = Ok () \<and>
   bind_go (MigDeviceConfig_Normalize g (DefaultMigDeviceConfig g)) (MigDeviceConfig_Validate g) = Ok () \<and>
   pred_option (\<lambda>c. bind_go (VfioDeviceConfig_Normalize c) VfioDeviceConfig_Validate = Ok ())
     (DefaultVfioDeviceConfig g)"
  by (simp add: GpuConfig_Normalize_def GpuConfig_Validate_def DefaultGpuConfig_def
      MigDeviceConfig_Normalize_def MigDeviceConfig_Validate_def DefaultMigDeviceConfig_def
      VfioDeviceConfig_Normalize_def VfioDeviceConfig_Validate_def DefaultVfioDeviceConfig_def
      IOMMUConfig_Validate_def IOMMUBackendPolicy_Validate_def default_IOMMUConfig_def
      IOMMUBackendPolicyLegacyOnly_def sharing_defs strategy_defs)

end
