(* ===== verification/Claims.thy ===== *)
theory Claims
  imports Api_Config "HOL-Library.Multiset"
begin

text \<open>
  ResourceClaims as the drivers see them, the decoding of the opaque configurations attached to
  an allocation (\<open>GetOpaqueDeviceConfigs\<close>, which the three kubelet plugins each carry), and the
  choice of the configuration that applies to an allocated device.

  Decoding the raw bytes is a library call, so a decoder is a parameter \<open>decode\<close>. A decoded
  configuration is used by the code as a map key, that is by pointer: here its position in the
  list of configurations.
\<close>

section \<open>Data\<close>

record OpaqueDeviceConfiguration =
  oc_Driver :: string
  oc_Parameters :: string

record DeviceAllocationConfiguration =
  dac_Source :: string
  dac_Requests :: "string list"
  dac_Opaque :: "OpaqueDeviceConfiguration option"

record DeviceClaimConfiguration =
  dcc_Requests :: "string list"
  dcc_Opaque :: "OpaqueDeviceConfiguration option"

record DeviceRequestAllocationResult =
  dr_Request :: string
  dr_Driver :: string
  dr_Pool :: string
  dr_Device :: string
  dr_AdminAccess :: "bool option"

record AllocationResult =
  al_Results :: "DeviceRequestAllocationResult list"
  al_Config :: "DeviceAllocationConfiguration list"

record ResourceClaim =
  rc_UID :: string
  rc_Name :: string
  rc_Namespace :: string
  rc_Annotations :: "(string, string) gomap option"
  rc_SpecConfig :: "DeviceClaimConfiguration list"
  rc_Allocation :: "AllocationResult option"

datatype RuntimeObject =
    GpuConfigObj GpuConfig
  | MigDeviceConfigObj MigDeviceConfig
  | VfioDeviceConfigObj VfioDeviceConfig
  | ChannelConfigObj ComputeDomainChannelConfig
  | DaemonConfigObj ComputeDomainDaemonConfig
  | KVCachePoolConfigObj KVCachePoolConfig
  | OtherObj string

record OpaqueDeviceConfig =
  odc_Requests :: "string list"
  odc_Config :: RuntimeObject

record NamespacedObject =
  no_UID :: string
  no_Name :: string
  no_Namespace :: string

text \<open>\<open>resourceapi.DeviceAttribute\<close>: one of four pointers is set.\<close>

datatype DeviceAttribute =
    StringValue string
  | IntValue int
  | BoolValue bool
  | VersionValue string

text \<open>\<open>kubeletplugin.Device\<close>, the answer to the kubelet; \<open>kd_Metadata\<close> holds the attributes of the device
  metadata, if there is any.\<close>

record kubelet_Device =
  kd_Requests :: "string list"
  kd_PoolName :: string
  kd_DeviceName :: string
  kd_CDIDeviceIDs :: "string list"
  kd_Metadata :: "(string, DeviceAttribute) gomap option"

definition AllocationConfigSourceClass :: string where "AllocationConfigSourceClass = ''FromClass''"
definition AllocationConfigSourceClaim :: string where "AllocationConfigSourceClaim = ''FromClaim''"

lemmas source_defs = AllocationConfigSourceClass_def AllocationConfigSourceClaim_def

definition gpu_DriverName :: string where "gpu_DriverName = ''gpu.nvidia.com''"
definition cd_DriverName :: string where "cd_DriverName = ''compute-domain.nvidia.com''"
definition kv_DriverName :: string where "kv_DriverName = ''kvcache.nvidia.com''"

definition ResourceClaimToString :: "ResourceClaim \<Rightarrow> string" where
  "ResourceClaimToString rc = rc_Namespace rc @ ''/'' @ rc_Name rc @ '':'' @ rc_UID rc"

section \<open>Decoding opaque configurations\<close>

text \<open>The first loop splits the configurations by source and stops at an unknown one.\<close>

fun split_sources ::
  "DeviceAllocationConfiguration list \<Rightarrow>
   (DeviceAllocationConfiguration list \<times> DeviceAllocationConfiguration list) \<Rightarrow>
   (DeviceAllocationConfiguration list \<times> DeviceAllocationConfiguration list) go" where
  "split_sources [] (cls, clm) = Ok (cls, clm)"
| "split_sources (c # cs) (cls, clm) =
     (if dac_Source c = AllocationConfigSourceClass then split_sources cs (cls @ [c], clm)
      else if dac_Source c = AllocationConfigSourceClaim then split_sources cs (cls, clm @ [c])
      else Err (Errorf ''invalid config source''))"

text \<open>The second loop decodes those addressed to the driver. \<open>onfail\<close> is how the plugin reports a
  decoding error.\<close>

fun decode_configs ::
  "(goerr \<Rightarrow> goerr) \<Rightarrow> (string \<Rightarrow> RuntimeObject go) \<Rightarrow> string \<Rightarrow>
   DeviceAllocationConfiguration list \<Rightarrow> OpaqueDeviceConfig list go" where
  "decode_configs onfail decode driver [] = Ok []"
| "decode_configs onfail decode driver (c # cs) =
     (case dac_Opaque c of
        None \<Rightarrow> Err (Errorf ''only opaque parameters are supported by this driver'')
      | Some oc \<Rightarrow>
          if oc_Driver oc \<noteq> driver then decode_configs onfail decode driver cs
          else bind_go (wrap_go onfail (decode (oc_Parameters oc))) (\<lambda>obj.
                 bind_go (decode_configs onfail decode driver cs) (\<lambda>rest.
                   Ok (\<lparr>odc_Requests = dac_Requests c, odc_Config = obj\<rparr> # rest))))"

definition opaque_configs ::
  "(goerr \<Rightarrow> goerr) \<Rightarrow> (string \<Rightarrow> RuntimeObject go) \<Rightarrow> string \<Rightarrow>
   DeviceAllocationConfiguration list \<Rightarrow> OpaqueDeviceConfig list go" where
  "opaque_configs onfail decode driver cfgs =
     bind_go (split_sources cfgs ([], [])) (\<lambda>(cls, clm).
       decode_configs onfail decode driver (cls @ clm))"

definition gpu_GetOpaqueDeviceConfigs ::
  "(string \<Rightarrow> RuntimeObject go) \<Rightarrow> string \<Rightarrow> DeviceAllocationConfiguration list \<Rightarrow>
   OpaqueDeviceConfig list go" where
  "gpu_GetOpaqueDeviceConfigs = opaque_configs (Wrapf ''error decoding config parameters'')"

definition cd_GetOpaqueDeviceConfigs ::
  "(string \<Rightarrow> RuntimeObject go) \<Rightarrow> string \<Rightarrow> DeviceAllocationConfiguration list \<Rightarrow>
   OpaqueDeviceConfig list go" where
  "cd_GetOpaqueDeviceConfigs =
     opaque_configs (\<lambda>e. PermanentError (Wrapf ''error decoding config parameters'' e))"

definition kv_GetOpaqueDeviceConfigs ::
  "(string \<Rightarrow> RuntimeObject go) \<Rightarrow> string \<Rightarrow> DeviceAllocationConfiguration list \<Rightarrow>
   OpaqueDeviceConfig list go" where
  "kv_GetOpaqueDeviceConfigs =
     opaque_configs (\<lambda>e. PermanentError (Wrapf ''error decoding config parameters'' e))"

section \<open>Choosing the configuration of a device\<close>

text \<open>
  The inner loop over \<open>slices.Backward(configs)\<close>: a configuration that names the request applies or
  is an error; one for all requests applies if its type fits the device. \<open>applies\<close> says whether a
  configuration may be applied to the device. \<open>Ok None\<close> is the loop running out of
  configurations.
\<close>

fun pick_config ::
  "(RuntimeObject \<Rightarrow> bool) \<Rightarrow> string \<Rightarrow> (nat \<times> OpaqueDeviceConfig) list \<Rightarrow> nat option go" where
  "pick_config applies request [] = Ok None"
| "pick_config applies request ((i, c) # cs) =
     (if request \<in> set (odc_Requests c) then
        (if applies (odc_Config c) then Ok (Some i)
         else Err (Errorf ''cannot apply config to device''))
      else if odc_Requests c = [] \<and> applies (odc_Config c) then Ok (Some i)
      else pick_config applies request cs)"

text \<open>The outer loop over the allocation results. \<open>device\<close> looks an allocatable device up and gives
  its applicability test.\<close>

fun config_results ::
  "(string \<Rightarrow> (RuntimeObject \<Rightarrow> bool) option) \<Rightarrow> string \<Rightarrow> OpaqueDeviceConfig list \<Rightarrow>
   DeviceRequestAllocationResult list \<Rightarrow> (nat, DeviceRequestAllocationResult list) gomap \<Rightarrow>
   (nat, DeviceRequestAllocationResult list) gomap go" where
  "config_results device driver configs [] acc = Ok acc"
| "config_results device driver configs (r # rs) acc =
     (if dr_Driver r \<noteq> driver then config_results device driver configs rs acc
      else case device (dr_Device r) of
        None \<Rightarrow> Err (Errorf ''allocatable not found for device'')
      | Some applies \<Rightarrow>
          bind_go (pick_config applies (dr_Request r) (rev (enumerate 0 configs))) (\<lambda>sel.
            case sel of
              None \<Rightarrow> config_results device driver configs rs acc
            | Some i \<Rightarrow>
                config_results device driver configs rs
                  (AList.update i ((case map_of acc i of None \<Rightarrow> [] | Some l \<Rightarrow> l) @ [r]) acc)))"

section \<open>Devices requested without admin access\<close>

text \<open>The driver, the results of a claim: \<open>requestedNonAdminDevices\<close> and \<open>GetNonAdminDevices\<close>
  collect the device names into a set.\<close>

definition non_admin_devices :: "string \<Rightarrow> DeviceRequestAllocationResult list \<Rightarrow> string list" where
  "non_admin_devices driver rs =
     map dr_Device (filter (\<lambda>r. dr_Driver r = driver \<and> dr_AdminAccess r \<noteq> Some True) rs)"

section \<open>Lemmas\<close>

definition known_source :: "DeviceAllocationConfiguration \<Rightarrow> bool" where
  "known_source c \<longleftrightarrow> dac_Source c \<in> {AllocationConfigSourceClass, AllocationConfigSourceClaim}"

text \<open>The order of precedence the source documents: class configurations before claim
  configurations, each group in its own order.\<close>

definition precedence_order ::
  "DeviceAllocationConfiguration list \<Rightarrow> DeviceAllocationConfiguration list" where
  "precedence_order cfgs =
     filter (\<lambda>c. dac_Source c = AllocationConfigSourceClass) cfgs @
     filter (\<lambda>c. dac_Source c = AllocationConfigSourceClaim) cfgs"

lemma split_sources_eq:
  "split_sources cfgs (cls, clm) =
     (if list_all known_source cfgs
      then Ok (cls @ filter (\<lambda>c. dac_Source c = AllocationConfigSourceClass) cfgs,
               clm @ filter (\<lambda>c. dac_Source c = AllocationConfigSourceClaim) cfgs)
      else Err (Errorf ''invalid config source''))"
  by (induction cfgs arbitrary: cls clm) (auto simp: known_source_def source_defs)

definition for_driver :: "string \<Rightarrow> DeviceAllocationConfiguration \<Rightarrow> bool" where
  "for_driver driver c \<longleftrightarrow> (case dac_Opaque c of None \<Rightarrow> False | Some oc \<Rightarrow> oc_Driver oc = driver)"

definition decodes_to ::
  "(string \<Rightarrow> RuntimeObject go) \<Rightarrow> DeviceAllocationConfiguration \<Rightarrow> OpaqueDeviceConfig \<Rightarrow> bool" where
  "decodes_to decode c d \<longleftrightarrow>
     odc_Requests d = dac_Requests c \<and>
     (\<exists>oc. dac_Opaque c = Some oc \<and> decode (oc_Parameters oc) = Ok (odc_Config d))"

lemma decodes_to_iff:
  "dac_Opaque c = Some oc \<Longrightarrow>
     decodes_to decode c d \<longleftrightarrow>
     (\<exists>obj. decode (oc_Parameters oc) = Ok obj \<and>
            d = \<lparr>odc_Requests = dac_Requests c, odc_Config = obj\<rparr>)"
  by (cases d) (auto simp: decodes_to_def)

lemma decode_configs_Ok:
  "decode_configs onfail decode driver cfgs = Ok ds \<longleftrightarrow>
     list_all (\<lambda>c. dac_Opaque c \<noteq> None) cfgs \<and>
     list_all2 (decodes_to decode) (filter (for_driver driver) cfgs) ds"
proof (induction cfgs arbitrary: ds)
  case Nil
  then show ?case by auto
next
  case (Cons c cfgs)
  show ?case
  proof (cases "dac_Opaque c")
    case None
    then show ?thesis by simp
  next
    case (Some oc)
    with Cons show ?thesis
      by (auto simp: for_driver_def [of driver c] list_all2_Cons1 decodes_to_iff)
  qed
qed

lemma opaque_configs_Ok:
  "opaque_configs onfail decode driver cfgs = Ok ds \<longleftrightarrow>
     list_all known_source cfgs \<and> list_all (\<lambda>c. dac_Opaque c \<noteq> None) cfgs \<and>
     list_all2 (decodes_to decode) (filter (for_driver driver) (precedence_order cfgs)) ds"
  by (auto simp: opaque_configs_def split_sources_eq decode_configs_Ok precedence_order_def
      known_source_def list_all_iff split: if_splits)

text \<open>A configuration matches a request on a device when the inner loop would stop at it.\<close>

definition config_matches :: "(RuntimeObject \<Rightarrow> bool) \<Rightarrow> string \<Rightarrow> OpaqueDeviceConfig \<Rightarrow> bool" where
  "config_matches applies request c \<longleftrightarrow>
     request \<in> set (odc_Requests c) \<or> odc_Requests c = [] \<and> applies (odc_Config c)"

lemma pick_config_Some:
  "pick_config applies request cs = Ok (Some i) \<Longrightarrow>
     \<exists>c. (i, c) \<in> set cs \<and> applies (odc_Config c) \<and>
         (request \<in> set (odc_Requests c) \<or> odc_Requests c = [])"
  by (induction cs) (auto split: if_splits)

lemma pick_config_None:
  "pick_config applies request cs = Ok None \<Longrightarrow>
     (\<forall>(i, c) \<in> set cs. request \<notin> set (odc_Requests c) \<and>
        \<not> (odc_Requests c = [] \<and> applies (odc_Config c)))"
  by (induction cs) (auto split: if_splits)

lemma pick_config_snoc:
  "pick_config applies request (rev (enumerate 0 (cs @ [c]))) =
     (if config_matches applies request c then
        (if applies (odc_Config c) then Ok (Some (length cs))
         else Err (Errorf ''cannot apply config to device''))
      else pick_config applies request (rev (enumerate 0 cs)))"
  by (auto simp: config_matches_def enumerate_append_eq)

lemma pick_config_last:
  "pick_config applies request (rev (enumerate 0 cs)) = Ok (Some i) \<longleftrightarrow>
     i < length cs \<and> applies (odc_Config (cs ! i)) \<and> config_matches applies request (cs ! i) \<and>
     \<not> (\<exists>j. i < j \<and> j < length cs \<and> config_matches applies request (cs ! j))"
proof (induction cs rule: rev_induct)
  case Nil
  then show ?case by simp
next
  case (snoc c cs)
  let ?M = "config_matches applies request"
  show ?case
  proof (cases "?M c")
    case True
    then have "i < length cs \<Longrightarrow> \<exists>j. i < j \<and> j < Suc (length cs) \<and> ?M ((cs @ [c]) ! j)"
      by (intro exI [of _ "length cs"]) simp
    with True show ?thesis
      by (cases "i < length cs"; cases "i = length cs") (simp_all add: pick_config_snoc)
  next
    case False
    then have "(\<exists>j. i < j \<and> j < Suc (length cs) \<and> ?M ((cs @ [c]) ! j)) \<longleftrightarrow>
        (\<exists>j. i < j \<and> j < length cs \<and> ?M (cs ! j))"
      by (metis less_Suc_eq nth_append nth_append_length)
    with False snoc show ?thesis
      by (cases "i < length cs"; cases "i = length cs") (simp_all add: pick_config_snoc nth_append)
  qed
qed

lemma mset_update_append:
  "gomap acc \<Longrightarrow>
     mset (concat (map snd (AList.update i ((case map_of acc i of None \<Rightarrow> [] | Some l \<Rightarrow> l) @ [r]) acc))) =
     add_mset r (mset (concat (map snd acc)))"
proof (induction acc)
  case Nil
  then show ?case by simp
next
  case (Cons x acc)
  then show ?case
    by (cases x) (auto simp: fun_upd_def)
qed

text \<open>A device that has a fallback configuration.\<close>

definition has_fallback :: "(string \<Rightarrow> (RuntimeObject \<Rightarrow> bool) option) \<Rightarrow> OpaqueDeviceConfig list \<Rightarrow> bool" where
  "has_fallback device configs \<longleftrightarrow>
     (\<forall>d applies. device d = Some applies \<longrightarrow>
        (\<exists>c \<in> set configs. odc_Requests c = [] \<and> applies (odc_Config c)))"

lemma pick_config_fallback:
  assumes "c \<in> set configs" and "odc_Requests c = []" and "applies (odc_Config c)"
  shows "pick_config applies request (rev (enumerate 0 configs)) \<noteq> Ok None"
proof
  assume "pick_config applies request (rev (enumerate 0 configs)) = Ok None"
  from pick_config_None [OF this]
  have "(i, d) \<in> set (enumerate 0 configs) \<Longrightarrow> \<not> (odc_Requests d = [] \<and> applies (odc_Config d))" for i d
    by auto
  moreover obtain i where "i < length configs" "c = configs ! i"
    using assms(1) by (metis in_set_conv_nth)
  then have "(i, c) \<in> set (enumerate 0 configs)"
    by (simp add: in_set_enumerate_eq)
  ultimately show False using assms(2,3) by blast
qed

lemma config_results_partition:
  assumes "has_fallback device configs"
  shows "config_results device driver configs rs acc = Ok m \<Longrightarrow> gomap acc \<Longrightarrow>
     gomap m \<and>
     mset (concat (map snd m)) =
       mset (concat (map snd acc)) + mset (filter (\<lambda>r. dr_Driver r = driver) rs)"
proof (induction rs arbitrary: acc)
  case Nil
  then show ?case by simp
next
  case (Cons r rs)
  show ?case
  proof (cases "dr_Driver r = driver")
    case False
    with Cons show ?thesis by simp
  next
    case True
    with Cons.prems obtain applies sel where dev: "device (dr_Device r) = Some applies"
      and sel: "pick_config applies (dr_Request r) (rev (enumerate 0 configs)) = Ok sel"
      by (auto split: option.splits)
    with assms obtain i where i: "sel = Some i"
      using pick_config_fallback unfolding has_fallback_def by (metis option.exhaust)
    let ?acc = "AList.update i ((case map_of acc i of None \<Rightarrow> [] | Some l \<Rightarrow> l) @ [r]) acc"
    from Cons.prems True dev sel i have "config_results device driver configs rs ?acc = Ok m"
      by simp
    from Cons.IH [OF this] Cons.prems(2) mset_update_append [OF Cons.prems(2), of i r] True
    show ?thesis by simp
  qed
qed

lemma config_results_filter:
  "config_results device driver configs (filter (\<lambda>r. dr_Driver r = driver) rs) acc = config_results device driver configs rs acc"
proof (induction rs arbitrary: acc)
  case (Cons r rs)
  then show ?case by (auto split: option.split intro: arg_cong2 [where f = bind_go])
qed simp

text \<open>Every result is under a configuration that applies to its device.\<close>

definition well_assigned ::
  "(string \<Rightarrow> (RuntimeObject \<Rightarrow> bool) option) \<Rightarrow> OpaqueDeviceConfig list \<Rightarrow>
   (nat, DeviceRequestAllocationResult list) gomap \<Rightarrow> bool" where
  "well_assigned device configs m \<longleftrightarrow>
     (\<forall>(i, rs) \<in> set m. i < length configs \<and>
        (\<forall>r \<in> set rs. \<exists>applies. device (dr_Device r) = Some applies \<and> applies (odc_Config (configs ! i))))"

lemma well_assigned_mono:
  "set m \<subseteq> insert e (set m') \<Longrightarrow> well_assigned device configs [e] \<Longrightarrow> well_assigned device configs m' \<Longrightarrow> well_assigned device configs m"
  unfolding well_assigned_def by (auto dest!: subsetD)

lemma config_results_well_assigned:
  "config_results device driver configs rs acc = Ok m \<Longrightarrow> well_assigned device configs acc \<Longrightarrow> well_assigned device configs m"
proof (induction rs arbitrary: acc)
  case (Cons r rs)
  show ?case
  proof (cases "dr_Driver r = driver")
    case True
    with Cons.prems(1) obtain applies sel where dev: "device (dr_Device r) = Some applies"
      and sel: "pick_config applies (dr_Request r) (rev (enumerate 0 configs)) = Ok sel"
      by (auto split: option.splits)
    show ?thesis
    proof (cases sel)
      case (Some i)
      let ?l = "(case map_of acc i of None \<Rightarrow> [] | Some l \<Rightarrow> l) @ [r]"
      from sel Some have i: "i < length configs" "applies (odc_Config (configs ! i))" by (simp_all add: pick_config_last)
      have "\<exists>applies. device (dr_Device r') = Some applies \<and> applies (odc_Config (configs ! i))"
        if "map_of acc i = Some l" "r' \<in> set l" for l r'
        using bspec [OF Cons.prems(2) [unfolded well_assigned_def] map_of_SomeD [OF that(1)]] that(2) by auto
      then have "well_assigned device configs [(i, ?l)]"
        using dev i by (cases "map_of acc i") (auto simp: well_assigned_def)
      then have "well_assigned device configs (AList.update i ?l acc)"
        using Cons.prems(2) by (intro well_assigned_mono [OF set_update_subset]) (simp_all add: well_assigned_def)
      with Cons True dev sel Some show ?thesis by simp
    qed (use Cons True dev sel in simp)
  qed (use Cons in simp)
qed simp

section \<open>Properties\<close>

text \<open>C21. The three plugins agree on which opaque configurations a claim has for a driver: decoding
  succeeds when every configuration has a known source and opaque parameters and those for the
  driver decode, and gives them from the lowest to the highest precedence, class before claim.\<close>

theorem opaque_configs_precedence:
  "(gpu_GetOpaqueDeviceConfigs decode driver cfgs = Ok ds \<longleftrightarrow>
      list_all known_source cfgs \<and> list_all (\<lambda>c. dac_Opaque c \<noteq> None) cfgs \<and>
      list_all2 (decodes_to decode) (filter (for_driver driver) (precedence_order cfgs)) ds) \<and>
   (cd_GetOpaqueDeviceConfigs decode driver cfgs = Ok ds \<longleftrightarrow>
      gpu_GetOpaqueDeviceConfigs decode driver cfgs = Ok ds) \<and>
   (kv_GetOpaqueDeviceConfigs decode driver cfgs = Ok ds \<longleftrightarrow>
      gpu_GetOpaqueDeviceConfigs decode driver cfgs = Ok ds)"
  by (simp add: gpu_GetOpaqueDeviceConfigs_def cd_GetOpaqueDeviceConfigs_def
      kv_GetOpaqueDeviceConfigs_def opaque_configs_Ok)

text \<open>The configuration applied to an allocated device is the one of highest precedence that
  matches: it names the request, or it is for all requests and fits the device. A higher one
  that names the request but does not fit the device is an error instead.\<close>

theorem config_of_highest_precedence:
  "pick_config applies request (rev (enumerate 0 configs)) = Ok (Some i) \<longleftrightarrow>
     i < length configs \<and> applies (odc_Config (configs ! i)) \<and>
     config_matches applies request (configs ! i) \<and>
     \<not> (\<exists>j. i < j \<and> j < length configs \<and> config_matches applies request (configs ! j))"
  by (rule pick_config_last)

end
