(* ===== verification/Webhook.thy ===== *)
theory Webhook
  imports Claims
begin

text \<open>
  The validating admission webhook (\<open>cmd/webhook\<close>): it looks at the opaque configurations of a
  ResourceClaim or ResourceClaimTemplate and admits the object when those addressed to the GPU
  driver decode, have a known kind, and pass \<open>Normalize\<close> and \<open>Validate\<close>.

  The Kubernetes deserialiser and its conversion between API versions are the parameters
  \<open>deserialize\<close> and \<open>convert\<close>; \<open>decode\<close> is the strict decoder of the API group. HTTP
  handling (\<open>serve\<close>, \<open>readAdmissionReview\<close>) is not modelled.
\<close>

section \<open>Requests and responses\<close>

record GroupVersionResource =
  gvr_Group :: string
  gvr_Version :: string
  gvr_Resource :: string

definition resourceClaimResource :: "string \<Rightarrow> GroupVersionResource" where
  "resourceClaimResource v =
     \<lparr>gvr_Group = ''resource.k8s.io'', gvr_Version = v, gvr_Resource = ''resourceclaims''\<rparr>"

definition resourceClaimTemplateResource :: "string \<Rightarrow> GroupVersionResource" where
  "resourceClaimTemplateResource v =
     \<lparr>gvr_Group = ''resource.k8s.io'', gvr_Version = v, gvr_Resource = ''resourceclaimtemplates''\<rparr>"

definition claim_versions :: "string list" where
  "claim_versions = [''v1'', ''v1beta1'', ''v1beta2'']"

record AdmissionRequest =
  rq_Resource :: GroupVersionResource
  rq_Raw :: string

record AdmissionResponse =
  rs_Allowed :: bool
  rs_Message :: string
  rs_Reason :: string

fun error_text :: "goerr \<Rightarrow> string" where
  "error_text (Errorf m) = m"
| "error_text (Wrapf m e) = m @ '': '' @ error_text e"
| "error_text (PermanentError e) = error_text e"
| "error_text (TerminalError e) = error_text e"
| "error_text ApiNotFound = ''not found''"
| "error_text ApiAlreadyExists = ''already exists''"
| "error_text (ApiError m) = m"

definition denied :: "string \<Rightarrow> string \<Rightarrow> AdmissionResponse" where
  "denied m r = \<lparr>rs_Allowed = False, rs_Message = m, rs_Reason = r\<rparr>"

section \<open>Extraction (resource.go)\<close>

definition extractResourceClaim ::
  "(string \<Rightarrow> string \<Rightarrow> 'o go) \<Rightarrow> ('o \<Rightarrow> DeviceClaimConfiguration list go) \<Rightarrow>
   AdmissionRequest \<Rightarrow> DeviceClaimConfiguration list go" where
  "extractResourceClaim deserialize convert ar =
     (if rq_Resource ar \<in> resourceClaimResource ` set claim_versions then
        bind_go (deserialize (gvr_Version (rq_Resource ar)) (rq_Raw ar)) (\<lambda>obj.
          wrap_go (Wrapf ''failed to convert to v1'') (convert obj))
      else Err (Errorf ''unsupported resource version''))"

definition extractResourceClaimTemplate ::
  "(string \<Rightarrow> string \<Rightarrow> 'o go) \<Rightarrow> ('o \<Rightarrow> DeviceClaimConfiguration list go) \<Rightarrow>
   AdmissionRequest \<Rightarrow> DeviceClaimConfiguration list go" where
  "extractResourceClaimTemplate deserialize convert ar =
     (if rq_Resource ar \<in> resourceClaimTemplateResource ` set claim_versions then
        bind_go (deserialize (gvr_Version (rq_Resource ar)) (rq_Raw ar)) (\<lambda>obj.
          wrap_go (Wrapf ''failed to convert to v1'') (convert obj))
      else Err (Errorf ''unsupported resource version''))"

section \<open>Validation (main.go)\<close>

text \<open>The body of the loop for one decoded object: the error it appends, if any.\<close>

definition check_verdict :: "string \<Rightarrow> ('c \<Rightarrow> 'c go) \<Rightarrow> ('c \<Rightarrow> unit go) \<Rightarrow> 'c \<Rightarrow> goerr option go" where
  "check_verdict path norm val c =
     (case norm c of
        Panic p \<Rightarrow> Panic p
      | Err e \<Rightarrow> Ok (Some (Wrapf (''error normalizing config at '' @ path) e))
      | Ok c' \<Rightarrow> (case val c' of
          Panic p \<Rightarrow> Panic p
        | Err e \<Rightarrow> Ok (Some (Wrapf (''object at '' @ path @ '' is invalid'') e))
        | Ok _ \<Rightarrow> Ok None))"

definition check_object :: "gates \<Rightarrow> string \<Rightarrow> RuntimeObject \<Rightarrow> goerr option go" where
  "check_object g path obj = (case obj of
     GpuConfigObj c \<Rightarrow> check_verdict path (GpuConfig_Normalize g) (GpuConfig_Validate g) c
   | MigDeviceConfigObj c \<Rightarrow>
       check_verdict path (MigDeviceConfig_Normalize g) (MigDeviceConfig_Validate g) c
   | ChannelConfigObj c \<Rightarrow>
       check_verdict path ComputeDomainChannelConfig_Normalize ComputeDomainChannelConfig_Validate c
   | DaemonConfigObj c \<Rightarrow>
       check_verdict path ComputeDomainDaemonConfig_Normalize ComputeDomainDaemonConfig_Validate c
   | _ \<Rightarrow> Ok (Some (Errorf (''expected a recognized configuration type at '' @ path))))"

definition field_path :: "string \<Rightarrow> nat \<Rightarrow> string" where
  "field_path specPath i = specPath @ ''.devices.config['' @ show_nat i @ ''].opaque.parameters''"

text \<open>The body of the loop for one configuration.\<close>

definition check_config ::
  "gates \<Rightarrow> (string \<Rightarrow> RuntimeObject go) \<Rightarrow> string \<Rightarrow> nat \<Rightarrow> DeviceClaimConfiguration \<Rightarrow> goerr option go" where
  "check_config g decode specPath i c = (case dcc_Opaque c of
     None \<Rightarrow> Ok None
   | Some oc \<Rightarrow>
       if oc_Driver oc \<noteq> gpu_DriverName then Ok None
       else (case decode (oc_Parameters oc) of
         Panic p \<Rightarrow> Panic p
       | Err e \<Rightarrow> Ok (Some (Wrapf (''error decoding object at '' @ field_path specPath i) e))
       | Ok obj \<Rightarrow> check_object g (field_path specPath i) obj))"

fun check_configs ::
  "gates \<Rightarrow> (string \<Rightarrow> RuntimeObject go) \<Rightarrow> string \<Rightarrow> nat \<Rightarrow> DeviceClaimConfiguration list \<Rightarrow> goerr list go" where
  "check_configs g decode specPath i [] = Ok []"
| "check_configs g decode specPath i (c # cs) =
     bind_go (check_config g decode specPath i c) (\<lambda>e.
       bind_go (check_configs g decode specPath (Suc i) cs) (\<lambda>es.
         Ok ((case e of None \<Rightarrow> [] | Some e \<Rightarrow> [e]) @ es)))"

definition admitResourceClaimParameters ::
  "gates \<Rightarrow> (string \<Rightarrow> string \<Rightarrow> 'o go) \<Rightarrow> ('o \<Rightarrow> DeviceClaimConfiguration list go) \<Rightarrow>
   (string \<Rightarrow> string \<Rightarrow> 't go) \<Rightarrow> ('t \<Rightarrow> DeviceClaimConfiguration list go) \<Rightarrow>
   (string \<Rightarrow> RuntimeObject go) \<Rightarrow> AdmissionRequest \<Rightarrow> AdmissionResponse go" where
  "admitResourceClaimParameters g deserialize convert tdeserialize tconvert decode ar =
     (let extracted =
        (if rq_Resource ar \<in> resourceClaimResource ` set claim_versions then
           bind_go (extractResourceClaim deserialize convert ar) (\<lambda>cfgs. Ok (cfgs, ''spec''))
         else if rq_Resource ar \<in> resourceClaimTemplateResource ` set claim_versions then
           bind_go (extractResourceClaimTemplate tdeserialize tconvert ar) (\<lambda>cfgs. Ok (cfgs, ''spec.spec''))
         else Err (Errorf ''expected resource to be one of the supported versions for resourceclaims or resourceclaimtemplates''))
      in case extracted of
        Panic p \<Rightarrow> Panic p
      | Err e \<Rightarrow> Ok (denied (error_text e) ''BadRequest'')
      | Ok (deviceConfigs, specPath) \<Rightarrow>
          bind_go (check_configs g decode specPath 0 deviceConfigs) (\<lambda>errs.
            if errs \<noteq> [] then
              Ok (denied (show_nat (length errs) @ '' configs failed to validate: '' @
                          strings_Join ''; '' (map error_text errs)) ''Invalid'')
            else Ok \<lparr>rs_Allowed = True, rs_Message = '''', rs_Reason = ''''\<rparr>))"

section \<open>Lemmas\<close>

text \<open>What the two calls of the loop body answer, kind by kind: the \<open>verdict\<close> of the interface.\<close>

lemma check_verdict_None:
  "check_verdict path norm val c = Ok None \<longleftrightarrow> bind_go (norm c) val = Ok ()"
  by (auto simp: check_verdict_def split: go.splits)

definition object_accepted :: "gates \<Rightarrow> RuntimeObject \<Rightarrow> bool" where
  "object_accepted g obj \<longleftrightarrow> (case obj of
     GpuConfigObj c \<Rightarrow> gpu_cfg.verdict g c = Ok ()
   | MigDeviceConfigObj c \<Rightarrow> mig_cfg.verdict g c = Ok ()
   | ChannelConfigObj c \<Rightarrow> channel_cfg.verdict c = Ok ()
   | DaemonConfigObj c \<Rightarrow> daemon_cfg.verdict c = Ok ()
   | _ \<Rightarrow> False)"

lemma check_object_None: "check_object g path obj = Ok None \<longleftrightarrow> object_accepted g obj"
  by (simp add: check_object_def object_accepted_def check_verdict_None gpu_cfg.verdict_def
      mig_cfg.verdict_def channel_cfg.verdict_def daemon_cfg.verdict_def split: RuntimeObject.splits)

definition config_accepted ::
  "gates \<Rightarrow> (string \<Rightarrow> RuntimeObject go) \<Rightarrow> DeviceClaimConfiguration \<Rightarrow> bool" where
  "config_accepted g decode c \<longleftrightarrow> (case dcc_Opaque c of
     None \<Rightarrow> True
   | Some oc \<Rightarrow> oc_Driver oc \<noteq> gpu_DriverName \<or>
       (\<exists>obj. decode (oc_Parameters oc) = Ok obj \<and> object_accepted g obj))"

lemma check_config_None: "check_config g decode sp i c = Ok None \<longleftrightarrow> config_accepted g decode c"
  by (auto simp: check_config_def config_accepted_def check_object_None split: option.splits go.splits)

lemma check_configs_Nil:
  "check_configs g decode sp i cs = Ok [] \<longleftrightarrow> list_all (config_accepted g decode) cs"
  by (induction cs arbitrary: i) (auto simp: check_config_None split: option.splits)

section \<open>Properties\<close>

text \<open>C15. The webhook allows a ResourceClaim of a supported version exactly when every configuration
  it carries for the GPU driver decodes to a kind the webhook knows and passes \<open>Normalize\<close> and
  \<open>Validate\<close>.\<close>

theorem webhook_allows_iff:
  assumes "rq_Resource ar \<in> resourceClaimResource ` set claim_versions"
    and "extractResourceClaim deserialize convert ar = Ok cfgs"
  shows "admitResourceClaimParameters g deserialize convert tds tcv decode ar =
           Ok \<lparr>rs_Allowed = True, rs_Message = '''', rs_Reason = ''''\<rparr> \<longleftrightarrow>
         list_all (config_accepted g decode) cfgs"
  using assms check_configs_Nil [of g decode "''spec''" 0 cfgs]
  by (auto simp: admitResourceClaimParameters_def denied_def split: if_splits)

theorem webhook_allows_iff_witness:
  "admitResourceClaimParameters default_gates (\<lambda>v raw. Ok raw)
      (\<lambda>raw. Ok [\<lparr>dcc_Requests = [], dcc_Opaque = Some \<lparr>oc_Driver = gpu_DriverName, oc_Parameters = raw\<rparr>\<rparr>])
      (\<lambda>v raw. Ok raw) (\<lambda>raw. Ok []) (\<lambda>raw. Ok (GpuConfigObj (DefaultGpuConfig default_gates)))
      \<lparr>rq_Resource = resourceClaimResource ''v1'', rq_Raw = ''{}''\<rparr> =
    Ok \<lparr>rs_Allowed = True, rs_Message = '''', rs_Reason = ''''\<rparr>"
proof (subst webhook_allows_iff)
  show "rq_Resource \<lparr>rq_Resource = resourceClaimResource ''v1'', rq_Raw = ''{}''\<rparr>
      \<in> resourceClaimResource ` set claim_versions"
    by (simp add: claim_versions_def)
  show "extractResourceClaim (\<lambda>v raw. Ok raw)
      (\<lambda>raw. Ok [\<lparr>dcc_Requests = [], dcc_Opaque = Some \<lparr>oc_Driver = gpu_DriverName, oc_Parameters = raw\<rparr>\<rparr>])
      \<lparr>rq_Resource = resourceClaimResource ''v1'', rq_Raw = ''{}''\<rparr> =
    Ok [\<lparr>dcc_Requests = [], dcc_Opaque = Some \<lparr>oc_Driver = gpu_DriverName, oc_Parameters = ''{}''\<rparr>\<rparr>]"
    by (simp add: extractResourceClaim_def claim_versions_def)
  show "list_all (config_accepted default_gates (\<lambda>raw. Ok (GpuConfigObj (DefaultGpuConfig default_gates))))
      [\<lparr>dcc_Requests = [], dcc_Opaque = Some \<lparr>oc_Driver = gpu_DriverName, oc_Parameters = ''{}''\<rparr>\<rparr>]"
    by (simp add: config_accepted_def object_accepted_def gpu_cfg.verdict_def DefaultGpuConfig_def
        GpuConfig_Normalize_def GpuConfig_Validate_def default_gates_def defaultFeatureGates_def)
qed

text \<open>The webhook never allows an object that carries a \<open>VfioDeviceConfig\<close> for the GPU driver, a
  kind the GPU kubelet plugin does apply: it is not among the kinds the webhook recognises,
  whatever its contents and the feature gates.\<close>

theorem webhook_rejects_vfio:
  assumes "rq_Resource ar \<in> resourceClaimResource ` set claim_versions"
    and "extractResourceClaim deserialize convert ar = Ok cfgs"
    and "c \<in> set cfgs" and "dcc_Opaque c = Some oc" and "oc_Driver oc = gpu_DriverName"
    and "decode (oc_Parameters oc) = Ok (VfioDeviceConfigObj v)"
  shows "admitResourceClaimParameters g deserialize convert tds tcv decode ar \<noteq>
    Ok \<lparr>rs_Allowed = True, rs_Message = '''', rs_Reason = ''''\<rparr>"
proof -
  have "\<not> config_accepted g decode c"
    using assms(4-6) by (auto simp: config_accepted_def object_accepted_def)
  with assms(3) have "\<not> list_all (config_accepted g decode) cfgs"
    by (auto simp: list_all_iff)
  moreover have "check_configs g decode ''spec'' 0 cfgs = Ok [] \<longleftrightarrow>
      list_all (config_accepted g decode) cfgs"
    by (rule check_configs_Nil)
  ultimately show ?thesis
    using assms(1,2) by (auto simp: admitResourceClaimParameters_def denied_def split: if_splits)
qed

theorem webhook_rejects_vfio_witness:
  "admitResourceClaimParameters (\<lambda>f. f = PassthroughSupport) (\<lambda>v raw. Ok raw)
      (\<lambda>raw. Ok [\<lparr>dcc_Requests = [], dcc_Opaque = Some \<lparr>oc_Driver = gpu_DriverName, oc_Parameters = raw\<rparr>\<rparr>])
      (\<lambda>v raw. Ok raw) (\<lambda>raw. Ok [])
      (\<lambda>raw. Ok (VfioDeviceConfigObj (the (DefaultVfioDeviceConfig (\<lambda>f. f = PassthroughSupport)))))
      \<lparr>rq_Resource = resourceClaimResource ''v1'', rq_Raw = ''{}''\<rparr> \<noteq>
    Ok \<lparr>rs_Allowed = True, rs_Message = '''', rs_Reason = ''''\<rparr>"
proof (rule webhook_rejects_vfio [where
      c = "\<lparr>dcc_Requests = [], dcc_Opaque = Some \<lparr>oc_Driver = gpu_DriverName, oc_Parameters = ''{}''\<rparr>\<rparr>"
      and oc = "\<lparr>oc_Driver = gpu_DriverName, oc_Parameters = ''{}''\<rparr>"])
  show "extractResourceClaim (\<lambda>v raw. Ok raw)
      (\<lambda>raw. Ok [\<lparr>dcc_Requests = [], dcc_Opaque = Some \<lparr>oc_Driver = gpu_DriverName, oc_Parameters = raw\<rparr>\<rparr>])
      \<lparr>rq_Resource = resourceClaimResource ''v1'', rq_Raw = ''{}''\<rparr> =
    Ok [\<lparr>dcc_Requests = [], dcc_Opaque = Some \<lparr>oc_Driver = gpu_DriverName, oc_Parameters = ''{}''\<rparr>\<rparr>]"
    by (simp add: extractResourceClaim_def claim_versions_def)
qed (simp_all add: claim_versions_def)

end
