(* ===== verification/Mps_Limits.thy ===== *)
theory Mps_Limits
  imports Api_Config
begin

text \<open>
  The pinned-memory limits of an MPS control daemon (\<open>sharing.go\<close>): a user writes limits per
  device UUID or per device index and one default for all devices;
  \<open>MpsPerDevicePinnedMemoryLimit.Normalize\<close> turns them into a limit per allocated UUID.
  The user's limits are a Go map, visited in an order Go does not fix: the model's list \<open>m\<close> is
  that order.
\<close>

section \<open>Operations\<close>

text \<open>Go's integer division truncates towards zero.\<close>

definition quot_go :: "int \<Rightarrow> int \<Rightarrow> int" where
  "quot_go a b = sgn a * sgn b * (\<bar>a\<bar> div \<bar>b\<bar>)"

definition ErrInvalidDeviceSelector :: goerr where
  "ErrInvalidDeviceSelector = Errorf ''invalid device''"

definition ErrInvalidLimit :: goerr where
  "ErrInvalidLimit = Errorf ''invalid limit''"

definition limit_Megabyte :: "Quantity \<Rightarrow> string \<times> bool" where
  "limit_Megabyte d = (let v = quot_go (quot_go d 1024) 1024 in (show_int v @ ''M'', v > 0))"

definition limit_get :: "Quantity option \<Rightarrow> string list \<Rightarrow> (string, string) gomap go" where
  "limit_get d uuids =
     (if d = None \<or> uuids = [] then Ok []
      else let (megabyte, valid) = limit_Megabyte (the d)
           in if \<not> valid then Err (Wrapf ''default value set too low'' ErrInvalidLimit)
              else Ok (fold (\<lambda>uuid limits. AList.update uuid megabyte limits) uuids []))"

record uuidSet =
  us_uuids :: "string list"
  us_lookup :: "(string, bool) gomap"

definition newUUIDSet :: "string list \<Rightarrow> uuidSet" where
  "newUUIDSet uuids =
     \<lparr>us_uuids = uuids,
      us_lookup = fold (\<lambda>uuid lookup. AList.update uuid True lookup) uuids []\<rparr>"

definition uuidSet_Normalize :: "uuidSet \<Rightarrow> string \<Rightarrow> string go" where
  "uuidSet_Normalize s key =
     (if map_of (us_lookup s) key \<noteq> None then Ok key
      else (case Atoi key of
        None \<Rightarrow> Err (Wrapf ''unable to parse key as an integer'' ErrInvalidDeviceSelector)
      | Some index \<Rightarrow>
          if index \<ge> 0 \<and> index < int (length (us_uuids s)) then Ok (us_uuids s ! nat index)
          else Err (Wrapf ''invalid device index'' ErrInvalidDeviceSelector)))"

fun limits_loop ::
  "uuidSet \<Rightarrow> (string, string) gomap \<Rightarrow> (string, Quantity) gomap \<Rightarrow> (string, string) gomap go" where
  "limits_loop devices limits [] = Ok limits"
| "limits_loop devices limits ((k, v) # m) =
     bind_go (uuidSet_Normalize devices k) (\<lambda>uid.
       let (megabyte, valid) = limit_Megabyte v
       in if \<not> valid then Err (Wrapf ''value set too low'' ErrInvalidLimit)
          else limits_loop devices (AList.update uid megabyte limits) m)"

definition MpsPerDevicePinnedMemoryLimit_Normalize ::
  "(string, Quantity) gomap \<Rightarrow> string list \<Rightarrow> Quantity option \<Rightarrow> (string, string) gomap go" where
  "MpsPerDevicePinnedMemoryLimit_Normalize m uuids dflt =
     bind_go (limit_get dflt uuids) (\<lambda>limits. limits_loop (newUUIDSet uuids) limits m)"

section \<open>Lemmas\<close>

lemma map_of_fold_update:
  "map_of (fold (\<lambda>k l. AList.update k c l) ks l) =
     (\<lambda>k. if k \<in> set ks then Some c else map_of l k)"
  by (induction ks arbitrary: l) (auto simp: update_conv' fun_eq_iff)

lemma lookup_newUUIDSet: "map_of (us_lookup (newUUIDSet uuids)) k \<noteq> None \<longleftrightarrow> k \<in> set uuids"
  by (auto simp: newUUIDSet_def map_of_fold_update)

lemma uuidSet_Normalize_cases:
  "uuidSet_Normalize (newUUIDSet uuids) k =
     (if k \<in> set uuids then Ok k
      else case Atoi k of
        None \<Rightarrow> Err (Wrapf ''unable to parse key as an integer'' ErrInvalidDeviceSelector)
      | Some i \<Rightarrow>
          if 0 \<le> i \<and> i < int (length uuids) then Ok (uuids ! nat i)
          else Err (Wrapf ''invalid device index'' ErrInvalidDeviceSelector))"
  using lookup_newUUIDSet [of uuids k] by (auto simp: uuidSet_Normalize_def newUUIDSet_def split: option.splits)

lemma uuidSet_Normalize_member:
  "uuidSet_Normalize (newUUIDSet uuids) k = Ok u \<Longrightarrow> u \<in> set uuids"
  by (auto simp: uuidSet_Normalize_cases split: if_splits option.splits)

lemma limit_Megabyte_valid: "snd (limit_Megabyte d) \<longleftrightarrow> 1048576 \<le> d"
  by (auto simp: limit_Megabyte_def quot_go_def Let_def sgn_if)

lemma limit_get_Ok:
  "limit_get d uuids = Ok l \<Longrightarrow>
     map_of l = (\<lambda>u. if u \<in> set uuids then map_option (fst \<circ> limit_Megabyte) d else None)"
  by (auto simp: limit_get_def map_of_fold_update Let_def split: if_splits prod.splits)

text \<open>The entry a pair of the user's map writes: the device it selects and its limit.\<close>

definition override_entry :: "string list \<Rightarrow> string \<times> Quantity \<Rightarrow> string \<times> string" where
  "override_entry uuids = (\<lambda>(k, v).
     ((case uuidSet_Normalize (newUUIDSet uuids) k of Ok u \<Rightarrow> u | _ \<Rightarrow> ''''), fst (limit_Megabyte v)))"

definition good_entry :: "string list \<Rightarrow> string \<times> Quantity \<Rightarrow> bool" where
  "good_entry uuids = (\<lambda>(k, v).
     is_ok (uuidSet_Normalize (newUUIDSet uuids) k) \<and> snd (limit_Megabyte v))"

lemma limits_loop_Ok:
  "limits_loop (newUUIDSet uuids) l m = Ok l' \<Longrightarrow>
     list_all (good_entry uuids) m \<and>
     map_of l' = map_of l ++ map_of (rev (map (override_entry uuids) m))"
proof (induction m arbitrary: l)
  case Nil
  then show ?case by simp
next
  case (Cons kv m)
  obtain k v where kv: "kv = (k, v)" by (cases kv)
  from Cons.prems kv obtain u where u: "uuidSet_Normalize (newUUIDSet uuids) k = Ok u"
    by (cases "uuidSet_Normalize (newUUIDSet uuids) k") auto
  with Cons.prems kv have valid: "snd (limit_Megabyte v)"
    and rest: "limits_loop (newUUIDSet uuids) (AList.update u (fst (limit_Megabyte v)) l) m = Ok l'"
    by (auto simp: Let_def split: prod.splits if_splits)
  from Cons.IH [OF rest] u valid kv show ?case
    by (auto simp: good_entry_def override_entry_def update_conv' map_add_def fun_eq_iff
        split: option.splits)
qed

lemma limits_loop_good:
  "list_all (good_entry uuids) m \<Longrightarrow> \<exists>l'. limits_loop (newUUIDSet uuids) l m = Ok l'"
proof (induction m arbitrary: l)
  case Nil
  then show ?case by simp
next
  case (Cons kv m)
  obtain k v where kv: "kv = (k, v)" by (cases kv)
  with Cons.prems obtain u where u: "uuidSet_Normalize (newUUIDSet uuids) k = Ok u"
    and good: "list_all (good_entry uuids) m" "snd (limit_Megabyte v)"
    by (auto simp: good_entry_def is_ok_iff)
  with Cons.IH [of "AList.update u (fst (limit_Megabyte v)) l"] kv show ?case
    by (auto simp: Let_def split: prod.splits)
qed

section \<open>Properties\<close>

text \<open>Where the keys of a map select pairwise different devices, its entries do not overwrite
  each other.\<close>

lemma distinct_override:
  "gomap m \<Longrightarrow> inj_on (fst \<circ> override_entry uuids) (set m) \<Longrightarrow>
     distinct (map fst (rev (map (override_entry uuids) m)))"
  by (auto simp: distinct_map rev_map [symmetric] inj_on_def comp_def)



text \<open>The order in which Go visits the user's limits does not matter when no two of their keys
  select the same device: every order succeeds alike and gives the same limits.\<close>

theorem mps_limits_order_independent:
  assumes "MpsPerDevicePinnedMemoryLimit_Normalize m uuids dflt = Ok l"
    and "gomap m" and "gomap m'" and "set m' = set m"
    and "inj_on (fst \<circ> override_entry uuids) (set m)"
  shows "\<exists>l'. MpsPerDevicePinnedMemoryLimit_Normalize m' uuids dflt = Ok l' \<and> map_of l' = map_of l"
proof -
  from assms(1) obtain l0 where l0: "limit_get dflt uuids = Ok l0"
    and loop: "limits_loop (newUUIDSet uuids) l0 m = Ok l"
    by (auto simp: MpsPerDevicePinnedMemoryLimit_Normalize_def)
  from limits_loop_Ok [OF loop] assms(4) have "list_all (good_entry uuids) m'"
    by (simp add: list_all_iff)
  then obtain l' where loop': "limits_loop (newUUIDSet uuids) l0 m' = Ok l'"
    using limits_loop_good by blast
  have "map_of (rev (map (override_entry uuids) m')) = map_of (rev (map (override_entry uuids) m))"
    using assms distinct_override [of m uuids] distinct_override [of m' uuids]
    by (subst map_of_inject_set) auto
  with limits_loop_Ok [OF loop] limits_loop_Ok [OF loop'] have "map_of l' = map_of l" by simp
  with l0 loop' show ?thesis
    by (auto simp: MpsPerDevicePinnedMemoryLimit_Normalize_def)
qed

theorem mps_limits_order_independent_witness:
  "\<exists>l'. MpsPerDevicePinnedMemoryLimit_Normalize [(''GPU-a'', 4194304), (''1'', 2097152)]
       [''GPU-a'', ''GPU-b''] None = Ok l' \<and>
     map_of l' = map_of [(''GPU-b'', ''2M''), (''GPU-a'', ''4M'')]"
proof (rule mps_limits_order_independent [where m = "[(''1'', 2097152), (''GPU-a'', 4194304)]"])
  show "MpsPerDevicePinnedMemoryLimit_Normalize [(''1'', 2097152), (''GPU-a'', 4194304)]
      [''GPU-a'', ''GPU-b''] None = Ok [(''GPU-b'', ''2M''), (''GPU-a'', ''4M'')]"
    by code_simp
  show "inj_on (fst \<circ> override_entry [''GPU-a'', ''GPU-b''])
      (set [(''1'', 2097152), (''GPU-a'', 4194304)])"
    by code_simp
qed auto

text \<open>Where two keys do select the same device (its UUID and its index), the limit that is set
  depends on the order in which Go happens to visit the map.\<close>

theorem mps_limits_order_dependent:
  "\<exists>m m' uuids l l'. gomap m \<and> gomap m' \<and> set m = set m' \<and>
     MpsPerDevicePinnedMemoryLimit_Normalize m uuids None = Ok l \<and>
     MpsPerDevicePinnedMemoryLimit_Normalize m' uuids None = Ok l' \<and>
     map_of l \<noteq> map_of l'"
proof (intro exI conjI)
  show "MpsPerDevicePinnedMemoryLimit_Normalize [(''0'', 2097152), (''GPU-a'', 4194304)]
      [''GPU-a''] None = Ok [(''GPU-a'', ''4M'')]"
    by code_simp
  show "MpsPerDevicePinnedMemoryLimit_Normalize [(''GPU-a'', 4194304), (''0'', 2097152)]
      [''GPU-a''] None = Ok [(''GPU-a'', ''2M'')]"
    by code_simp
  show "map_of [(''GPU-a'', ''4M'')] \<noteq> map_of [(''GPU-a'', ''2M'')]"
    by (simp add: fun_eq_iff)
qed auto

end
