(* ===== verification/Kvcache_Controller.thy ===== *)
theory Kvcache_Controller
  imports Claims
begin

text \<open>
  The KV cache cluster controller (\<open>cmd/kvcache-controller\<close>) with the \<open>KVCachePool\<close> object of the
  API package: \<open>ClaimReconciler\<close> binds a claim to a pool (match or provision), and
  \<open>PoolReconciler\<close> is meant to provision a pool's data plane.

  The API server is the state \<open>cluster\<close>. Its answers also depend on what other clients do and on
  failures: \<open>env k\<close> is what happens to the cluster right before the handler's \<open>k\<close>-th call and
  whether that call then fails. Theorems hold for every \<open>env\<close>, so for every interleaving.
  The SHA-256 digest is the parameter \<open>sha256\<close>.
\<close>

section \<open>KVCachePool (kvcachepool.go)\<close>

record KVCachePoolSpec =
  ks_CapacityBytes :: int
  ks_LatencyTier :: string
  ks_Engine :: string
  ks_ModelFamily :: string
  ks_Dtype :: string
  ks_BlockSizeTokens :: int

record KVCachePoolStatus =
  kst_Status :: string
  kst_Endpoint :: string
  kst_AllocatedBytes :: int

record KVCachePool =
  kp_Name :: string
  kp_Deleting :: bool
  kp_Finalizers :: "string list"
  kp_Spec :: KVCachePoolSpec
  kp_Status :: KVCachePoolStatus

definition KVCachePoolStatusReady :: string where "KVCachePoolStatusReady = ''Ready''"
definition KVCachePoolStatusNotReady :: string where "KVCachePoolStatusNotReady = ''NotReady''"

section \<open>The API server\<close>

record cluster =
  cl_pools :: "(string, KVCachePool) gomap"
  cl_claims :: "(string \<times> string, ResourceClaim) gomap"

type_synonym env = "nat \<Rightarrow> cluster \<Rightarrow> goerr option \<times> cluster"

text \<open>No other client and no failure.\<close>

definition quiet :: env where
  "quiet k c = (None, c)"

definition api_call :: "env \<Rightarrow> nat \<Rightarrow> (cluster, 'a) gost \<Rightarrow> (cluster, 'a) gost" where
  "api_call env k m c = (case env k c of (Some e, c') \<Rightarrow> (Err e, c') | (None, c') \<Rightarrow> m c')"

definition get_obj :: "('k, 'v) gomap \<Rightarrow> 'k \<Rightarrow> 'v go" where
  "get_obj m k = (case map_of m k of None \<Rightarrow> Err ApiNotFound | Some v \<Rightarrow> Ok v)"

definition api_GetPool :: "env \<Rightarrow> nat \<Rightarrow> string \<Rightarrow> (cluster, KVCachePool) gost" where
  "api_GetPool env k name = api_call env k (\<lambda>c. (get_obj (cl_pools c) name, c))"

definition api_CreatePool :: "env \<Rightarrow> nat \<Rightarrow> KVCachePool \<Rightarrow> (cluster, unit) gost" where
  "api_CreatePool env k p = api_call env k (\<lambda>c.
     if map_of (cl_pools c) (kp_Name p) \<noteq> None then (Err ApiAlreadyExists, c)
     else (Ok (), c\<lparr>cl_pools := AList.update (kp_Name p) p (cl_pools c)\<rparr>))"

definition api_UpdatePool :: "env \<Rightarrow> nat \<Rightarrow> KVCachePool \<Rightarrow> (cluster, unit) gost" where
  "api_UpdatePool env k p = api_call env k (\<lambda>c.
     if map_of (cl_pools c) (kp_Name p) = None then (Err ApiNotFound, c)
     else (Ok (), c\<lparr>cl_pools := AList.update (kp_Name p) p (cl_pools c)\<rparr>))"

definition api_GetClaim :: "env \<Rightarrow> nat \<Rightarrow> string \<times> string \<Rightarrow> (cluster, ResourceClaim) gost" where
  "api_GetClaim env k nn = api_call env k (\<lambda>c. (get_obj (cl_claims c) nn, c))"

text \<open>The merge patch of the claim's annotations sets one key on the stored object.\<close>

definition set_annotation :: "string \<Rightarrow> string \<Rightarrow> ResourceClaim \<Rightarrow> ResourceClaim" where
  "set_annotation key v rc = rc\<lparr>rc_Annotations :=
     Some (AList.update key v (case rc_Annotations rc of None \<Rightarrow> [] | Some m \<Rightarrow> m))\<rparr>"

definition api_PatchClaim :: "env \<Rightarrow> nat \<Rightarrow> string \<times> string \<Rightarrow> string \<Rightarrow> (cluster, unit) gost" where
  "api_PatchClaim env k nn pool = api_call env k (\<lambda>c.
     case map_of (cl_claims c) nn of
       None \<Rightarrow> (Err ApiNotFound, c)
     | Some rc \<Rightarrow>
         (Ok (), c\<lparr>cl_claims := AList.update nn (set_annotation KVCachePoolClaimAnnotationKey pool rc)
                                   (cl_claims c)\<rparr>))"

section \<open>ClaimReconciler (claim_reconciler.go)\<close>

fun find_config ::
  "(string \<Rightarrow> RuntimeObject go) \<Rightarrow> DeviceClaimConfiguration list \<Rightarrow> KVCachePoolConfig option \<Rightarrow>
   KVCachePoolConfig option go" where
  "find_config decode [] found = Ok found"
| "find_config decode (c # cs) found =
     (case dcc_Opaque c of
        None \<Rightarrow> find_config decode cs found
      | Some oc \<Rightarrow>
          if oc_Driver oc \<noteq> kv_DriverName then find_config decode cs found
          else bind_go (wrap_go (\<lambda>e. TerminalError (Wrapf ''decoding opaque parameters'' e))
                          (decode (oc_Parameters oc))) (\<lambda>obj.
            case obj of
              KVCachePoolConfigObj cfg \<Rightarrow> find_config decode cs (Some cfg)
            | _ \<Rightarrow> find_config decode cs found))"

definition decodeKVCachePoolConfig ::
  "(string \<Rightarrow> RuntimeObject go) \<Rightarrow> ResourceClaim \<Rightarrow> KVCachePoolConfig option go" where
  "decodeKVCachePoolConfig decode claim =
     bind_go (find_config decode (rc_SpecConfig claim) None) (\<lambda>found.
       case found of
         None \<Rightarrow> Ok None
       | Some cfg \<Rightarrow>
           bind_go (wrap_go (\<lambda>e. TerminalError (Wrapf ''normalize KVCachePoolConfig'' e))
                      (KVCachePoolConfig_Normalize cfg)) (\<lambda>cfg'.
             bind_go (wrap_go (\<lambda>e. TerminalError (Wrapf ''invalid KVCachePoolConfig'' e))
                        (KVCachePoolConfig_Validate cfg')) (\<lambda>_. Ok (Some cfg'))))"

definition hex_digit :: "nat \<Rightarrow> char" where
  "hex_digit d = (if d < 10 then char_of (48 + d) else char_of (87 + d))"

definition hex_bytes :: "string \<Rightarrow> string" where
  "hex_bytes bs = concat (map (\<lambda>b. [hex_digit (of_char b div 16), hex_digit (of_char b mod 16)]) bs)"

definition NUL :: char where "NUL = CHR 0x00"

text \<open>The five compatibility fields as \<open>%s\x00%s\x00%s\x00%d\x00%s\<close>.\<close>

definition pool_key :: "KVCachePoolConfig \<Rightarrow> string" where
  "pool_key cfg = kc_Engine cfg @ [NUL] @ kc_ModelFamily cfg @ [NUL] @ kc_Dtype cfg @ [NUL] @
     show_int (kc_BlockSizeTokens cfg) @ [NUL] @ kc_LatencyTier cfg"

definition deterministicPoolName :: "(string \<Rightarrow> string) \<Rightarrow> KVCachePoolConfig \<Rightarrow> string" where
  "deterministicPoolName sha256 cfg =
     ''kvcache-'' @ kc_Engine cfg @ ''-'' @ hex_bytes (take 8 (sha256 (pool_key cfg)))"

definition poolMatchesConfig :: "KVCachePool \<Rightarrow> KVCachePoolConfig \<Rightarrow> bool" where
  "poolMatchesConfig pool cfg \<longleftrightarrow>
     ks_Engine (kp_Spec pool) = kc_Engine cfg \<and>
     ks_ModelFamily (kp_Spec pool) = kc_ModelFamily cfg \<and>
     ks_Dtype (kp_Spec pool) = kc_Dtype cfg \<and>
     ks_BlockSizeTokens (kp_Spec pool) = kc_BlockSizeTokens cfg \<and>
     ks_LatencyTier (kp_Spec pool) = kc_LatencyTier cfg"

definition new_pool :: "string \<Rightarrow> KVCachePoolConfig \<Rightarrow> KVCachePool" where
  "new_pool name cfg =
     \<lparr>kp_Name = name, kp_Deleting = False, kp_Finalizers = [],
      kp_Spec = \<lparr>ks_CapacityBytes = kc_CapacityBytes cfg, ks_LatencyTier = kc_LatencyTier cfg,
                 ks_Engine = kc_Engine cfg, ks_ModelFamily = kc_ModelFamily cfg,
                 ks_Dtype = kc_Dtype cfg, ks_BlockSizeTokens = kc_BlockSizeTokens cfg\<rparr>,
      kp_Status = \<lparr>kst_Status = '''', kst_Endpoint = '''', kst_AllocatedBytes = 0\<rparr>\<rparr>"

definition getOrCreatePool :: "env \<Rightarrow> string \<Rightarrow> KVCachePoolConfig \<Rightarrow> (cluster, KVCachePool) gost" where
  "getOrCreatePool env name cfg c =
     (case api_GetPool env 1 name c of
        (Ok pool, c1) \<Rightarrow>
          (if \<not> poolMatchesConfig pool cfg then
             (Err (TerminalError (Errorf ''KVCachePool exists but is incompatible with claim config'')), c1)
           else (Ok pool, c1))
      | (Panic p, c1) \<Rightarrow> (Panic p, c1)
      | (Err e, c1) \<Rightarrow>
          if \<not> IsNotFound e then (Err (Wrapf ''get KVCachePool'' e), c1)
          else
            let pool = new_pool name cfg
            in case api_CreatePool env 2 pool c1 of
              (Ok _, c2) \<Rightarrow> (Ok pool, c2)
            | (Panic p, c2) \<Rightarrow> (Panic p, c2)
            | (Err e, c2) \<Rightarrow>
                if IsAlreadyExists e then
                  (case api_GetPool env 3 name c2 of
                     (Ok pool, c3) \<Rightarrow>
                       if \<not> poolMatchesConfig pool cfg then
                         (Err (TerminalError (Errorf ''KVCachePool exists but is incompatible with claim config'')), c3)
                       else (Ok pool, c3)
                   | (Err e, c3) \<Rightarrow> (Err (Wrapf ''get KVCachePool after create race'' e), c3)
                   | (Panic p, c3) \<Rightarrow> (Panic p, c3))
                else (Err (Wrapf ''create KVCachePool'' e), c2))"

definition matchOrProvision ::
  "(string \<Rightarrow> string) \<Rightarrow> env \<Rightarrow> KVCachePoolConfig \<Rightarrow> (cluster, KVCachePool) gost" where
  "matchOrProvision sha256 env cfg =
     getOrCreatePool env
       (if kc_PoolName cfg = '''' then deterministicPoolName sha256 cfg else kc_PoolName cfg) cfg"

definition annotation :: "ResourceClaim \<Rightarrow> string" where
  "annotation rc = (case rc_Annotations rc of
     None \<Rightarrow> ''''
   | Some m \<Rightarrow> (case map_of m KVCachePoolClaimAnnotationKey of None \<Rightarrow> '''' | Some v \<Rightarrow> v))"

definition ClaimReconciler_Reconcile ::
  "(string \<Rightarrow> RuntimeObject go) \<Rightarrow> (string \<Rightarrow> string) \<Rightarrow> env \<Rightarrow> string \<times> string \<Rightarrow> (cluster, unit) gost" where
  "ClaimReconciler_Reconcile decode sha256 env nn c =
     (case api_GetClaim env 0 nn c of
        (Panic p, c0) \<Rightarrow> (Panic p, c0)
      | (Err e, c0) \<Rightarrow> (if IsNotFound e then Ok () else Err e, c0)
      | (Ok claim, c0) \<Rightarrow>
          (case decodeKVCachePoolConfig decode claim of
             Panic p \<Rightarrow> (Panic p, c0)
           | Err e \<Rightarrow> (Err e, c0)
           | Ok None \<Rightarrow> (Ok (), c0)
           | Ok (Some cfg) \<Rightarrow>
               if annotation claim \<noteq> '''' then (Ok (), c0)
               else (case matchOrProvision sha256 env cfg c0 of
                 (Panic p, c1) \<Rightarrow> (Panic p, c1)
               | (Err e, c1) \<Rightarrow> (Err e, c1)
               | (Ok pool, c1) \<Rightarrow> api_PatchClaim env 4 nn (kp_Name pool) c1)))"

section \<open>PoolReconciler (pool_reconciler.go)\<close>

definition kvcacheFinalizer :: string where
  "kvcacheFinalizer = ''kvcache.nvidia.com/pool-cleanup''"

record PoolReconciler =
  pr_Namespace :: string
  pr_LMCacheImage :: string
  pr_Port :: int

definition ensureLMCacheChildren :: "KVCachePool \<Rightarrow> unit go" where
  "ensureLMCacheChildren pool = Err (Errorf ''ensureLMCacheChildren not implemented'')"

definition deleteLMCacheChildren :: "KVCachePool \<Rightarrow> unit go" where
  "deleteLMCacheChildren pool = Err (Errorf ''deleteLMCacheChildren not implemented'')"

definition lmcacheReady :: "KVCachePool \<Rightarrow> bool go" where
  "lmcacheReady pool = Ok False"

definition pool_new_status :: "PoolReconciler \<Rightarrow> KVCachePool \<Rightarrow> bool \<Rightarrow> KVCachePoolStatus" where
  "pool_new_status r pool ready =
     (if ready then (kp_Status pool)
        \<lparr>kst_Status := KVCachePoolStatusReady,
         kst_Endpoint := ''lmcache-'' @ kp_Name pool @ ''.'' @ pr_Namespace r @
           ''.svc.cluster.local:'' @ show_int (pr_Port r)\<rparr>
      else (kp_Status pool)\<lparr>kst_Status := KVCachePoolStatusNotReady, kst_Endpoint := ''''\<rparr>)"

definition PoolReconciler_Reconcile :: "PoolReconciler \<Rightarrow> env \<Rightarrow> string \<Rightarrow> (cluster, unit) gost" where
  "PoolReconciler_Reconcile r env name c =
     (case api_GetPool env 0 name c of
        (Panic p, c0) \<Rightarrow> (Panic p, c0)
      | (Err e, c0) \<Rightarrow> (if IsNotFound e then Ok () else Err e, c0)
      | (Ok pool, c0) \<Rightarrow>
          if kp_Deleting pool then
            (case deleteLMCacheChildren pool of
               Panic p \<Rightarrow> (Panic p, c0)
             | Err e \<Rightarrow> (Err e, c0)
             | Ok _ \<Rightarrow>
                 if kvcacheFinalizer \<in> set (kp_Finalizers pool) then
                   api_UpdatePool env 1
                     (pool\<lparr>kp_Finalizers := removeAll kvcacheFinalizer (kp_Finalizers pool)\<rparr>) c0
                 else (Ok (), c0))
          else
            let add = kvcacheFinalizer \<notin> set (kp_Finalizers pool);
                pool1 = (if add then pool\<lparr>kp_Finalizers := kp_Finalizers pool @ [kvcacheFinalizer]\<rparr> else pool)
            in bind_st (if add then api_UpdatePool env 1 pool1 else ret_st ()) (\<lambda>_.
                 bind_st (lift_st (ensureLMCacheChildren pool1)) (\<lambda>_.
                   bind_st (lift_st (lmcacheReady pool1)) (\<lambda>ready.
                     let st = pool_new_status r pool1 ready
                     in if st = kp_Status pool1 then ret_st ()
                        else api_UpdatePool env 2 (pool1\<lparr>kp_Status := st\<rparr>)))) c0)"

definition poolForChild :: "(string, string) gomap \<Rightarrow> string list" where
  "poolForChild labels = (case map_of labels ''kvcache.nvidia.com/pool-name'' of
     None \<Rightarrow> [] | Some n \<Rightarrow> if n = '''' then [] else [n])"

section \<open>Lemmas\<close>

text \<open>Objects are stored under their own names, whatever the other clients do.\<close>

definition wf_cluster :: "cluster \<Rightarrow> bool" where
  "wf_cluster c \<longleftrightarrow> (\<forall>n p. map_of (cl_pools c) n = Some p \<longrightarrow> kp_Name p = n)"

definition wf_env :: "env \<Rightarrow> bool" where
  "wf_env env \<longleftrightarrow> (\<forall>k c. wf_cluster c \<longrightarrow> wf_cluster (snd (env k c)))"

lemma wf_quiet [simp]: "wf_env quiet"
  by (simp add: wf_env_def quiet_def)

lemmas api_defs = api_call_def api_GetPool_def api_CreatePool_def api_UpdatePool_def
  api_GetClaim_def api_PatchClaim_def get_obj_def

lemma api_GetPool_Ok:
  "api_GetPool env k n c = (Ok p, c') \<Longrightarrow> map_of (cl_pools c') n = Some p"
  by (auto simp: api_defs split: prod.splits option.splits)

lemma api_CreatePool_Ok:
  "api_CreatePool env k p c = (Ok u, c') \<Longrightarrow> map_of (cl_pools c') (kp_Name p) = Some p"
  by (auto simp: api_defs split: prod.splits option.splits if_splits)

lemma new_pool_matches [simp]: "poolMatchesConfig (new_pool n cfg) cfg"
  by (simp add: poolMatchesConfig_def new_pool_def)

lemma new_pool_name [simp]: "kp_Name (new_pool n cfg) = n"
  by (simp add: new_pool_def)

lemma getOrCreatePool_Ok:
  "getOrCreatePool env n cfg c = (Ok p, c') \<Longrightarrow>
     map_of (cl_pools c') n = Some p \<and> poolMatchesConfig p cfg"
  unfolding getOrCreatePool_def Let_def
  by (auto split: prod.splits go.splits if_splits dest: api_GetPool_Ok api_CreatePool_Ok)

lemma getOrCreatePool_quiet:
  "getOrCreatePool quiet n cfg c =
     (case map_of (cl_pools c) n of
        None \<Rightarrow> (Ok (new_pool n cfg),
                 c\<lparr>cl_pools := AList.update n (new_pool n cfg) (cl_pools c)\<rparr>)
      | Some p \<Rightarrow>
          if poolMatchesConfig p cfg then (Ok p, c)
          else (Err (TerminalError (Errorf ''KVCachePool exists but is incompatible with claim config'')), c))"
  by (simp add: getOrCreatePool_def api_defs quiet_def Let_def split: option.splits)

definition pool_name_of :: "(string \<Rightarrow> string) \<Rightarrow> KVCachePoolConfig \<Rightarrow> string" where
  "pool_name_of sha256 cfg =
     (if kc_PoolName cfg = '''' then deterministicPoolName sha256 cfg else kc_PoolName cfg)"

lemma annotation_set [simp]:
  "annotation (set_annotation KVCachePoolClaimAnnotationKey v rc) = v"
  by (simp add: annotation_def set_annotation_def)

lemma Reconcile_quiet:
  assumes "map_of (cl_claims c) nn = Some claim"
    and "decodeKVCachePoolConfig decode claim = Ok (Some cfg)" and "annotation claim = ''''"
  shows "ClaimReconciler_Reconcile decode sha256 quiet nn c =
    (case getOrCreatePool quiet (pool_name_of sha256 cfg) cfg c of
       (Ok pool, c1) \<Rightarrow> api_PatchClaim quiet 4 nn (kp_Name pool) c1
     | (Err e, c1) \<Rightarrow> (Err e, c1)
     | (Panic p, c1) \<Rightarrow> (Panic p, c1))"
  using assms
  by (simp add: ClaimReconciler_Reconcile_def api_GetClaim_def api_call_def quiet_def get_obj_def
      matchOrProvision_def pool_name_of_def cong: prod.case_cong)

text \<open>A separator that occurs in neither first part splits both sides alike.\<close>

lemma split_at_sep:
  "c \<notin> set xs \<Longrightarrow> c \<notin> set ys \<Longrightarrow> xs @ c # us = ys @ c # vs \<longleftrightarrow> xs = ys \<and> us = vs"
proof (induction xs arbitrary: ys)
  case Nil
  then show ?case by (cases ys) auto
next
  case (Cons x xs)
  then show ?case by (cases ys) auto
qed

lemma show_int_no_NUL [simp]: "NUL \<notin> set (show_int i)"
proof -
  have "\<not> is_digit NUL" by (simp add: is_digit_def NUL_def)
  then show ?thesis
    using show_nat_digits by (auto simp: show_int_def list_all_iff NUL_def)
qed

section \<open>Properties\<close>


definition example_cfg :: KVCachePoolConfig where
  "example_cfg = DefaultKVCachePoolConfig
     \<lparr>kc_PoolName := ''shared'', kc_CapacityBytes := 1024, kc_LatencyTier := KVCacheLatencyTierDRAM,
      kc_Engine := KVCacheEngineVLLM, kc_ModelFamily := ''llama'', kc_Dtype := ''fp16'',
      kc_BlockSizeTokens := 16\<rparr>"

text \<open>Another controller creates the pool right before our \<open>Create\<close>.\<close>

definition racing_env :: env where
  "racing_env k c =
     (None, if k = 2 then c\<lparr>cl_pools := AList.update ''shared'' (new_pool ''shared'' example_cfg) (cl_pools c)\<rparr>
            else c)"



definition example_claim :: ResourceClaim where
  "example_claim = \<lparr>rc_UID = ''u1'', rc_Name = ''claim'', rc_Namespace = ''default'',
     rc_Annotations = None,
     rc_SpecConfig = [\<lparr>dcc_Requests = [],
       dcc_Opaque = Some \<lparr>oc_Driver = kv_DriverName, oc_Parameters = ''cfg''\<rparr>\<rparr>],
     rc_Allocation = None\<rparr>"

definition example_decode :: "string \<Rightarrow> RuntimeObject go" where
  "example_decode s = (if s = ''cfg'' then Ok (KVCachePoolConfigObj example_cfg)
     else Err (Errorf ''unknown''))"


text \<open>Two configurations whose strings hold no NUL byte have the same hash input exactly when they
  agree on the five compatibility fields: claims share a generated pool only if they are
  compatible, up to collisions of the hash.\<close>

theorem pool_key_injective:
  assumes "\<forall>s \<in> {kc_Engine a, kc_ModelFamily a, kc_Dtype a, kc_Engine b, kc_ModelFamily b, kc_Dtype b}.
      NUL \<notin> set s"
  shows "pool_key a = pool_key b \<longleftrightarrow>
    (\<forall>pool. poolMatchesConfig pool a \<longleftrightarrow> poolMatchesConfig pool b)"
proof -
  have "(\<forall>pool. poolMatchesConfig pool a \<longleftrightarrow> poolMatchesConfig pool b) \<longleftrightarrow>
      kc_Engine a = kc_Engine b \<and> kc_ModelFamily a = kc_ModelFamily b \<and> kc_Dtype a = kc_Dtype b \<and>
      kc_BlockSizeTokens a = kc_BlockSizeTokens b \<and> kc_LatencyTier a = kc_LatencyTier b"
    (is "?all \<longleftrightarrow> ?same")
  proof
    assume ?all
    then have "poolMatchesConfig (new_pool ''p'' a) b"
      using new_pool_matches by blast
    then show ?same by (simp add: poolMatchesConfig_def new_pool_def)
  qed (simp add: poolMatchesConfig_def)
  moreover have "pool_key a = pool_key b \<longleftrightarrow>
      kc_Engine a = kc_Engine b \<and> kc_ModelFamily a = kc_ModelFamily b \<and> kc_Dtype a = kc_Dtype b \<and>
      kc_BlockSizeTokens a = kc_BlockSizeTokens b \<and> kc_LatencyTier a = kc_LatencyTier b"
    using assms by (simp add: pool_key_def split_at_sep)
  ultimately show ?thesis by simp
qed

theorem pool_key_injective_witness:
  "pool_key example_cfg \<noteq> pool_key (example_cfg\<lparr>kc_Dtype := ''fp8''\<rparr>)"
proof -
  let ?b = "example_cfg\<lparr>kc_Dtype := ''fp8''\<rparr>"
  have "poolMatchesConfig (new_pool ''p'' example_cfg) example_cfg"
    "\<not> poolMatchesConfig (new_pool ''p'' example_cfg) ?b" by code_simp+
  moreover have "\<forall>s \<in> {kc_Engine example_cfg, kc_ModelFamily example_cfg, kc_Dtype example_cfg,
      kc_Engine ?b, kc_ModelFamily ?b, kc_Dtype ?b}. NUL \<notin> set s"
    by (simp add: example_cfg_def NUL_def kv_const_defs)
  ultimately show ?thesis
    using pool_key_injective [of example_cfg ?b] by metis
qed

text \<open>The pool reconciler as it stands never reports success for a pool that exists: its steps
  for the data plane are not implemented. It never changes a pool's status, so no pool becomes
  ready, and it never takes the cleanup finalizer away.\<close>

theorem pool_reconciler_never_ready:
  assumes "map_of (cl_pools c) name = Some pool" and "wf_cluster c"
  shows "\<exists>e c' pool'. PoolReconciler_Reconcile r quiet name c = (Err e, c') \<and>
    map_of (cl_pools c') name = Some pool' \<and> kp_Status pool' = kp_Status pool \<and>
    set (kp_Finalizers pool) \<subseteq> set (kp_Finalizers pool')"
proof -
  from assms have [simp]: "kp_Name pool = name" by (simp add: wf_cluster_def)
  show ?thesis
    using assms(1)
    by (auto simp: PoolReconciler_Reconcile_def api_defs quiet_def deleteLMCacheChildren_def
        ensureLMCacheChildren_def Let_def bind_st_def lift_st_def ret_st_def)
qed

theorem pool_reconciler_never_ready_witness:
  "\<exists>e c'. PoolReconciler_Reconcile \<lparr>pr_Namespace = ''ns'', pr_LMCacheImage = ''img'', pr_Port = 0\<rparr> quiet ''shared''
     \<lparr>cl_pools = [(''shared'', new_pool ''shared'' example_cfg)], cl_claims = []\<rparr> = (Err e, c')"
proof -
  let ?c = "\<lparr>cl_pools = [(''shared'', new_pool ''shared'' example_cfg)], cl_claims = []\<rparr>"
  have "map_of (cl_pools ?c) ''shared'' = Some (new_pool ''shared'' example_cfg)" "wf_cluster ?c"
    by (simp_all add: wf_cluster_def)
  from pool_reconciler_never_ready [OF this] show ?thesis by blast
qed

text \<open>The NUL separator does not protect against NUL bytes inside the fields, which validation
  accepts: two valid configurations no pool serves at once get the same generated pool name,
  for every hash function.\<close>

theorem pool_name_collision:
  "\<exists>a b. KVCachePoolConfig_Validate a = Ok () \<and> KVCachePoolConfig_Validate b = Ok () \<and>
     (\<forall>sha256. deterministicPoolName sha256 a = deterministicPoolName sha256 b) \<and>
     \<not> (\<exists>pool. poolMatchesConfig pool a \<and> poolMatchesConfig pool b)"
proof -
  let ?a = "example_cfg\<lparr>kc_PoolName := '''', kc_ModelFamily := ''m'' @ [NUL] @ ''x'', kc_Dtype := ''y''\<rparr>"
  let ?b = "example_cfg\<lparr>kc_PoolName := '''', kc_ModelFamily := ''m'', kc_Dtype := ''x'' @ [NUL] @ ''y''\<rparr>"
  have "KVCachePoolConfig_Validate ?a = Ok ()" "KVCachePoolConfig_Validate ?b = Ok ()"
    by code_simp+
  moreover have "deterministicPoolName sha ?a = deterministicPoolName sha ?b" for sha
    by (simp add: deterministicPoolName_def pool_key_def)
  moreover have "\<not> (\<exists>pool. poolMatchesConfig pool ?a \<and> poolMatchesConfig pool ?b)"
    by (auto simp: poolMatchesConfig_def)
  ultimately show ?thesis by blast
qed

end
