(* ===== verification/Kvcache_Plugin.thy ===== *)
theory Kvcache_Plugin
  imports Kvcache_Controller
begin

text \<open>
  The KV cache kubelet plugin (\<open>cmd/kvcache-kubelet-plugin\<close>): preparing a claim resolves the pool the
  controller bound it to and writes a CDI spec file that injects the pool's endpoint into the
  containers; unpreparing removes the file.

  The state is the directory of CDI spec files, by name. The CDI library is the parameter \<open>cdi_lib\<close>:
  the minimum version it computes and whether it refuses to write or remove a file (invalid
  spec, I/O error). A refused write leaves the directory alone. The API server's answer to
  \<open>Get KVCachePool\<close> is the parameter \<open>getPool\<close>, and the outcome of acquiring the lock file is
  \<open>lock\<close>.
\<close>

section \<open>Prepared devices (types.go)\<close>

record PreparedKVCacheSlice =
  sl_KVCachePoolName :: string
  sl_SliceName :: string
  sl_KVCacheEndpoint :: string
  sl_KVCacheTransport :: string
  sl_CapacityBytes :: int
  sl_Requests :: "string list"
  sl_PoolName :: string
  sl_DeviceName :: string
  sl_CDIDeviceIDs :: "string list"

text \<open>A slice of pointers that may be nil.\<close>

type_synonym PreparedDevices = "PreparedKVCacheSlice option list"

fun kv_GetDevices :: "PreparedDevices \<Rightarrow> kubelet_Device list" where
  "kv_GetDevices [] = []"
| "kv_GetDevices (None # ds) = kv_GetDevices ds"
| "kv_GetDevices (Some s # ds) =
     \<lparr>kd_Requests = sl_Requests s, kd_PoolName = sl_PoolName s, kd_DeviceName = sl_DeviceName s,
      kd_CDIDeviceIDs = sl_CDIDeviceIDs s, kd_Metadata = None\<rparr> # kv_GetDevices ds"

section \<open>CDI spec files (cdi.go)\<close>

record cdi_Device =
  cd_Name :: string
  cd_Env :: "string list"

record cdi_Spec =
  cs_Version :: string
  cs_Kind :: string
  cs_Devices :: "cdi_Device list"

type_synonym cdi_files = "(string, cdi_Spec) gomap"

record cdi_lib =
  lib_MinimumRequiredVersion :: "cdi_Spec \<Rightarrow> string go"
  lib_WriteRefused :: "string \<Rightarrow> cdi_Spec \<Rightarrow> goerr option"
  lib_RemoveRefused :: "string \<Rightarrow> goerr option"

record CDIHandler =
  ch_vendor :: string
  ch_claimClass :: string
  ch_lib :: cdi_lib

definition cdiVendor :: string where "cdiVendor = ''k8s.'' @ kv_DriverName"
definition cdiClaimClass :: string where "cdiClaimClass = ''claim''"
definition cdiClaimKind :: string where "cdiClaimKind = cdiVendor @ ''/'' @ cdiClaimClass"
definition defaultKVCacheTransport :: string where "defaultKVCacheTransport = ''tcp''"

definition cdi_QualifiedName :: "string \<Rightarrow> string \<Rightarrow> string \<Rightarrow> string" where
  "cdi_QualifiedName vendor cls name = vendor @ ''/'' @ cls @ ''='' @ name"

definition cdi_GenerateTransientSpecName :: "string \<Rightarrow> string \<Rightarrow> string \<Rightarrow> string" where
  "cdi_GenerateTransientSpecName vendor cls tid =
     vendor @ ''-'' @ cls @ ''_'' @ map (\<lambda>c. if c = CHR ''/'' then CHR ''_'' else c) tid"

definition cdi_WriteSpec :: "CDIHandler \<Rightarrow> cdi_Spec \<Rightarrow> string \<Rightarrow> (cdi_files, unit) gost" where
  "cdi_WriteSpec h spec name files =
     (case lib_WriteRefused (ch_lib h) name spec of
        Some e \<Rightarrow> (Err e, files)
      | None \<Rightarrow> (Ok (), AList.update name spec files))"

definition cdi_RemoveSpec :: "CDIHandler \<Rightarrow> string \<Rightarrow> (cdi_files, unit) gost" where
  "cdi_RemoveSpec h name files =
     (case lib_RemoveRefused (ch_lib h) name of
        Some e \<Rightarrow> (Err e, files)
      | None \<Rightarrow> (Ok (), AList.delete name files))"

text \<open>\<open>NewCDIHandler\<close>: options first, then defaults for what is empty.\<close>

definition NewCDIHandler :: "cdi_lib \<Rightarrow> string \<Rightarrow> string \<Rightarrow> CDIHandler" where
  "NewCDIHandler lib vendor cls =
     \<lparr>ch_vendor = (if vendor = '''' then cdiVendor else vendor),
      ch_claimClass = (if cls = '''' then cdiClaimClass else cls), ch_lib = lib\<rparr>"

definition cdiEnvForSlice :: "PreparedKVCacheSlice \<Rightarrow> string list" where
  "cdiEnvForSlice s =
     (let transport = (if sl_KVCacheTransport s = '''' then defaultKVCacheTransport
                       else sl_KVCacheTransport s)
      in [''KVCACHE_POOL_ID='' @ sl_KVCachePoolName s,
          ''KVCACHE_SLICE_NAME='' @ sl_SliceName s,
          ''KVCACHE_ENDPOINT='' @ sl_KVCacheEndpoint s,
          ''KVCACHE_TRANSPORT='' @ transport])"

fun device_specs :: "string \<Rightarrow> PreparedDevices \<Rightarrow> cdi_Device list" where
  "device_specs claimUID [] = []"
| "device_specs claimUID (None # ds) = device_specs claimUID ds"
| "device_specs claimUID (Some s # ds) =
     \<lparr>cd_Name = claimUID @ ''-'' @ sl_SliceName s, cd_Env = cdiEnvForSlice s\<rparr> # device_specs claimUID ds"

definition kv_CreateClaimSpecFile ::
  "CDIHandler \<Rightarrow> string \<Rightarrow> PreparedDevices \<Rightarrow> (cdi_files, unit) gost" where
  "kv_CreateClaimSpecFile h claimUID devices =
     (let specs = device_specs claimUID devices
      in if specs = [] then ret_st ()
         else
           let raw = \<lparr>cs_Version = ''0.6.0'', cs_Kind = cdiClaimKind, cs_Devices = specs\<rparr>
           in bind_st (lift_st (wrap_go (Wrapf ''failed to get minimum CDI spec version'')
                         (lib_MinimumRequiredVersion (ch_lib h) raw))) (\<lambda>minVersion.
                cdi_WriteSpec h (raw\<lparr>cs_Version := minVersion\<rparr>)
                  (cdi_GenerateTransientSpecName (ch_vendor h) (ch_claimClass h) claimUID)))"

definition kv_DeleteClaimSpecFileIfExists :: "CDIHandler \<Rightarrow> string \<Rightarrow> (cdi_files, unit) gost" where
  "kv_DeleteClaimSpecFileIfExists h claimUID =
     cdi_RemoveSpec h (cdi_GenerateTransientSpecName (ch_vendor h) (ch_claimClass h) claimUID)"

definition kv_GetClaimDevice :: "CDIHandler \<Rightarrow> string \<Rightarrow> PreparedKVCacheSlice option \<Rightarrow> string" where
  "kv_GetClaimDevice h claimUID s = (case s of
     None \<Rightarrow> ''''
   | Some s \<Rightarrow> cdi_QualifiedName (ch_vendor h) (ch_claimClass h) (claimUID @ ''-'' @ sl_SliceName s))"

section \<open>Device state (device_state.go)\<close>

definition resolveKVCachePool ::
  "(string \<Rightarrow> KVCachePool go) \<Rightarrow> ResourceClaim \<Rightarrow> KVCachePoolConfig \<Rightarrow>
   (KVCachePoolConfig \<times> KVCachePool) go" where
  "resolveKVCachePool getPool claim cfg =
     bind_go (wrap_go (\<lambda>e. PermanentError (Wrapf ''normalize KVCachePoolConfig'' e))
                (KVCachePoolConfig_Normalize cfg)) (\<lambda>cfg.
       bind_go (wrap_go (\<lambda>e. PermanentError (Wrapf ''invalid KVCachePoolConfig'' e))
                  (KVCachePoolConfig_Validate cfg)) (\<lambda>_.
         bind_go (ResolvedPoolName cfg (rc_Annotations claim)) (\<lambda>poolName.
           bind_go (wrap_go (\<lambda>e.
                      if IsNotFound e then
                        (if kc_PoolName cfg \<noteq> '''' then PermanentError (Wrapf ''KVCachePool not found'' e)
                         else Wrapf ''KVCachePool not found (provision may be in progress)'' e)
                      else Wrapf ''get KVCachePool'' e) (getPool poolName)) (\<lambda>pool.
             Ok (cfg, pool)))))"

definition validatePoolReady :: "KVCachePool \<Rightarrow> unit go" where
  "validatePoolReady pool =
     (if kst_Status (kp_Status pool) \<noteq> KVCachePoolStatusReady then Err (Errorf ''KVCachePool is not ready'')
      else if kst_Endpoint (kp_Status pool) = '''' then Err (Errorf ''KVCachePool has no status.endpoint'')
      else Ok ())"

definition transportForTier :: "string \<Rightarrow> string" where
  "transportForTier tier =
     (let tier = (if tier = '''' then KVCacheLatencyTierDRAM else tier)
      in if tier = KVCacheLatencyTierDRAM then defaultKVCacheTransport else defaultKVCacheTransport)"

text \<open>The loop over the configurations with its \<open>break\<close>.\<close>

fun first_kv_config :: "OpaqueDeviceConfig list \<Rightarrow> (KVCachePoolConfig \<times> string list) option" where
  "first_kv_config [] = None"
| "first_kv_config (c # cs) = (case odc_Config c of
     KVCachePoolConfigObj cfg \<Rightarrow> Some (cfg, odc_Requests c)
   | _ \<Rightarrow> first_kv_config cs)"

definition new_slice ::
  "ResourceClaim \<Rightarrow> KVCachePoolConfig \<Rightarrow> string list \<Rightarrow> KVCachePool \<Rightarrow> DeviceRequestAllocationResult \<Rightarrow>
   PreparedKVCacheSlice" where
  "new_slice claim cfg requests pool r =
     \<lparr>sl_KVCachePoolName = kp_Name pool, sl_SliceName = rc_UID claim @ ''-'' @ dr_Device r,
      sl_KVCacheEndpoint = kst_Endpoint (kp_Status pool),
      sl_KVCacheTransport = transportForTier (ks_LatencyTier (kp_Spec pool)),
      sl_CapacityBytes = kc_CapacityBytes cfg, sl_Requests = requests,
      sl_PoolName = dr_Pool r, sl_DeviceName = dr_Device r, sl_CDIDeviceIDs = []\<rparr>"

definition kv_prepareDevices ::
  "(string \<Rightarrow> RuntimeObject go) \<Rightarrow> (string \<Rightarrow> KVCachePool go) \<Rightarrow> CDIHandler \<Rightarrow> ResourceClaim \<Rightarrow>
   AllocationResult \<Rightarrow> PreparedDevices go" where
  "kv_prepareDevices decode getPool h claim al =
     bind_go (wrap_go (Wrapf ''error getting opaque device configs'')
                (kv_GetOpaqueDeviceConfigs decode kv_DriverName (al_Config al))) (\<lambda>configs.
       case first_kv_config configs of
         None \<Rightarrow> Err (PermanentError (Errorf ''no KVCachePoolConfig found in claim''))
       | Some (cfg, requests) \<Rightarrow>
           bind_go (resolveKVCachePool getPool claim cfg) (\<lambda>(cfg, pool).
             bind_go (validatePoolReady pool) (\<lambda>_.
               let slices = map (new_slice claim cfg requests pool)
                              (filter (\<lambda>r. dr_Driver r = kv_DriverName) (al_Results al))
               in if slices = [] then Err (Errorf ''no allocation results for driver in claim'')
                  else Ok (map (\<lambda>s. Some (s\<lparr>sl_CDIDeviceIDs :=
                                [kv_GetClaimDevice h (rc_UID claim) (Some s)]\<rparr>)) slices))))"

definition kv_Prepare ::
  "(string \<Rightarrow> RuntimeObject go) \<Rightarrow> (string \<Rightarrow> KVCachePool go) \<Rightarrow> CDIHandler \<Rightarrow> ResourceClaim \<Rightarrow>
   (cdi_files, kubelet_Device list) gost" where
  "kv_Prepare decode getPool h claim =
     (case rc_Allocation claim of
        None \<Rightarrow> err_st (Errorf ''no allocation set in ResourceClaim'')
      | Some al \<Rightarrow>
          bind_st (lift_st (wrap_go (Wrapf ''prepare devices failed'')
                     (kv_prepareDevices decode getPool h claim al))) (\<lambda>devices.
            bind_st (wrap_st (Wrapf ''unable to create CDI spec file for claim'')
                       (kv_CreateClaimSpecFile h (rc_UID claim) devices)) (\<lambda>_.
              ret_st (kv_GetDevices devices))))"

definition kv_Unprepare :: "CDIHandler \<Rightarrow> NamespacedObject \<Rightarrow> (cdi_files, unit) gost" where
  "kv_Unprepare h ref =
     wrap_st (Wrapf ''unable to delete CDI spec file for claim'')
       (kv_DeleteClaimSpecFileIfExists h (no_UID ref))"

section \<open>Request handlers (driver.go)\<close>

text \<open>The boolean says whether the work is done; metrics and logging are left out. The result of a
  claim is its devices or an error.\<close>

definition kv_nodePrepareResource ::
  "goerr option \<Rightarrow> (string \<Rightarrow> RuntimeObject go) \<Rightarrow> (string \<Rightarrow> KVCachePool go) \<Rightarrow> CDIHandler \<Rightarrow> ResourceClaim \<Rightarrow>
   cdi_files \<Rightarrow> (bool \<times> kubelet_Device list go) \<times> cdi_files" where
  "kv_nodePrepareResource lock decode getPool h claim files =
     (case lock of
        Some e \<Rightarrow> ((False, Err (Wrapf ''error acquiring prep/unprep lock'' e)), files)
      | None \<Rightarrow>
          if rc_Allocation claim = None then ((True, Err (Errorf ''no allocation set in ResourceClaim'')), files)
          else (case kv_Prepare decode getPool h claim files of
            (Ok devs, files') \<Rightarrow> ((True, Ok devs), files')
          | (Err e, files') \<Rightarrow> ((isPermanentError e, Err (Wrapf ''error preparing devices for claim'' e)), files')
          | (Panic p, files') \<Rightarrow> ((True, Panic p), files')))"

definition kv_nodeUnprepareResource ::
  "goerr option \<Rightarrow> CDIHandler \<Rightarrow> NamespacedObject \<Rightarrow> cdi_files \<Rightarrow> (bool \<times> unit go) \<times> cdi_files" where
  "kv_nodeUnprepareResource lock h ref files =
     (case lock of
        Some e \<Rightarrow> ((False, Err (Wrapf ''error acquiring prep/unprep lock'' e)), files)
      | None \<Rightarrow>
          (case kv_Unprepare h ref files of
            (Ok u, files') \<Rightarrow> ((True, Ok u), files')
          | (Err e, files') \<Rightarrow> ((isPermanentError e, Err (Wrapf ''error unpreparing devices for claim'' e)), files')
          | (Panic p, files') \<Rightarrow> ((True, Panic p), files')))"

fun kv_PrepareResourceClaims ::
  "(string \<Rightarrow> goerr option) \<Rightarrow> (string \<Rightarrow> RuntimeObject go) \<Rightarrow> (string \<Rightarrow> KVCachePool go) \<Rightarrow> CDIHandler \<Rightarrow>
   ResourceClaim list \<Rightarrow> (string, kubelet_Device list go) gomap \<Rightarrow> cdi_files \<Rightarrow>
   (string, kubelet_Device list go) gomap \<times> cdi_files" where
  "kv_PrepareResourceClaims lock decode getPool h [] results files = (results, files)"
| "kv_PrepareResourceClaims lock decode getPool h (c # cs) results files =
     (case kv_nodePrepareResource (lock (rc_UID c)) decode getPool h c files of
        ((_, res), files') \<Rightarrow>
          kv_PrepareResourceClaims lock decode getPool h cs (AList.update (rc_UID c) res results) files')"

fun kv_UnprepareResourceClaims ::
  "(string \<Rightarrow> goerr option) \<Rightarrow> CDIHandler \<Rightarrow> NamespacedObject list \<Rightarrow> (string, unit go) gomap \<Rightarrow> cdi_files \<Rightarrow>
   (string, unit go) gomap \<times> cdi_files" where
  "kv_UnprepareResourceClaims lock h [] results files = (results, files)"
| "kv_UnprepareResourceClaims lock h (c # cs) results files =
     (case kv_nodeUnprepareResource (lock (no_UID c)) h c files of
        ((_, res), files') \<Rightarrow>
          kv_UnprepareResourceClaims lock h cs (AList.update (no_UID c) res results) files')"

text \<open>The published devices: one pool named like the node with one slice; \<open>make\<close> panics on a negative
  count.\<close>

definition kv_generateDriverResources :: "string \<Rightarrow> int \<Rightarrow> (string \<times> string list list) list go" where
  "kv_generateDriverResources nodeName slotsPerNode =
     (if slotsPerNode < 0 then Panic ''makeslice: len out of range''
      else Ok [(nodeName, [map (\<lambda>i. ''kvcache-slot'' @ ''-'' @ show_nat i) [0..<nat slotsPerNode]])])"

section \<open>Lemmas\<close>

definition claim_spec_name :: "CDIHandler \<Rightarrow> string \<Rightarrow> string" where
  "claim_spec_name h uid = cdi_GenerateTransientSpecName (ch_vendor h) (ch_claimClass h) uid"

lemma device_specs_Some:
  "device_specs uid (map Some ss) =
     map (\<lambda>s. \<lparr>cd_Name = uid @ ''-'' @ sl_SliceName s, cd_Env = cdiEnvForSlice s\<rparr>) ss"
  by (induction ss) auto

lemma GetDevices_Some:
  "kv_GetDevices (map Some ss) =
     map (\<lambda>s. \<lparr>kd_Requests = sl_Requests s, kd_PoolName = sl_PoolName s,
                kd_DeviceName = sl_DeviceName s, kd_CDIDeviceIDs = sl_CDIDeviceIDs s, kd_Metadata = None\<rparr>) ss"
  by (induction ss) auto

lemma validatePoolReady_Ok:
  "validatePoolReady pool = Ok u \<longleftrightarrow>
     kst_Status (kp_Status pool) = KVCachePoolStatusReady \<and> kst_Endpoint (kp_Status pool) \<noteq> ''''"
  by (simp add: validatePoolReady_def)

lemma WriteSpec_Ok:
  "cdi_WriteSpec h spec name files = (Ok u, files') \<longleftrightarrow>
     lib_WriteRefused (ch_lib h) name spec = None \<and> files' = AList.update name spec files"
  by (auto simp: cdi_WriteSpec_def split: option.splits)

lemma CreateClaimSpecFile_Ok:
  "kv_CreateClaimSpecFile h uid devices files = (Ok u, files') \<Longrightarrow> device_specs uid devices \<noteq> [] \<Longrightarrow>
     \<exists>v. files' = AList.update (claim_spec_name h uid)
        \<lparr>cs_Version = v, cs_Kind = cdiClaimKind, cs_Devices = device_specs uid devices\<rparr> files"
  by (auto simp: kv_CreateClaimSpecFile_def claim_spec_name_def Let_def bind_st_eq_Ok lift_st_def
      WriteSpec_Ok)

lemma CreateClaimSpecFile_fails:
  "kv_CreateClaimSpecFile h uid devices files = (r, files') \<Longrightarrow> \<not> is_ok r \<Longrightarrow> files' = files"
  by (auto simp: kv_CreateClaimSpecFile_def Let_def bind_st_def lift_st_def cdi_WriteSpec_def
      ret_st_def split: go.splits option.splits if_splits)

text \<open>The slices of a claim, with their CDI names filled in.\<close>

definition claim_slices ::
  "CDIHandler \<Rightarrow> ResourceClaim \<Rightarrow> KVCachePoolConfig \<Rightarrow> string list \<Rightarrow> KVCachePool \<Rightarrow> AllocationResult \<Rightarrow>
   PreparedKVCacheSlice list" where
  "claim_slices h claim cfg requests pool al =
     map (\<lambda>r. let s = new_slice claim cfg requests pool r
              in s\<lparr>sl_CDIDeviceIDs := [kv_GetClaimDevice h (rc_UID claim) (Some s)]\<rparr>)
       (filter (\<lambda>r. dr_Driver r = kv_DriverName) (al_Results al))"

lemma prepareDevices_Ok:
  "kv_prepareDevices decode getPool h claim al = Ok ds \<Longrightarrow>
     (\<exists>configs cfg0 requests cfg pool.
        kv_GetOpaqueDeviceConfigs decode kv_DriverName (al_Config al) = Ok configs \<and>
        first_kv_config configs = Some (cfg0, requests) \<and>
        resolveKVCachePool getPool claim cfg0 = Ok (cfg, pool) \<and>
        validatePoolReady pool = Ok () \<and>
        filter (\<lambda>r. dr_Driver r = kv_DriverName) (al_Results al) \<noteq> [] \<and>
        ds = map Some (claim_slices h claim cfg requests pool al))"
  by (auto simp: kv_prepareDevices_def claim_slices_def Let_def comp_def filter_empty_conv
      split: option.splits prod.splits if_splits)

lemma resolve_Ok:
  "resolveKVCachePool getPool claim cfg0 = Ok (cfg, pool) \<longleftrightarrow>
     KVCachePoolConfig_Normalize cfg0 = Ok cfg \<and> KVCachePoolConfig_Validate cfg = Ok () \<and>
     (\<exists>name. ResolvedPoolName cfg (rc_Annotations claim) = Ok name \<and> getPool name = Ok pool)"
  by (auto simp: resolveKVCachePool_def)

lemma Prepare_Ok:
  "kv_Prepare decode getPool h claim files = (Ok devs, files') \<longleftrightarrow>
     (\<exists>al ds. rc_Allocation claim = Some al \<and> kv_prepareDevices decode getPool h claim al = Ok ds \<and>
        kv_CreateClaimSpecFile h (rc_UID claim) ds files = (Ok (), files') \<and> devs = kv_GetDevices ds)"
  by (auto simp: kv_Prepare_def bind_st_eq_Ok wrap_st_eq_Ok lift_st_def ret_st_def err_st_def
      split: option.splits)

lemma Prepare_other_files:
  "name \<noteq> claim_spec_name h (rc_UID claim) \<Longrightarrow>
     map_of (snd (kv_Prepare decode getPool h claim files)) name = map_of files name"
  by (auto simp: kv_Prepare_def kv_CreateClaimSpecFile_def claim_spec_name_def Let_def bind_st_def
      wrap_st_def lift_st_def ret_st_def err_st_def cdi_WriteSpec_def update_conv'
      split: option.splits go.splits prod.splits)

lemma Prepare_fails:
  assumes "\<not> is_ok (fst (kv_Prepare decode getPool h claim files))"
  shows "snd (kv_Prepare decode getPool h claim files) = files"
proof (cases "rc_Allocation claim")
  case None
  then show ?thesis by (simp add: kv_Prepare_def err_st_def)
next
  case (Some al)
  show ?thesis
  proof (cases "kv_prepareDevices decode getPool h claim al")
    case (Ok ds)
    obtain r files' where r: "kv_CreateClaimSpecFile h (rc_UID claim) ds files = (r, files')"
      by fastforce
    with Some Ok assms have "\<not> is_ok r"
      by (cases r) (auto simp: kv_Prepare_def bind_st_def wrap_st_def lift_st_def ret_st_def)
    with r Some Ok CreateClaimSpecFile_fails [OF r] show ?thesis
      by (cases r) (auto simp: kv_Prepare_def bind_st_def wrap_st_def lift_st_def ret_st_def)
  qed (simp_all add: Some kv_Prepare_def bind_st_def lift_st_def)
qed

section \<open>Properties\<close>

text \<open>The device's CDI name is the entry's, and the entry carries the pool's name and endpoint.\<close>

definition entry_exposes :: "CDIHandler \<Rightarrow> KVCachePool \<Rightarrow> kubelet_Device \<Rightarrow> cdi_Device \<Rightarrow> bool" where
  "entry_exposes h pool d entry \<longleftrightarrow>
     kd_CDIDeviceIDs d = [cdi_QualifiedName (ch_vendor h) (ch_claimClass h) (cd_Name entry)] \<and>
     ''KVCACHE_POOL_ID='' @ kp_Name pool \<in> set (cd_Env entry) \<and>
     ''KVCACHE_ENDPOINT='' @ kst_Endpoint (kp_Status pool) \<in> set (cd_Env entry)"

text \<open>C1. A prepared claim reaches its pool: there is a ready pool of the cluster with an endpoint such that the
  returned devices are exactly the claim's allocation results for this driver, in order, and
  each has one CDI device, which the claim's spec file defines with the pool's name and endpoint
  in its environment. No other spec file changes.\<close>

theorem kv_prepare_exposes_pool:
  assumes "kv_Prepare decode getPool h claim files = (Ok devs, files')"
  shows "\<exists>al pool spec.
    rc_Allocation claim = Some al \<and> (\<exists>name. getPool name = Ok pool) \<and>
    kst_Status (kp_Status pool) = KVCachePoolStatusReady \<and> kst_Endpoint (kp_Status pool) \<noteq> '''' \<and>
    devs \<noteq> [] \<and>
    map kd_DeviceName devs = map dr_Device (filter (\<lambda>r. dr_Driver r = kv_DriverName) (al_Results al)) \<and>
    map_of files' (claim_spec_name h (rc_UID claim)) = Some spec \<and>
    list_all2 (entry_exposes h pool) devs (cs_Devices spec) \<and>
    (\<forall>name. name \<noteq> claim_spec_name h (rc_UID claim) \<longrightarrow> map_of files' name = map_of files name)"
proof -
  from assms obtain al ds where al: "rc_Allocation claim = Some al"
    and ds: "kv_prepareDevices decode getPool h claim al = Ok ds"
    and written: "kv_CreateClaimSpecFile h (rc_UID claim) ds files = (Ok (), files')"
    and devs: "devs = kv_GetDevices ds"
    by (auto simp: Prepare_Ok)
  from prepareDevices_Ok [OF ds] obtain cfg0 cfg requests pool where
    res: "resolveKVCachePool getPool claim cfg0 = Ok (cfg, pool)" and
    ready: "validatePoolReady pool = Ok ()" and
    some: "filter (\<lambda>r. dr_Driver r = kv_DriverName) (al_Results al) \<noteq> []" and
    slices: "ds = map Some (claim_slices h claim cfg requests pool al)"
    by blast
  have got: "\<exists>name. getPool name = Ok pool" using res by (auto simp: resolve_Ok)
  let ?ss = "claim_slices h claim cfg requests pool al"
  have ne: "?ss \<noteq> []" using some by (simp add: claim_slices_def)
  from CreateClaimSpecFile_Ok [OF written] ne obtain v where files':
    "files' = AList.update (claim_spec_name h (rc_UID claim))
       \<lparr>cs_Version = v, cs_Kind = cdiClaimKind, cs_Devices = device_specs (rc_UID claim) ds\<rparr> files"
    by (auto simp: slices device_specs_Some)
  have names: "map kd_DeviceName devs = map dr_Device (filter (\<lambda>r. dr_Driver r = kv_DriverName) (al_Results al))"
    unfolding devs slices GetDevices_Some by (simp add: claim_slices_def new_slice_def Let_def comp_def)
  have entries: "list_all2 (entry_exposes h pool) devs (device_specs (rc_UID claim) ds)"
    unfolding devs slices GetDevices_Some device_specs_Some
    by (simp add: entry_exposes_def list_all2_map1 list_all2_map2 claim_slices_def new_slice_def Let_def comp_def kv_GetClaimDevice_def cdiEnvForSlice_def
        list.rel_refl)
  have "devs \<noteq> []" using ne by (simp add: devs slices GetDevices_Some)
  with al got ready names entries show ?thesis
    by (auto simp: files' validatePoolReady_Ok)
qed

definition good_lib :: cdi_lib where
  "good_lib = \<lparr>lib_MinimumRequiredVersion = (\<lambda>_. Ok ''0.3.0''), lib_WriteRefused = (\<lambda>_ _. None),
     lib_RemoveRefused = (\<lambda>_. None)\<rparr>"

definition ready_pool :: "string \<Rightarrow> KVCachePool" where
  "ready_pool name = (new_pool name example_cfg)\<lparr>kp_Status :=
     \<lparr>kst_Status = KVCachePoolStatusReady, kst_Endpoint = name @ '':1234'', kst_AllocatedBytes = 0\<rparr>\<rparr>"

definition allocated_claim :: ResourceClaim where
  "allocated_claim = example_claim\<lparr>rc_Allocation := Some
     \<lparr>al_Results = [\<lparr>dr_Request = ''r'', dr_Driver = kv_DriverName, dr_Pool = ''node'',
                      dr_Device = ''kvcache-slot-0'', dr_AdminAccess = None\<rparr>],
      al_Config = [\<lparr>dac_Source = AllocationConfigSourceClaim, dac_Requests = [],
                     dac_Opaque = Some \<lparr>oc_Driver = kv_DriverName, oc_Parameters = ''cfg''\<rparr>\<rparr>]\<rparr>\<rparr>"

theorem kv_prepare_exposes_pool_witness:
  "\<exists>devs files'. kv_Prepare example_decode (\<lambda>n. Ok (ready_pool n)) (NewCDIHandler good_lib '''' '''')
       allocated_claim [] = (Ok devs, files') \<and> map kd_DeviceName devs = [''kvcache-slot-0''] \<and>
     map_of files' (claim_spec_name (NewCDIHandler good_lib '''' '''') ''u1'') \<noteq> None"
proof -
  let ?h = "NewCDIHandler good_lib '''' ''''"
  let ?r = "kv_Prepare example_decode (\<lambda>n. Ok (ready_pool n)) ?h allocated_claim []"
  have "is_ok (fst ?r)" by code_simp
  then obtain devs files' where r: "?r = (Ok devs, files')"
    by (metis is_ok_iff prod.collapse)
  have uid: "rc_UID allocated_claim = ''u1''" by code_simp
  have names: "map dr_Device (filter (\<lambda>r. dr_Driver r = kv_DriverName)
      (al_Results (the (rc_Allocation allocated_claim)))) = [''kvcache-slot-0'']" by code_simp
  from kv_prepare_exposes_pool [OF r] uid names r show ?thesis by auto
qed

text \<open>C14. Preparing is all or nothing, and unpreparing undoes it: a claim that cannot be prepared leaves
  every CDI file as it was, and after a prepared claim that had no file before is unprepared,
  the files are what they were.\<close>

theorem kv_unprepare_undoes_prepare:
  assumes "no_UID ref = rc_UID claim"
    and "\<forall>name. lib_RemoveRefused (ch_lib h) name = None"
    and "map_of files (claim_spec_name h (rc_UID claim)) = None"
  shows "case kv_Prepare decode getPool h claim files of
      (r, files') \<Rightarrow>
        (\<not> is_ok r \<longrightarrow> files' = files) \<and>
        (\<exists>files''. kv_Unprepare h ref files' = (Ok (), files'') \<and> map_of files'' = map_of files)"
proof -
  obtain r files' where r: "kv_Prepare decode getPool h claim files = (r, files')" by fastforce
  have fail: "\<not> is_ok r \<longrightarrow> files' = files"
    using Prepare_fails [of decode getPool h claim files] r by simp
  have other: "map_of files' n = map_of files n" if "n \<noteq> claim_spec_name h (rc_UID claim)" for n
    using Prepare_other_files [OF that, of decode getPool files] r by simp
  have "kv_Unprepare h ref files' = (Ok (), AList.delete (claim_spec_name h (rc_UID claim)) files')"
    using assms(1,2) by (simp add: kv_Unprepare_def wrap_st_def kv_DeleteClaimSpecFileIfExists_def
        cdi_RemoveSpec_def claim_spec_name_def)
  moreover have "map_of (AList.delete (claim_spec_name h (rc_UID claim)) files') = map_of files"
    using other assms(3) by (auto simp: delete_conv')
  ultimately show ?thesis using r fail by simp
qed

theorem kv_unprepare_undoes_prepare_witness:
  "\<exists>files''. kv_Unprepare (NewCDIHandler good_lib '''' '''') \<lparr>no_UID = ''u1'', no_Name = ''claim'', no_Namespace = ''default''\<rparr>
      (snd (kv_Prepare example_decode (\<lambda>n. Ok (ready_pool n)) (NewCDIHandler good_lib '''' '''') allocated_claim []))
    = (Ok (), files'') \<and> map_of files'' = Map.empty"
proof -
  let ?ref = "\<lparr>no_UID = ''u1'', no_Name = ''claim'', no_Namespace = ''default''\<rparr>"
  have "no_UID ?ref = rc_UID allocated_claim" by code_simp
  from kv_unprepare_undoes_prepare [OF this, of "NewCDIHandler good_lib '''' ''''" "[]"
      example_decode "\<lambda>n. Ok (ready_pool n)"]
  show ?thesis by (auto simp: NewCDIHandler_def good_lib_def split: prod.splits)
qed



text \<open>The handler reports its work as done exactly when retrying could not help: the claim was
  prepared, it has no allocation, or the error is permanent. A lock that cannot be acquired and
  a pool that is not ready yet are retried.\<close>

theorem kv_prepare_done_iff:
  "fst (fst (kv_nodePrepareResource lock decode getPool h claim files)) \<longleftrightarrow>
     lock = None \<and>
     (rc_Allocation claim = None \<or>
      (case fst (kv_Prepare decode getPool h claim files) of
         Ok _ \<Rightarrow> True | Err e \<Rightarrow> isPermanentError e | Panic _ \<Rightarrow> True))"
  by (auto simp: kv_nodePrepareResource_def split: option.splits prod.splits go.splits)

text \<open>With a class and a claim configuration the two components disagree: the controller provisions
  the pool of the claim's configuration, the one of higher precedence, and the plugin exposes the pool the
  class configuration names.\<close>

definition two_configs :: "string \<Rightarrow> RuntimeObject go" where
  "two_configs raw = Ok (KVCachePoolConfigObj (example_cfg\<lparr>kc_PoolName := raw\<rparr>))"

definition class_and_claim :: ResourceClaim where
  "class_and_claim = allocated_claim\<lparr>
     rc_SpecConfig := [\<lparr>dcc_Requests = [], dcc_Opaque = Some \<lparr>oc_Driver = kv_DriverName, oc_Parameters = ''claim-pool''\<rparr>\<rparr>],
     rc_Allocation := map_option (\<lambda>al. al\<lparr>al_Config :=
       [\<lparr>dac_Source = AllocationConfigSourceClass, dac_Requests = [],
          dac_Opaque = Some \<lparr>oc_Driver = kv_DriverName, oc_Parameters = ''class-pool''\<rparr>\<rparr>,
        \<lparr>dac_Source = AllocationConfigSourceClaim, dac_Requests = [],
          dac_Opaque = Some \<lparr>oc_Driver = kv_DriverName, oc_Parameters = ''claim-pool''\<rparr>\<rparr>]\<rparr>) (rc_Allocation allocated_claim)\<rparr>"

theorem kv_config_precedence_disagreement:
  "map fst (cl_pools (snd (ClaimReconciler_Reconcile two_configs (\<lambda>s. s) quiet (''default'', ''claim'')
      \<lparr>cl_pools = [], cl_claims = [((''default'', ''claim''), class_and_claim)]\<rparr>))) = [''claim-pool''] \<and>
   map (map cd_Env \<circ> cs_Devices \<circ> snd) (snd (kv_Prepare two_configs (\<lambda>n. Ok (ready_pool n))
      (NewCDIHandler good_lib '''' '''') class_and_claim [])) =
   [[[''KVCACHE_POOL_ID=class-pool'', ''KVCACHE_SLICE_NAME=u1-kvcache-slot-0'',
      ''KVCACHE_ENDPOINT=class-pool:1234'', ''KVCACHE_TRANSPORT=tcp'']]]"
  by code_simp

end
