(* ===== verification/Api_Server.thy ===== *)
theory Api_Server
  imports Prelude
begin

text \<open>
  One API object that several clients read and write with optimistic concurrency, as the daemons of a
  compute domain do with a \<open>ComputeDomainClique\<close> or with the status of a \<open>ComputeDomain\<close>.

  The object's history is the list of its stored versions, the latest first, each a resource
  version and a content. A client's cache holds some version of the history, however old. An
  update carries the resource version of the object it was computed from, and the server refuses
  it (a conflict) unless that is the latest.
\<close>

type_synonym 'c versions = "(nat \<times> 'c) list"

definition Conflict :: goerr where
  "Conflict = ApiError ''the object has been modified''"

definition api_update :: "nat \<Rightarrow> 'c \<Rightarrow> ('c versions, nat \<times> 'c) gost" where
  "api_update rv c vs =
     (case vs of
        [] \<Rightarrow> (Err ApiNotFound, vs)
      | (latest, _) # _ \<Rightarrow>
          if rv \<noteq> latest then (Err Conflict, vs)
          else (Ok (Suc rv, c), (Suc rv, c) # vs))"

text \<open>A client takes a version it knows, computes a new content with one of the operations \<open>ops\<close>
  (\<open>None\<close>: nothing to write) and sends the update.\<close>

inductive history :: "('c \<Rightarrow> 'c option) set \<Rightarrow> 'c \<Rightarrow> 'c versions \<Rightarrow> bool"
  for ops :: "('c \<Rightarrow> 'c option) set" and c0 :: 'c where
  created: "history ops c0 [(0, c0)]"
| updated: "history ops c0 vs \<Longrightarrow> (rv, c) \<in> set vs \<Longrightarrow> f \<in> ops \<Longrightarrow> f c = Some c' \<Longrightarrow>
    history ops c0 (snd (api_update rv c' vs))"

inductive_cases historyE: "history ops c0 vs"

text \<open>Resource versions count down from the latest to 0, so a version number identifies a version.\<close>

definition numbered :: "'c versions \<Rightarrow> bool" where
  "numbered vs \<longleftrightarrow> map fst vs = rev [0..<length vs]"

lemma numbered_single [simp]: "numbered [(0, c)]"
  by (simp add: numbered_def)

lemma numbered_latest:
  assumes "numbered ((l, d) # vs)" and "(l, c) \<in> set ((l, d) # vs)"
  shows "c = d"
proof -
  have "distinct (map fst ((l, d) # vs))"
    using assms(1) unfolding numbered_def by (metis distinct_rev distinct_upt)
  then show ?thesis using assms(2) by (auto simp: image_iff)
qed

lemma numbered_Cons:
  assumes "numbered ((l, d) # vs)" shows "numbered ((Suc l, c) # (l, d) # vs)"
proof -
  have "l = length vs" using assms by (simp add: numbered_def)
  then show ?thesis using assms by (simp add: numbered_def)
qed

lemma api_update_cases:
  assumes "numbered vs" and "(rv, c) \<in> set vs"
  obtains (refused) "api_update rv c' vs = (Err Conflict, vs)"
    | (stored) tl where "vs = (rv, c) # tl" "api_update rv c' vs = (Ok (Suc rv, c'), (Suc rv, c') # vs)"
proof (cases vs)
  case Nil
  with assms(2) show ?thesis by simp
next
  case (Cons v tl)
  obtain l d where v: "v = (l, d)" by fastforce
  show ?thesis
  proof (cases "rv = l")
    case True
    with assms Cons v have "c = d" by (metis numbered_latest)
    with True Cons v show ?thesis by (intro stored) (auto simp: api_update_def)
  next
    case False
    with Cons v show ?thesis by (intro refused) (simp add: api_update_def)
  qed
qed

lemma history_numbered: "history ops c0 vs \<Longrightarrow> numbered vs"
proof (induction rule: history.induct)
  case (updated vs rv c f c')
  from updated.IH updated.hyps(2) show ?case
    by (cases rule: api_update_cases [where c' = c']) (use updated.IH in \<open>auto intro: numbered_Cons\<close>)
qed simp

lemma history_nonempty: "history ops c0 vs \<Longrightarrow> vs \<noteq> []"
  by (induction rule: history.induct) (auto simp: api_update_def split: list.splits)

text \<open>No update is lost: every stored version was computed from the version right before it.\<close>

fun chained :: "('c \<Rightarrow> 'c option) set \<Rightarrow> 'c versions \<Rightarrow> bool" where
  "chained ops ((_, c') # (rv, c) # vs) \<longleftrightarrow> (\<exists>f \<in> ops. f c = Some c') \<and> chained ops ((rv, c) # vs)"
| "chained ops _ \<longleftrightarrow> True"

lemma history_chained: "history ops c0 vs \<Longrightarrow> chained ops vs"
proof (induction rule: history.induct)
  case (updated vs rv c f c')
  from history_numbered [OF updated.hyps(1)] updated.hyps(2) show ?case
    by (cases rule: api_update_cases [where c' = c'])
      (use updated.IH updated.hyps(3,4) in auto)
qed simp

text \<open>The contract of a shared object: an invariant that holds at creation and that every operation
  keeps, and a relation every operation keeps between an object and its successor.\<close>

locale shared_object =
  fixes ops :: "('c \<Rightarrow> 'c option) set" and c0 :: 'c and inv :: "'c \<Rightarrow> bool" and rel :: "'c \<Rightarrow> 'c \<Rightarrow> bool"
  assumes created: "inv c0"
    and kept: "f \<in> ops \<Longrightarrow> inv c \<Longrightarrow> f c = Some c' \<Longrightarrow> inv c'"
    and related: "f \<in> ops \<Longrightarrow> inv c \<Longrightarrow> f c = Some c' \<Longrightarrow> rel c c'"
begin

lemma all_versions: "history ops c0 vs \<Longrightarrow> (rv, c) \<in> set vs \<Longrightarrow> inv c"
proof (induction arbitrary: rv c rule: history.induct)
  case created
  then show ?case using shared_object.created [OF shared_object_axioms] by simp
next
  case (updated vs rv1 c1 f c')
  have "inv c1" using updated.IH updated.hyps(2) by blast
  then have "inv c'" using kept updated.hyps(3,4) by blast
  from history_numbered [OF updated.hyps(1)] updated.hyps(2) show ?case
    by (cases rule: api_update_cases [where c' = c']) (use updated.IH updated.prems \<open>inv c'\<close> in auto)
qed

lemma successive: "history ops c0 ((rv', c') # (rv, c) # vs) \<Longrightarrow> rel c c'"
proof -
  assume h: "history ops c0 ((rv', c') # (rv, c) # vs)"
  then obtain f where "f \<in> ops" "f c = Some c'"
    using history_chained by fastforce
  moreover from h have "inv c" using all_versions by (meson list.set_intros)
  ultimately show ?thesis using related by blast
qed

end

end
