(* ===== verification/Daemon_Common.thy ===== *)
theory Daemon_Common
  imports Api_Server "HOL-Library.List_Lexorder"
begin

text \<open>
  What the two managers of the compute-domain daemon (\<open>cmd/compute-domain-daemon\<close>) share: the
  manager configuration, sets of IP addresses, pod readiness, and the allocation of
  indices. Both managers pick the first index not used in the clique; the locale
  \<open>index_allocator\<close> is the contract of that choice, and gives that inserting an entry with a
  chosen index keeps indices unique.
\<close>

section \<open>Configuration and status values\<close>

record ManagerConfig =
  mc_nodeName :: string
  mc_podIP :: string
  mc_podName :: string
  mc_podUID :: string
  mc_podNamespace :: string
  mc_computeDomainUUID :: string
  mc_computeDomainName :: string
  mc_cliqueID :: string
  mc_maxNodesPerIMEXDomain :: int

definition ComputeDomainStatusReady :: string where "ComputeDomainStatusReady = ''Ready''"
definition ComputeDomainStatusNotReady :: string where "ComputeDomainStatusNotReady = ''NotReady''"

lemma statuses_differ [simp]:
  "ComputeDomainStatusReady \<noteq> ComputeDomainStatusNotReady"
  "ComputeDomainStatusNotReady \<noteq> ComputeDomainStatusReady"
  by (simp_all add: ComputeDomainStatusReady_def ComputeDomainStatusNotReady_def)

definition status_of :: "bool \<Rightarrow> string" where
  "status_of ready = (if ready then ComputeDomainStatusReady else ComputeDomainStatusNotReady)"

record ComputeDomainDaemonInfo =
  di_NodeName :: string
  di_IPAddress :: string
  di_CliqueID :: string
  di_Index :: int
  di_Status :: string

section \<open>Compute domain objects (computedomain.go, computedomainclique.go)\<close>

record OwnerReference =
  or_Kind :: string
  or_Name :: string
  or_UID :: string

record ComputeDomainClique =
  cq_Name :: string
  cq_Labels :: "(string, string) gomap"
  cq_OwnerReferences :: "OwnerReference list"
  cq_Daemons :: "ComputeDomainDaemonInfo list"

record ComputeDomainNode =
  cn_Name :: string
  cn_IPAddress :: string
  cn_CliqueID :: string
  cn_Index :: int
  cn_Status :: string

record ComputeDomainChannelSpec =
  cs_TemplateName :: string
  cs_AllocationMode :: string

record ComputeDomain =
  co_UID :: string
  co_Name :: string
  co_Namespace :: string
  co_Deleting :: bool
  co_Finalizers :: "string list"
  co_NumNodes :: int
  co_Channel :: "ComputeDomainChannelSpec option"
  co_Nodes :: "ComputeDomainNode list"
  co_Status :: string

definition computeDomainLabelKey :: string where
  "computeDomainLabelKey = ''resource.nvidia.com/computeDomain''"

definition computeDomainCliqueLabelKey :: string where
  "computeDomainCliqueLabelKey = ''resource.nvidia.com/computeDomain.cliqueID''"

text \<open>Indexing a map of labels: the empty string when the key is absent.\<close>

definition label :: "(string, string) gomap \<Rightarrow> string \<Rightarrow> string" where
  "label m k = (case map_of m k of None \<Rightarrow> '''' | Some v \<Rightarrow> v)"

section \<open>Pod readiness (podmanager.go)\<close>

record Pod =
  pod_NodeName :: string
  pod_PodIP :: string
  pod_Labels :: "(string, string) gomap"
  pod_Phase :: string
  pod_Conditions :: "(string \<times> string) list"

fun first_ready_condition :: "(string \<times> string) list \<Rightarrow> bool" where
  "first_ready_condition [] = False"
| "first_ready_condition ((t, st) # cs) = (if t = ''Ready'' then st = ''True'' else first_ready_condition cs)"

definition isPodReady :: "Pod \<Rightarrow> bool" where
  "isPodReady pod = (if pod_Phase pod \<noteq> ''Running'' then False else first_ready_condition (pod_Conditions pod))"

text \<open>\<open>stored\<close> is the outcome of looking the pod up in the informer's store.\<close>

definition pod_addOrUpdate :: "Pod option go \<Rightarrow> (bool \<Rightarrow> ('s, unit) gost) \<Rightarrow> ('s, unit) gost" where
  "pod_addOrUpdate stored updatePodReadiness =
     (case stored of
        Err e \<Rightarrow> err_st (Wrapf ''error getting pod from cache'' e)
      | Panic p \<Rightarrow> lift_st (Panic p)
      | Ok None \<Rightarrow> ret_st ()
      | Ok (Some pod) \<Rightarrow>
          wrap_st (Wrapf ''pod readiness callback failed'') (updatePodReadiness (isPodReady pod)))"

section \<open>Sets of IP addresses (common.go)\<close>

type_synonym IPSet = "(string, unit) gomap"

definition IPSet_Diff :: "IPSet \<Rightarrow> IPSet \<Rightarrow> string list \<times> string list" where
  "IPSet_Diff s cmp =
     (let removed = filter (\<lambda>ip. map_of cmp ip = None) (map fst s);
          added = filter (\<lambda>ip. map_of s ip = None) (map fst cmp)
      in (sort added, sort removed))"

lemma set_IPSet_Diff:
  "set (fst (IPSet_Diff s cmp)) = dom (map_of cmp) - dom (map_of s)"
  "set (snd (IPSet_Diff s cmp)) = dom (map_of s) - dom (map_of cmp)"
  by (auto simp: IPSet_Diff_def dom_map_of_conv_image_fst map_of_eq_None_iff Let_def)

text \<open>The set of the values of a field.\<close>

definition ipset_of :: "('e \<Rightarrow> string) \<Rightarrow> 'e list \<Rightarrow> IPSet" where
  "ipset_of ip es = fold (\<lambda>e s. AList.update (ip e) () s) es []"

lemma ipset_fold:
  "gomap s \<Longrightarrow> gomap (fold (\<lambda>e s. AList.update (ip e) () s) es s) \<and>
     dom (map_of (fold (\<lambda>e s. AList.update (ip e) () s) es s)) = dom (map_of s) \<union> ip ` set es"
  by (induction es arbitrary: s) (auto simp: update_conv')

lemma gomap_ipset_of [simp]: "gomap (ipset_of ip es)"
  using ipset_fold [of "[]" ip es] by (simp add: ipset_of_def)

lemma dom_ipset_of [simp]: "dom (map_of (ipset_of ip es)) = ip ` set es"
  using ipset_fold [of "[]" ip es] by (simp add: ipset_of_def)

lemma unit_map_eq: "m = m' \<longleftrightarrow> dom m = dom m'" for m m' :: "'k \<Rightarrow> unit option"
proof
  assume eq: "dom m = dom m'"
  show "m = m'"
  proof
    fix k
    have "k \<in> dom m \<longleftrightarrow> k \<in> dom m'" using eq by simp
    then show "m k = m' k" by (cases "m k"; cases "m' k") auto
  qed
qed simp

lemma ipset_of_Equal:
  "maps_Equal (ipset_of ip es) (ipset_of ip fs) \<longleftrightarrow> ip ` set es = ip ` set fs"
proof -
  have "map_of (ipset_of ip es) = map_of (ipset_of ip fs) \<longleftrightarrow>
      dom (map_of (ipset_of ip es)) = dom (map_of (ipset_of ip fs))"
    by (rule unit_map_eq)
  then show ?thesis by (simp add: maps_Equal_iff)
qed

section \<open>Index allocation\<close>

text \<open>The map of used indices and the loop \<open>for usedIndices[nextIndex]\<close>.\<close>

definition used_indices :: "('e \<Rightarrow> int) \<Rightarrow> 'e list \<Rightarrow> (int, bool) gomap" where
  "used_indices idx es = fold (\<lambda>e m. AList.update (idx e) True m) es []"

function next_unused :: "(int, bool) gomap \<Rightarrow> int \<Rightarrow> int" where
  "next_unused used n = (if map_of used n = Some True then next_unused used (n + 1) else n)"
  by pat_completeness auto

termination
proof (relation "measure (\<lambda>(used, n). card {i \<in> dom (map_of used). n \<le> i})")
  fix used :: "(int, bool) gomap" and n
  assume "map_of used n = Some True"
  then have "n \<in> {i \<in> dom (map_of used). n \<le> i} - {i \<in> dom (map_of used). n + 1 \<le> i}"
    by auto
  moreover have "{i \<in> dom (map_of used). n + 1 \<le> i} \<subseteq> {i \<in> dom (map_of used). n \<le> i}"
    by auto
  ultimately have "{i \<in> dom (map_of used). n + 1 \<le> i} \<subset> {i \<in> dom (map_of used). n \<le> i}"
    by blast
  then show "((used, n + 1), (used, n)) \<in> measure (\<lambda>(used, n). card {i \<in> dom (map_of used). n \<le> i})"
    by (simp add: psubset_card_mono finite_dom_map_of)
qed simp

declare next_unused.simps [simp del]

lemma map_of_used_fold:
  "map_of (fold (\<lambda>e m. AList.update (idx e) True m) es m0) i = Some True \<longleftrightarrow>
     i \<in> idx ` set es \<or> map_of m0 i = Some True"
  by (induction es arbitrary: m0) (auto simp: update_conv')

lemma map_of_used_indices: "map_of (used_indices idx es) i = Some True \<longleftrightarrow> i \<in> idx ` set es"
  using map_of_used_fold [of idx es "[]" i] by (simp add: used_indices_def)

lemma next_unused_spec:
  "n \<le> next_unused used n \<and> map_of used (next_unused used n) \<noteq> Some True \<and>
     (\<forall>i. n \<le> i \<longrightarrow> i < next_unused used n \<longrightarrow> map_of used i = Some True)"
proof (induction used n rule: next_unused.induct)
  case (1 used n)
  show ?case
  proof (cases "map_of used n = Some True")
    case True
    with 1 have IH: "n + 1 \<le> next_unused used (n + 1)"
      "map_of used (next_unused used (n + 1)) \<noteq> Some True"
      "\<And>i. n + 1 \<le> i \<Longrightarrow> i < next_unused used (n + 1) \<Longrightarrow> map_of used i = Some True"
      by auto
    moreover from IH(3) True
    have "\<And>i. n \<le> i \<Longrightarrow> i < next_unused used (n + 1) \<Longrightarrow> map_of used i = Some True"
      by (metis le_less zless_imp_add1_zle)
    ultimately show ?thesis
      using True by (simp add: next_unused.simps [of used n])
  next
    case False
    then show ?thesis by (simp add: next_unused.simps [of used n])
  qed
qed

text \<open>The least index that no entry has.\<close>

definition least_unused :: "('e \<Rightarrow> int) \<Rightarrow> 'e list \<Rightarrow> int \<Rightarrow> bool" where
  "least_unused idx es i \<longleftrightarrow> 0 \<le> i \<and> i \<notin> idx ` set es \<and> (\<forall>j. 0 \<le> j \<longrightarrow> j < i \<longrightarrow> j \<in> idx ` set es)"

lemma next_unused_least: "least_unused idx es (next_unused (used_indices idx es) 0)"
  using next_unused_spec [of 0 "used_indices idx es"]
  by (simp add: least_unused_def map_of_used_indices)

lemma least_unused_unique: "least_unused idx es i \<Longrightarrow> least_unused idx es j \<Longrightarrow> i = j"
  by (metis least_unused_def linorder_neqE)

text \<open>If the indices below \<open>n\<close> are all taken, there are at least \<open>n\<close> entries.\<close>

lemma all_used_card:
  assumes "\<forall>j. 0 \<le> j \<longrightarrow> j < n \<longrightarrow> j \<in> idx ` set es"
  shows "n \<le> int (length es)"
proof -
  have "{0..<n} \<subseteq> idx ` set es" using assms by auto
  then have "card {0..<n} \<le> card (idx ` set es)" by (intro card_mono) auto
  also have "\<dots> \<le> length es" using card_image_le card_length le_trans by blast
  finally show ?thesis by simp
qed

text \<open>Entries with one per node name, and one per clique and index.\<close>

definition unique_entries :: "('e \<Rightarrow> string) \<Rightarrow> ('e \<Rightarrow> string) \<Rightarrow> ('e \<Rightarrow> int) \<Rightarrow> 'e list \<Rightarrow> bool" where
  "unique_entries name clq idx es \<longleftrightarrow>
     distinct (map name es) \<and> distinct (map (\<lambda>e. (clq e, idx e)) es)"

lemma unique_entries_Nil [simp]: "unique_entries name clq idx []"
  by (simp add: unique_entries_def)

lemma unique_entries_filter: "unique_entries name clq idx es \<Longrightarrow> unique_entries name clq idx (filter P es)"
  by (simp add: unique_entries_def distinct_map_filter)

lemma unique_entries_update_first:
  "(\<And>e. name (f e) = name e) \<Longrightarrow> (\<And>e. clq (f e) = clq e) \<Longrightarrow> (\<And>e. idx (f e) = idx e) \<Longrightarrow>
     unique_entries name clq idx (update_first P f es) = unique_entries name clq idx es"
  by (simp add: unique_entries_def map_update_first)

text \<open>A node that both lists have is in the same clique with the same index.\<close>

definition stable_indices ::
  "('e \<Rightarrow> string) \<Rightarrow> ('e \<Rightarrow> string) \<Rightarrow> ('e \<Rightarrow> int) \<Rightarrow> 'e list \<Rightarrow> 'e list \<Rightarrow> bool" where
  "stable_indices name clq idx es es' \<longleftrightarrow>
     (\<forall>e \<in> set es. \<forall>e' \<in> set es'. name e = name e' \<longrightarrow> clq e = clq e' \<and> idx e = idx e')"

lemma stable_indices_refl: "distinct (map name es) \<Longrightarrow> stable_indices name clq idx es es"
  unfolding stable_indices_def using distinct_map_eqD [of name es] by blast

lemma stable_indices_append:
  assumes "distinct (map name es)" and "name e \<notin> name ` set es"
  shows "stable_indices name clq idx es (es @ [e])"
  unfolding stable_indices_def
proof (intro ballI impI)
  fix x y
  assume "x \<in> set es" "y \<in> set (es @ [e])" "name x = name y"
  moreover from this assms(2) have "y \<in> set es" by (auto simp: image_iff)
  ultimately have "x = y" using distinct_map_eqD [OF assms(1)] by blast
  then show "clq x = clq y \<and> idx x = idx y" by simp
qed

lemma stable_indices_filter:
  assumes "distinct (map name es)"
  shows "stable_indices name clq idx es (filter P es)"
  using stable_indices_refl [OF assms, of clq idx] unfolding stable_indices_def set_filter by blast

lemma stable_indices_update_first:
  assumes "distinct (map name es)" and "\<And>e. name (f e) = name e" and "\<And>e. clq (f e) = clq e"
    and "\<And>e. idx (f e) = idx e"
  shows "stable_indices name clq idx es (update_first P f es)"
proof -
  have same: "\<exists>x \<in> set es. name x = name e' \<and> clq x = clq e' \<and> idx x = idx e'"
    if "e' \<in> set (update_first P f es)" for e'
    using set_update_first [OF that] assms(2-4) by auto
  show ?thesis
    unfolding stable_indices_def
  proof (intro ballI impI)
    fix e e'
    assume e: "e \<in> set es" "e' \<in> set (update_first P f es)" "name e = name e'"
    then obtain x where "x \<in> set es" "name x = name e'" "clq x = clq e' \<and> idx x = idx e'"
      using same by blast
    moreover from this e assms(1) have "x = e"
      by (metis distinct_map_eqD)
    ultimately show "clq e = clq e' \<and> idx e = idx e'" by simp
  qed
qed

text \<open>The contract of a manager's index choice in its own clique.\<close>

locale index_allocator =
  fixes getNext :: "'e list \<Rightarrow> int go" and name :: "'e \<Rightarrow> string" and clq :: "'e \<Rightarrow> string"
    and idx :: "'e \<Rightarrow> int" and my :: string
  assumes fresh: "getNext es = Ok i \<Longrightarrow> e \<in> set es \<Longrightarrow> clq e = my \<Longrightarrow> idx e \<noteq> i"
    and nonneg: "getNext es = Ok i \<Longrightarrow> 0 \<le> i"
begin

lemma insert_unique:
  assumes "unique_entries name clq idx es" and "getNext es = Ok i"
    and "name e \<notin> name ` set es" and "clq e = my" and "idx e = i"
  shows "unique_entries name clq idx (es @ [e])"
  using assms fresh [OF assms(2)] by (force simp: unique_entries_def)

end

end
