(* ===== verification/Cd_Status.thy ===== *)
theory Cd_Status
  imports Daemon_Common
begin

text \<open>
  The status side of the compute-domain controller (\<open>cmd/compute-domain-controller\<close>, files
  \<open>cdstatus.go\<close> and \<open>computedomain.go\<close>): every few seconds it rebuilds the node list of each
  compute domain from the cliques and the daemon pods, removes stale entries from the cliques, and
  computes the domain's global status.

  Updates go to an API server that the other components share; what it answers is the argument
  \<open>fail\<close>, and the history of the object is in the theories of the daemons.
\<close>

section \<open>Global status (computedomain.go)\<close>

definition calculateGlobalStatus :: "ComputeDomain \<Rightarrow> string" where
  "calculateGlobalStatus cd =
     (if int (length (co_Nodes cd)) < co_NumNodes cd then ComputeDomainStatusNotReady
      else if \<exists>n \<in> set (co_Nodes cd). cn_Status n = ComputeDomainStatusNotReady
      then ComputeDomainStatusNotReady
      else ComputeDomainStatusReady)"

text \<open>What \<open>UpdateStatus\<close> sends, and what \<open>updateGlobalStatus\<close> sends (\<open>None\<close>: nothing).\<close>

definition UpdateStatus_object :: "ComputeDomain \<Rightarrow> ComputeDomain" where
  "UpdateStatus_object cd = cd\<lparr>co_Status := calculateGlobalStatus cd\<rparr>"

definition updateGlobalStatus_object :: "ComputeDomain \<Rightarrow> ComputeDomain option" where
  "updateGlobalStatus_object cd =
     (let newStatus = calculateGlobalStatus cd
      in if co_Status cd = newStatus then None
         else Some (UpdateStatus_object (cd\<lparr>co_Status := newStatus\<rparr>)))"

section \<open>Node lists (cdstatus.go)\<close>

definition node_of_daemon :: "ComputeDomainDaemonInfo \<Rightarrow> ComputeDomainNode" where
  "node_of_daemon d = \<lparr>cn_Name = di_NodeName d, cn_IPAddress = di_IPAddress d,
     cn_CliqueID = di_CliqueID d, cn_Index = di_Index d, cn_Status = di_Status d\<rparr>"

definition buildNodesFromCliques :: "ComputeDomainClique list \<Rightarrow> ComputeDomainNode list" where
  "buildNodesFromCliques cliques = concat (map (\<lambda>c. map node_of_daemon (cq_Daemons c)) cliques)"

fun buildNodesFromPods :: "Pod list \<Rightarrow> ComputeDomainNode list" where
  "buildNodesFromPods [] = []"
| "buildNodesFromPods (pod # pods) =
     (if pod_NodeName pod = '''' \<or> pod_PodIP pod = '''' then buildNodesFromPods pods
      else \<lparr>cn_Name = pod_NodeName pod, cn_IPAddress = pod_PodIP pod, cn_CliqueID = '''', cn_Index = -1,
             cn_Status = (if (''Ready'', ''True'') \<in> set (pod_Conditions pod) then ComputeDomainStatusReady
                          else ComputeDomainStatusNotReady)\<rparr> # buildNodesFromPods pods)"

definition getNonStaleFabricNodes :: "ComputeDomainNode list \<Rightarrow> Pod list \<Rightarrow> ComputeDomainNode list" where
  "getNonStaleFabricNodes existingNodes fabricPods =
     (let fabricPodIPs = ipset_of pod_PodIP (filter (\<lambda>pod. pod_PodIP pod \<noteq> '''') fabricPods)
      in filter (\<lambda>n. cn_CliqueID n \<noteq> '''' \<and> map_of fabricPodIPs (cn_IPAddress n) \<noteq> None) existingNodes)"

definition node_map :: "ComputeDomainNode list \<Rightarrow> (string, ComputeDomainNode) gomap" where
  "node_map ns = fold (\<lambda>n m. AList.update (cn_Name n) n m) ns []"

definition nodesEqual :: "ComputeDomainNode list \<Rightarrow> ComputeDomainNode list \<Rightarrow> bool" where
  "nodesEqual a b = maps_Equal (node_map a) (node_map b)"

text \<open>What \<open>cleanupClique\<close> writes: the entries of nodes with a daemon pod, or nothing when none is
  stale.\<close>

definition cleanup_clique :: "Pod list \<Rightarrow> ComputeDomainClique \<Rightarrow> ComputeDomainClique option" where
  "cleanup_clique pods c =
     (let runningNodes = ipset_of pod_NodeName (filter (\<lambda>pod. pod_NodeName pod \<noteq> '''') pods);
          updatedDaemons = filter (\<lambda>d. map_of runningNodes (di_NodeName d) \<noteq> None) (cq_Daemons c);
          removedNodes = filter (\<lambda>d. map_of runningNodes (di_NodeName d) = None) (cq_Daemons c)
      in if removedNodes = [] then None else Some (c\<lparr>cq_Daemons := updatedDaemons\<rparr>))"

definition cleanupClique ::
  "goerr option \<Rightarrow> Pod list \<Rightarrow> nat \<times> ComputeDomainClique \<Rightarrow> ComputeDomainClique versions \<Rightarrow>
   ComputeDomainClique versions" where
  "cleanupClique fail pods clique vs = (case cleanup_clique pods (snd clique) of
     None \<Rightarrow> vs
   | Some c' \<Rightarrow> (case fail of Some e \<Rightarrow> vs | None \<Rightarrow> snd (api_update (fst clique) c' vs)))"

text \<open>The node list \<open>syncCD\<close> computes, and the object it writes. \<open>cliquesOn\<close> is the feature gate.\<close>

definition sync_nodes ::
  "bool \<Rightarrow> ComputeDomain \<Rightarrow> ComputeDomainClique list \<Rightarrow> Pod list \<Rightarrow> Pod list \<Rightarrow> ComputeDomainNode list" where
  "sync_nodes cliquesOn cd cliques fabricPods nonFabricPods =
     (if cliquesOn then buildNodesFromCliques cliques @ buildNodesFromPods nonFabricPods
      else getNonStaleFabricNodes (co_Nodes cd) fabricPods @ buildNodesFromPods nonFabricPods)"

definition syncCD_object ::
  "bool \<Rightarrow> ComputeDomain \<Rightarrow> ComputeDomainClique list \<Rightarrow> Pod list \<Rightarrow> Pod list \<Rightarrow> ComputeDomain option" where
  "syncCD_object cliquesOn cd cliques fabricPods nonFabricPods =
     (let newNodes = sync_nodes cliquesOn cd cliques fabricPods nonFabricPods
      in if nodesEqual (co_Nodes cd) newNodes then None
         else Some (UpdateStatus_object (cd\<lparr>co_Nodes := newNodes\<rparr>)))"

text \<open>The grouping in \<open>sync\<close>: the cliques and pods of one compute domain, and its write.\<close>

definition cliques_of :: "string \<Rightarrow> ComputeDomainClique list \<Rightarrow> ComputeDomainClique list" where
  "cliques_of uid cliques =
     filter (\<lambda>c. label (cq_Labels c) computeDomainLabelKey = uid \<and> uid \<noteq> '''') cliques"

definition fabric_pod :: "Pod \<Rightarrow> bool" where
  "fabric_pod pod \<longleftrightarrow> map_of (pod_Labels pod) computeDomainCliqueLabelKey \<noteq> Some ''''"

definition pods_of :: "bool \<Rightarrow> string \<Rightarrow> Pod list \<Rightarrow> Pod list" where
  "pods_of fabric uid pods =
     filter (\<lambda>p. label (pod_Labels p) computeDomainLabelKey = uid \<and> uid \<noteq> '''' \<and> fabric_pod p = fabric) pods"

definition sync_object ::
  "bool \<Rightarrow> ComputeDomainClique list \<Rightarrow> Pod list \<Rightarrow> ComputeDomain \<Rightarrow> ComputeDomain option" where
  "sync_object cliquesOn cliques pods cd =
     syncCD_object cliquesOn cd (cliques_of (co_UID cd) (if cliquesOn then cliques else []))
       (pods_of True (co_UID cd) pods) (pods_of False (co_UID cd) pods)"

section \<open>Lemmas\<close>

lemma map_of_node_map_fold:
  "distinct (map cn_Name ns) \<Longrightarrow>
     map_of (fold (\<lambda>n m. AList.update (cn_Name n) n m) ns m0) =
     map_of m0 ++ map_of (map (\<lambda>n. (cn_Name n, n)) ns)"
proof (induction ns arbitrary: m0)
  case Nil
  then show ?case by simp
next
  case (Cons n ns)
  then have "cn_Name n \<notin> dom (map_of (map (\<lambda>n. (cn_Name n, n)) ns))"
    by (simp add: dom_map_of_conv_image_fst image_image)
  with Cons show ?case by (auto simp: update_conv' map_add_def fun_eq_iff split: option.splits)
qed

lemma gomap_node_map [simp]: "gomap (node_map ns)"
proof -
  have "gomap m0 \<Longrightarrow> gomap (fold (\<lambda>n m. AList.update (cn_Name n) n m) ns m0)" for m0
    by (induction ns arbitrary: m0) auto
  then show ?thesis by (simp add: node_map_def)
qed

lemma map_of_node_map:
  assumes "distinct (map cn_Name ns)"
  shows "map_of (node_map ns) k = Some n \<longleftrightarrow> n \<in> set ns \<and> cn_Name n = k"
proof -
  have "gomap (map (\<lambda>n. (cn_Name n, n)) ns)" using assms by (simp add: comp_def)
  then have "map_of (map (\<lambda>n. (cn_Name n, n)) ns) k = Some n \<longleftrightarrow> (k, n) \<in> set (map (\<lambda>n. (cn_Name n, n)) ns)"
    by (rule map_of_iff)
  then show ?thesis using assms by (auto simp: node_map_def map_of_node_map_fold)
qed

lemma nodesEqual_iff:
  assumes "distinct (map cn_Name a)" and "distinct (map cn_Name b)"
  shows "nodesEqual a b \<longleftrightarrow> set a = set b"
proof -
  have "map_of (node_map a) = map_of (node_map b) \<longleftrightarrow>
      (\<forall>k n. map_of (node_map a) k = Some n \<longleftrightarrow> map_of (node_map b) k = Some n)"
    by (metis ext not_Some_eq)
  also have "\<dots> \<longleftrightarrow> set a = set b"
    unfolding map_of_node_map [OF assms(1)] map_of_node_map [OF assms(2)] by blast
  finally show ?thesis by (simp add: nodesEqual_def maps_Equal_iff)
qed

lemma cleanup_clique_filter:
  "cleanup_clique pods c = Some c' \<Longrightarrow> \<exists>P. c' = c\<lparr>cq_Daemons := filter P (cq_Daemons c)\<rparr>"
  by (auto simp: cleanup_clique_def Let_def split: if_splits)

lemma nonFabric_pods_nodes: "n \<in> set (buildNodesFromPods pods) \<Longrightarrow> cn_CliqueID n = '''' \<and> cn_Index n = -1"
  by (induction pods) (auto split: if_splits)

lemma nodesEqual_refl [simp]: "nodesEqual a a"
  by (simp add: nodesEqual_def maps_Equal_iff)

lemma sync_nodes_again:
  "sync_nodes cliquesOn (cd\<lparr>co_Nodes := sync_nodes cliquesOn cd cliques fp nfp, co_Status := s\<rparr>) cliques fp nfp =
   sync_nodes cliquesOn cd cliques fp nfp"
  using nonFabric_pods_nodes
  by (auto simp: sync_nodes_def getNonStaleFabricNodes_def Let_def filter_empty_conv intro: filter_cong)

section \<open>Properties\<close>

text \<open>The periodic status sync converges: after it has written a compute domain, running it again on
  the same cliques and pods writes nothing, with and without the clique feature.\<close>

theorem cd_sync_idempotent:
  assumes "sync_object cliquesOn cliques pods cd = Some cd'"
  shows "sync_object cliquesOn cliques pods cd' = None"
proof -
  let ?c = "cliques_of (co_UID cd) (if cliquesOn then cliques else [])"
  let ?fp = "pods_of True (co_UID cd) pods" and ?nfp = "pods_of False (co_UID cd) pods"
  let ?n = "sync_nodes cliquesOn cd ?c ?fp ?nfp"
  from assms obtain s where cd': "cd' = cd\<lparr>co_Nodes := ?n, co_Status := s\<rparr>"
    by (auto simp: sync_object_def syncCD_object_def UpdateStatus_object_def Let_def split: if_splits)
  then have "co_UID cd' = co_UID cd" "co_Nodes cd' = ?n" by simp_all
  then show ?thesis
    using sync_nodes_again [where cliquesOn = cliquesOn and cd = cd and cliques = ?c and fp = ?fp and nfp = ?nfp and s = s]
    by (simp add: sync_object_def syncCD_object_def Let_def cd')
qed

definition example_pod :: Pod where
  "example_pod = \<lparr>pod_NodeName = ''n1'', pod_PodIP = ''10.0.0.9'',
     pod_Labels = [(computeDomainLabelKey, ''cd''), (computeDomainCliqueLabelKey, '''')],
     pod_Phase = ''Running'', pod_Conditions = [(''Ready'', ''True'')]\<rparr>"

definition example_cd :: ComputeDomain where
  "example_cd = \<lparr>co_UID = ''cd'', co_Name = ''dom'', co_Namespace = ''ns'', co_Deleting = False,
     co_Finalizers = [], co_NumNodes = 1, co_Channel = None, co_Nodes = [], co_Status = ComputeDomainStatusNotReady\<rparr>"

theorem cd_sync_idempotent_witness:
  "\<exists>cd'. sync_object True [] [example_pod] example_cd = Some cd' \<and> sync_object True [] [example_pod] cd' = None"
proof -
  have "sync_object True [] [example_pod] example_cd \<noteq> None" by code_simp
  then obtain cd' where cd': "sync_object True [] [example_pod] example_cd = Some cd'" by blast
  from cd_sync_idempotent [OF this] cd' show ?thesis by blast
qed

end
