(* ===== verification/Daemon_Clique.thy ===== *)
theory Daemon_Clique
  imports Cd_Status
begin

text \<open>
  The clique manager of the compute-domain daemon (\<open>cdclique.go\<close>). Each daemon of an IMEX clique
  keeps one entry in the shared \<open>ComputeDomainClique\<close> object: it inserts itself with the first
  unused index, updates its IP address and readiness, and removes itself when it stops.

  A manager's world is its mutation cache, the history of the object on the API server, the set
  of daemons it last pushed, and everything it has sent to the IMEX controller. \<open>fail\<close> is an
  error of the API call other than a conflict. Reading the cache may fail as well.
  Deletion of the object by the garbage collector is not modelled.
\<close>

section \<open>State\<close>

record clique_world =
  cw_cache :: "(nat \<times> ComputeDomainClique) option go"
  cw_server :: "ComputeDomainClique versions"
  cw_previousDaemons :: "ComputeDomainDaemonInfo list"
  cw_pushed :: "ComputeDomainDaemonInfo list list"

section \<open>Operations\<close>

definition cliqueName :: "ManagerConfig \<Rightarrow> string" where
  "cliqueName m = mc_computeDomainUUID m @ ''.'' @ mc_cliqueID m"

definition getClique :: "(clique_world, (nat \<times> ComputeDomainClique) option) gost" where
  "getClique w = (wrap_go (Wrapf ''error retrieving ComputeDomainClique'') (cw_cache w), w)"

definition ensureOwnerReference :: "ManagerConfig \<Rightarrow> ComputeDomainClique \<Rightarrow> ComputeDomainClique" where
  "ensureOwnerReference m c =
     (if \<exists>ref \<in> set (cq_OwnerReferences c). or_UID ref = mc_podUID m then c
      else c\<lparr>cq_OwnerReferences := cq_OwnerReferences c @
             [\<lparr>or_Kind = ''Pod'', or_Name = mc_podName m, or_UID = mc_podUID m\<rparr>]\<rparr>)"

text \<open>\<open>Create\<close> and \<open>Update\<close>; on success the stored object goes to the mutation cache.\<close>

definition create_clique ::
  "goerr option \<Rightarrow> ComputeDomainClique \<Rightarrow> (clique_world, unit) gost" where
  "create_clique fail c w = (case fail of
     Some e \<Rightarrow> (Err e, w)
   | None \<Rightarrow>
       if cw_server w \<noteq> [] then (Err ApiAlreadyExists, w)
       else (Ok (), w\<lparr>cw_server := [(0, c)], cw_cache := Ok (Some (0, c))\<rparr>))"

definition update_clique ::
  "goerr option \<Rightarrow> nat \<Rightarrow> ComputeDomainClique \<Rightarrow> (clique_world, ComputeDomainClique) gost" where
  "update_clique fail rv c w = (case fail of
     Some e \<Rightarrow> (Err (Wrapf ''error updating CDClique'' e), w)
   | None \<Rightarrow>
       (case api_update rv c (cw_server w) of
          (Ok v, vs) \<Rightarrow> (Ok (snd v), w\<lparr>cw_server := vs, cw_cache := Ok (Some v)\<rparr>)
        | (Err e, vs) \<Rightarrow> (Err (Wrapf ''error updating CDClique'' e), w)
        | (Panic p, vs) \<Rightarrow> (Panic p, w)))"

definition new_clique :: "ManagerConfig \<Rightarrow> ComputeDomainClique" where
  "new_clique m = ensureOwnerReference m
     \<lparr>cq_Name = cliqueName m,
      cq_Labels = [(computeDomainLabelKey, mc_computeDomainUUID m),
                   (computeDomainCliqueLabelKey, mc_cliqueID m)],
      cq_OwnerReferences = [], cq_Daemons = []\<rparr>"

definition ensureCliqueExists :: "goerr option \<Rightarrow> ManagerConfig \<Rightarrow> (clique_world, unit) gost" where
  "ensureCliqueExists fail m =
     bind_st (wrap_st (Wrapf ''failed to get CDClique'') getClique) (\<lambda>clique.
       if clique \<noteq> None then ret_st ()
       else wrap_st (Wrapf ''failed to create CDClique'') (create_clique fail (new_clique m)))"

definition clique_getNextAvailableIndex :: "ManagerConfig \<Rightarrow> ComputeDomainDaemonInfo list \<Rightarrow> int go" where
  "clique_getNextAvailableIndex m daemons =
     (let nextIndex = next_unused (used_indices di_Index daemons) 0
      in if nextIndex < 0 \<or> nextIndex \<ge> mc_maxNodesPerIMEXDomain m
         then Err (Errorf ''no available indices within maxNodesPerIMEXDomain'')
         else Ok nextIndex)"

text \<open>What \<open>syncDaemonInfoToClique\<close> writes: \<open>None\<close> when the entry is there with the current IP.\<close>

definition sync_clique :: "ManagerConfig \<Rightarrow> ComputeDomainClique \<Rightarrow> ComputeDomainClique option go" where
  "sync_clique m c =
     (case find (\<lambda>d. di_NodeName d = mc_nodeName m) (cq_Daemons c) of
        Some d \<Rightarrow>
          if di_IPAddress d = mc_podIP m then Ok None
          else Ok (Some (ensureOwnerReference m (c\<lparr>cq_Daemons :=
                 update_first (\<lambda>d. di_NodeName d = mc_nodeName m)
                   (\<lambda>d. d\<lparr>di_IPAddress := mc_podIP m\<rparr>) (cq_Daemons c)\<rparr>)))
      | None \<Rightarrow>
          bind_go (wrap_go (Wrapf ''error getting next available index'')
                     (clique_getNextAvailableIndex m (cq_Daemons c))) (\<lambda>nextIndex.
            Ok (Some (ensureOwnerReference m (c\<lparr>cq_Daemons := cq_Daemons c @
              [\<lparr>di_NodeName = mc_nodeName m, di_IPAddress = mc_podIP m, di_CliqueID = mc_cliqueID m,
                 di_Index = nextIndex, di_Status = ComputeDomainStatusNotReady\<rparr>]\<rparr>))))) "

definition syncDaemonInfoToClique ::
  "goerr option \<Rightarrow> ManagerConfig \<Rightarrow> nat \<times> ComputeDomainClique \<Rightarrow> (clique_world, ComputeDomainClique) gost" where
  "syncDaemonInfoToClique fail m clique = (case clique of (rv, c) \<Rightarrow>
     bind_st (lift_st (sync_clique m c)) (\<lambda>new.
       case new of None \<Rightarrow> ret_st c | Some c' \<Rightarrow> update_clique fail rv c'))"

definition remove_from_clique :: "ManagerConfig \<Rightarrow> ComputeDomainClique \<Rightarrow> ComputeDomainClique" where
  "remove_from_clique m c = c\<lparr>cq_Daemons := filter (\<lambda>d. di_IPAddress d \<noteq> mc_podIP m) (cq_Daemons c)\<rparr>"

definition removeDaemonInfoFromClique :: "goerr option \<Rightarrow> ManagerConfig \<Rightarrow> (clique_world, unit) gost" where
  "removeDaemonInfoFromClique fail m =
     bind_st (wrap_st (Wrapf ''failed to get CDClique'') getClique) (\<lambda>clique. case clique of
       None \<Rightarrow> ret_st ()
     | Some (rv, c) \<Rightarrow>
         bind_st (update_clique fail rv (remove_from_clique m c)) (\<lambda>_. ret_st ()))"

definition clique_Stop :: "goerr option \<Rightarrow> ManagerConfig \<Rightarrow> clique_world \<Rightarrow> clique_world" where
  "clique_Stop fail m w = snd (removeDaemonInfoFromClique fail m w)"

definition getIPSet :: "ComputeDomainDaemonInfo list \<Rightarrow> IPSet" where
  "getIPSet = ipset_of di_IPAddress"

definition maybePushDaemonsUpdate :: "ComputeDomainClique \<Rightarrow> clique_world \<Rightarrow> clique_world" where
  "maybePushDaemonsUpdate c w =
     (if \<not> maps_Equal (getIPSet (cq_Daemons c)) (getIPSet (cw_previousDaemons w))
      then w\<lparr>cw_previousDaemons := cq_Daemons c, cw_pushed := cw_pushed w @ [cq_Daemons c]\<rparr>
      else w)"

text \<open>The event handler; \<open>obj\<close> is the object of the event, \<open>None\<close> if it is no clique.\<close>

definition clique_onAddOrUpdate ::
  "goerr option \<Rightarrow> ManagerConfig \<Rightarrow> ComputeDomainClique option \<Rightarrow> (clique_world, unit) gost" where
  "clique_onAddOrUpdate fail m obj = (case obj of
     None \<Rightarrow> err_st (Errorf ''failed to cast to ComputeDomainClique'')
   | Some o' \<Rightarrow>
       if cq_Name o' \<noteq> cliqueName m then ret_st ()
       else bind_st (wrap_st (Wrapf ''failed to get CDClique'') getClique) (\<lambda>clique. case clique of
         None \<Rightarrow> ret_st ()
       | Some (rv, c) \<Rightarrow>
           if label (cq_Labels c) computeDomainLabelKey \<noteq> mc_computeDomainUUID m
           then ret_st ()
           else bind_st (wrap_st (Wrapf ''CDClique update: failed to insert/update daemon info'')
                           (syncDaemonInfoToClique fail m (rv, c))) (\<lambda>c' w.
                  (Ok (), maybePushDaemonsUpdate c' w))))"

text \<open>What \<open>updateDaemonStatus\<close> writes.\<close>

definition status_clique :: "ManagerConfig \<Rightarrow> bool \<Rightarrow> ComputeDomainClique \<Rightarrow> ComputeDomainClique option go" where
  "status_clique m ready c =
     (case find (\<lambda>d. di_NodeName d = mc_nodeName m) (cq_Daemons c) of
        None \<Rightarrow> Err (Errorf ''daemon info not yet listed in CDClique (waiting for insertion)'')
      | Some d \<Rightarrow>
          if di_Status d = status_of ready then Ok None
          else Ok (Some (c\<lparr>cq_Daemons := update_first (\<lambda>d. di_NodeName d = mc_nodeName m)
                 (\<lambda>d. d\<lparr>di_Status := status_of ready\<rparr>) (cq_Daemons c)\<rparr>)))"

definition updateDaemonStatus :: "goerr option \<Rightarrow> ManagerConfig \<Rightarrow> bool \<Rightarrow> (clique_world, unit) gost" where
  "updateDaemonStatus fail m ready =
     bind_st (wrap_st (Wrapf ''failed to get CDClique'') getClique) (\<lambda>clique. case clique of
       None \<Rightarrow> err_st (Errorf ''CDClique not found'')
     | Some (rv, c) \<Rightarrow>
         bind_st (lift_st (status_clique m ready c)) (\<lambda>new.
           case new of
             None \<Rightarrow> ret_st ()
           | Some c' \<Rightarrow> bind_st (update_clique fail rv c') (\<lambda>_. ret_st ())))"

section \<open>Index allocation\<close>

lemma clique_next_index:
  "clique_getNextAvailableIndex m daemons = Ok i \<longleftrightarrow>
     least_unused di_Index daemons i \<and> i < mc_maxNodesPerIMEXDomain m"
proof -
  let ?n = "next_unused (used_indices di_Index daemons) 0"
  have least: "least_unused di_Index daemons ?n" by (rule next_unused_least)
  then have "\<not> ?n < 0" by (simp add: least_unused_def)
  moreover have "least_unused di_Index daemons i \<longleftrightarrow> i = ?n"
    using least least_unused_unique [OF least] by blast
  ultimately show ?thesis
    by (auto simp: clique_getNextAvailableIndex_def Let_def)
qed

interpretation cq: index_allocator "clique_getNextAvailableIndex m" di_NodeName di_CliqueID di_Index
  "mc_cliqueID m" for m
  by unfold_locales (auto simp: clique_next_index least_unused_def)

section \<open>The invariant of a clique object\<close>

text \<open>One entry per node, all of this clique, with distinct indices below the maximum.\<close>

definition clique_inv :: "int \<Rightarrow> string \<Rightarrow> ComputeDomainClique \<Rightarrow> bool" where
  "clique_inv maxNodes cid c \<longleftrightarrow>
     unique_entries di_NodeName di_CliqueID di_Index (cq_Daemons c) \<and>
     (\<forall>d \<in> set (cq_Daemons c). di_CliqueID d = cid \<and> 0 \<le> di_Index d \<and> di_Index d < maxNodes)"

definition clique_stable :: "ComputeDomainClique \<Rightarrow> ComputeDomainClique \<Rightarrow> bool" where
  "clique_stable c c' \<longleftrightarrow> stable_indices di_NodeName di_CliqueID di_Index (cq_Daemons c) (cq_Daemons c')"

definition written :: "'c option go \<Rightarrow> 'c option" where
  "written r = (case r of Ok x \<Rightarrow> x | _ \<Rightarrow> None)"

lemma written_Some [simp]: "written r = Some c \<longleftrightarrow> r = Ok (Some c)"
  by (auto simp: written_def split: go.splits)

text \<open>The writes to one clique object: those of its daemons, and the cleanup of the controller.\<close>

definition of_clique :: "int \<Rightarrow> string \<Rightarrow> ManagerConfig \<Rightarrow> bool" where
  "of_clique maxNodes cid m \<longleftrightarrow> mc_cliqueID m = cid \<and> mc_maxNodesPerIMEXDomain m = maxNodes"

definition clique_ops :: "int \<Rightarrow> string \<Rightarrow> (ComputeDomainClique \<Rightarrow> ComputeDomainClique option) set" where
  "clique_ops maxNodes cid =
     {f. \<exists>m. of_clique maxNodes cid m \<and>
         (f = (\<lambda>c. written (sync_clique m c)) \<or> f = (\<lambda>c. Some (remove_from_clique m c)) \<or>
          (\<exists>ready. f = (\<lambda>c. written (status_clique m ready c))))} \<union> range cleanup_clique"

lemma Daemons_ensureOwner [simp]: "cq_Daemons (ensureOwnerReference m c) = cq_Daemons c"
  by (simp add: ensureOwnerReference_def)

lemma clique_inv_distinct: "clique_inv maxNodes cid c \<Longrightarrow> distinct (map di_NodeName (cq_Daemons c))"
  by (simp add: clique_inv_def unique_entries_def)

text \<open>An update of an entry in place that keeps its identity keeps the invariant.\<close>

lemma clique_inv_update_first:
  assumes "clique_inv maxNodes cid c" and "\<And>d. di_NodeName (f d) = di_NodeName d"
    and "\<And>d. di_CliqueID (f d) = di_CliqueID d" and "\<And>d. di_Index (f d) = di_Index d"
    and "cq_Daemons c' = update_first P f (cq_Daemons c)"
  shows "clique_inv maxNodes cid c' \<and> clique_stable c c'"
proof
  have "di_CliqueID d = cid \<and> 0 \<le> di_Index d \<and> di_Index d < maxNodes" if "d \<in> set (cq_Daemons c')" for d
    using that set_update_first [of d P f "cq_Daemons c"] assms unfolding clique_inv_def by metis
  then show "clique_inv maxNodes cid c'"
    using assms by (simp add: clique_inv_def unique_entries_update_first)
  show "clique_stable c c'"
    unfolding clique_stable_def assms(5)
    by (rule stable_indices_update_first) (use clique_inv_distinct [OF assms(1)] assms(2-4) in auto)
qed

lemma sync_clique_kept:
  assumes "of_clique maxNodes cid m" and "clique_inv maxNodes cid c" and "sync_clique m c = Ok (Some c')"
  shows "clique_inv maxNodes cid c' \<and> clique_stable c c'"
proof (cases "find (\<lambda>d. di_NodeName d = mc_nodeName m) (cq_Daemons c)")
  case None
  with assms(3) obtain i where i: "clique_getNextAvailableIndex m (cq_Daemons c) = Ok i"
    and c': "cq_Daemons c' = cq_Daemons c @
      [\<lparr>di_NodeName = mc_nodeName m, di_IPAddress = mc_podIP m, di_CliqueID = mc_cliqueID m,
         di_Index = i, di_Status = ComputeDomainStatusNotReady\<rparr>]"
    by (auto simp: sync_clique_def)
  have new: "mc_nodeName m \<notin> di_NodeName ` set (cq_Daemons c)"
    using None by (auto simp: find_None_iff2)
  have "unique_entries di_NodeName di_CliqueID di_Index (cq_Daemons c')"
    unfolding c' by (rule cq.insert_unique [OF _ i]) (use assms(2) new in \<open>auto simp: clique_inv_def\<close>)
  moreover have "\<forall>d \<in> set (cq_Daemons c'). di_CliqueID d = cid \<and> 0 \<le> di_Index d \<and> di_Index d < maxNodes"
    using assms(1,2) i cq.nonneg [OF i] unfolding c'
    by (auto simp: clique_inv_def of_clique_def clique_next_index)
  moreover have "clique_stable c c'"
    unfolding clique_stable_def c'
    using stable_indices_append [OF clique_inv_distinct [OF assms(2)]] new by simp
  ultimately show ?thesis by (simp add: clique_inv_def)
next
  case (Some d)
  with assms(3) have "cq_Daemons c' = update_first (\<lambda>d. di_NodeName d = mc_nodeName m)
      (\<lambda>d. d\<lparr>di_IPAddress := mc_podIP m\<rparr>) (cq_Daemons c)"
    by (auto simp: sync_clique_def split: if_splits)
  then show ?thesis by (intro clique_inv_update_first [OF assms(2)]) auto
qed

lemma status_clique_kept:
  assumes "clique_inv maxNodes cid c" and "status_clique m ready c = Ok (Some c')"
  shows "clique_inv maxNodes cid c' \<and> clique_stable c c'"
proof -
  from assms(2) have "cq_Daemons c' = update_first (\<lambda>d. di_NodeName d = mc_nodeName m)
      (\<lambda>d. d\<lparr>di_Status := status_of ready\<rparr>) (cq_Daemons c)"
    by (auto simp: status_clique_def split: option.splits if_splits)
  then show ?thesis by (intro clique_inv_update_first [OF assms(1)]) auto
qed

lemma remove_from_clique_kept:
  assumes "clique_inv maxNodes cid c"
  shows "clique_inv maxNodes cid (remove_from_clique m c) \<and> clique_stable c (remove_from_clique m c)"
  using assms stable_indices_filter [OF clique_inv_distinct [OF assms]]
  by (auto simp: clique_inv_def clique_stable_def remove_from_clique_def unique_entries_filter)

lemma cleanup_clique_kept:
  assumes "clique_inv maxNodes cid c" and "cleanup_clique pods c = Some c'"
  shows "clique_inv maxNodes cid c' \<and> clique_stable c c'"
  using assms cleanup_clique_filter [OF assms(2)] stable_indices_filter [OF clique_inv_distinct [OF assms(1)]]
  by (auto simp: clique_inv_def clique_stable_def unique_entries_filter)

lemma clique_ops_kept:
  "f \<in> clique_ops maxNodes cid \<Longrightarrow> clique_inv maxNodes cid c \<Longrightarrow> f c = Some c' \<Longrightarrow>
     clique_inv maxNodes cid c' \<and> clique_stable c c'"
  by (auto simp: clique_ops_def dest: sync_clique_kept status_clique_kept remove_from_clique_kept
      cleanup_clique_kept)

interpretation cqo: shared_object "clique_ops maxNodes cid" "new_clique m" "clique_inv maxNodes cid" clique_stable
  for maxNodes cid m
  by unfold_locales (auto simp: new_clique_def clique_inv_def dest: clique_ops_kept)

section \<open>Runs of the daemons\<close>

text \<open>A manager's cache holds a version the server has stored, however old, or nothing.\<close>

definition cache_known :: "clique_world \<Rightarrow> bool" where
  "cache_known w \<longleftrightarrow> (case cw_cache w of Ok (Some v) \<Rightarrow> v \<in> set (cw_server w) | _ \<Rightarrow> True)"

text \<open>The object on the server under the handlers of any daemons of the clique and the cleanup of the
  controller, in any order, with any local states and failures.\<close>

inductive clique_run :: "int \<Rightarrow> string \<Rightarrow> ComputeDomainClique versions \<Rightarrow> bool"
  for maxNodes :: int and cid :: string where
  absent: "clique_run maxNodes cid []"
| create: "clique_run maxNodes cid (cw_server w) \<Longrightarrow> of_clique maxNodes cid m \<Longrightarrow> cache_known w \<Longrightarrow>
    clique_run maxNodes cid (cw_server (snd (ensureCliqueExists fail m w)))"
| event: "clique_run maxNodes cid (cw_server w) \<Longrightarrow> of_clique maxNodes cid m \<Longrightarrow> cache_known w \<Longrightarrow>
    clique_run maxNodes cid (cw_server (snd (clique_onAddOrUpdate fail m obj w)))"
| readiness: "clique_run maxNodes cid (cw_server w) \<Longrightarrow> of_clique maxNodes cid m \<Longrightarrow> cache_known w \<Longrightarrow>
    clique_run maxNodes cid (cw_server (snd (updateDaemonStatus fail m ready w)))"
| stop: "clique_run maxNodes cid (cw_server w) \<Longrightarrow> of_clique maxNodes cid m \<Longrightarrow> cache_known w \<Longrightarrow>
    clique_run maxNodes cid (cw_server (clique_Stop fail m w))"
| cleanup: "clique_run maxNodes cid vs \<Longrightarrow> v \<in> set vs \<Longrightarrow>
    clique_run maxNodes cid (cleanupClique fail pods v vs)"

text \<open>A handler leaves the object alone or performs one write of the clique's daemons.\<close>

definition one_write :: "int \<Rightarrow> string \<Rightarrow> ComputeDomainClique versions \<Rightarrow> ComputeDomainClique versions \<Rightarrow> bool" where
  "one_write maxNodes cid vs vs' \<longleftrightarrow> vs' = vs \<or>
     (\<exists>rv c f c'. (rv, c) \<in> set vs \<and> f \<in> clique_ops maxNodes cid \<and> f c = Some c' \<and>
        vs' = snd (api_update rv c' vs))"

lemma one_write_refl [simp]: "one_write maxNodes cid vs vs"
  by (simp add: one_write_def)

lemma update_clique_one_write:
  assumes "(rv, c) \<in> set (cw_server w)" and "f \<in> clique_ops maxNodes cid" and "f c = Some c'"
  shows "one_write maxNodes cid (cw_server w) (cw_server (snd (update_clique fail rv c' w)))"
proof (cases fail)
  case None
  then have "cw_server (snd (update_clique fail rv c' w)) \<in> {cw_server w, snd (api_update rv c' (cw_server w))}"
    by (auto simp: update_clique_def split: prod.splits go.splits)
  with assms show ?thesis by (auto simp: one_write_def)
qed (simp add: update_clique_def)

lemma update_then_ret [simp]:
  "snd (bind_st (update_clique fail rv c) (\<lambda>_. ret_st ()) w) = snd (update_clique fail rv c w)"
  by (simp add: bind_st_def ret_st_def split: prod.splits go.splits)

lemma bind_getClique: "cw_cache w = Ok v \<Longrightarrow> bind_st (wrap_st g getClique) f w = f v w"
  by (simp add: bind_st_def wrap_st_def getClique_def)

lemma sync_in_ops: "of_clique maxNodes cid m \<Longrightarrow> (\<lambda>c. written (sync_clique m c)) \<in> clique_ops maxNodes cid"
  by (auto simp: clique_ops_def)

lemma status_in_ops:
  "of_clique maxNodes cid m \<Longrightarrow> (\<lambda>c. written (status_clique m ready c)) \<in> clique_ops maxNodes cid"
  by (auto simp: clique_ops_def)

lemma remove_in_ops:
  "of_clique maxNodes cid m \<Longrightarrow> (\<lambda>c. Some (remove_from_clique m c)) \<in> clique_ops maxNodes cid"
  by (auto simp: clique_ops_def)

lemma maybePush_server [simp]: "cw_server (maybePushDaemonsUpdate c w) = cw_server w"
  by (simp add: maybePushDaemonsUpdate_def)

lemma sync_one_write:
  assumes "of_clique maxNodes cid m" and "(rv, c) \<in> set (cw_server w)"
  shows "one_write maxNodes cid (cw_server w) (cw_server (snd (syncDaemonInfoToClique fail m (rv, c) w)))"
proof (cases "sync_clique m c")
  case (Ok new)
  then show ?thesis
    using update_clique_one_write [OF assms(2) sync_in_ops [OF assms(1)]]
    by (cases new) (simp_all add: syncDaemonInfoToClique_def bind_st_def lift_st_def ret_st_def)
qed (simp_all add: syncDaemonInfoToClique_def bind_st_def lift_st_def)

lemma event_one_write:
  assumes "of_clique maxNodes cid m" and "cache_known w"
  shows "one_write maxNodes cid (cw_server w) (cw_server (snd (clique_onAddOrUpdate fail m obj w)))"
proof (cases "\<exists>rv c. cw_cache w = Ok (Some (rv, c))")
  case True
  then obtain rv c where cached: "cw_cache w = Ok (Some (rv, c))" by blast
  with assms(2) have "(rv, c) \<in> set (cw_server w)" by (simp add: cache_known_def)
  note sync = sync_one_write [OF assms(1) this, of fail]
  show ?thesis
    using cached sync
    by (auto simp: clique_onAddOrUpdate_def getClique_def bind_st_def wrap_st_def ret_st_def err_st_def
        split: option.splits prod.splits go.splits)
next
  case False
  then show ?thesis
    by (cases "cw_cache w")
      (auto simp: clique_onAddOrUpdate_def getClique_def bind_st_def wrap_st_def ret_st_def err_st_def
        split: option.splits)
qed

lemma readiness_one_write:
  assumes "of_clique maxNodes cid m" and "cache_known w"
  shows "one_write maxNodes cid (cw_server w) (cw_server (snd (updateDaemonStatus fail m ready w)))"
proof (cases "cw_cache w")
  case (Ok v)
  show ?thesis
  proof (cases v)
    case (Some rc)
    obtain rv c where rc: "rc = (rv, c)" by fastforce
    with Ok Some assms(2) have known: "(rv, c) \<in> set (cw_server w)" by (simp add: cache_known_def)
    show ?thesis
    proof (cases "status_clique m ready c")
      case st: (Ok new)
      then show ?thesis
        using Some rc update_clique_one_write [OF known status_in_ops [OF assms(1)], of ready]
        by (cases new) (simp_all add: updateDaemonStatus_def bind_getClique [OF Ok])
    qed (simp_all add: Ok Some rc updateDaemonStatus_def getClique_def bind_st_def wrap_st_def lift_st_def)
  qed (simp add: Ok updateDaemonStatus_def getClique_def bind_st_def wrap_st_def err_st_def)
qed (simp_all add: updateDaemonStatus_def getClique_def bind_st_def wrap_st_def)

lemma stop_one_write:
  assumes "of_clique maxNodes cid m" and "cache_known w"
  shows "one_write maxNodes cid (cw_server w) (cw_server (clique_Stop fail m w))"
proof (cases "cw_cache w")
  case (Ok v)
  show ?thesis
  proof (cases v)
    case (Some rc)
    obtain rv c where rc: "rc = (rv, c)" by fastforce
    with Ok Some assms(2) have "(rv, c) \<in> set (cw_server w)" by (simp add: cache_known_def)
    from update_clique_one_write [OF this remove_in_ops [OF assms(1)] refl, of fail] Ok Some rc
    show ?thesis
      by (auto simp: clique_Stop_def removeDaemonInfoFromClique_def getClique_def bind_st_def wrap_st_def
          ret_st_def split: prod.splits go.splits)
  qed (simp add: Ok clique_Stop_def removeDaemonInfoFromClique_def getClique_def bind_st_def wrap_st_def ret_st_def)
qed (simp_all add: clique_Stop_def removeDaemonInfoFromClique_def getClique_def bind_st_def wrap_st_def)

lemma cleanup_one_write:
  assumes "v \<in> set vs" shows "one_write maxNodes cid vs (cleanupClique fail pods v vs)"
proof (cases "fail = None \<and> cleanup_clique pods (snd v) \<noteq> None")
  case True
  then obtain c' where c': "cleanup_clique pods (snd v) = Some c'" by blast
  have "cleanup_clique pods \<in> clique_ops maxNodes cid" by (simp add: clique_ops_def)
  with c' True assms show ?thesis
    unfolding one_write_def by (metis cleanupClique_def option.simps(4,5) prod.collapse)
next
  case False
  then show ?thesis by (auto simp: cleanupClique_def split: option.splits)
qed

lemma ensure_server:
  "cw_server (snd (ensureCliqueExists fail m w)) = cw_server w \<or>
   cw_server (snd (ensureCliqueExists fail m w)) = [(0, new_clique m)]"
  by (auto simp: ensureCliqueExists_def create_clique_def getClique_def bind_st_def wrap_st_def ret_st_def
      split: option.splits go.splits)

text \<open>Every run is a history of the shared object, or the object is absent.\<close>

definition clique_history :: "int \<Rightarrow> string \<Rightarrow> ComputeDomainClique versions \<Rightarrow> bool" where
  "clique_history maxNodes cid vs \<longleftrightarrow> vs = [] \<or> (\<exists>m. history (clique_ops maxNodes cid) (new_clique m) vs)"

lemma one_write_history:
  "clique_history maxNodes cid vs \<Longrightarrow> one_write maxNodes cid vs vs' \<Longrightarrow> clique_history maxNodes cid vs'"
  by (auto simp: clique_history_def one_write_def intro: history.updated)

lemma clique_run_history: "clique_run maxNodes cid vs \<Longrightarrow> clique_history maxNodes cid vs"
proof (induction rule: clique_run.induct)
  case (create w m fail)
  then show ?case using ensure_server [of fail m w] history.created [of "clique_ops maxNodes cid" "new_clique m"]
    by (auto simp: clique_history_def)
qed (auto simp: clique_history_def [of _ _ "[]"]
      intro: one_write_history event_one_write readiness_one_write stop_one_write cleanup_one_write)

lemma clique_run_inv: "clique_run maxNodes cid vs \<Longrightarrow> (rv, c) \<in> set vs \<Longrightarrow> clique_inv maxNodes cid c"
  using cqo.all_versions clique_run_history by (fastforce simp: clique_history_def)

lemma clique_inv_length:
  assumes "clique_inv maxNodes cid c" shows "length (cq_Daemons c) \<le> nat maxNodes"
proof -
  let ?I = "map di_Index (cq_Daemons c)"
  have "distinct (map (\<lambda>d. (di_CliqueID d, di_Index d)) (cq_Daemons c))"
    using assms by (simp add: clique_inv_def unique_entries_def)
  then have "distinct ?I"
    using assms unfolding clique_inv_def distinct_map inj_on_def by auto
  moreover have "set ?I \<subseteq> {0..<maxNodes}" using assms by (auto simp: clique_inv_def)
  then have "card (set ?I) \<le> card {0..<maxNodes}" by (rule card_mono [rotated]) simp
  ultimately show ?thesis using distinct_card [of ?I] by simp
qed

lemma clique_run_stable:
  "clique_run maxNodes cid ((rv', c') # (rv, c) # vs) \<Longrightarrow> clique_stable c c'"
  using clique_run_history cqo.successive by (fastforce simp: clique_history_def)

section \<open>Properties\<close>

text \<open>C24. Whatever the daemons of a clique and the controller's cleanup do, in any interleaving, with stale caches and failing
  calls, no two entries of any stored version of the clique object share a node name or an index,
  every index lies below the maximum, and there are at most as many entries.\<close>

theorem clique_indices_unique:
  assumes "clique_run maxNodes cid vs" and "(rv, c) \<in> set vs"
  shows "distinct (map di_NodeName (cq_Daemons c)) \<and> distinct (map di_Index (cq_Daemons c)) \<and>
    (\<forall>d \<in> set (cq_Daemons c). 0 \<le> di_Index d \<and> di_Index d < maxNodes) \<and>
    length (cq_Daemons c) \<le> nat maxNodes"
proof -
  note inv = clique_run_inv [OF assms]
  then have "distinct (map (\<lambda>d. (di_CliqueID d, di_Index d)) (cq_Daemons c))"
    by (simp add: clique_inv_def unique_entries_def)
  then have "distinct (map di_Index (cq_Daemons c))"
    using inv unfolding clique_inv_def distinct_map inj_on_def by auto
  with inv clique_inv_length [OF inv] clique_inv_distinct [OF inv] show ?thesis
    by (auto simp: clique_inv_def)
qed

definition daemon_on :: "string \<Rightarrow> string \<Rightarrow> ManagerConfig" where
  "daemon_on node ip = \<lparr>mc_nodeName = node, mc_podIP = ip, mc_podName = ''pod-'' @ node, mc_podUID = ''uid-'' @ node,
     mc_podNamespace = ''ns'', mc_computeDomainUUID = ''cd'', mc_computeDomainName = ''dom'',
     mc_cliqueID = ''q'', mc_maxNodesPerIMEXDomain = 18\<rparr>"

definition fresh_world :: "ComputeDomainClique versions \<Rightarrow> clique_world" where
  "fresh_world vs = \<lparr>cw_cache = Ok (case vs of [] \<Rightarrow> None | v # _ \<Rightarrow> Some v), cw_server = vs,
     cw_previousDaemons = [], cw_pushed = []\<rparr>"

text \<open>Daemon \<open>a\<close> creates the clique and inserts itself, then \<open>b\<close> does.\<close>

definition two_daemons :: "ComputeDomainClique versions" where
  "two_daemons =
     (let v1 = cw_server (snd (ensureCliqueExists None (daemon_on ''a'' ''10.0.0.1'') (fresh_world [])));
          v2 = cw_server (snd (clique_onAddOrUpdate None (daemon_on ''a'' ''10.0.0.1'') (Some (snd (hd v1))) (fresh_world v1)))
      in cw_server (snd (clique_onAddOrUpdate None (daemon_on ''b'' ''10.0.0.2'') (Some (snd (hd v2))) (fresh_world v2))))"

lemma two_daemons_run: "clique_run 18 ''q'' two_daemons"
proof -
  have of: "of_clique 18 ''q'' (daemon_on n ip)" for n ip
    by (simp add: of_clique_def daemon_on_def)
  have known: "cache_known (fresh_world vs)" for vs
    by (simp add: cache_known_def fresh_world_def split: list.splits)
  have server: "cw_server (fresh_world vs) = vs" for vs by (simp add: fresh_world_def)
  show ?thesis
    unfolding two_daemons_def Let_def
    by (intro clique_run.event clique_run.create of known; subst server;
        intro clique_run.event clique_run.create of known; subst server;
        intro clique_run.event clique_run.create of known; subst server; rule clique_run.absent)
qed

theorem clique_indices_unique_witness:
  "map (\<lambda>d. (di_NodeName d, di_Index d)) (cq_Daemons (snd (hd two_daemons))) = [(''a'', 0), (''b'', 1)] \<and>
   distinct (map di_Index (cq_Daemons (snd (hd two_daemons))))"
proof -
  have "two_daemons \<noteq> []" by code_simp
  then have "(fst (hd two_daemons), snd (hd two_daemons)) \<in> set two_daemons" by simp
  moreover have "map (\<lambda>d. (di_NodeName d, di_Index d)) (cq_Daemons (snd (hd two_daemons))) = [(''a'', 0), (''b'', 1)]"
    by code_simp
  ultimately show ?thesis
    using clique_indices_unique [OF two_daemons_run] by blast
qed

text \<open>C25. Names are stable: from one stored version of a clique object to the next, a node that stays
  listed keeps its index, so the DNS name of its daemon does not change.\<close>

theorem clique_index_stable:
  assumes "clique_run maxNodes cid ((rv', c') # (rv, c) # vs)"
    and "d \<in> set (cq_Daemons c)" and "d' \<in> set (cq_Daemons c')" and "di_NodeName d = di_NodeName d'"
  shows "di_Index d = di_Index d'"
  using clique_run_stable [OF assms(1)] assms(2-4)
  unfolding clique_stable_def stable_indices_def by blast

theorem clique_index_stable_witness:
  "\<exists>rv' c' rv c vs d d'. two_daemons = (rv', c') # (rv, c) # vs \<and> d \<in> set (cq_Daemons c) \<and>
     d' \<in> set (cq_Daemons c') \<and> di_NodeName d = di_NodeName d' \<and> di_Index d = di_Index d'"
proof -
  have len: "length two_daemons = 3" by code_simp
  then obtain v1 v2 v3 where vs: "two_daemons = [v1, v2, v3]"
    by (auto simp: numeral_3_eq_3 length_Suc_conv)
  obtain rv' c' rv c where v: "v1 = (rv', c')" "v2 = (rv, c)" by fastforce
  have "map di_NodeName (cq_Daemons (snd (two_daemons ! 0))) = [''a'', ''b'']"
    "map di_NodeName (cq_Daemons (snd (two_daemons ! 1))) = [''a'']" by code_simp+
  then obtain x y z where "cq_Daemons c' = [x, y]" "di_NodeName x = ''a''" "cq_Daemons c = [z]" "di_NodeName z = ''a''"
    by (auto simp: vs v map_eq_Cons_conv)
  then have d: "z \<in> set (cq_Daemons c)" "x \<in> set (cq_Daemons c')" "di_NodeName z = di_NodeName x" by simp_all
  have run: "clique_run 18 ''q'' ((rv', c') # (rv, c) # [v3])" using two_daemons_run by (simp add: vs v)
  from clique_index_stable [OF run d] d vs v show ?thesis by blast
qed

text \<open>The index a daemon takes is the least one no entry has, so gaps are filled first; it
  fails exactly when all indices below the maximum are taken.\<close>

theorem clique_next_index_least:
  "(clique_getNextAvailableIndex m daemons = Ok i \<longleftrightarrow>
      least_unused di_Index daemons i \<and> i < mc_maxNodesPerIMEXDomain m) \<and>
   (\<not> is_ok (clique_getNextAvailableIndex m daemons) \<longleftrightarrow>
      {0..<mc_maxNodesPerIMEXDomain m} \<subseteq> di_Index ` set daemons)"
proof -
  let ?n = "next_unused (used_indices di_Index daemons) 0"
  have least: "least_unused di_Index daemons ?n" by (rule next_unused_least)
  have "\<not> is_ok (clique_getNextAvailableIndex m daemons) \<longleftrightarrow> ?n \<ge> mc_maxNodesPerIMEXDomain m"
    using least by (auto simp: clique_getNextAvailableIndex_def Let_def least_unused_def)
  also have "\<dots> \<longleftrightarrow> {0..<mc_maxNodesPerIMEXDomain m} \<subseteq> di_Index ` set daemons"
    using least by (auto simp: least_unused_def subset_iff not_le)
  finally show ?thesis by (simp add: clique_next_index)
qed

text \<open>After a handled event the daemon is listed and the IMEX controller is up to date: the
  version in the manager's cache lists this node with the pod's IP address, the daemons last pushed
  have exactly that version's IP addresses, and an update was sent only if the set of addresses changed.\<close>

theorem clique_event_lists_and_pushes:
  assumes "clique_onAddOrUpdate fail m (Some obj) w = (Ok (), w')"
    and "cq_Name obj = cliqueName m" and "cw_cache w = Ok (Some (rv, c))"
    and "label (cq_Labels c) computeDomainLabelKey = mc_computeDomainUUID m"
  shows "\<exists>rv' c'. cw_cache w' = Ok (Some (rv', c')) \<and>
    (\<exists>d \<in> set (cq_Daemons c'). di_NodeName d = mc_nodeName m \<and> di_IPAddress d = mc_podIP m) \<and>
    di_IPAddress ` set (cw_previousDaemons w') = di_IPAddress ` set (cq_Daemons c') \<and>
    cw_pushed w' = (if di_IPAddress ` set (cq_Daemons c') = di_IPAddress ` set (cw_previousDaemons w)
                    then cw_pushed w else cw_pushed w @ [cq_Daemons c'])"
proof -
  from assms obtain c' w1 where sync: "syncDaemonInfoToClique fail m (rv, c) w = (Ok c', w1)"
    and w': "w' = maybePushDaemonsUpdate c' w1"
    by (auto simp: clique_onAddOrUpdate_def bind_getClique bind_st_eq_Ok wrap_st_eq_Ok)
  from sync obtain new where new: "sync_clique m c = Ok new"
    and upd: "(case new of None \<Rightarrow> ret_st c | Some c'' \<Rightarrow> update_clique fail rv c'') w = (Ok c', w1)"
    by (auto simp: syncDaemonInfoToClique_def bind_st_eq_Ok lift_st_def)
  have w1: "cw_cache w1 = Ok (Some (case new of None \<Rightarrow> rv | Some _ \<Rightarrow> Suc rv, c'))"
      "cw_previousDaemons w1 = cw_previousDaemons w" "cw_pushed w1 = cw_pushed w"
      "new = None \<longrightarrow> c' = c" "new \<noteq> None \<longrightarrow> new = Some c'"
    using upd assms(3)
    by (auto simp: update_clique_def api_update_def ret_st_def split: option.splits prod.splits go.splits
        list.splits if_splits)
  have "\<exists>d \<in> set (cq_Daemons c'). di_NodeName d = mc_nodeName m \<and> di_IPAddress d = mc_podIP m"
  proof (cases "find (\<lambda>d. di_NodeName d = mc_nodeName m) (cq_Daemons c)")
    case None
    with new w1(4,5) show ?thesis by (cases new) (auto simp: sync_clique_def)
  next
    case (Some d)
    note found = find_SomeD [OF Some] find_update_first [OF Some, of "\<lambda>d. d\<lparr>di_IPAddress := mc_podIP m\<rparr>"]
    show ?thesis
    proof (cases "di_IPAddress d = mc_podIP m")
      case True
      with Some new w1(4) found show ?thesis by (auto simp: sync_clique_def)
    next
      case False
      with Some new w1(5) have "cq_Daemons c' = update_first (\<lambda>d. di_NodeName d = mc_nodeName m)
          (\<lambda>d. d\<lparr>di_IPAddress := mc_podIP m\<rparr>) (cq_Daemons c)"
        by (auto simp: sync_clique_def)
      with found show ?thesis by (auto dest!: find_SomeD)
    qed
  qed
  with w1(1-3) show ?thesis
    by (auto simp: w' maybePushDaemonsUpdate_def getIPSet_def ipset_of_Equal)
qed

theorem clique_event_lists_and_pushes_witness:
  "\<exists>w'. clique_onAddOrUpdate None (daemon_on ''c'' ''10.0.0.3'') (Some (snd (hd two_daemons))) (fresh_world two_daemons)
      = (Ok (), w') \<and> cw_pushed w' \<noteq> []"
proof -
  let ?m = "daemon_on ''c'' ''10.0.0.3''" and ?o = "snd (hd two_daemons)"
  let ?r = "clique_onAddOrUpdate None ?m (Some ?o) (fresh_world two_daemons)"
  have ok: "is_ok (fst ?r)" by code_simp
  then obtain u w' where "?r = (Ok u, w')" by (cases ?r) (auto simp: is_ok_iff)
  then have r: "?r = (Ok (), w')" by simp
  have name: "cq_Name ?o = cliqueName ?m"
    and lbl: "label (cq_Labels ?o) computeDomainLabelKey = mc_computeDomainUUID ?m" by code_simp+
  have "two_daemons \<noteq> []" by code_simp
  then have cached: "cw_cache (fresh_world two_daemons) = Ok (Some (fst (hd two_daemons), ?o))"
    by (simp add: fresh_world_def list.case_eq_if)
  from clique_event_lists_and_pushes [OF r name cached lbl] r show ?thesis
    by (auto simp: fresh_world_def split: if_splits)
qed

end
