(* ===== verification/Daemon_Status.thy ===== *)
theory Daemon_Status
  imports Daemon_Clique
begin

text \<open>
  The status manager of the compute-domain daemon (\<open>cdstatus.go\<close>), used when cliques are not
  enabled: the daemons of all cliques of a compute domain keep their entries in the status of the
  one \<open>ComputeDomain\<close> object, which the controller also rewrites.

  The world of a manager is its mutation cache (all versions it knows, of any object), the history
  of the compute domain on the API server, the nodes it last pushed and what it has sent to the
  IMEX controller.
\<close>

section \<open>Operations\<close>

record status_world =
  sw_cache :: "(nat \<times> ComputeDomain) list go"
  sw_server :: "ComputeDomain versions"
  sw_previousNodes :: "ComputeDomainNode list"
  sw_pushed :: "ComputeDomainDaemonInfo list list"

definition status_Get :: "string \<Rightarrow> (status_world, (nat \<times> ComputeDomain) option) gost" where
  "status_Get uid w =
     (case wrap_go (Wrapf ''error retrieving ComputeDomain by UID'') (sw_cache w) of
        Err e \<Rightarrow> (Err e, w)
      | Panic p \<Rightarrow> (Panic p, w)
      | Ok objs \<Rightarrow>
          (case filter (\<lambda>v. co_UID (snd v) = uid) objs of
             [] \<Rightarrow> (Ok None, w)
           | [v] \<Rightarrow> (Ok (Some v), w)
           | _ \<Rightarrow> (Err (Errorf ''multiple ComputeDomains with the same UID''), w)))"

definition status_getNextAvailableIndex :: "ManagerConfig \<Rightarrow> ComputeDomainNode list \<Rightarrow> int go" where
  "status_getNextAvailableIndex m nodes =
     (let cliqueNodes = filter (\<lambda>n. cn_CliqueID n = mc_cliqueID m) nodes;
          nextIndex = next_unused (used_indices cn_Index cliqueNodes) 0
      in if mc_cliqueID m = '''' then Ok nextIndex
         else if nextIndex < 0 \<or> nextIndex \<ge> mc_maxNodesPerIMEXDomain m
         then Err (Errorf ''no available indices within maxNodesPerIMEXDomain'')
         else Ok nextIndex)"

definition update_cd_status ::
  "goerr option \<Rightarrow> nat \<Rightarrow> ComputeDomain \<Rightarrow> (status_world, ComputeDomain) gost" where
  "update_cd_status fail rv c w = (case fail of
     Some e \<Rightarrow> (Err (Wrapf ''error updating ComputeDomain status'' e), w)
   | None \<Rightarrow>
       (case api_update rv c (sw_server w) of
          (Ok v, vs) \<Rightarrow> (Ok (snd v), w\<lparr>sw_server := vs, sw_cache := Ok [v]\<rparr>)
        | (Err e, vs) \<Rightarrow> (Err (Wrapf ''error updating ComputeDomain status'' e), w)
        | (Panic p, vs) \<Rightarrow> (Panic p, w)))"

text \<open>What \<open>syncNodeInfoToCD\<close> writes.\<close>

definition sync_cd :: "ManagerConfig \<Rightarrow> ComputeDomain \<Rightarrow> ComputeDomain option go" where
  "sync_cd m c =
     (case find (\<lambda>n. cn_Name n = mc_nodeName m) (co_Nodes c) of
        Some n \<Rightarrow>
          if cn_IPAddress n = mc_podIP m then Ok None
          else Ok (Some (c\<lparr>co_Nodes := update_first (\<lambda>n. cn_Name n = mc_nodeName m)
                 (\<lambda>n. n\<lparr>cn_IPAddress := mc_podIP m\<rparr>) (co_Nodes c)\<rparr>))
      | None \<Rightarrow>
          bind_go (wrap_go (Wrapf ''error getting next available index'')
                     (status_getNextAvailableIndex m (co_Nodes c))) (\<lambda>nextIndex.
            Ok (Some (c\<lparr>co_Nodes := co_Nodes c @
              [\<lparr>cn_Name = mc_nodeName m, cn_IPAddress = mc_podIP m, cn_CliqueID = mc_cliqueID m,
                 cn_Index = nextIndex, cn_Status = ComputeDomainStatusNotReady\<rparr>]\<rparr>))))"

definition syncNodeInfoToCD ::
  "goerr option \<Rightarrow> ManagerConfig \<Rightarrow> nat \<times> ComputeDomain \<Rightarrow> (status_world, ComputeDomain) gost" where
  "syncNodeInfoToCD fail m cd = (case cd of (rv, c) \<Rightarrow>
     bind_st (lift_st (sync_cd m c)) (\<lambda>new.
       case new of None \<Rightarrow> ret_st c | Some c' \<Rightarrow> update_cd_status fail rv c'))"

text \<open>What \<open>removeNodeFromComputeDomain\<close> writes.\<close>

definition remove_from_cd :: "ManagerConfig \<Rightarrow> ComputeDomain \<Rightarrow> ComputeDomain option" where
  "remove_from_cd m c =
     (let updatedNodes = filter (\<lambda>n. cn_IPAddress n \<noteq> mc_podIP m) (co_Nodes c)
      in if length updatedNodes = length (co_Nodes c) then None else Some (c\<lparr>co_Nodes := updatedNodes\<rparr>))"

definition removeNodeFromComputeDomain :: "goerr option \<Rightarrow> ManagerConfig \<Rightarrow> (status_world, unit) gost" where
  "removeNodeFromComputeDomain fail m =
     bind_st (wrap_st (Wrapf ''error getting ComputeDomain from mutation cache'')
                (status_Get (mc_computeDomainUUID m))) (\<lambda>cd. case cd of
       None \<Rightarrow> ret_st ()
     | Some (rv, c) \<Rightarrow>
         (case remove_from_cd m c of
            None \<Rightarrow> ret_st ()
          | Some c' \<Rightarrow> bind_st (update_cd_status fail rv c') (\<lambda>_. ret_st ())))"

text \<open>What \<open>updateNodeStatus\<close> writes.\<close>

definition status_cd :: "ManagerConfig \<Rightarrow> bool \<Rightarrow> ComputeDomain \<Rightarrow> ComputeDomain option go" where
  "status_cd m ready c =
     (case find (\<lambda>n. cn_Name n = mc_nodeName m) (co_Nodes c) of
        None \<Rightarrow> Err (Errorf ''node not yet listed in CD (waiting for insertion)'')
      | Some n \<Rightarrow>
          if cn_Status n = status_of ready then Ok None
          else Ok (Some (c\<lparr>co_Nodes := update_first (\<lambda>n. cn_Name n = mc_nodeName m)
                 (\<lambda>n. n\<lparr>cn_Status := status_of ready\<rparr>) (co_Nodes c)\<rparr>)))"

definition updateNodeStatus :: "goerr option \<Rightarrow> ManagerConfig \<Rightarrow> bool \<Rightarrow> (status_world, unit) gost" where
  "updateNodeStatus fail m ready =
     bind_st (wrap_st (Wrapf ''failed to get ComputeDomain'') (status_Get (mc_computeDomainUUID m))) (\<lambda>cd.
       case cd of
         None \<Rightarrow> err_st (Errorf ''ComputeDomain not found'')
       | Some (rv, c) \<Rightarrow>
           bind_st (lift_st (status_cd m ready c)) (\<lambda>new.
             case new of
               None \<Rightarrow> ret_st ()
             | Some c' \<Rightarrow> bind_st (update_cd_status fail rv c') (\<lambda>_. ret_st ())))"

definition getIPSetForClique :: "ManagerConfig \<Rightarrow> ComputeDomainNode list \<Rightarrow> IPSet" where
  "getIPSetForClique m nodes = ipset_of cn_IPAddress (filter (\<lambda>n. cn_CliqueID n = mc_cliqueID m) nodes)"

definition nodesToDaemonInfos :: "ComputeDomainNode list \<Rightarrow> ComputeDomainDaemonInfo list" where
  "nodesToDaemonInfos nodes = map (\<lambda>n. \<lparr>di_NodeName = cn_Name n, di_IPAddress = cn_IPAddress n,
     di_CliqueID = cn_CliqueID n, di_Index = cn_Index n, di_Status = cn_Status n\<rparr>) nodes"

text \<open>\<open>dnsNames\<close> is the feature gate \<open>IMEXDaemonsWithDNSNames\<close>.\<close>

definition maybePushNodesUpdate ::
  "bool \<Rightarrow> ManagerConfig \<Rightarrow> ComputeDomain \<Rightarrow> status_world \<Rightarrow> status_world" where
  "maybePushNodesUpdate dnsNames m c w =
     (if \<not> dnsNames \<and> int (length (co_Nodes c)) \<noteq> co_NumNodes c then w
      else if \<not> maps_Equal (getIPSetForClique m (co_Nodes c)) (getIPSetForClique m (sw_previousNodes w))
      then w\<lparr>sw_previousNodes := co_Nodes c, sw_pushed := sw_pushed w @ [nodesToDaemonInfos (co_Nodes c)]\<rparr>
      else w)"

definition status_onAddOrUpdate ::
  "goerr option \<Rightarrow> bool \<Rightarrow> ManagerConfig \<Rightarrow> ComputeDomain option \<Rightarrow> (status_world, unit) gost" where
  "status_onAddOrUpdate fail dnsNames m obj = (case obj of
     None \<Rightarrow> err_st (Errorf ''failed to cast to ComputeDomain'')
   | Some o' \<Rightarrow>
       bind_st (wrap_st (Wrapf ''error getting latest ComputeDomain'') (status_Get (co_UID o'))) (\<lambda>cd.
         case cd of
           None \<Rightarrow> ret_st ()
         | Some (rv, c) \<Rightarrow>
             if co_UID c \<noteq> mc_computeDomainUUID m then ret_st ()
             else bind_st (wrap_st (Wrapf ''CD update: failed to insert/update node info in CD'')
                             (syncNodeInfoToCD fail m (rv, c))) (\<lambda>c' w.
                    (Ok (), maybePushNodesUpdate dnsNames m c' w))))"

section \<open>Lemmas\<close>

definition in_my_clique :: "ManagerConfig \<Rightarrow> ComputeDomainNode list \<Rightarrow> ComputeDomainNode list" where
  "in_my_clique m = filter (\<lambda>n. cn_CliqueID n = mc_cliqueID m)"

lemma status_next_index:
  "status_getNextAvailableIndex m nodes = Ok i \<longleftrightarrow>
     least_unused cn_Index (in_my_clique m nodes) i \<and>
     (mc_cliqueID m = '''' \<or> i < mc_maxNodesPerIMEXDomain m)"
proof -
  define n where "n = next_unused (used_indices cn_Index (in_my_clique m nodes)) 0"
  have least: "least_unused cn_Index (in_my_clique m nodes) n"
    unfolding n_def by (rule next_unused_least)
  then have "\<not> n < 0" by (simp add: least_unused_def)
  moreover have "least_unused cn_Index (in_my_clique m nodes) i \<longleftrightarrow> i = n"
    using least least_unused_unique [OF least] by blast
  moreover have "status_getNextAvailableIndex m nodes =
      (if mc_cliqueID m = '''' then Ok n
       else if n < 0 \<or> n \<ge> mc_maxNodesPerIMEXDomain m
       then Err (Errorf ''no available indices within maxNodesPerIMEXDomain'') else Ok n)"
    by (simp add: status_getNextAvailableIndex_def n_def in_my_clique_def Let_def)
  ultimately show ?thesis by auto
qed

interpretation st: index_allocator "status_getNextAvailableIndex m" cn_Name cn_CliqueID cn_Index
  "mc_cliqueID m" for m
  by unfold_locales (auto simp: status_next_index least_unused_def in_my_clique_def)

text \<open>Nodes on an NVLink fabric have a clique; the others are not subject to the index rules.\<close>

definition fabric :: "ComputeDomainNode list \<Rightarrow> ComputeDomainNode list" where
  "fabric = filter (\<lambda>n. cn_CliqueID n \<noteq> '''')"

definition status_inv :: "int \<Rightarrow> ComputeDomain \<Rightarrow> bool" where
  "status_inv maxNodes c \<longleftrightarrow>
     unique_entries cn_Name cn_CliqueID cn_Index (fabric (co_Nodes c)) \<and>
     (\<forall>n \<in> set (fabric (co_Nodes c)). 0 \<le> cn_Index n \<and> cn_Index n < maxNodes)"

definition status_stable :: "ComputeDomain \<Rightarrow> ComputeDomain \<Rightarrow> bool" where
  "status_stable c c' \<longleftrightarrow>
     stable_indices cn_Name cn_CliqueID cn_Index (fabric (co_Nodes c)) (fabric (co_Nodes c'))"

text \<open>The writes to the object: those of its daemons, and the two of the controller.\<close>

definition status_ops :: "int \<Rightarrow> (ComputeDomain \<Rightarrow> ComputeDomain option) set" where
  "status_ops maxNodes =
     {f. \<exists>m. mc_maxNodesPerIMEXDomain m = maxNodes \<and>
         (f = (\<lambda>c. written (sync_cd m c)) \<or> f = remove_from_cd m \<or>
          (\<exists>ready. f = (\<lambda>c. written (status_cd m ready c))))} \<union>
     {f. \<exists>pods. f = sync_object False [] pods} \<union> {updateGlobalStatus_object}"

text \<open>The identity of an entry, on which the invariant depends.\<close>

definition node_key :: "ComputeDomainNode \<Rightarrow> string \<times> string \<times> int" where
  "node_key n = (cn_Name n, cn_CliqueID n, cn_Index n)"

definition fabric_keys :: "ComputeDomainNode list \<Rightarrow> (string \<times> string \<times> int) list" where
  "fabric_keys ns = filter (\<lambda>(n, c, i). c \<noteq> '''') (map node_key ns)"

lemma map_fabric: "map node_key (fabric ns) = fabric_keys ns"
  by (simp add: fabric_def fabric_keys_def filter_map comp_def node_key_def)

definition keys_ok :: "int \<Rightarrow> (string \<times> string \<times> int) list \<Rightarrow> bool" where
  "keys_ok maxNodes ks \<longleftrightarrow> distinct (map fst ks) \<and> distinct (map snd ks) \<and>
     (\<forall>(n, c, i) \<in> set ks. 0 \<le> i \<and> i < maxNodes)"

lemma status_inv_keys: "status_inv maxNodes c \<longleftrightarrow> keys_ok maxNodes (fabric_keys (co_Nodes c))"
  unfolding status_inv_def keys_ok_def unique_entries_def map_fabric [symmetric]
  by (simp add: comp_def node_key_def case_prod_unfold)

definition keys_stable :: "(string \<times> string \<times> int) list \<Rightarrow> (string \<times> string \<times> int) list \<Rightarrow> bool" where
  "keys_stable ks ks' \<longleftrightarrow> (\<forall>k \<in> set ks. \<forall>k' \<in> set ks'. fst k = fst k' \<longrightarrow> snd k = snd k')"

lemma status_stable_keys:
  "status_stable c c' \<longleftrightarrow> keys_stable (fabric_keys (co_Nodes c)) (fabric_keys (co_Nodes c'))"
  unfolding status_stable_def keys_stable_def stable_indices_def map_fabric [symmetric]
  by (simp add: node_key_def)

lemma keys_sub:
  assumes "keys_ok maxNodes ks" and "ks' = filter P ks"
  shows "keys_ok maxNodes ks' \<and> keys_stable ks ks'"
proof
  show "keys_ok maxNodes ks'"
    using assms by (auto simp: keys_ok_def distinct_map_filter)
  show "keys_stable ks ks'"
    using assms distinct_map_eqD [of fst ks] unfolding keys_ok_def keys_stable_def by fastforce
qed

lemma keys_same:
  assumes "keys_ok maxNodes (fabric_keys (co_Nodes c))" and "map node_key (co_Nodes c') = map node_key (co_Nodes c)"
  shows "keys_ok maxNodes (fabric_keys (co_Nodes c')) \<and>
    keys_stable (fabric_keys (co_Nodes c)) (fabric_keys (co_Nodes c'))"
  using keys_sub [OF assms(1), of _ "\<lambda>_. True"] assms(2) by (simp add: fabric_keys_def)

lemma node_key_update [simp]:
  "node_key (n\<lparr>cn_IPAddress := ip\<rparr>) = node_key n" "node_key (n\<lparr>cn_Status := s\<rparr>) = node_key n"
  by (simp_all add: node_key_def)

lemma sync_cd_insert:
  assumes "find (\<lambda>n. cn_Name n = mc_nodeName m) (co_Nodes c) = None" and "sync_cd m c = Ok (Some c')"
    and "mc_maxNodesPerIMEXDomain m = maxNodes" and "status_inv maxNodes c"
  shows "status_inv maxNodes c' \<and> status_stable c c'"
proof -
  from assms(1,2) obtain i where i: "status_getNextAvailableIndex m (co_Nodes c) = Ok i"
    and c': "co_Nodes c' = co_Nodes c @ [\<lparr>cn_Name = mc_nodeName m, cn_IPAddress = mc_podIP m,
      cn_CliqueID = mc_cliqueID m, cn_Index = i, cn_Status = ComputeDomainStatusNotReady\<rparr>]" (is "_ = _ @ [?e]")
    by (auto simp: sync_cd_def)
  have new: "cn_Name ?e \<notin> cn_Name ` set (fabric (co_Nodes c))"
    using assms(1) by (auto simp: find_None_iff2 fabric_def)
  show ?thesis
  proof (cases "mc_cliqueID m = ''''")
    case True
    then have "fabric_keys (co_Nodes c') = fabric_keys (co_Nodes c)"
      by (simp add: c' fabric_keys_def node_key_def)
    with assms(4) keys_sub [of maxNodes "fabric_keys (co_Nodes c)" _ "\<lambda>_. True"] show ?thesis
      by (simp add: status_inv_keys status_stable_keys)
  next
    case False
    then have fab: "fabric (co_Nodes c') = fabric (co_Nodes c) @ [?e]"
      by (simp add: c' fabric_def)
    have "in_my_clique m (fabric (co_Nodes c)) = in_my_clique m (co_Nodes c)"
      using False by (auto simp: in_my_clique_def fabric_def intro: filter_cong)
    then have i': "status_getNextAvailableIndex m (fabric (co_Nodes c)) = Ok i"
      using i by (simp add: status_next_index)
    have uniq: "unique_entries cn_Name cn_CliqueID cn_Index (fabric (co_Nodes c))"
      using assms(4) by (simp add: status_inv_def)
    have "unique_entries cn_Name cn_CliqueID cn_Index (fabric (co_Nodes c'))"
      unfolding fab by (rule st.insert_unique [OF uniq i' new]) simp_all
    moreover have "0 \<le> i" "i < maxNodes"
      using i False assms(3) by (auto simp: status_next_index least_unused_def)
    moreover have "status_stable c c'"
      unfolding status_stable_def fab
      using stable_indices_append [OF _ new] uniq by (simp add: unique_entries_def)
    ultimately show ?thesis
      using assms(4) by (auto simp: status_inv_def fab)
  qed
qed

lemma status_ops_kept:
  assumes "f \<in> status_ops maxNodes" and "status_inv maxNodes c" and "f c = Some c'"
  shows "status_inv maxNodes c' \<and> status_stable c c'"
proof -
  have ok: "keys_ok maxNodes (fabric_keys (co_Nodes c))" using assms(2) by (simp add: status_inv_keys)
  have sub: "status_inv maxNodes c' \<and> status_stable c c'"
    if "fabric (co_Nodes c') = filter P (fabric (co_Nodes c))" for P
    using assms(2) that stable_indices_filter [of cn_Name "fabric (co_Nodes c)" cn_CliqueID cn_Index P]
    by (auto simp: status_inv_def status_stable_def unique_entries_def distinct_map_filter)
  have same: "status_inv maxNodes c' \<and> status_stable c c'"
    if "map node_key (co_Nodes c') = map node_key (co_Nodes c)"
    using keys_same [OF ok that] by (simp add: status_inv_keys status_stable_keys)
  from assms(1) consider
    (sync) m where "mc_maxNodesPerIMEXDomain m = maxNodes" "f = (\<lambda>c. written (sync_cd m c))"
    | (remove) m where "f = remove_from_cd m"
    | (ready) m b where "f = (\<lambda>c. written (status_cd m b c))"
    | (ctl) pods where "f = sync_object False [] pods"
    | (global) "f = updateGlobalStatus_object"
    unfolding status_ops_def by blast
  then show ?thesis
  proof cases
    case sync
    with assms(3) have new: "sync_cd m c = Ok (Some c')" by simp
    show ?thesis
    proof (cases "find (\<lambda>n. cn_Name n = mc_nodeName m) (co_Nodes c)")
      case None
      from sync_cd_insert [OF None new sync(1) assms(2)] show ?thesis .
    next
      case (Some n)
      with new have "co_Nodes c' = update_first (\<lambda>n. cn_Name n = mc_nodeName m)
          (\<lambda>n. n\<lparr>cn_IPAddress := mc_podIP m\<rparr>) (co_Nodes c)"
        by (auto simp: sync_cd_def split: if_splits)
      then show ?thesis by (intro same) (simp add: map_update_first)
    qed
  next
    case remove
    with assms(3) have "co_Nodes c' = filter (\<lambda>n. cn_IPAddress n \<noteq> mc_podIP m) (co_Nodes c)"
      by (auto simp: remove_from_cd_def Let_def split: if_splits)
    then have "fabric (co_Nodes c') = filter (\<lambda>n. cn_IPAddress n \<noteq> mc_podIP m) (fabric (co_Nodes c))"
      by (simp add: fabric_def conj_commute)
    then show ?thesis by (rule sub)
  next
    case ready
    with assms(3) have "co_Nodes c' = update_first (\<lambda>n. cn_Name n = mc_nodeName m)
        (\<lambda>n. n\<lparr>cn_Status := status_of b\<rparr>) (co_Nodes c)"
      by (auto simp: status_cd_def split: option.splits if_splits)
    then show ?thesis by (intro same) (simp add: map_update_first)
  next
    case ctl
    with assms(3) obtain P where "co_Nodes c' = filter P (fabric (co_Nodes c)) @ buildNodesFromPods (pods_of False (co_UID c) pods)"
      by (auto simp: sync_object_def syncCD_object_def sync_nodes_def UpdateStatus_object_def Let_def
          getNonStaleFabricNodes_def fabric_def conj_commute simp flip: filter_filter split: if_splits)
    then have "fabric (co_Nodes c') = filter P (fabric (co_Nodes c))"
      using nonFabric_pods_nodes by (auto simp: fabric_def filter_empty_conv intro: filter_cong)
    then show ?thesis by (rule sub)
  next
    case global
    with assms(3) have "co_Nodes c' = co_Nodes c"
      by (auto simp: updateGlobalStatus_object_def UpdateStatus_object_def Let_def split: if_splits)
    then show ?thesis by (intro same) simp
  qed
qed

interpretation sto: shared_object "status_ops maxNodes" "cd\<lparr>co_Nodes := []\<rparr>" "status_inv maxNodes" status_stable
  for maxNodes cd
  by unfold_locales (auto simp: status_inv_def fabric_def dest: status_ops_kept)

section \<open>Runs of the daemons and the controller\<close>

definition cd_cache_known :: "ManagerConfig \<Rightarrow> status_world \<Rightarrow> bool" where
  "cd_cache_known m w \<longleftrightarrow> (case sw_cache w of
     Ok objs \<Rightarrow> (\<forall>v \<in> set objs. co_UID (snd v) = mc_computeDomainUUID m \<longrightarrow> v \<in> set (sw_server w))
   | _ \<Rightarrow> True)"

text \<open>The compute domain on the server under the handlers of any daemons, the controller's periodic
  sync from any pods and its update of the global status, each from some stored version.\<close>

inductive status_run :: "int \<Rightarrow> ComputeDomain versions \<Rightarrow> bool" for maxNodes :: int where
  created: "co_Nodes cd = [] \<Longrightarrow> status_run maxNodes [(0, cd)]"
| event: "status_run maxNodes (sw_server w) \<Longrightarrow> mc_maxNodesPerIMEXDomain m = maxNodes \<Longrightarrow> cd_cache_known m w \<Longrightarrow>
    status_run maxNodes (sw_server (snd (status_onAddOrUpdate fail dnsNames m obj w)))"
| readiness: "status_run maxNodes (sw_server w) \<Longrightarrow> mc_maxNodesPerIMEXDomain m = maxNodes \<Longrightarrow> cd_cache_known m w \<Longrightarrow>
    status_run maxNodes (sw_server (snd (updateNodeStatus fail m ready w)))"
| stop: "status_run maxNodes (sw_server w) \<Longrightarrow> mc_maxNodesPerIMEXDomain m = maxNodes \<Longrightarrow> cd_cache_known m w \<Longrightarrow>
    status_run maxNodes (sw_server (snd (removeNodeFromComputeDomain fail m w)))"
| sync: "status_run maxNodes vs \<Longrightarrow> (rv, c) \<in> set vs \<Longrightarrow> sync_object False [] pods c = Some c' \<Longrightarrow>
    status_run maxNodes (snd (api_update rv c' vs))"
| global: "status_run maxNodes vs \<Longrightarrow> (rv, c) \<in> set vs \<Longrightarrow> updateGlobalStatus_object c = Some c' \<Longrightarrow>
    status_run maxNodes (snd (api_update rv c' vs))"

definition cd_one_write :: "int \<Rightarrow> ComputeDomain versions \<Rightarrow> ComputeDomain versions \<Rightarrow> bool" where
  "cd_one_write maxNodes vs vs' \<longleftrightarrow> vs' = vs \<or>
     (\<exists>rv c f c'. (rv, c) \<in> set vs \<and> f \<in> status_ops maxNodes \<and> f c = Some c' \<and>
        vs' = snd (api_update rv c' vs))"

lemma cd_one_write_refl [simp]: "cd_one_write maxNodes vs vs"
  by (simp add: cd_one_write_def)

lemma update_cd_one_write:
  assumes "(rv, c) \<in> set (sw_server w)" and "f \<in> status_ops maxNodes" and "f c = Some c'"
  shows "cd_one_write maxNodes (sw_server w) (sw_server (snd (update_cd_status fail rv c' w)))"
proof (cases fail)
  case None
  then have "sw_server (snd (update_cd_status fail rv c' w)) \<in> {sw_server w, snd (api_update rv c' (sw_server w))}"
    by (auto simp: update_cd_status_def split: prod.splits go.splits)
  with assms show ?thesis by (auto simp: cd_one_write_def)
qed (simp add: update_cd_status_def)

lemma update_cd_then_ret [simp]:
  "snd (bind_st (update_cd_status fail rv c) (\<lambda>_. ret_st ()) w) = snd (update_cd_status fail rv c w)"
  by (simp add: bind_st_def ret_st_def split: prod.splits go.splits)

text \<open>Reading the cache changes nothing, and what it finds for this compute domain is a stored version.\<close>

lemma bind_Get_found:
  "status_Get uid w = (Ok v, w) \<Longrightarrow> bind_st (wrap_st g (status_Get uid)) f w = f v w"
  by (simp add: bind_st_def wrap_st_def)

lemma bind_Get_fails:
  "status_Get uid w = (r, w) \<Longrightarrow> \<not> is_ok r \<Longrightarrow> snd (bind_st (wrap_st g (status_Get uid)) f w) = w"
  by (cases r) (simp_all add: bind_st_def wrap_st_def)

lemma status_Get_cases:
  obtains (fails) r where "status_Get uid w = (r, w)" "\<not> is_ok r"
    | (none) "status_Get uid w = (Ok None, w)"
    | (found) rv c where "status_Get uid w = (Ok (Some (rv, c)), w)"
        "co_UID c = uid" "\<And>objs. sw_cache w = Ok objs \<Longrightarrow> (rv, c) \<in> set objs" "is_ok (sw_cache w)"
proof (cases "sw_cache w")
  case (Ok objs)
  show ?thesis
  proof (cases "filter (\<lambda>v. co_UID (snd v) = uid) objs")
    case Nil
    with Ok show ?thesis by (intro none) (simp add: status_Get_def)
  next
    case (Cons v vs)
    obtain rv c where v: "v = (rv, c)" by fastforce
    have "v \<in> set (filter (\<lambda>v. co_UID (snd v) = uid) objs)" using Cons by simp
    then have mem: "co_UID c = uid" "(rv, c) \<in> set objs" by (auto simp: v)
    with Ok Cons v show ?thesis
      by (cases vs) (auto simp: status_Get_def intro: fails found)
  qed
next
  case (Err e)
  then show ?thesis by (intro fails) (auto simp: status_Get_def)
next
  case (Panic p)
  then show ?thesis by (intro fails) (auto simp: status_Get_def)
qed

lemma found_known:
  "cd_cache_known m w \<Longrightarrow> is_ok (sw_cache w) \<Longrightarrow> (\<And>objs. sw_cache w = Ok objs \<Longrightarrow> (rv, c) \<in> set objs) \<Longrightarrow>
     co_UID c = mc_computeDomainUUID m \<Longrightarrow> (rv, c) \<in> set (sw_server w)"
  by (auto simp: cd_cache_known_def is_ok_iff)

lemma cd_ops_members:
  assumes "mc_maxNodesPerIMEXDomain m = maxNodes"
  shows "(\<lambda>c. written (sync_cd m c)) \<in> status_ops maxNodes" "remove_from_cd m \<in> status_ops maxNodes"
    "(\<lambda>c. written (status_cd m ready c)) \<in> status_ops maxNodes"
  using assms by (auto simp: status_ops_def)

lemma sync_cd_one_write:
  assumes "mc_maxNodesPerIMEXDomain m = maxNodes" and "(rv, c) \<in> set (sw_server w)"
  shows "cd_one_write maxNodes (sw_server w) (sw_server (snd (syncNodeInfoToCD fail m (rv, c) w)))"
proof (cases "sync_cd m c")
  case (Ok new)
  then show ?thesis
    using update_cd_one_write [OF assms(2) cd_ops_members(1) [OF assms(1)]]
    by (cases new) (simp_all add: syncNodeInfoToCD_def)
qed (simp_all add: syncNodeInfoToCD_def)

lemma maybePushNodes_server [simp]: "sw_server (maybePushNodesUpdate dnsNames m c w) = sw_server w"
  by (simp add: maybePushNodesUpdate_def)

lemma push_after_sync:
  "sw_server (snd (bind_st (wrap_st g a) (\<lambda>c' w. (Ok (), maybePushNodesUpdate dnsNames m c' w)) w)) =
   sw_server (snd (a w))"
  by (auto simp: bind_st_def wrap_st_def split: prod.splits go.splits)

lemma cd_event_one_write:
  assumes "mc_maxNodesPerIMEXDomain m = maxNodes" and "cd_cache_known m w"
  shows "cd_one_write maxNodes (sw_server w) (sw_server (snd (status_onAddOrUpdate fail dnsNames m obj w)))"
proof (cases obj)
  case (Some o')
  show ?thesis
  proof (cases rule: status_Get_cases [of "co_UID o'" w])
    case (found rv c)
    show ?thesis
    proof (cases "co_UID c = mc_computeDomainUUID m")
      case True
      note known = found_known [OF assms(2) found(4) found(3) True]
      from True sync_cd_one_write [OF assms(1) known, of fail] Some show ?thesis
        by (simp add: status_onAddOrUpdate_def bind_Get_found [OF found(1)] push_after_sync)
    qed (simp add: Some status_onAddOrUpdate_def bind_Get_found [OF found(1)])
  qed (simp_all add: Some status_onAddOrUpdate_def bind_Get_found bind_Get_fails)
qed (simp add: status_onAddOrUpdate_def)

lemma cd_readiness_one_write:
  assumes "mc_maxNodesPerIMEXDomain m = maxNodes" and "cd_cache_known m w"
  shows "cd_one_write maxNodes (sw_server w) (sw_server (snd (updateNodeStatus fail m ready w)))"
proof (cases rule: status_Get_cases [of "mc_computeDomainUUID m" w])
  case (found rv c)
  note known = found_known [OF assms(2) found(4) found(3) found(2)]
  show ?thesis
  proof (cases "status_cd m ready c")
    case (Ok new)
    then show ?thesis
      using update_cd_one_write [OF known cd_ops_members(3) [OF assms(1)], of ready]
      by (cases new) (simp_all add: updateNodeStatus_def bind_Get_found [OF found(1)])
  qed (simp_all add: updateNodeStatus_def bind_Get_found [OF found(1)])
qed (simp_all add: updateNodeStatus_def bind_Get_found bind_Get_fails)

lemma cd_stop_one_write:
  assumes "mc_maxNodesPerIMEXDomain m = maxNodes" and "cd_cache_known m w"
  shows "cd_one_write maxNodes (sw_server w) (sw_server (snd (removeNodeFromComputeDomain fail m w)))"
proof (cases rule: status_Get_cases [of "mc_computeDomainUUID m" w])
  case (found rv c)
  note known = found_known [OF assms(2) found(4) found(3) found(2)]
  show ?thesis
    using update_cd_one_write [OF known cd_ops_members(2) [OF assms(1)]]
    by (cases "remove_from_cd m c") (simp_all add: removeNodeFromComputeDomain_def bind_Get_found [OF found(1)])
qed (simp_all add: removeNodeFromComputeDomain_def bind_Get_found bind_Get_fails)

lemma status_run_history:
  "status_run maxNodes vs \<Longrightarrow> \<exists>cd. history (status_ops maxNodes) (cd\<lparr>co_Nodes := []\<rparr>) vs"
proof (induction rule: status_run.induct)
  case (created cd)
  then have "cd = cd\<lparr>co_Nodes := []\<rparr>" by simp
  then show ?case using history.created by metis
next
  case (sync vs rv c pods c')
  have "sync_object False [] pods \<in> status_ops maxNodes" by (auto simp: status_ops_def)
  with sync show ?case by (blast intro: history.updated)
next
  case (global vs rv c c')
  have "updateGlobalStatus_object \<in> status_ops maxNodes" by (simp add: status_ops_def)
  with global show ?case by (blast intro: history.updated)
next
  case (event w m fail dnsNames obj)
  with cd_event_one_write [OF event.hyps(2,3), of fail dnsNames obj] show ?case
    unfolding cd_one_write_def by (metis history.updated)
next
  case (readiness w m fail ready)
  with cd_readiness_one_write [OF readiness.hyps(2,3), of fail ready] show ?case
    unfolding cd_one_write_def by (metis history.updated)
next
  case (stop w m fail)
  with cd_stop_one_write [OF stop.hyps(2,3), of fail] show ?case
    unfolding cd_one_write_def by (metis history.updated)
qed

section \<open>Properties\<close>


definition cd_world :: "ComputeDomain versions \<Rightarrow> status_world" where
  "cd_world vs = \<lparr>sw_cache = Ok [hd vs], sw_server = vs, sw_previousNodes = [], sw_pushed = []\<rparr>"

definition two_cd_daemons :: "ComputeDomain versions" where
  "two_cd_daemons =
     (let v1 = [(0, example_cd)];
          v2 = sw_server (snd (status_onAddOrUpdate None True (daemon_on ''a'' ''10.0.0.1'') (Some (snd (hd v1))) (cd_world v1)))
      in sw_server (snd (status_onAddOrUpdate None True (daemon_on ''b'' ''10.0.0.2'') (Some (snd (hd v2))) (cd_world v2))))"

lemma two_cd_daemons_run: "status_run 18 two_cd_daemons"
proof -
  have mx: "mc_maxNodesPerIMEXDomain (daemon_on n ip) = 18" for n ip by (simp add: daemon_on_def)
  have known: "vs \<noteq> [] \<Longrightarrow> cd_cache_known m (cd_world vs)" for m vs
    by (auto simp: cd_cache_known_def cd_world_def)
  have server: "sw_server (cd_world vs) = vs" for vs by (simp add: cd_world_def)
  define v1 where "v1 = [(0 :: nat, example_cd)]"
  define v2 where "v2 = sw_server (snd (status_onAddOrUpdate None True (daemon_on ''a'' ''10.0.0.1'')
      (Some (snd (hd v1))) (cd_world v1)))"
  have "status_run 18 v1" unfolding v1_def by (rule status_run.created) (simp add: example_cd_def)
  then have r2: "status_run 18 v2"
    unfolding v2_def by (intro status_run.event mx known) (simp_all add: server v1_def)
  have "v2 \<noteq> []" unfolding v2_def v1_def by code_simp
  then have "status_run 18 (sw_server (snd (status_onAddOrUpdate None True (daemon_on ''b'' ''10.0.0.2'')
      (Some (snd (hd v2))) (cd_world v2))))"
    using r2 by (intro status_run.event mx known) (simp_all add: server)
  then show ?thesis by (simp add: two_cd_daemons_def v1_def v2_def Let_def)
qed




end
