(* ===== verification/Dns_Names.thy ===== *)
theory Dns_Names
  imports Daemon_Clique
begin

text \<open>
  The DNS name manager of the compute-domain daemon (\<open>dnsnames.go\<close>): each daemon of the clique gets
  the name \<open>compute-domain-daemon-NNNN\<close> of its index. The names are written once to the IMEX
  nodes config file, and the mapping from IP addresses to names goes to the hosts file.

  The state is the manager's map and the content of the two files. Go visits a map in any order:
  \<open>order\<close> gives the order in which the entries of the map are written. \<open>readFail\<close> and
  \<open>writeFail\<close> are I/O errors; a failed write leaves the file alone.
\<close>

type_synonym IPToDNSNameMap = "(string, string) gomap"

record DNSNameManager =
  dm_ipToDNSName :: IPToDNSNameMap
  dm_cliqueID :: string
  dm_maxNodesPerIMEXDomain :: int

record dns_world =
  dw_manager :: DNSNameManager
  dw_hosts :: string
  dw_nodesConfig :: string

definition dnsNamePrefix :: string where "dnsNamePrefix = ''compute-domain-daemon-''"

definition NL :: char where "NL = CHR 0x0A"
definition TAB :: char where "TAB = CHR 0x09"

definition dns_name :: "nat \<Rightarrow> string" where
  "dns_name i = dnsNamePrefix @ show_pad4 i"

definition NewDNSNameManager :: "string \<Rightarrow> int \<Rightarrow> DNSNameManager" where
  "NewDNSNameManager cliqueID maxNodes =
     \<lparr>dm_ipToDNSName = [], dm_cliqueID = cliqueID, dm_maxNodesPerIMEXDomain = maxNodes\<rparr>"

definition constructDNSName :: "DNSNameManager \<Rightarrow> ComputeDomainDaemonInfo \<Rightarrow> string go" where
  "constructDNSName m daemon =
     (if di_Index daemon < 0 then Err (Errorf ''daemon has invalid index'')
      else if di_Index daemon \<ge> dm_maxNodesPerIMEXDomain m then
        Err (Errorf ''daemon has invalid index, must be less than maxNodesPerIMEXDomain'')
      else Ok (dns_name (nat (di_Index daemon))))"

text \<open>The loop that fills the local map.\<close>

fun dns_mappings ::
  "DNSNameManager \<Rightarrow> ComputeDomainDaemonInfo list \<Rightarrow> IPToDNSNameMap \<Rightarrow> IPToDNSNameMap go" where
  "dns_mappings m [] acc = Ok acc"
| "dns_mappings m (d # ds) acc =
     bind_go (wrap_go (Wrapf ''failed to allocate DNS name'') (constructDNSName m d)) (\<lambda>dnsName.
       dns_mappings m ds (AList.update (di_IPAddress d) dnsName acc))"

definition preserved_lines :: "string \<Rightarrow> string list" where
  "preserved_lines content =
     filter (\<lambda>l. \<not> strings_Contains l dnsNamePrefix) (map strings_TrimSpace (strings_Split NL content))"

definition separator_line :: string where
  "separator_line = ''# Compute Domain Daemon mappings''"

definition mapping_line :: "string \<times> string \<Rightarrow> string" where
  "mapping_line e = fst e @ [TAB] @ snd e"

definition new_hosts :: "IPToDNSNameMap \<Rightarrow> string \<Rightarrow> string" where
  "new_hosts entries content =
     concat (map (\<lambda>l. l @ [NL]) (preserved_lines content)) @ separator_line @ [NL] @
     concat (map (\<lambda>e. mapping_line e @ [NL]) entries)"

definition updateHostsFile ::
  "(IPToDNSNameMap \<Rightarrow> IPToDNSNameMap) \<Rightarrow> goerr option \<Rightarrow> goerr option \<Rightarrow> (dns_world, unit) gost" where
  "updateHostsFile order readFail writeFail w = (case readFail of
     Some e \<Rightarrow> (Err (Wrapf ''failed to read hosts file'' e), w)
   | None \<Rightarrow>
       let content = new_hosts (order (dm_ipToDNSName (dw_manager w))) (dw_hosts w)
       in case writeFail of
         Some e \<Rightarrow> (Err (Wrapf ''failed to write hosts file'' e), w)
       | None \<Rightarrow> (Ok (), w\<lparr>dw_hosts := content\<rparr>))"

definition UpdateDNSNameMappings ::
  "(IPToDNSNameMap \<Rightarrow> IPToDNSNameMap) \<Rightarrow> goerr option \<Rightarrow> goerr option \<Rightarrow> ComputeDomainDaemonInfo list \<Rightarrow>
   (dns_world, bool) gost" where
  "UpdateDNSNameMappings order readFail writeFail daemons w =
     (let m = dw_manager w;
          cliqueDaemons = filter (\<lambda>d. di_CliqueID d = dm_cliqueID m) daemons
      in case dns_mappings m cliqueDaemons [] of
        Err e \<Rightarrow> (Err e, w)
      | Panic p \<Rightarrow> (Panic p, w)
      | Ok ipToDNSName \<Rightarrow>
          if maps_Equal ipToDNSName (dm_ipToDNSName m) then (Ok False, w)
          else bind_st (updateHostsFile order readFail writeFail) (\<lambda>_. ret_st True)
                 (w\<lparr>dw_manager := m\<lparr>dm_ipToDNSName := ipToDNSName\<rparr>\<rparr>))"

text \<open>\<open>WriteNodesConfig\<close> writes the static names; \<open>fail\<close> is an error of creating the file.\<close>

definition WriteNodesConfig :: "goerr option \<Rightarrow> (dns_world, unit) gost" where
  "WriteNodesConfig fail w = (case fail of
     Some e \<Rightarrow> (Err (Wrapf ''failed to create nodes config file'' e), w)
   | None \<Rightarrow>
       (Ok (), w\<lparr>dw_nodesConfig :=
          concat (map (\<lambda>i. dns_name i @ [NL]) [0..<nat (dm_maxNodesPerIMEXDomain (dw_manager w))])\<rparr>))"

section \<open>Lemmas\<close>

lemma Split_line: "c \<notin> set l \<Longrightarrow> strings_Split c (l @ c # rest) = l # strings_Split c rest"
  by (induction l) auto

lemma Split_lines:
  "\<forall>l \<in> set ls. c \<notin> set l \<Longrightarrow> strings_Split c (concat (map (\<lambda>l. l @ [c]) ls)) = ls @ [[]]"
  by (induction ls) (auto simp: Split_line)

lemma Split_no_sep: "l \<in> set (strings_Split c s) \<Longrightarrow> c \<notin> set l"
  by (induction s arbitrary: l) (auto split: if_splits list.splits)

lemma Trim_subset: "set (strings_Trim P s) \<subseteq> set s"
  by (auto simp: strings_Trim_def dest!: set_dropWhileD)

lemma show_nat_no_NL: "NL \<notin> set (show_nat n)"
proof -
  have "\<not> is_digit NL" by (simp add: is_digit_def NL_def)
  then show ?thesis using show_nat_digits [of n] by (auto simp: list_all_iff)
qed

lemma dns_name_no_NL: "NL \<notin> set (dns_name i)"
  using show_nat_no_NL [of i] by (auto simp: dns_name_def show_pad4_def dnsNamePrefix_def NL_def)

lemma dns_name_inject [simp]: "dns_name i = dns_name j \<longleftrightarrow> i = j"
  by (simp add: dns_name_def)

lemma constructDNSName_Ok:
  "constructDNSName m d = Ok n \<longleftrightarrow>
     0 \<le> di_Index d \<and> di_Index d < dm_maxNodesPerIMEXDomain m \<and> n = dns_name (nat (di_Index d))"
  by (auto simp: constructDNSName_def)

definition last_daemon :: "ComputeDomainDaemonInfo list \<Rightarrow> string \<Rightarrow> ComputeDomainDaemonInfo option" where
  "last_daemon ds ip = find (\<lambda>d. di_IPAddress d = ip) (rev ds)"

lemma find_append: "find P (xs @ ys) = (case find P xs of None \<Rightarrow> find P ys | Some x \<Rightarrow> Some x)"
  by (induction xs) auto

lemma dns_mappings_Ok:
  "dns_mappings m ds acc = Ok res \<Longrightarrow> gomap acc \<Longrightarrow>
     gomap res \<and> (\<forall>d \<in> set ds. 0 \<le> di_Index d \<and> di_Index d < dm_maxNodesPerIMEXDomain m) \<and>
     (\<forall>ip. map_of res ip = (case last_daemon ds ip of None \<Rightarrow> map_of acc ip
                           | Some d \<Rightarrow> Some (dns_name (nat (di_Index d)))))"
proof (induction ds arbitrary: acc)
  case Nil
  then show ?case by (simp add: last_daemon_def)
next
  case (Cons d ds)
  then show ?case
    by (auto simp: constructDNSName_Ok last_daemon_def find_append update_conv' split: option.splits)
qed

lemma dns_mappings_exists:
  "\<forall>d \<in> set ds. 0 \<le> di_Index d \<and> di_Index d < dm_maxNodesPerIMEXDomain m \<Longrightarrow>
     \<exists>res. dns_mappings m ds acc = Ok res"
  by (induction ds arbitrary: acc) (auto simp: constructDNSName_def)

lemma dns_mappings_no_panic: "dns_mappings m ds acc \<noteq> Panic p"
proof (induction ds arbitrary: acc)
  case (Cons d ds)
  then show ?case by (simp add: constructDNSName_def)
qed simp

lemma separator_ok: "NL \<notin> set separator_line" "\<not> strings_Contains separator_line dnsNamePrefix"
  "\<not> strings_Contains [] dnsNamePrefix"
  by code_simp+

lemma mapping_line_prefix: "strings_Contains (mapping_line (ip, dns_name i)) dnsNamePrefix"
  unfolding strings_Contains_def mapping_line_def dns_name_def sublist_def
  by (rule exI [of _ "ip @ [TAB]"], rule exI [of _ "show_pad4 i"]) simp

lemma preserved_no_NL: "l \<in> set (preserved_lines content) \<Longrightarrow> NL \<notin> set l"
  using Trim_subset Split_no_sep by (fastforce simp: preserved_lines_def)

text \<open>The lines of the new hosts file.\<close>

lemma Split_new_hosts:
  assumes "\<forall>(ip, n) \<in> set entries. NL \<notin> set ip \<and> NL \<notin> set n"
  shows "strings_Split NL (new_hosts entries content) =
    preserved_lines content @ [separator_line] @ map mapping_line entries @ [[]]"
proof -
  let ?ls = "preserved_lines content @ [separator_line] @ map mapping_line entries"
  have "NL \<notin> set l" if "l \<in> set ?ls" for l
    using that preserved_no_NL separator_ok(1) assms
    by (auto simp: mapping_line_def NL_def TAB_def)
  moreover have "new_hosts entries content = concat (map (\<lambda>l. l @ [NL]) ?ls)"
    by (simp add: new_hosts_def comp_def)
  ultimately show ?thesis using Split_lines [of ?ls NL] by simp
qed

section \<open>Properties\<close>


definition dns_start :: dns_world where
  "dns_start = \<lparr>dw_manager = NewDNSNameManager ''q'' 18, dw_hosts = ''127.0.0.1 localhost'' @ [NL], dw_nodesConfig = ''''\<rparr>"




text \<open>An update whose hosts file write fails is lost: the manager already remembers the new mapping,
  so the retry with the same daemons finds nothing to do, reports success and leaves the hosts file as it was.\<close>

theorem dns_failed_write_not_retried:
  assumes "UpdateDNSNameMappings order None (Some e) daemons w = (Err e', w')"
    and "\<exists>m. dns_mappings (dw_manager w) (filter (\<lambda>d. di_CliqueID d = dm_cliqueID (dw_manager w)) daemons) [] = Ok m"
  shows "UpdateDNSNameMappings order None None daemons w' = (Ok False, w') \<and> dw_hosts w' = dw_hosts w"
proof -
  let ?ds = "filter (\<lambda>d. di_CliqueID d = dm_cliqueID (dw_manager w)) daemons"
  from assms obtain m where m: "dns_mappings (dw_manager w) ?ds [] = Ok m"
    and w': "w' = w\<lparr>dw_manager := (dw_manager w)\<lparr>dm_ipToDNSName := m\<rparr>\<rparr>"
    by (auto simp: UpdateDNSNameMappings_def updateHostsFile_def bind_st_def Let_def split: if_splits)
  have "dns_mappings ((dw_manager w)\<lparr>dm_ipToDNSName := m\<rparr>) ds acc = dns_mappings (dw_manager w) ds acc" for ds acc
    by (induction ds arbitrary: acc) (simp_all add: constructDNSName_def)
  moreover have "gomap m" using dns_mappings_Ok [OF m] by simp
  ultimately show ?thesis using m by (simp add: w' UpdateDNSNameMappings_def maps_Equal_iff)
qed

theorem dns_failed_write_not_retried_witness:
  "\<exists>e' w'. UpdateDNSNameMappings (\<lambda>m. m) None (Some (Errorf ''disk full'')) (cq_Daemons (snd (hd two_daemons))) dns_start = (Err e', w') \<and>
     UpdateDNSNameMappings (\<lambda>m. m) None None (cq_Daemons (snd (hd two_daemons))) w' = (Ok False, w')"
proof -
  let ?ds = "cq_Daemons (snd (hd two_daemons))"
  let ?r = "UpdateDNSNameMappings (\<lambda>m. m) None (Some (Errorf ''disk full'')) ?ds dns_start"
  have "fst ?r = Err (Wrapf ''failed to write hosts file'' (Errorf ''disk full''))" by code_simp
  then have r: "?r = (Err (Wrapf ''failed to write hosts file'' (Errorf ''disk full'')), snd ?r)" by (metis prod.collapse)
  have "is_ok (dns_mappings (dw_manager dns_start) (filter (\<lambda>d. di_CliqueID d = dm_cliqueID (dw_manager dns_start)) ?ds) [])"
    by code_simp
  then have "\<exists>m. dns_mappings (dw_manager dns_start) (filter (\<lambda>d. di_CliqueID d = dm_cliqueID (dw_manager dns_start)) ?ds) [] = Ok m"
    by (simp add: is_ok_iff)
  from dns_failed_write_not_retried [OF r this] r show ?thesis by blast
qed

end
