(* ===== verification/Daemon_Process.thy ===== *)
theory Daemon_Process
  imports Dns_Names Featuregates
begin

text \<open>
  Supervision of the IMEX daemon by the compute-domain daemon: the process manager (\<open>process.go\<close>), and the update loops,
  the start-up, the probe and the configuration files of \<open>main.go\<close>.

  Two goroutines use the process manager at the same time: the update loop and the watchdog. \<open>sys\<close> is the shared state with
  a position in the code for each of them; \<open>pm_step\<close> interleaves their steps with those of the child process and of the goroutine that
  \<open>start\<close> leaves behind to wait for it. The lock is held during \<open>start\<close> and \<open>stop\<close>, but \<open>Restart\<close> and \<open>EnsureStarted\<close> read the
  handle without it, and so does the watchdog when it drops the handle. A call with the lock that does not block
  is one step; \<open>stop\<close> is two, because it waits for the child while it holds the lock.
\<close>

section \<open>The process manager (process.go)\<close>

datatype wait_result = ExitCode int | WaitError goerr

text \<open>\<open>pm_procs\<close> are the children that no \<open>Wait\<close> has returned for, with a flag for those still alive. A waiting goroutine first reads the handle
  (\<open>None\<close>: it has not yet), then waits for that process.\<close>

record ProcessManager =
  pm_handle :: "nat option"
  pm_waitResChan :: "wait_result list"
  pm_procs :: "(nat \<times> bool) list"
  pm_waiters :: "nat option list"
  pm_nextPid :: nat

definition NewProcessManager :: ProcessManager where
  "NewProcessManager = \<lparr>pm_handle = None, pm_waitResChan = [], pm_procs = [], pm_waiters = [], pm_nextPid = 1\<rparr>"

text \<open>\<open>exec\<close> is the outcome of starting the program.\<close>

definition pm_start :: "goerr option \<Rightarrow> (ProcessManager, unit) gost" where
  "pm_start exec m =
     (if pm_handle m \<noteq> None then (Err (Errorf ''pm: start failed: already started''), m)
      else case exec of
        Some e \<Rightarrow> (Err (Wrapf ''failed to start process'' e), m)
      | None \<Rightarrow> (Ok (), m\<lparr>pm_handle := Some (pm_nextPid m), pm_procs := pm_procs m @ [(pm_nextPid m, True)],
          pm_waiters := pm_waiters m @ [None], pm_nextPid := pm_nextPid m + 1\<rparr>))"

text \<open>Signalling a process that was waited for fails.\<close>

definition pm_Signal :: "ProcessManager \<Rightarrow> unit go" where
  "pm_Signal m = (case pm_handle m of
     None \<Rightarrow> Err (Errorf ''pm: sending signal failed: not started'')
   | Some p \<Rightarrow> if p \<in> fst ` set (pm_procs m) then Ok () else Err (Errorf ''os: process already finished''))"

text \<open>\<open>stop\<close> up to the point where it waits.\<close>

definition pm_stop_signal :: "ProcessManager \<Rightarrow> unit go" where
  "pm_stop_signal m = (case pm_handle m of
     None \<Rightarrow> Err (Errorf ''pm: stop failed: not started'')
   | Some _ \<Rightarrow> wrap_go (Wrapf ''pm: stop: could not send SIGTERM to child'') (pm_Signal m))"

text \<open>\<open>None\<close>: blocked on the channel.\<close>

definition pm_wait :: "ProcessManager \<Rightarrow> (unit go \<times> ProcessManager) option" where
  "pm_wait m = (case pm_waitResChan m of
     [] \<Rightarrow> None
   | ExitCode _ # rest \<Rightarrow> Some (Ok (), m\<lparr>pm_waitResChan := rest, pm_handle := None\<rparr>)
   | WaitError e # rest \<Rightarrow> Some (Err (Wrapf ''pm: wait() failed'' e), m\<lparr>pm_waitResChan := rest\<rparr>))"

definition pm_lost :: "bool \<Rightarrow> ProcessManager \<Rightarrow> bool" where
  "pm_lost tryLock m \<longleftrightarrow> tryLock \<and> pm_handle m \<noteq> None \<and> pm_waitResChan m \<noteq> []"

definition child_exits :: "nat \<Rightarrow> ProcessManager \<Rightarrow> ProcessManager" where
  "child_exits p m = m\<lparr>pm_procs := map (\<lambda>(q, alive). (q, if q = p then False else alive)) (pm_procs m)\<rparr>"

text \<open>The goroutine of \<open>start\<close>: its evaluation of \<open>m.handle\<close>, and the end of \<open>Wait\<close>.\<close>

definition waiter_reads :: "nat \<Rightarrow> ProcessManager \<Rightarrow> ProcessManager go" where
  "waiter_reads i m = (case pm_handle m of
     None \<Rightarrow> Panic ''nil pointer dereference''
   | Some p \<Rightarrow> Ok (m\<lparr>pm_waiters := (pm_waiters m)[i := Some p]\<rparr>))"

definition waiter_sends :: "nat \<Rightarrow> nat \<Rightarrow> wait_result \<Rightarrow> ProcessManager \<Rightarrow> ProcessManager" where
  "waiter_sends i p r m = m\<lparr>pm_waitResChan := pm_waitResChan m @ [r], pm_procs := filter (\<lambda>(q, _). q \<noteq> p) (pm_procs m),
     pm_waiters := take i (pm_waiters m) @ drop (i + 1) (pm_waiters m)\<rparr>"

section \<open>Configuration files and start-up (main.go)\<close>

text \<open>The nodes configuration is the file of \<open>dns_world\<close>: both update loops write the same path. A pod is its labels. A template is its text and the
  fields it refers to.\<close>

datatype tmpl_part = TmplText string | TmplField string

record main_world =
  mw_podLabels :: "(string, string) gomap"
  mw_imexConfig :: "string option"
  mw_dns :: dns_world

record Flags =
  fl_cliqueID :: string
  fl_computeDomainUUID :: string
  fl_podIP :: string
  fl_maxNodesPerIMEXDomain :: int

text \<open>What the calls into the operating system and the API server answer: an error or none; for the template file its content.\<close>

record main_env =
  me_clients :: "goerr option"
  me_patch :: "goerr option"
  me_template :: "tmpl_part list go"
  me_mkdir :: "goerr option"
  me_write :: "goerr option"
  me_nodes :: "goerr option"

definition io_st :: "string \<Rightarrow> goerr option \<Rightarrow> ('s, unit) gost" where
  "io_st msg fail = (case fail of None \<Rightarrow> ret_st () | Some e \<Rightarrow> err_st (Wrapf msg e))"

definition imexDaemonNodesConfigPath :: string where "imexDaemonNodesConfigPath = ''/imexd/nodes.cfg''"

definition IMEXConfigTemplateData :: "string \<Rightarrow> (string, string) gomap" where
  "IMEXConfigTemplateData podIP = [(''IMEXCmdBindInterfaceIP'', podIP), (''IMEXDaemonNodesConfigPath'', imexDaemonNodesConfigPath)]"

fun tmpl_Execute :: "(string, string) gomap \<Rightarrow> tmpl_part list \<Rightarrow> string go" where
  "tmpl_Execute d [] = Ok []"
| "tmpl_Execute d (TmplText t # ps) = bind_go (tmpl_Execute d ps) (\<lambda>rest. Ok (t @ rest))"
| "tmpl_Execute d (TmplField f # ps) = (case map_of d f of
     None \<Rightarrow> Err (Errorf ''cannot evaluate field'')
   | Some v \<Rightarrow> bind_go (tmpl_Execute d ps) (\<lambda>rest. Ok (v @ rest)))"

definition writeIMEXConfig :: "main_env \<Rightarrow> string \<Rightarrow> (main_world, unit) gost" where
  "writeIMEXConfig env podIP =
     bind_st (lift_st (wrap_go (Wrapf ''error parsing template file'') (me_template env))) (\<lambda>tmpl.
     bind_st (lift_st (wrap_go (Wrapf ''error executing template'') (tmpl_Execute (IMEXConfigTemplateData podIP) tmpl))) (\<lambda>configFile.
     bind_st (io_st ''failed to create directory'' (me_mkdir env)) (\<lambda>_.
     bind_st (io_st ''error writing config file'' (me_write env)) (\<lambda>_ w.
       (Ok (), w\<lparr>mw_imexConfig := Some configFile\<rparr>)))))"

definition addComputeDomainCliqueLabel :: "main_env \<Rightarrow> Flags \<Rightarrow> (main_world, unit) gost" where
  "addComputeDomainCliqueLabel env flags =
     bind_st (io_st ''failed to patch pod'' (me_patch env)) (\<lambda>_ w.
       (Ok (), w\<lparr>mw_podLabels := AList.update computeDomainCliqueLabelKey (fl_cliqueID flags) (mw_podLabels w)\<rparr>))"

definition write_static_nodes :: "main_env \<Rightarrow> Flags \<Rightarrow> (main_world, unit) gost" where
  "write_static_nodes env flags w =
     (case WriteNodesConfig (me_nodes env)
        ((mw_dns w)\<lparr>dw_manager := NewDNSNameManager (fl_cliqueID flags) (fl_maxNodesPerIMEXDomain flags)\<rparr>) of
        (r, d) \<Rightarrow> (wrap_go (Wrapf ''failed to create static nodes config'') r, w\<lparr>mw_dns := d\<rparr>))"

text \<open>\<open>run\<close> up to its goroutines; the result says whether there is an IMEX daemon to manage.\<close>

definition run_setup :: "gates \<Rightarrow> main_env \<Rightarrow> Flags \<Rightarrow> (main_world, bool) gost" where
  "run_setup g env flags =
     (if fl_computeDomainUUID flags = '''' then
        err_st (Errorf ''CDI container edits did not apply -- is CDI enabled in your container runtime?'')
      else
        bind_st (lift_st (wrap_go (Wrapf ''feature gate validation failed'') (ValidateFeatureGates g))) (\<lambda>_.
        bind_st (io_st ''failed to create client sets'' (me_clients env)) (\<lambda>_.
        bind_st (wrap_st (Wrapf ''failed to add compute domain clique label to pod'') (addComputeDomainCliqueLabel env flags)) (\<lambda>_.
        if fl_cliqueID flags = '''' then ret_st False
        else
          bind_st (wrap_st (Wrapf ''writeIMEXConfig failed'') (writeIMEXConfig env (fl_podIP flags))) (\<lambda>_.
          bind_st (if g IMEXDaemonsWithDNSNames then write_static_nodes env flags else ret_st ()) (\<lambda>_.
            ret_st True))))))"

text \<open>The nodes configuration of the IP-based loop. \<open>os.Create\<close> truncates the file; a write that fails leaves the lines before it.\<close>

record nodes_io =
  ni_mkdir :: "goerr option"
  ni_create :: "goerr option"
  ni_write :: "ComputeDomainDaemonInfo \<Rightarrow> goerr option"
  ni_read :: "goerr option"

definition append_nodes :: "string \<Rightarrow> (dns_world, unit) gost" where
  "append_nodes l w = (Ok (), w\<lparr>dw_nodesConfig := dw_nodesConfig w @ l\<rparr>)"

definition logNodesConfig :: "nodes_io \<Rightarrow> (dns_world, unit) gost" where
  "logNodesConfig io = io_st ''failed to read nodes config'' (ni_read io)"

definition write_ip :: "nodes_io \<Rightarrow> string \<Rightarrow> ComputeDomainDaemonInfo \<Rightarrow> (dns_world, unit) gost" where
  "write_ip io cliqueID daemon =
     (if di_CliqueID daemon = cliqueID then
        bind_st (io_st ''failed to write to nodes config file'' (ni_write io daemon)) (\<lambda>_. append_nodes (di_IPAddress daemon @ [NL]))
      else ret_st ())"

definition writeDaemonsConfig :: "nodes_io \<Rightarrow> string \<Rightarrow> ComputeDomainDaemonInfo list \<Rightarrow> (dns_world, unit) gost" where
  "writeDaemonsConfig io cliqueID daemons =
     bind_st (io_st ''failed to create directory'' (ni_mkdir io)) (\<lambda>_.
     bind_st (io_st ''failed to create nodes config file'' (ni_create io)) (\<lambda>_.
     bind_st (\<lambda>w. (Ok (), w\<lparr>dw_nodesConfig := ''''\<rparr>)) (\<lambda>_.
     bind_st (each (write_ip io cliqueID) daemons) (\<lambda>_.
       wrap_st (Wrapf ''logNodesConfig failed'') (logNodesConfig io)))))"

text \<open>The probe: \<open>ctl\<close> is what the control program answers, its error or its output.\<close>

definition check_probe :: "string go \<Rightarrow> Flags \<Rightarrow> unit go" where
  "check_probe ctl flags =
     (if fl_cliqueID flags = '''' then Ok ()
      else bind_go (wrap_go (Wrapf ''IMEX daemon check failed: error running nvidia-imex-ctl'') ctl) (\<lambda>outerr.
        if outerr = ''READY'' @ [NL] then Ok () else Err (Errorf (''IMEX daemon not ready: '' @ outerr))))"

section \<open>The goroutines\<close>

datatype goroutine = Loop | Dog

text \<open>Where a goroutine is: waiting for an event; about to read the handle in \<open>Restart\<close> or \<open>EnsureStarted\<close> (with the loop's \<open>updated\<close>);
  about to call \<open>stop\<close>, \<open>start\<close>, \<open>Signal\<close> or \<open>wait\<close>; waiting in \<open>stop\<close>; ended with an error or without. \<open>ShutStop\<close> and
  \<open>ShutStopping\<close> belong to the watchdog's stop after the context was cancelled.\<close>

datatype position = Select | AtRestart | AtEnsureStarted bool | AtStop | Stopping | AtStart | AtSignal | AtWait
  | ShutStop | ShutStopping | Failed goerr | Finished

record sys =
  sy_pm :: ProcessManager
  sy_lock :: "goroutine option"
  sy_pos :: "goroutine \<Rightarrow> position"
  sy_files :: dns_world
  sy_cancelled :: bool
  sy_crashed :: bool

definition goes :: "goroutine \<Rightarrow> position \<Rightarrow> sys \<Rightarrow> sys" where
  "goes t p s = s\<lparr>sy_pos := (sy_pos s)(t := p)\<rparr>"

text \<open>An error ends the goroutine and cancels the context (\<open>run\<close>).\<close>

definition ends :: "goroutine \<Rightarrow> 'a go \<Rightarrow> ('a \<Rightarrow> position) \<Rightarrow> sys \<Rightarrow> sys" where
  "ends t r next s = (case r of
     Ok a \<Rightarrow> goes t (next a) s
   | Err e \<Rightarrow> goes t (Failed e) (s\<lparr>sy_cancelled := True\<rparr>)
   | Panic _ \<Rightarrow> s\<lparr>sy_crashed := True\<rparr>)"

text \<open>What a goroutine wraps around an error of \<open>Restart\<close> or \<open>EnsureStarted\<close>; \<open>dns\<close> says which update loop runs.\<close>

fun caller :: "bool \<Rightarrow> goroutine \<Rightarrow> goerr \<Rightarrow> goerr" where
  "caller dns Dog e = Wrapf ''watchdog: process lost, restart failed, treat fatal'' e"
| "caller True Loop e = Wrapf ''failed to ensure IMEX daemon is started'' e"
| "caller False Loop e = Wrapf ''error (re)starting IMEX daemon'' e"

definition in_restart :: "bool \<Rightarrow> goroutine \<Rightarrow> goerr \<Rightarrow> goerr" where
  "in_restart dns t e = caller dns t (Wrapf ''restart: stop failed'' e)"

definition in_stop :: "goerr \<Rightarrow> goerr" where
  "in_stop e = Wrapf ''pm: stop: wait failed'' e"

text \<open>The call of \<open>stop\<close> takes the lock unless it fails at once.\<close>

definition takes_lock :: "goroutine \<Rightarrow> sys \<Rightarrow> sys" where
  "takes_lock t s = (if pm_stop_signal (sy_pm s) = Ok () then s\<lparr>sy_lock := Some t\<rparr> else s)"

text \<open>A round of the update loops, up to the use of the process manager; where \<open>Restart\<close> and \<open>EnsureStarted\<close> go after reading the
  handle: a fresh process or an update without changes needs no signal.\<close>

definition update_with_ips :: "nodes_io \<Rightarrow> string \<Rightarrow> ComputeDomainDaemonInfo list \<Rightarrow> sys \<Rightarrow> sys" where
  "update_with_ips io cliqueID daemons s = (case writeDaemonsConfig io cliqueID daemons (sy_files s) of (r, w) \<Rightarrow>
     ends Loop (wrap_go (Wrapf ''writeDaemonsConfig failed'') r) (\<lambda>_. AtRestart) (s\<lparr>sy_files := w\<rparr>))"

definition update_with_dns ::
  "(IPToDNSNameMap \<Rightarrow> IPToDNSNameMap) \<Rightarrow> goerr option \<Rightarrow> goerr option \<Rightarrow> ComputeDomainDaemonInfo list \<Rightarrow> sys \<Rightarrow> sys" where
  "update_with_dns order readFail writeFail daemons s =
     (case UpdateDNSNameMappings order readFail writeFail daemons (sy_files s) of (r, w) \<Rightarrow>
        ends Loop (wrap_go (Wrapf ''failed to update DNS name => IP mappings'') r) AtEnsureStarted (s\<lparr>sy_files := w\<rparr>))"

definition pm_Restart :: "ProcessManager \<Rightarrow> position" where
  "pm_Restart m = (if pm_handle m \<noteq> None then AtStop else AtStart)"

definition pm_EnsureStarted :: "bool \<Rightarrow> ProcessManager \<Rightarrow> position" where
  "pm_EnsureStarted updated m = (if pm_handle m = None then AtStart else if updated then AtSignal else Select)"

inductive pm_step :: "bool \<Rightarrow> string \<Rightarrow> sys \<Rightarrow> sys \<Rightarrow> bool" for dns :: bool and cid :: string where
  child: "(p, True) \<in> set (pm_procs (sy_pm s)) \<Longrightarrow> pm_step dns cid s (s\<lparr>sy_pm := child_exits p (sy_pm s)\<rparr>)"
| reads: "i < length (pm_waiters (sy_pm s)) \<Longrightarrow> pm_waiters (sy_pm s) ! i = None \<Longrightarrow>
    pm_step dns cid s (case waiter_reads i (sy_pm s) of Ok m \<Rightarrow> s\<lparr>sy_pm := m\<rparr> | _ \<Rightarrow> s\<lparr>sy_crashed := True\<rparr>)"
| sends: "i < length (pm_waiters (sy_pm s)) \<Longrightarrow> pm_waiters (sy_pm s) ! i = Some p \<Longrightarrow> (p, False) \<in> set (pm_procs (sy_pm s)) \<Longrightarrow>
    pm_waitResChan (sy_pm s) = [] \<Longrightarrow> pm_step dns cid s (s\<lparr>sy_pm := waiter_sends i p r (sy_pm s)\<rparr>)"
| cancel: "pm_step dns cid s (s\<lparr>sy_cancelled := True\<rparr>)"
| update_ips: "\<not> dns \<Longrightarrow> sy_pos s Loop = Select \<Longrightarrow> pm_step dns cid s (update_with_ips io cid daemons s)"
| update_dns: "dns \<Longrightarrow> sy_pos s Loop = Select \<Longrightarrow> pm_step dns cid s (update_with_dns order readFail writeFail daemons s)"
| loop_cancelled: "sy_pos s Loop = Select \<Longrightarrow> sy_cancelled s \<Longrightarrow> pm_step dns cid s (goes Loop Finished s)"
| restart: "sy_pos s t = AtRestart \<Longrightarrow> pm_step dns cid s (goes t (pm_Restart (sy_pm s)) s)"
| ensure: "sy_pos s t = AtEnsureStarted updated \<Longrightarrow> pm_step dns cid s (goes t (pm_EnsureStarted updated (sy_pm s)) s)"
| signal: "sy_pos s t = AtSignal \<Longrightarrow> sy_lock s = None \<Longrightarrow> pm_Signal (sy_pm s) = r \<Longrightarrow> pm_step dns cid s (goes t Select s)"
| stop: "sy_pos s t = AtStop \<Longrightarrow> sy_lock s = None \<Longrightarrow>
    pm_step dns cid s (ends t (wrap_go (in_restart dns t) (pm_stop_signal (sy_pm s))) (\<lambda>_. Stopping) (takes_lock t s))"
| stopped: "sy_pos s t = Stopping \<Longrightarrow> pm_wait (sy_pm s) = Some (r, m) \<Longrightarrow>
    pm_step dns cid s (ends t (wrap_go (\<lambda>e. in_restart dns t (in_stop e)) r) (\<lambda>_. AtStart) (s\<lparr>sy_pm := m, sy_lock := None\<rparr>))"
| start: "sy_pos s t = AtStart \<Longrightarrow> sy_lock s = None \<Longrightarrow> pm_start exec (sy_pm s) = (r, m) \<Longrightarrow>
    pm_step dns cid s (ends t (wrap_go (caller dns t) r) (\<lambda>_. Select) (s\<lparr>sy_pm := m\<rparr>))"
| tick: "sy_pos s Dog = Select \<Longrightarrow> pm_lost (sy_lock s = None) (sy_pm s) \<Longrightarrow> pm_step dns cid s (goes Dog AtWait s)"
| wait: "sy_pos s Dog = AtWait \<Longrightarrow> pm_wait (sy_pm s) = Some (r, m) \<Longrightarrow>
    pm_step dns cid s (ends Dog (wrap_go (Wrapf ''watchdog: process lost, wait failed, treat fatal'') r) (\<lambda>_. AtRestart) (s\<lparr>sy_pm := m\<rparr>))"
| dog_cancelled: "sy_pos s Dog = Select \<Longrightarrow> sy_cancelled s \<Longrightarrow> pm_step dns cid s (goes Dog ShutStop s)"
| shut_stop: "sy_pos s Dog = ShutStop \<Longrightarrow> sy_lock s = None \<Longrightarrow>
    pm_step dns cid s (ends Dog (wrap_go (Wrapf ''watchdog: stop failed'') (pm_stop_signal (sy_pm s))) (\<lambda>_. ShutStopping) (takes_lock Dog s))"
| shut_stopped: "sy_pos s Dog = ShutStopping \<Longrightarrow> pm_wait (sy_pm s) = Some (r, m) \<Longrightarrow>
    pm_step dns cid s (ends Dog (wrap_go (\<lambda>e. Wrapf ''watchdog: stop failed'' (in_stop e)) r) (\<lambda>_. Finished) (s\<lparr>sy_pm := m, sy_lock := None\<rparr>))"

definition pm_init :: "dns_world \<Rightarrow> sys" where
  "pm_init w = \<lparr>sy_pm = NewProcessManager, sy_lock = None, sy_pos = (\<lambda>_. Select), sy_files = w, sy_cancelled = False, sy_crashed = False\<rparr>"

abbreviation pm_run :: "bool \<Rightarrow> string \<Rightarrow> dns_world \<Rightarrow> sys \<Rightarrow> bool" where
  "pm_run dns cid w \<equiv> (pm_step dns cid)\<^sup>*\<^sup>* (pm_init w)"

section \<open>Invariant\<close>

definition idle :: "ProcessManager \<Rightarrow> bool" where
  "idle m \<longleftrightarrow> pm_handle m = None \<and> pm_procs m = [] \<and> pm_waiters m = [] \<and> pm_waitResChan m = []"

definition supervised :: "ProcessManager \<Rightarrow> bool" where
  "supervised m \<longleftrightarrow> (\<exists>p alive w. pm_handle m = Some p \<and> pm_procs m = [(p, alive)] \<and> pm_waiters m = [w] \<and> w \<in> {None, Some p} \<and> pm_waitResChan m = [])"

definition ended :: "ProcessManager \<Rightarrow> bool" where
  "ended m \<longleftrightarrow> pm_handle m \<noteq> None \<and> pm_procs m = [] \<and> pm_waiters m = [] \<and> length (pm_waitResChan m) = 1"

text \<open>After a failed \<open>wait\<close>.\<close>

definition broken :: "ProcessManager \<Rightarrow> bool" where
  "broken m \<longleftrightarrow> pm_handle m \<noteq> None \<and> pm_procs m = [] \<and> pm_waiters m = [] \<and> pm_waitResChan m = []"

definition phased :: "ProcessManager \<Rightarrow> bool" where
  "phased m \<longleftrightarrow> idle m \<or> supervised m \<or> ended m \<or> broken m"

definition locked_at :: "goroutine \<Rightarrow> sys \<Rightarrow> bool" where
  "locked_at t s \<longleftrightarrow> sy_pos s t \<in> {Stopping, ShutStopping}"

text \<open>The lock is held by the goroutine that waits in \<open>stop\<close>; the watchdog calls \<open>wait\<close> only when a result is there.\<close>

definition sys_inv :: "sys \<Rightarrow> bool" where
  "sys_inv s \<longleftrightarrow> \<not> sy_crashed s \<and>
     phased (sy_pm s) \<and>
     (\<forall>t. sy_lock s = Some t \<longleftrightarrow> locked_at t s) \<and>
     (sy_lock s \<noteq> None \<longrightarrow> supervised (sy_pm s) \<or> ended (sy_pm s)) \<and>
     (sy_pos s Dog = AtWait \<longrightarrow> ended (sy_pm s) \<and> sy_lock s = None) \<and>
     sy_pos s Loop \<notin> {AtWait, ShutStop, ShutStopping}"

declare pm_Restart_def [simp] pm_EnsureStarted_def [simp]

lemmas phase_defs = idle_def supervised_def ended_def broken_def

lemma start_phases:
  assumes "pm_start exec m = (r, m')" "phased m"
  shows "phased m' \<and> (m' = m \<or> idle m \<and> supervised m' \<and> r = Ok ())" "r = Ok () \<or> (\<exists>e. r = Err e)"
  using assms by (auto simp: pm_start_def phased_def phase_defs split: if_splits option.splits)

lemma stop_signal_cases:
  "pm_stop_signal m = Ok () \<or> (\<exists>e. pm_stop_signal m = Err e)"
  by (auto simp: pm_stop_signal_def pm_Signal_def split: option.splits)

lemma stop_signal_supervised: "phased m \<Longrightarrow> pm_stop_signal m = Ok () \<longleftrightarrow> supervised m"
  by (auto simp: pm_stop_signal_def pm_Signal_def phased_def phase_defs split: option.splits)

lemma wait_phases:
  assumes "pm_wait m = Some (r, m')" "phased m"
  shows "ended m \<and> (r = Ok () \<and> idle m' \<or> (\<exists>e. r = Err e) \<and> broken m')"
  using assms by (auto simp: pm_wait_def phased_def phase_defs split: list.splits wait_result.splits)

lemma child_exits_phases [simp]:
  "idle (child_exits p m) = idle m" "supervised m \<Longrightarrow> supervised (child_exits p m)"
  "ended (child_exits p m) = ended m" "broken (child_exits p m) = broken m"
  by (auto simp: child_exits_def phase_defs)

lemma waiter_reads_phases:
  assumes "phased m" "i < length (pm_waiters m)"
  shows "\<exists>m'. waiter_reads i m = Ok m' \<and> supervised m \<and> supervised m'"
  using assms by (auto simp: waiter_reads_def phased_def phase_defs)

lemma waiter_sends_phases:
  assumes "phased m" "i < length (pm_waiters m)" "pm_waiters m ! i = Some p"
  shows "supervised m \<and> ended (waiter_sends i p r m)"
  using assms by (auto simp: waiter_sends_def phased_def phase_defs)

lemma phase_disjoint [simp]: "ended m \<Longrightarrow> \<not> supervised m" "idle m \<Longrightarrow> \<not> supervised m" "idle m \<Longrightarrow> \<not> ended m"
  "broken m \<Longrightarrow> \<not> supervised m" "broken m \<Longrightarrow> \<not> ended m"
  by (auto simp: phase_defs)

lemma goes_sel [simp]:
  "sy_pm (goes t p s) = sy_pm s" "sy_lock (goes t p s) = sy_lock s" "sy_crashed (goes t p s) = sy_crashed s"
  "sy_cancelled (goes t p s) = sy_cancelled s" "sy_files (goes t p s) = sy_files s"
  "sy_pos (goes t p s) = (sy_pos s)(t := p)"
  by (simp_all add: goes_def)

lemma ends_simps [simp]:
  "ends t (Ok a) next s = goes t (next a) s" "ends t (Err e) next s = goes t (Failed e) (s\<lparr>sy_cancelled := True\<rparr>)"
  by (simp_all add: ends_def)

lemma sys_inv_frame [simp]:
  "sys_inv (s\<lparr>sy_files := w\<rparr>) = sys_inv s" "sys_inv (s\<lparr>sy_cancelled := c\<rparr>) = sys_inv s"
  "locked_at t (s\<lparr>sy_files := w\<rparr>) = locked_at t s" "locked_at t (s\<lparr>sy_cancelled := c\<rparr>) = locked_at t s"
  by (simp_all add: sys_inv_def locked_at_def)

text \<open>A goroutine without the lock moves to a position without it.\<close>

lemma goes_inv:
  assumes "sys_inv s" "\<not> locked_at t s" "p \<notin> {Stopping, ShutStopping, AtWait}" "t = Dog \<or> p \<noteq> ShutStop"
  shows "sys_inv (goes t p s)"
  using assms by (auto simp: sys_inv_def locked_at_def)

lemma ends_inv:
  assumes "sys_inv s" "\<not> locked_at t s" "\<And>a. next a \<notin> {Stopping, ShutStopping, AtWait, ShutStop}" "(\<exists>a. r = Ok a) \<or> (\<exists>e. r = Err e)"
  shows "sys_inv (ends t r next s)"
  using assms(4)
proof (elim disjE exE)
  fix a assume "r = Ok a"
  then show ?thesis using assms(1,2) assms(3) [of a] by (simp add: goes_inv)
next
  fix e assume "r = Err e"
  then show ?thesis using assms(1,2) by (simp add: goes_inv)
qed

lemma stop_inv:
  assumes "sys_inv s" "sy_lock s = None" "p \<in> {Stopping, ShutStopping}" "t = Dog \<or> p = Stopping"
  shows "sys_inv (ends t (wrap_go f (pm_stop_signal (sy_pm s))) (\<lambda>_. p) (takes_lock t s))"
proof (cases "pm_stop_signal (sy_pm s) = Ok ()")
  case True
  then have sup: "supervised (sy_pm s)" using assms(1) stop_signal_supervised by (auto simp: sys_inv_def)
  have "sys_inv (goes t p (s\<lparr>sy_lock := Some t\<rparr>))"
    using assms sup by (cases t) (auto simp: sys_inv_def locked_at_def)
  then show ?thesis using True by (simp add: takes_lock_def)
next
  case False
  then obtain e where "pm_stop_signal (sy_pm s) = Err e" using stop_signal_cases by blast
  moreover have "\<not> locked_at t s" using assms(1,2) by (auto simp: sys_inv_def)
  ultimately show ?thesis using assms(1) by (simp add: takes_lock_def goes_inv)
qed

lemma release_inv:
  assumes "sys_inv s" "locked_at t s" "pm_wait (sy_pm s) = Some (r, m)" "p \<notin> {Stopping, ShutStopping, AtWait, ShutStop}"
  shows "sys_inv (ends t (wrap_go f r) (\<lambda>_. p) (s\<lparr>sy_pm := m, sy_lock := None\<rparr>))"
proof -
  have w: "r = Ok () \<and> idle m \<or> (\<exists>e. r = Err e) \<and> broken m" "phased m"
    using wait_phases [OF assms(3)] assms(1) by (auto simp: sys_inv_def phased_def)
  have alone: "\<And>u. u \<noteq> t \<Longrightarrow> \<not> locked_at u s" "sy_lock s = Some t"
    using assms(1,2) unfolding sys_inv_def by (metis option.inject)+
  have "sys_inv (goes t p' (s\<lparr>sy_pm := m, sy_lock := None\<rparr>))" if "p' \<notin> {Stopping, ShutStopping, AtWait, ShutStop}" for p'
    using assms(1) that w(2) alone by (auto simp: sys_inv_def locked_at_def split: if_splits)
  from this [of p] this [of "Failed _"] show ?thesis
    using w(1) assms(4) by (auto simp: goes_def sys_inv_def locked_at_def)
qed

lemma wrap_go_cases: "(\<exists>a. r = Ok a) \<or> (\<exists>e. r = Err e) \<Longrightarrow> (\<exists>a. wrap_go f r = Ok a) \<or> (\<exists>e. wrap_go f r = Err e)"
  by auto

lemma io_st_cases: "io_st msg fail w = (Ok (), w) \<or> (\<exists>e. io_st msg fail w = (Err e, w))"
  by (auto simp: io_st_def ret_st_def err_st_def split: option.splits)

definition never_panics :: "('s, 'a) gost \<Rightarrow> bool" where
  "never_panics m \<longleftrightarrow> (\<forall>s p. fst (m s) \<noteq> Panic p)"

lemma never_panics_bind: "never_panics m \<Longrightarrow> (\<And>a. never_panics (f a)) \<Longrightarrow> never_panics (bind_st m f)"
  by (auto simp: never_panics_def bind_st_def split: prod.splits go.splits) (metis fst_conv)+

lemma never_panics_basic: "never_panics (ret_st a)" "never_panics (io_st msg fail)" "never_panics (append_nodes l)"
  "never_panics (\<lambda>w. (Ok a, f w))" "never_panics m \<Longrightarrow> never_panics (wrap_st g m)"
  by (auto simp: never_panics_def ret_st_def io_st_def append_nodes_def err_st_def fst_wrap_st split: option.splits)

lemma never_panics_each: "(\<And>x. never_panics (f x)) \<Longrightarrow> never_panics (each f xs)"
  by (induction xs) (auto intro!: never_panics_bind simp: never_panics_basic)

lemma writeDaemonsConfig_no_panic: "never_panics (writeDaemonsConfig io cid daemons)"
  unfolding writeDaemonsConfig_def logNodesConfig_def
  by (intro never_panics_bind never_panics_each never_panics_basic) (simp add: write_ip_def never_panics_basic never_panics_bind)

lemma UpdateDNS_no_panic: "never_panics (UpdateDNSNameMappings order readFail writeFail daemons)"
  using dns_mappings_no_panic
  by (auto simp: never_panics_def UpdateDNSNameMappings_def updateHostsFile_def bind_st_def ret_st_def Let_def split: go.splits option.splits)

lemma config_go_cases:
  "never_panics m \<Longrightarrow> m w = (r, w') \<Longrightarrow> (\<exists>a. r = Ok a) \<or> (\<exists>e. r = Err e)"
  unfolding never_panics_def by (metis fst_conv go.exhaust)

lemma step_inv:
  assumes "pm_step dns cid s s'" "sys_inv s"
  shows "sys_inv s'"
  using assms(1)
proof cases
  case (child p)
  then show ?thesis using assms(2) by (auto simp: sys_inv_def locked_at_def phased_def)
next
  case (reads i)
  then show ?thesis using assms(2) waiter_reads_phases [of "sy_pm s" i]
    by (auto simp: sys_inv_def locked_at_def phased_def)
next
  case (sends i p r)
  then show ?thesis using assms(2) waiter_sends_phases [of "sy_pm s" i p r]
    by (auto simp: sys_inv_def locked_at_def phased_def)
next
  case cancel
  then show ?thesis using assms(2) by simp
next
  case (update_ips io daemons)
  have "\<not> locked_at Loop s" using update_ips by (simp add: locked_at_def)
  then show ?thesis unfolding update_ips(1) update_with_ips_def
    using assms(2) by (auto intro!: ends_inv wrap_go_cases elim!: config_go_cases [OF writeDaemonsConfig_no_panic] split: prod.split)
next
  case (update_dns order readFail writeFail daemons)
  have "\<not> locked_at Loop s" using update_dns by (simp add: locked_at_def)
  then show ?thesis unfolding update_dns(1) update_with_dns_def
    using assms(2) by (auto intro!: ends_inv wrap_go_cases elim!: config_go_cases [OF UpdateDNS_no_panic] split: prod.split)
next
  case loop_cancelled
  then show ?thesis using assms(2) by (auto intro!: goes_inv simp: locked_at_def)
next
  case (restart t)
  then show ?thesis using assms(2) by (auto intro!: goes_inv simp: locked_at_def)
next
  case (ensure t updated)
  then show ?thesis using assms(2) by (auto intro!: goes_inv simp: locked_at_def)
next
  case (signal t r)
  then show ?thesis using assms(2) by (auto intro!: goes_inv simp: locked_at_def)
next
  case (stop t)
  then show ?thesis using assms(2) by (auto intro!: stop_inv)
next
  case (stopped t r m)
  then show ?thesis using assms(2) by (auto intro!: release_inv simp: locked_at_def)
next
  case (start t exec r m)
  have "phased (sy_pm s)" using assms(2) by (simp add: sys_inv_def)
  note ph = start_phases [OF start(4) this]
  have "sys_inv (s\<lparr>sy_pm := m\<rparr>)" "\<not> locked_at t (s\<lparr>sy_pm := m\<rparr>)"
    using assms(2) ph(1) start(2) by (auto simp: sys_inv_def locked_at_def)
  then show ?thesis unfolding start(1) using ph(2) by (intro ends_inv wrap_go_cases) auto
next
  case tick
  then have "ended (sy_pm s)" "sy_lock s = None"
    using assms(2) by (auto simp: sys_inv_def pm_lost_def phased_def phase_defs)
  then show ?thesis using assms(2) tick(1) by (simp add: sys_inv_def locked_at_def)
next
  case (wait r m)
  have "ended (sy_pm s) \<and> (r = Ok () \<and> idle m \<or> (\<exists>e. r = Err e) \<and> broken m)"
    using assms(2) wait_phases [OF wait(3)] by (simp add: sys_inv_def)
  moreover have "sy_lock s = None" "\<forall>u. \<not> locked_at u s" using assms(2) wait(2) by (auto simp: sys_inv_def)
  ultimately show ?thesis
    using assms(2) wait(1) by (elim conjE disjE exE) (simp_all add: sys_inv_def locked_at_def phased_def)
next
  case dog_cancelled
  then show ?thesis using assms(2) by (auto intro!: goes_inv simp: locked_at_def)
next
  case shut_stop
  then show ?thesis using assms(2) by (auto intro!: stop_inv)
next
  case (shut_stopped r m)
  then show ?thesis using assms(2) by (auto intro!: release_inv simp: locked_at_def)
qed

lemma steps_inv: "(pm_step dns cid)\<^sup>*\<^sup>* s s' \<Longrightarrow> sys_inv s \<Longrightarrow> sys_inv s'"
  by (induction rule: rtranclp_induct) (auto dest: step_inv)

lemma init_inv: "sys_inv (pm_init w)"
  by (auto simp: sys_inv_def pm_init_def NewProcessManager_def phased_def idle_def locked_at_def)

lemmas run_inv = steps_inv [OF _ init_inv]

section \<open>Supervision\<close>

text \<open>C9. In every interleaving of update loop, watchdog and child there is at most one child process. It is the one in the handle and has
  exactly one goroutine that waits for it, so its result is read. The channel never holds more than one result, so that
  goroutine never blocks; \<open>wait\<close> does not block where the watchdog calls it; two goroutines never hold the lock; no nil handle is
  followed.\<close>

theorem one_child_supervised:
  assumes "pm_run dns cid w s"
  shows "\<not> sy_crashed s \<and> length (pm_procs (sy_pm s)) \<le> 1 \<and>
     (\<forall>(p, alive) \<in> set (pm_procs (sy_pm s)).
        pm_handle (sy_pm s) = Some p \<and> pm_waitResChan (sy_pm s) = [] \<and> pm_waiters (sy_pm s) \<in> {[None], [Some p]}) \<and>
     length (pm_waitResChan (sy_pm s)) \<le> 1 \<and>
     (sy_pos s Dog = AtWait \<longrightarrow> pm_wait (sy_pm s) \<noteq> None) \<and>
     \<not> (locked_at Loop s \<and> locked_at Dog s)"
proof -
  have inv: "sys_inv s" using run_inv assms by blast
  then have ph: "phased (sy_pm s)" by (simp add: sys_inv_def)
  have "pm_wait (sy_pm s) \<noteq> None" if "ended (sy_pm s)"
    using that by (auto simp: ended_def pm_wait_def length_Suc_conv split: wait_result.splits)
  moreover have "\<not> (locked_at Loop s \<and> locked_at Dog s)"
    using inv unfolding sys_inv_def by (metis goroutine.distinct(1) option.inject)
  moreover have "\<not> sy_crashed s" "sy_pos s Dog = AtWait \<Longrightarrow> ended (sy_pm s)" using inv by (simp_all add: sys_inv_def)
  moreover have "length (pm_procs (sy_pm s)) \<le> 1 \<and> length (pm_waitResChan (sy_pm s)) \<le> 1 \<and>
     (\<forall>(p, alive) \<in> set (pm_procs (sy_pm s)).
        pm_handle (sy_pm s) = Some p \<and> pm_waitResChan (sy_pm s) = [] \<and> pm_waiters (sy_pm s) \<in> {[None], [Some p]})"
    using ph by (auto simp: phased_def phase_defs)
  ultimately show ?thesis by simp
qed

section \<open>Shutdown\<close>

fun rank :: "position \<Rightarrow> nat" where
  "rank (Failed _) = 0" | "rank Finished = 0" | "rank ShutStopping = 1" | "rank ShutStop = 2" | "rank Select = 3"
| "rank AtSignal = 4" | "rank AtStart = 4" | "rank Stopping = 5" | "rank AtStop = 6" | "rank AtRestart = 7"
| "rank AtWait = 8" | "rank (AtEnsureStarted _) = 8"

definition progress :: "goroutine \<Rightarrow> sys \<Rightarrow> sys \<Rightarrow> bool" where
  "progress t s s' \<longleftrightarrow> rank (sy_pos s' t) < rank (sy_pos s t) \<and> (\<forall>u. u \<noteq> t \<longrightarrow> sy_pos s' u = sy_pos s u) \<and>
     (sy_cancelled s \<longrightarrow> sy_cancelled s')"

lemma goes_progress: "rank p < rank (sy_pos s t) \<Longrightarrow> progress t s (goes t p s)"
  by (simp add: progress_def)

lemma ends_progress:
  assumes "(\<exists>a. r = Ok a) \<or> (\<exists>e. r = Err e)" "\<And>a. rank (next a) < rank (sy_pos s t)"
    and "sy_pos s0 = sy_pos s" "sy_cancelled s0 = sy_cancelled s"
  shows "progress t s (ends t r next s0)"
  using assms(1)
proof (elim disjE exE)
  fix a assume "r = Ok a"
  then show ?thesis using assms(2) [of a] assms(3,4) by (simp add: progress_def)
next
  fix e assume "r = Err e"
  moreover have "0 < rank (sy_pos s t)" using assms(2) less_nat_zero_code neq0_conv by metis
  ultimately show ?thesis using assms(3,4) by (simp add: progress_def)
qed

lemma takes_lock_sel [simp]: "sy_pos (takes_lock t s) = sy_pos s" "sy_cancelled (takes_lock t s) = sy_cancelled s"
  by (simp_all add: takes_lock_def)

text \<open>The child can end and its waiting goroutine then delivers the result.\<close>

lemma child_ends:
  assumes "supervised (sy_pm s)"
  shows "\<exists>m. (pm_step dns cid)\<^sup>*\<^sup>* s (s\<lparr>sy_pm := m\<rparr>) \<and> ended m"
proof -
  obtain p alive v where m: "pm_handle (sy_pm s) = Some p" "pm_procs (sy_pm s) = [(p, alive)]" "pm_waiters (sy_pm s) = [v]"
    "v \<in> {None, Some p}" "pm_waitResChan (sy_pm s) = []"
    using assms by (auto simp: supervised_def)
  define m1 where "m1 = (sy_pm s)\<lparr>pm_procs := [(p, False)]\<rparr>"
  define m2 where "m2 = m1\<lparr>pm_waiters := [Some p]\<rparr>"
  have "alive \<Longrightarrow> pm_step dns cid s (s\<lparr>sy_pm := m1\<rparr>)"
    using pm_step.child [of p s dns cid] m by (simp add: child_exits_def m1_def)
  moreover have "\<not> alive \<Longrightarrow> s\<lparr>sy_pm := m1\<rparr> = s" using m by (simp add: m1_def)
  ultimately have 1: "(pm_step dns cid)\<^sup>*\<^sup>* s (s\<lparr>sy_pm := m1\<rparr>)" by (cases alive) auto
  have "v = None \<Longrightarrow> pm_step dns cid (s\<lparr>sy_pm := m1\<rparr>) (s\<lparr>sy_pm := m2\<rparr>)"
    using pm_step.reads [of 0 "s\<lparr>sy_pm := m1\<rparr>" dns cid] m by (simp add: waiter_reads_def m1_def m2_def)
  moreover have "v = Some p \<Longrightarrow> m2 = m1" using m by (simp add: m1_def m2_def)
  ultimately have 2: "(pm_step dns cid)\<^sup>*\<^sup>* (s\<lparr>sy_pm := m1\<rparr>) (s\<lparr>sy_pm := m2\<rparr>)" using m(4) by auto
  have 3: "pm_step dns cid (s\<lparr>sy_pm := m2\<rparr>) (s\<lparr>sy_pm := waiter_sends 0 p (ExitCode 0) m2\<rparr>)"
    using pm_step.sends [of 0 "s\<lparr>sy_pm := m2\<rparr>" p dns cid "ExitCode 0"] m by (simp add: m1_def m2_def)
  have "ended (waiter_sends 0 p (ExitCode 0) m2)" using m by (simp add: ended_def waiter_sends_def m1_def m2_def)
  then show ?thesis using 1 2 3 by (meson rtranclp.rtrancl_into_rtrancl rtranclp_trans)
qed

lemma ended_wait: "ended m \<Longrightarrow> \<exists>r m'. pm_wait m = Some (r, m') \<and> ((\<exists>a. r = Ok a) \<or> (\<exists>e. r = Err e))"
  by (auto simp: ended_def pm_wait_def length_Suc_conv split: wait_result.splits)

text \<open>A goroutine that waits in \<open>stop\<close> can return from it.\<close>

lemma locked_advances:
  assumes "sys_inv s" "locked_at t s"
  shows "\<exists>s'. (pm_step dns cid)\<^sup>*\<^sup>* s s' \<and> progress t s s'"
proof -
  have "sy_lock s \<noteq> None" using assms by (auto simp: sys_inv_def)
  then have "supervised (sy_pm s) \<or> ended (sy_pm s)" using assms(1) by (simp add: sys_inv_def)
  then obtain m where m: "(pm_step dns cid)\<^sup>*\<^sup>* s (s\<lparr>sy_pm := m\<rparr>)" "ended m"
    using child_ends by (metis rtranclp.rtrancl_refl sys.surjective sys.update_convs(1))
  obtain r m' where w: "pm_wait m = Some (r, m')" "(\<exists>a. r = Ok a) \<or> (\<exists>e. r = Err e)" using ended_wait [OF m(2)] by blast
  let ?s = "s\<lparr>sy_pm := m\<rparr>"
  have "\<exists>s'. pm_step dns cid ?s s' \<and> progress t s s'"
  proof (cases "sy_pos s t = Stopping")
    case True
    then show ?thesis using pm_step.stopped [of ?s t r m' dns cid] w
      by (intro exI conjI, simp) (auto intro!: ends_progress wrap_go_cases)
  next
    case False
    then have "sy_pos s t = ShutStopping" using assms(2) by (simp add: locked_at_def)
    moreover from this have "t = Dog" using assms(1) by (cases t) (simp_all add: sys_inv_def)
    ultimately have "sy_pos s t = ShutStopping" "t = Dog" by simp_all
    then show ?thesis using pm_step.shut_stopped [of ?s r m' dns cid] w
      by (intro exI conjI, simp) (auto intro!: ends_progress wrap_go_cases)
  qed
  then show ?thesis using m(1) by (meson rtranclp.rtrancl_into_rtrancl)
qed

lemma stop_go: "(\<exists>a. pm_stop_signal m = Ok a) \<or> (\<exists>e. pm_stop_signal m = Err e)"
  using stop_signal_cases by blast

lemma start_go: "pm_start exec m = (r, m') \<Longrightarrow> (\<exists>a. r = Ok a) \<or> (\<exists>e. r = Err e)"
  by (auto simp: pm_start_def split: if_splits option.splits)

text \<open>Every goroutine that has not ended can advance, when the context is cancelled and no other one waits in \<open>stop\<close>.\<close>

lemma advances:
  assumes inv: "sys_inv s" and c: "sy_cancelled s" and alone: "\<And>u. u \<noteq> t \<Longrightarrow> \<not> locked_at u s" and "0 < rank (sy_pos s t)"
  shows "\<exists>s'. (pm_step dns cid)\<^sup>*\<^sup>* s s' \<and> progress t s s'"
proof (cases "locked_at t s")
  case True
  then show ?thesis by (rule locked_advances [OF inv])
next
  case False
  then have free: "sy_lock s = None" using inv alone unfolding sys_inv_def by (metis option.exhaust)
  have "\<exists>s'. pm_step dns cid s s' \<and> progress t s s'"
  proof (cases "sy_pos s t")
    case Select
    then show ?thesis using pm_step.loop_cancelled [of s dns cid] pm_step.dog_cancelled [of s dns cid] c
      by (cases t) (auto intro!: goes_progress)
  next
    case AtRestart
    then show ?thesis using pm_step.restart [of s t dns cid] by (intro exI conjI, simp) (auto intro!: goes_progress)
  next
    case (AtEnsureStarted b)
    then show ?thesis using pm_step.ensure [of s t b dns cid] by (intro exI conjI, simp) (auto intro!: goes_progress)
  next
    case AtStop
    then show ?thesis using pm_step.stop [of s t dns cid] free
      by (intro exI conjI, simp) (auto intro!: ends_progress wrap_go_cases stop_go)
  next
    case AtStart
    obtain r m where st: "pm_start None (sy_pm s) = (r, m)" by (cases "pm_start None (sy_pm s)")
    show ?thesis using pm_step.start [OF AtStart free st, of dns cid] AtStart
      by (intro exI conjI, simp) (auto intro!: ends_progress wrap_go_cases start_go [OF st])
  next
    case AtSignal
    then show ?thesis using pm_step.signal [of s t _ dns cid] free by (intro exI conjI, simp) (auto intro!: goes_progress)
  next
    case AtWait
    then have d: "t = Dog" "ended (sy_pm s)" using inv by (cases t, auto simp: sys_inv_def)+
    obtain r m where w: "pm_wait (sy_pm s) = Some (r, m)" "(\<exists>a. r = Ok a) \<or> (\<exists>e. r = Err e)" using ended_wait [OF d(2)] by blast
    show ?thesis using pm_step.wait [of s r m dns cid] w AtWait d(1)
      by (intro exI conjI, simp) (auto intro!: ends_progress wrap_go_cases)
  next
    case ShutStop
    then have "t = Dog" using inv by (cases t) (auto simp: sys_inv_def)
    then show ?thesis using pm_step.shut_stop [of s dns cid] free ShutStop
      by (intro exI conjI, simp) (auto intro!: ends_progress wrap_go_cases stop_go)
  qed (use assms False in \<open>auto simp: locked_at_def\<close>)
  then show ?thesis by blast
qed

lemma goroutine_ends:
  assumes "sys_inv s" "sy_cancelled s" "\<And>u. u \<noteq> t \<Longrightarrow> \<not> locked_at u s"
  shows "\<exists>s'. (pm_step dns cid)\<^sup>*\<^sup>* s s' \<and> rank (sy_pos s' t) = 0 \<and> (\<forall>u. u \<noteq> t \<longrightarrow> sy_pos s' u = sy_pos s u) \<and> sy_cancelled s'"
  using assms
proof (induction "rank (sy_pos s t)" arbitrary: s rule: less_induct)
  case less
  show ?case
  proof (cases "rank (sy_pos s t) = 0")
    case True
    then show ?thesis using less.prems by blast
  next
    case False
    then obtain s1 where s1: "(pm_step dns cid)\<^sup>*\<^sup>* s s1" "progress t s s1" using advances [OF less.prems] by blast
    have "sys_inv s1" "sy_cancelled s1" "\<And>u. u \<noteq> t \<Longrightarrow> \<not> locked_at u s1"
      using steps_inv [OF s1(1)] less.prems s1(2) by (auto simp: progress_def locked_at_def)
    from less.hyps [OF _ this] obtain s' where "(pm_step dns cid)\<^sup>*\<^sup>* s1 s'" "rank (sy_pos s' t) = 0"
      "\<forall>u. u \<noteq> t \<longrightarrow> sy_pos s' u = sy_pos s1 u" "sy_cancelled s'"
      using s1(2) by (auto simp: progress_def)
    then show ?thesis using s1 unfolding progress_def by (metis rtranclp_trans)
  qed
qed

lemma rank_0: "rank p = 0 \<longleftrightarrow> p = Finished \<or> (\<exists>e. p = Failed e)"
  by (cases p) auto

definition daemon_exits :: "sys \<Rightarrow> bool" where
  "daemon_exits s \<longleftrightarrow> (\<forall>t. sy_pos s t = Finished \<or> (\<exists>e. sy_pos s t = Failed e))"

text \<open>C16. The supervision never deadlocks: from every reachable state, whatever the two goroutines are doing with the process
  manager, once the context is cancelled there is a continuation in which both goroutines end, so that \<open>run\<close> returns.\<close>

theorem shutdown_possible:
  assumes "pm_run dns cid w s"
  shows "\<exists>s'. (pm_step dns cid)\<^sup>*\<^sup>* (s\<lparr>sy_cancelled := True\<rparr>) s' \<and> daemon_exits s'"
proof -
  let ?s = "s\<lparr>sy_cancelled := True\<rparr>"
  have inv: "sys_inv ?s" using run_inv [OF assms] by simp
  have one: "\<exists>t. \<forall>u. u \<noteq> t \<longrightarrow> \<not> locked_at u ?s" using inv unfolding sys_inv_def by (metis option.inject)
  then obtain t where t: "\<And>u. u \<noteq> t \<Longrightarrow> \<not> locked_at u ?s" by blast
  define t' where "t' = (if t = Loop then Dog else Loop)"
  have all: "u = t \<or> u = t'" for u by (cases u; cases t) (auto simp: t'_def)
  obtain s1 where s1: "(pm_step dns cid)\<^sup>*\<^sup>* ?s s1" "rank (sy_pos s1 t) = 0" "sy_cancelled s1"
    using goroutine_ends [OF inv _ t, where dns=dns and cid=cid] by auto
  have "\<not> locked_at u s1" if "u \<noteq> t'" for u using all [of u] that s1(2) by (auto simp: locked_at_def)
  then obtain s2 where s2: "(pm_step dns cid)\<^sup>*\<^sup>* s1 s2" "rank (sy_pos s2 t') = 0" "\<forall>u. u \<noteq> t' \<longrightarrow> sy_pos s2 u = sy_pos s1 u"
    using goroutine_ends [OF steps_inv [OF s1(1) inv] s1(3), where dns=dns and cid=cid] by blast
  have "rank (sy_pos s2 u) = 0" for u using all [of u] s1(2) s2(2,3) by (cases "u = t'") auto
  then show ?thesis using s1(1) s2(1) unfolding daemon_exits_def rank_0 [symmetric] by (meson rtranclp_trans)
qed

section \<open>A race between the watchdog and the update loop\<close>

definition sys_at :: "dns_world \<Rightarrow> ProcessManager \<Rightarrow> position \<Rightarrow> position \<Rightarrow> bool \<Rightarrow> sys" where
  "sys_at w m lp dg c = \<lparr>sy_pm = m, sy_lock = None, sy_pos = case_goroutine lp dg, sy_files = w, sy_cancelled = c, sy_crashed = False\<rparr>"

lemma sys_at_sel [simp]:
  "sy_pm (sys_at w m lp dg c) = m" "sy_lock (sys_at w m lp dg c) = None" "sy_pos (sys_at w m lp dg c) Loop = lp"
  "sy_pos (sys_at w m lp dg c) Dog = dg" "sy_files (sys_at w m lp dg c) = w" "sy_cancelled (sys_at w m lp dg c) = c"
  by (simp_all add: sys_at_def)

lemma sys_at_upd [simp]:
  "goes Loop p (sys_at w m lp dg c) = sys_at w m p dg c" "goes Dog p (sys_at w m lp dg c) = sys_at w m lp p c"
  "sys_at w m lp dg c\<lparr>sy_pm := m'\<rparr> = sys_at w m' lp dg c" "sys_at w m lp dg c\<lparr>sy_cancelled := c'\<rparr> = sys_at w m lp dg c'"
  "sys_at w m lp dg c\<lparr>sy_files := w'\<rparr> = sys_at w' m lp dg c"
  by (auto simp: sys_at_def goes_def fun_eq_iff split: goroutine.split)

lemma pm_init_at: "pm_init w = sys_at w NewProcessManager Select Select False"
  by (auto simp: pm_init_def sys_at_def fun_eq_iff split: goroutine.split)

text \<open>A round of the DNS-based loop for an empty list of daemons, up to the call of \<open>start\<close>.\<close>

lemma empty_update:
  assumes "dm_ipToDNSName (dw_manager w) = []" "pm_handle m = None"
  shows "(pm_step True cid)\<^sup>*\<^sup>* (sys_at w m Select dg c) (sys_at w m AtStart dg c)"
proof -
  have "UpdateDNSNameMappings (\<lambda>x. x) None None [] w = (Ok False, w)"
    using assms(1) by (simp add: UpdateDNSNameMappings_def maps_Equal_iff)
  then have "pm_step True cid (sys_at w m Select dg c) (sys_at w m (AtEnsureStarted False) dg c)"
    using pm_step.update_dns [of True "sys_at w m Select dg c" cid "\<lambda>x. x" None None "[]"] by (simp add: update_with_dns_def)
  moreover have "pm_step True cid (sys_at w m (AtEnsureStarted False) dg c) (sys_at w m AtStart dg c)"
    using pm_step.ensure [of "sys_at w m (AtEnsureStarted False) dg c" Loop False True cid] assms(2) by simp
  ultimately show ?thesis by (meson converse_rtranclp_into_rtranclp rtranclp.rtrancl_refl)
qed

definition child_running :: "nat \<Rightarrow> ProcessManager" where
  "child_running p = \<lparr>pm_handle = Some p, pm_waitResChan = [], pm_procs = [(p, True)], pm_waiters = [None], pm_nextPid = p + 1\<rparr>"

definition child_ended :: "nat \<Rightarrow> ProcessManager" where
  "child_ended p = \<lparr>pm_handle = Some p, pm_waitResChan = [ExitCode 1], pm_procs = [], pm_waiters = [], pm_nextPid = p + 1\<rparr>"

definition no_child :: "nat \<Rightarrow> ProcessManager" where
  "no_child p = \<lparr>pm_handle = None, pm_waitResChan = [], pm_procs = [], pm_waiters = [], pm_nextPid = p\<rparr>"

lemma loop_starts: "pm_step True cid (sys_at w (no_child p) AtStart dg c) (sys_at w (child_running p) Select dg c)"
  using pm_step.start [of "sys_at w (no_child p) AtStart dg c" Loop None "Ok ()" "child_running p" True cid]
  by (simp add: pm_start_def no_child_def child_running_def)

lemma child_dies: "(pm_step True cid)\<^sup>*\<^sup>* (sys_at w (child_running p) lp dg c) (sys_at w (child_ended p) lp dg c)"
proof -
  let ?m1 = "(child_running p)\<lparr>pm_procs := [(p, False)]\<rparr>"
  let ?m2 = "?m1\<lparr>pm_waiters := [Some p]\<rparr>"
  have "pm_step True cid (sys_at w (child_running p) lp dg c) (sys_at w ?m1 lp dg c)"
    using pm_step.child [of p "sys_at w (child_running p) lp dg c" True cid] by (simp add: child_exits_def child_running_def)
  moreover have "pm_step True cid (sys_at w ?m1 lp dg c) (sys_at w ?m2 lp dg c)"
    using pm_step.reads [of 0 "sys_at w ?m1 lp dg c" True cid] by (simp add: waiter_reads_def child_running_def)
  moreover have "pm_step True cid (sys_at w ?m2 lp dg c) (sys_at w (child_ended p) lp dg c)"
    using pm_step.sends [of 0 "sys_at w ?m2 lp dg c" p True cid "ExitCode 1"]
    by (simp add: waiter_sends_def child_running_def child_ended_def)
  ultimately show ?thesis by (meson converse_rtranclp_into_rtranclp rtranclp.rtrancl_refl)
qed

text \<open>\<open>EnsureStarted\<close> and \<open>Restart\<close> look at the handle before they take the lock. In this run the child dies, the watchdog drops the
  handle, and an update arrives before it starts the child again: the update loop starts it, the watchdog's own start fails with
  ``already started'', which is fatal, and the whole daemon shuts down. The watchdog has ended and the child it was
  to stop keeps running.\<close>

theorem watchdog_race_ends_daemon:
  "\<exists>s. pm_run True ''c'' dns_start s \<and> daemon_exits s \<and> pm_procs (sy_pm s) = [(2, True)] \<and>
     sy_pos s Dog = Failed (Wrapf ''watchdog: process lost, restart failed, treat fatal'' (Errorf ''pm: start failed: already started''))"
proof -
  let ?e = "Wrapf ''watchdog: process lost, restart failed, treat fatal'' (Errorf ''pm: start failed: already started'')"
  have w: "dm_ipToDNSName (dw_manager dns_start) = []" by (simp add: dns_start_def NewDNSNameManager_def)
  have n: "pm_handle (no_child p) = None" for p by (simp add: no_child_def)
  let ?at = "sys_at dns_start" and ?R = "(pm_step True ''c'')\<^sup>*\<^sup>*"
  have r1: "?R (?at (no_child 1) Select Select False) (?at (child_ended 1) Select Select False)"
    using empty_update [OF w n, of "''c''" 1 Select False] loop_starts [of "''c''" dns_start 1 Select False]
      child_dies [of "''c''" dns_start 1 Select Select False] by (meson rtranclp.rtrancl_into_rtrancl rtranclp_trans)
  have r2: "?R (?at (child_ended 1) Select Select False) (?at (child_ended 1) Select AtWait False)"
    using pm_step.tick [of "?at (child_ended 1) Select Select False" True "''c''"] by (auto simp: pm_lost_def child_ended_def)
  have r3: "?R (?at (child_ended 1) Select AtWait False) (?at (no_child 2) Select AtRestart False)"
    using pm_step.wait [of "?at (child_ended 1) Select AtWait False" "Ok ()" "no_child 2" True "''c''"]
    by (auto simp: pm_wait_def child_ended_def no_child_def)
  have r4: "?R (?at (no_child 2) Select AtRestart False) (?at (no_child 2) Select AtStart False)"
    using pm_step.restart [of "?at (no_child 2) Select AtRestart False" Dog True "''c''"] by (auto simp: no_child_def)
  have r5: "?R (?at (no_child 2) Select AtStart False) (?at (child_running 2) Select AtStart False)"
    using empty_update [OF w n, of "''c''" 2 AtStart False] loop_starts [of "''c''" dns_start 2 AtStart False]
    by (meson rtranclp.rtrancl_into_rtrancl)
  have r6: "?R (?at (child_running 2) Select AtStart False) (?at (child_running 2) Select (Failed ?e) True)"
    using pm_step.start [of "?at (child_running 2) Select AtStart False" Dog None "Err (Errorf ''pm: start failed: already started'')" "child_running 2" True "''c''"]
    by (auto simp: pm_start_def child_running_def)
  have r7: "?R (?at (child_running 2) Select (Failed ?e) True) (?at (child_running 2) Finished (Failed ?e) True)"
    using pm_step.loop_cancelled [of "?at (child_running 2) Select (Failed ?e) True" True "''c''"] by auto
  note rs = r1 r2 r3 r4 r5 r6 r7
  have "?R (?at (no_child 1) Select Select False) (?at (child_running 2) Finished (Failed ?e) True)"
    by (rule rtranclp_trans [OF rs(1) rtranclp_trans [OF rs(2) rtranclp_trans [OF rs(3) rtranclp_trans [OF rs(4)
      rtranclp_trans [OF rs(5) rtranclp_trans [OF rs(6,7)]]]]]])
  moreover have "pm_init dns_start = ?at (no_child 1) Select Select False"
    by (simp add: pm_init_at NewProcessManager_def no_child_def)
  moreover have "daemon_exits (?at (child_running 2) Finished (Failed ?e) True)"
    unfolding daemon_exits_def using sys_at_sel by (metis goroutine.exhaust)
  ultimately show ?thesis
    by (intro exI [of _ "?at (child_running 2) Finished (Failed ?e) True"]) (simp add: child_running_def)
qed

section \<open>The configuration of a running child\<close>

definition nodes_of :: "string \<Rightarrow> ComputeDomainDaemonInfo list \<Rightarrow> string" where
  "nodes_of cid daemons = concat (map (\<lambda>d. di_IPAddress d @ [NL]) (filter (\<lambda>d. di_CliqueID d = cid) daemons))"

lemma io_st_Ok [simp]: "io_st msg fail w = (Ok a, w') \<longleftrightarrow> fail = None \<and> w' = w"
  by (auto simp: io_st_def ret_st_def err_st_def split: option.splits)

lemma write_ip_Ok: "write_ip io cid d w = (Ok a, w') \<Longrightarrow> w' = w\<lparr>dw_nodesConfig := dw_nodesConfig w @ nodes_of cid [d]\<rparr>"
  by (auto simp: write_ip_def nodes_of_def ret_st_def bind_st_eq_Ok append_nodes_def split: if_splits)

lemma nodes_of_Cons: "nodes_of cid (d # ds) = nodes_of cid [d] @ nodes_of cid ds"
  by (simp add: nodes_of_def)

lemma write_ips_Ok:
  "each (write_ip io cid) daemons w = (Ok a, w') \<Longrightarrow> w' = w\<lparr>dw_nodesConfig := dw_nodesConfig w @ nodes_of cid daemons\<rparr>"
proof (induction daemons arbitrary: w)
  case (Cons d ds)
  then obtain w1 where "write_ip io cid d w = (Ok (), w1)" "each (write_ip io cid) ds w1 = (Ok a, w')"
    by (auto simp: bind_st_eq_Ok)
  then show ?case using Cons.IH [of w1] write_ip_Ok [of io cid d w "()" w1] nodes_of_Cons [of cid d ds] by simp
qed (simp add: nodes_of_def ret_st_def)

lemma writeDaemonsConfig_Ok:
  "writeDaemonsConfig io cid daemons w = (Ok a, w') \<Longrightarrow> w' = w\<lparr>dw_nodesConfig := nodes_of cid daemons\<rparr>"
  by (auto simp: writeDaemonsConfig_def logNodesConfig_def bind_st_eq_Ok wrap_st_eq_Ok dest!: write_ips_Ok)

lemma update_with_ips_result:
  "(\<exists>daemons'. dw_nodesConfig (sy_files (update_with_ips io cid daemons s)) = nodes_of cid daemons') \<or>
   (\<exists>e. sy_pos (update_with_ips io cid daemons s) Loop = Failed e)"
proof -
  obtain r w where w: "writeDaemonsConfig io cid daemons (sy_files s) = (r, w)" by (cases "writeDaemonsConfig io cid daemons (sy_files s)")
  from config_go_cases [OF writeDaemonsConfig_no_panic w] show ?thesis
    using w writeDaemonsConfig_Ok [of io cid daemons "sy_files s" _ w] by (auto simp: update_with_ips_def)
qed

lemma UpdateDNS_nodesConfig:
  "UpdateDNSNameMappings order readFail writeFail daemons w = (r, w') \<Longrightarrow> dw_nodesConfig w' = dw_nodesConfig w"
  by (auto simp: UpdateDNSNameMappings_def updateHostsFile_def bind_st_def ret_st_def Let_def split: go.splits option.splits if_splits)

text \<open>Before the first update of the IP-based loop there is no child and nothing that would start one.\<close>

definition untouched :: "sys \<Rightarrow> bool" where
  "untouched s \<longleftrightarrow> sy_pm s = NewProcessManager \<and> sy_pos s Loop \<in> {Select, Finished} \<and>
     (sy_pos s Dog \<in> {Select, ShutStop} \<or> (\<exists>e. sy_pos s Dog = Failed e))"

definition config_inv :: "bool \<Rightarrow> string \<Rightarrow> string \<Rightarrow> sys \<Rightarrow> bool" where
  "config_inv dns cid static s \<longleftrightarrow>
     (if dns then dw_nodesConfig (sy_files s) = static
      else (\<exists>daemons. dw_nodesConfig (sy_files s) = nodes_of cid daemons) \<or> (\<exists>e. sy_pos s Loop = Failed e) \<or> untouched s)"

lemma ends_files [simp]: "sy_files (ends t r next s) = sy_files s"
  by (simp add: ends_def split: go.splits)

lemma takes_lock_files [simp]: "sy_files (takes_lock t s) = sy_files s"
  by (simp add: takes_lock_def)

lemma failed_stays:
  assumes "pm_step dns cid s s'" "sy_pos s t = Failed e"
  shows "sy_pos s' t = Failed e"
  using assms by cases (auto simp: ends_def update_with_ips_def update_with_dns_def split: go.splits prod.splits)

lemma new_manager [simp]:
  "pm_handle NewProcessManager = None" "pm_waitResChan NewProcessManager = []" "pm_procs NewProcessManager = []"
  "pm_waiters NewProcessManager = []" "pm_wait NewProcessManager = None"
  "pm_stop_signal NewProcessManager = Err (Errorf ''pm: stop failed: not started'')"
  by (simp_all add: NewProcessManager_def pm_wait_def pm_stop_signal_def)

lemma untouched_pos: "untouched s \<Longrightarrow> sy_pos s t \<in> {Select, ShutStop, Finished} \<or> (\<exists>e. sy_pos s t = Failed e)"
  by (cases t) (auto simp: untouched_def)

lemma untouched_step:
  assumes "pm_step False cid s s'" "untouched s"
  shows "untouched s' \<or> (\<exists>daemons. dw_nodesConfig (sy_files s') = nodes_of cid daemons) \<or> (\<exists>e. sy_pos s' Loop = Failed e)"
  using assms(1)
proof cases
  case (update_ips io daemons)
  then show ?thesis using update_with_ips_result by simp
next
  case (restart t)
  then show ?thesis using untouched_pos [OF assms(2), of t] by simp
next
  case (ensure t updated)
  then show ?thesis using untouched_pos [OF assms(2), of t] by simp
next
  case (signal t r)
  then show ?thesis using untouched_pos [OF assms(2), of t] by simp
next
  case (stop t)
  then show ?thesis using untouched_pos [OF assms(2), of t] by simp
next
  case (stopped t r m)
  then show ?thesis using untouched_pos [OF assms(2), of t] by simp
next
  case (start t exec r m)
  then show ?thesis using untouched_pos [OF assms(2), of t] by simp
next
  case (wait r m)
  then show ?thesis using untouched_pos [OF assms(2), of Dog] by simp
next
  case (shut_stopped r m)
  then show ?thesis using untouched_pos [OF assms(2), of Dog] by simp
qed (use assms(2) in \<open>simp_all add: untouched_def pm_lost_def takes_lock_def\<close>)

lemma config_step_dns:
  assumes "pm_step True cid s s'"
  shows "dw_nodesConfig (sy_files s') = dw_nodesConfig (sy_files s)"
  using assms by cases (auto dest: UpdateDNS_nodesConfig simp: update_with_dns_def split: go.splits prod.splits)

lemma config_step_ips:
  assumes "pm_step False cid s s'" "dw_nodesConfig (sy_files s) = nodes_of cid daemons"
  shows "(\<exists>daemons. dw_nodesConfig (sy_files s') = nodes_of cid daemons) \<or> (\<exists>e. sy_pos s' Loop = Failed e)"
  using assms(1)
proof cases
  case (update_ips io ds)
  then show ?thesis using update_with_ips_result by simp
qed (use assms(2) in \<open>auto split: go.splits\<close>)

lemma config_inv_step:
  assumes "pm_step dns cid s s'" "config_inv dns cid static s"
  shows "config_inv dns cid static s'"
proof (cases dns)
  case True
  then show ?thesis using assms config_step_dns [of cid s s'] by (simp add: config_inv_def)
next
  case False
  then have step: "pm_step False cid s s'" using assms(1) by simp
  from False assms(2) consider daemons where "dw_nodesConfig (sy_files s) = nodes_of cid daemons"
    | e where "sy_pos s Loop = Failed e" | "untouched s" by (auto simp: config_inv_def)
  then show ?thesis
  proof cases
    case 1
    then show ?thesis using config_step_ips [OF step] False by (auto simp: config_inv_def)
  next
    case 2
    then show ?thesis using failed_stays [OF step] False by (auto simp: config_inv_def)
  next
    case 3
    then show ?thesis using untouched_step [OF step] False by (auto simp: config_inv_def)
  qed
qed

lemma config_inv_run:
  assumes "pm_run dns cid w s"
  shows "config_inv dns cid (dw_nodesConfig w) s"
  using assms
proof (induction rule: rtranclp_induct)
  case base
  show ?case by (simp add: config_inv_def untouched_def pm_init_def)
qed (auto intro: config_inv_step)

lemma writeIMEXConfig_Ok:
  assumes "writeIMEXConfig env ip mw = (Ok (), mw')"
  shows "\<exists>tmpl c. me_template env = Ok tmpl \<and> tmpl_Execute (IMEXConfigTemplateData ip) tmpl = Ok c \<and> mw' = mw\<lparr>mw_imexConfig := Some c\<rparr>"
  using assms by (auto simp: writeIMEXConfig_def bind_st_eq_Ok lift_st_def)

lemma addLabel_Ok:
  "addComputeDomainCliqueLabel env flags mw = (Ok (), mw') \<Longrightarrow>
   mw' = mw\<lparr>mw_podLabels := AList.update computeDomainCliqueLabelKey (fl_cliqueID flags) (mw_podLabels mw)\<rparr>"
  by (auto simp: addComputeDomainCliqueLabel_def bind_st_eq_Ok)

lemma static_nodes_Ok:
  "write_static_nodes env flags mw = (Ok (), mw') \<Longrightarrow>
   \<exists>d. mw' = mw\<lparr>mw_dns := d\<rparr> \<and> dw_nodesConfig d = concat (map (\<lambda>i. dns_name i @ [NL]) [0..<nat (fl_maxNodesPerIMEXDomain flags)])"
  by (auto simp: write_static_nodes_def WriteNodesConfig_def NewDNSNameManager_def split: option.splits)

lemma run_setup_Ok:
  assumes "run_setup g env flags mw = (Ok True, mw')"
  shows "\<exists>tmpl c. me_template env = Ok tmpl \<and> tmpl_Execute (IMEXConfigTemplateData (fl_podIP flags)) tmpl = Ok c \<and> mw_imexConfig mw' = Some c"
    and "g IMEXDaemonsWithDNSNames \<Longrightarrow> dw_nodesConfig (mw_dns mw') = concat (map (\<lambda>i. dns_name i @ [NL]) [0..<nat (fl_maxNodesPerIMEXDomain flags)])"
    and "label (mw_podLabels mw') computeDomainCliqueLabelKey = fl_cliqueID flags"
proof -
  obtain w1 w2 where w: "addComputeDomainCliqueLabel env flags mw = (Ok (), w1)" "writeIMEXConfig env (fl_podIP flags) w1 = (Ok (), w2)"
    "(if g IMEXDaemonsWithDNSNames then write_static_nodes env flags else ret_st ()) w2 = (Ok (), mw')"
    using assms unfolding run_setup_def
    by (auto simp: bind_st_eq_Ok wrap_st_eq_Ok lift_st_def ret_st_def err_st_def split: if_splits)
  note steps = addLabel_Ok [OF w(1)] writeIMEXConfig_Ok [OF w(2)]
  have rest: "mw_podLabels mw' = mw_podLabels w2" "mw_imexConfig mw' = mw_imexConfig w2"
    using w(3) static_nodes_Ok by (fastforce simp: ret_st_def split: if_splits)+
  show "\<exists>tmpl c. me_template env = Ok tmpl \<and> tmpl_Execute (IMEXConfigTemplateData (fl_podIP flags)) tmpl = Ok c \<and> mw_imexConfig mw' = Some c"
    using steps(2) rest by auto
  show "label (mw_podLabels mw') computeDomainCliqueLabelKey = fl_cliqueID flags"
    using steps rest by (auto simp: label_def update_conv')
  show "dw_nodesConfig (mw_dns mw') = concat (map (\<lambda>i. dns_name i @ [NL]) [0..<nat (fl_maxNodesPerIMEXDomain flags)])"
    if "g IMEXDaemonsWithDNSNames"
    using w(3) that static_nodes_Ok [of env flags w2 mw'] by auto
qed


section \<open>Instances\<close>

lemma reaches_running:
  assumes "dm_ipToDNSName (dw_manager w) = []"
  shows "pm_run True cid w (sys_at w (child_running 1) Select Select False)"
proof -
  have "pm_init w = sys_at w (no_child 1) Select Select False" by (simp add: pm_init_at NewProcessManager_def no_child_def)
  moreover have "pm_handle (no_child 1) = None" by (simp add: no_child_def)
  ultimately show ?thesis using empty_update [OF assms, of "no_child 1" cid Select False] loop_starts [of cid w 1 Select False]
    by (metis rtranclp.rtrancl_into_rtrancl)
qed

lemma dns_start_empty: "dm_ipToDNSName (dw_manager dns_start) = []"
  by (simp add: dns_start_def NewDNSNameManager_def)

theorem one_child_supervised_witness:
  "\<exists>s. pm_run True ''c'' dns_start s \<and> pm_procs (sy_pm s) = [(1, True)] \<and> pm_handle (sy_pm s) = Some 1 \<and> \<not> sy_crashed s"
proof -
  let ?s = "sys_at dns_start (child_running 1) Select Select False"
  have "pm_run True ''c'' dns_start ?s" by (rule reaches_running [OF dns_start_empty])
  from this one_child_supervised [OF this] show ?thesis by (intro exI [of _ ?s]) (simp add: child_running_def)
qed

theorem shutdown_possible_witness:
  "\<exists>s s'. pm_run True ''c'' dns_start s \<and> pm_procs (sy_pm s) = [(1, True)] \<and>
     (pm_step True ''c'')\<^sup>*\<^sup>* (s\<lparr>sy_cancelled := True\<rparr>) s' \<and> daemon_exits s'"
proof -
  let ?s = "sys_at dns_start (child_running 1) Select Select False"
  have run: "pm_run True ''c'' dns_start ?s" by (rule reaches_running [OF dns_start_empty])
  obtain s' where "(pm_step True ''c'')\<^sup>*\<^sup>* (?s\<lparr>sy_cancelled := True\<rparr>) s'" "daemon_exits s'" using shutdown_possible [OF run] by blast
  then show ?thesis using run by (intro exI [of _ ?s] exI [of _ s']) (simp add: child_running_def)
qed

definition example_flags :: Flags where
  "example_flags = \<lparr>fl_cliqueID = ''c'', fl_computeDomainUUID = ''u'', fl_podIP = ''10.0.0.1'', fl_maxNodesPerIMEXDomain = 2\<rparr>"

definition example_env :: main_env where
  "example_env = \<lparr>me_clients = None, me_patch = None, me_template = Ok [TmplText ''IMEX_CMD_BIND_INTERFACE_IP='', TmplField ''IMEXCmdBindInterfaceIP''],
     me_mkdir = None, me_write = None, me_nodes = None\<rparr>"

definition example_world :: main_world where
  "example_world = \<lparr>mw_podLabels = [], mw_imexConfig = None, mw_dns = dns_start\<rparr>"

lemma example_setup:
  "\<exists>mw'. run_setup default_gates example_env example_flags example_world = (Ok True, mw') \<and> dm_ipToDNSName (dw_manager (mw_dns mw')) = []"
  by (simp add: run_setup_def example_env_def example_flags_def example_world_def writeIMEXConfig_def addComputeDomainCliqueLabel_def
      write_static_nodes_def WriteNodesConfig_def NewDNSNameManager_def io_st_def IMEXConfigTemplateData_def ValidateFeatureGates_def
      default_gates_def defaultFeatureGates_def bind_st_def wrap_st_def ret_st_def lift_st_def)


end
