(* ===== verification/Mig.thy ===== *)
theory Mig
  imports Prelude
begin

text \<open>
  Canonical names of MIG devices (\<open>cmd/gpu-kubelet-plugin/mig.go\<close>, \<open>deviceinfo.go\<close>). A MIG
  device is identified by its parent GPU, its profile ID and its placement; the name announced to
  Kubernetes encodes the three, and clean-up of partially prepared claims parses it back.

  The regular expression \<open>^gpu-(\d+)-mig-(.+)-(\d+)-(\d+)$\<close> matches in at most one way, because the last two
  groups hold no hyphen; \<open>match_mig_name\<close> is that match.
\<close>

section \<open>Data and operations\<close>

record MigSpecTuple =
  ms_ParentMinor :: int
  ms_ParentPCIBusID :: string
  ms_ProfileID :: int
  ms_PlacementStart :: int

record MigLiveTuple =
  ml_ParentMinor :: int
  ml_GIID :: int
  ml_CIID :: int
  ml_MigUUID :: string
  ml_ParentUUID :: string
  ml_ParentPCIBusID :: string

text \<open>\<open>[^a-z0-9-.]\<close> is replaced by a hyphen.\<close>

definition rfc1123_char :: "char \<Rightarrow> bool" where
  "rfc1123_char c \<longleftrightarrow> (97 \<le> (of_char c :: nat) \<and> (of_char c :: nat) \<le> 122) \<or> is_digit c \<or> c = CHR ''-'' \<or> c = CHR ''.''"

definition toRFC1123Compliant :: "string \<Rightarrow> string" where
  "toRFC1123Compliant name =
     (let lower = map char_ToLower name;
          repl = map (\<lambda>c. if rfc1123_char c then c else CHR ''-'') lower;
          trimmed = strings_Trim (\<lambda>c. c = CHR ''-'') repl;
          cut = (if trimmed \<noteq> [] \<and> last trimmed = CHR ''.'' then butlast trimmed else trimmed)
      in take 253 cut)"

definition ToCanonicalName :: "MigSpecTuple \<Rightarrow> string \<Rightarrow> string" where
  "ToCanonicalName m profileName =
     (let pname = toRFC1123Compliant (filter (\<lambda>c. c \<noteq> CHR ''.'') profileName)
      in ''gpu-'' @ show_int (ms_ParentMinor m) @ ''-mig-'' @ pname @ ''-'' @ show_int (ms_ProfileID m) @ ''-'' @
         show_int (ms_PlacementStart m))"

definition strip_prefix :: "string \<Rightarrow> string \<Rightarrow> string option" where
  "strip_prefix p s = (if take (length p) s = p then Some (drop (length p) s) else None)"

text \<open>A trailing group of digits after a hyphen, and what is before the hyphen.\<close>

definition last_number :: "string \<Rightarrow> (string \<times> string) option" where
  "last_number s =
     (let ds = rev (takeWhile is_digit (rev s)); before = rev (dropWhile is_digit (rev s))
      in if ds \<noteq> [] \<and> before \<noteq> [] \<and> last before = CHR ''-'' then Some (butlast before, ds) else None)"

definition match_mig_name :: "string \<Rightarrow> (string \<times> string \<times> string \<times> string) option" where
  "match_mig_name n =
     (case strip_prefix ''gpu-'' n of
        None \<Rightarrow> None
      | Some s1 \<Rightarrow>
          let minor = takeWhile is_digit s1
          in if minor = [] then None
             else case strip_prefix ''-mig-'' (dropWhile is_digit s1) of
               None \<Rightarrow> None
             | Some s2 \<Rightarrow>
                 (case last_number s2 of
                    None \<Rightarrow> None
                  | Some (s3, placement) \<Rightarrow>
                      (case last_number s3 of
                         None \<Rightarrow> None
                       | Some (profile, pid) \<Rightarrow>
                           if profile = [] \<or> CHR 0x0A \<in> set profile then None
                           else Some (minor, profile, pid, placement))))"

definition NewMigSpecTupleFromCanonicalName :: "string \<Rightarrow> MigSpecTuple go" where
  "NewMigSpecTupleFromCanonicalName n =
     (case match_mig_name n of
        None \<Rightarrow> Err (Errorf ''failed to match MIG device name regex'')
      | Some (m, _, p, s) \<Rightarrow>
          (case (Atoi m, Atoi p, Atoi s) of
             (Some parentMinor, Some profileID, Some placementStart) \<Rightarrow>
               Ok \<lparr>ms_ParentMinor = parentMinor, ms_ParentPCIBusID = '''', ms_ProfileID = profileID,
                   ms_PlacementStart = placementStart\<rparr>
           | _ \<Rightarrow> Err (Errorf ''integer parsing failed'')))"

definition Gpu_CanonicalName :: "int \<Rightarrow> string" where
  "Gpu_CanonicalName minor = ''gpu-'' @ show_int minor"

definition Vfio_CanonicalName :: "int \<Rightarrow> string" where
  "Vfio_CanonicalName index = ''gpu-vfio-'' @ show_int index"

section \<open>Lemmas\<close>

lemma show_int_nonneg: "0 \<le> i \<Longrightarrow> show_int i = show_nat (nat i)"
  by (simp add: show_int_def)

lemma show_nat_all_digits: "\<forall>c \<in> set (show_nat n). is_digit c"
  using show_nat_digits [of n] by (simp add: list_all_iff)

lemma takeWhile_digits:
  "\<forall>c \<in> set ds. is_digit c \<Longrightarrow> \<not> is_digit c \<Longrightarrow>
     takeWhile is_digit (ds @ c # rest) = ds \<and> dropWhile is_digit (ds @ c # rest) = c # rest"
  by (induction ds) auto

lemma last_number_snoc:
  assumes "\<forall>c \<in> set ds. is_digit c" and "ds \<noteq> []"
  shows "last_number (s @ CHR ''-'' # ds) = Some (s, ds)"
proof -
  have "rev (s @ CHR ''-'' # ds) = rev ds @ CHR ''-'' # rev s" by simp
  moreover have "takeWhile is_digit (rev ds @ CHR ''-'' # rev s) = rev ds"
    "dropWhile is_digit (rev ds @ CHR ''-'' # rev s) = CHR ''-'' # rev s"
    using takeWhile_digits [of "rev ds" "CHR ''-''" "rev s"] assms(1) by simp_all
  ultimately show ?thesis using assms(2) by (simp add: last_number_def Let_def)
qed

lemma rfc1123_no_newline: "CHR 0x0A \<notin> set (toRFC1123Compliant name)"
proof -
  let ?repl = "map (\<lambda>c. if rfc1123_char c then c else CHR ''-'') (map char_ToLower name)"
  let ?trim = "strings_Trim (\<lambda>c. c = CHR ''-'') ?repl"
  have "c \<in> set (toRFC1123Compliant name) \<Longrightarrow> c \<in> set ?trim" for c
    by (auto simp: toRFC1123Compliant_def Let_def dest!: in_set_takeD dest: in_set_butlastD split: if_splits)
  moreover have "c \<in> set ?trim \<Longrightarrow> c \<in> set ?repl" for c
    by (auto simp: strings_Trim_def dest!: set_dropWhileD)
  moreover have "\<not> rfc1123_char (CHR 0x0A)" by (simp add: rfc1123_char_def is_digit_def)
  then have "CHR 0x0A \<notin> set ?repl" by (auto split: if_splits)
  ultimately show ?thesis by blast
qed

section \<open>Properties\<close>



end
