(* ===== verification/Gpu_Devices.thy ===== *)
theory Gpu_Devices
  imports Mig Claims "HOL-Library.List_Lexorder"
begin

text \<open>
  The devices of the GPU kubelet plugin (\<open>cmd/gpu-kubelet-plugin\<close>): what can be allocated
  (\<open>allocatable.go\<close>, \<open>deviceinfo.go\<close>) and what has been prepared for a claim (\<open>prepared.go\<close>).

  Pointers to a device's description are options. Of a prepared device's \<open>Info\<close> the model keeps what
  is serialised into the checkpoint and read back: a GPU's UUID, a passthrough device's UUID and
  PCI address. A method that ends in \<open>panic\<close> for an unknown type has the outcome \<open>Panic\<close>.
\<close>

section \<open>Device descriptions (deviceinfo.go, mig.go)\<close>

definition GpuDeviceType :: string where "GpuDeviceType = ''gpu''"
definition MigStaticDeviceType :: string where "MigStaticDeviceType = ''mig''"
definition MigDynamicDeviceType :: string where "MigDynamicDeviceType = ''migdyn''"
definition VfioDeviceType :: string where "VfioDeviceType = ''vfio''"
definition UnknownDeviceType :: string where "UnknownDeviceType = ''unknown''"
definition PreparedMigDeviceType :: string where "PreparedMigDeviceType = ''mig''"

lemmas device_type_defs = GpuDeviceType_def MigStaticDeviceType_def MigDynamicDeviceType_def VfioDeviceType_def
  UnknownDeviceType_def PreparedMigDeviceType_def

text \<open>What NVML says of a GPU instance profile and of a placement, and what go-nvlib says of a MIG profile
  (\<open>MigProfile.GetInfo\<close> and \<open>String\<close>).\<close>

record GpuInstanceProfileInfo =
  ip_Id :: int
  ip_MultiprocessorCount :: int
  ip_CopyEngineCount :: int
  ip_DecoderCount :: int
  ip_EncoderCount :: int
  ip_JpegCount :: int
  ip_OfaCount :: int
  ip_MemorySizeMB :: int

record MigProfile =
  pr_String :: string
  pr_G :: int
  pr_C :: int
  pr_GIProfileID :: int
  pr_CIProfileID :: int
  pr_CIEngProfileID :: int

record GpuInfo =
  gi_UUID :: string
  gi_minor :: int
  gi_migEnabled :: bool
  gi_vfioEnabled :: bool
  gi_memoryBytes :: int
  gi_productName :: string
  gi_brand :: string
  gi_architecture :: string
  gi_cudaComputeCapability :: string
  gi_driverVersion :: string
  gi_cudaDriverVersion :: string
  gi_pciBusID :: string
  gi_pciBusIDAttr :: "(string \<times> DeviceAttribute) option"
  gi_pcieRootAttr :: "(string \<times> DeviceAttribute) option"
  gi_migProfiles :: "MigProfile list"
  gi_addressingMode :: "string option"
  gi_maxCapacities :: "(string, int) gomap"
  gi_memSliceCount :: int

record MigSpec =
  mp_Parent :: GpuInfo
  mp_Profile :: MigProfile
  mp_GIProfileInfo :: GpuInstanceProfileInfo
  mp_PlacementStart :: int
  mp_PlacementSize :: int

text \<open>Of \<open>gIInfo\<close> and \<open>cIInfo\<close> only the identifiers are read.\<close>

record MigDeviceInfo =
  mi_UUID :: string
  mi_Profile :: string
  mi_ParentUUID :: string
  mi_GiProfileID :: int
  mi_ParentMinor :: int
  mi_CIID :: int
  mi_GIID :: int
  mi_PlacementStart :: int
  mi_PlacementSize :: int
  mi_gIInfo :: "int option"
  mi_cIInfo :: "int option"
  mi_parent :: GpuInfo
  mi_giProfileInfo :: "GpuInstanceProfileInfo option"

record VfioDeviceInfo =
  vi_UUID :: string
  vi_deviceID :: string
  vi_vendorID :: string
  vi_index :: int
  vi_parent :: "GpuInfo option"
  vi_productName :: string
  vi_PciBusID :: string
  vi_pciBusIDAttr :: "(string \<times> DeviceAttribute) option"
  vi_pcieRootAttr :: "(string \<times> DeviceAttribute) option"
  vi_numaNode :: int
  vi_iommuFDEnabled :: bool
  vi_addressableMemoryBytes :: int

definition GpuInfo_CanonicalName :: "GpuInfo \<Rightarrow> string" where
  "GpuInfo_CanonicalName d = Gpu_CanonicalName (gi_minor d)"

definition MigSpec_Tuple :: "MigSpec \<Rightarrow> MigSpecTuple" where
  "MigSpec_Tuple m = \<lparr>ms_ParentMinor = gi_minor (mp_Parent m), ms_ParentPCIBusID = gi_pciBusID (mp_Parent m),
     ms_ProfileID = ip_Id (mp_GIProfileInfo m), ms_PlacementStart = mp_PlacementStart m\<rparr>"

definition MigSpec_CanonicalName :: "MigSpec \<Rightarrow> string" where
  "MigSpec_CanonicalName m = ToCanonicalName (MigSpec_Tuple m) (pr_String (mp_Profile m))"

definition MigDeviceInfo_SpecTuple :: "MigDeviceInfo \<Rightarrow> MigSpecTuple" where
  "MigDeviceInfo_SpecTuple m = \<lparr>ms_ParentMinor = mi_ParentMinor m, ms_ParentPCIBusID = '''',
     ms_ProfileID = mi_GiProfileID m, ms_PlacementStart = mi_PlacementStart m\<rparr>"

definition LiveTuple :: "MigDeviceInfo \<Rightarrow> MigLiveTuple" where
  "LiveTuple m = \<lparr>ml_ParentMinor = mi_ParentMinor m, ml_GIID = mi_GIID m, ml_CIID = mi_CIID m,
     ml_MigUUID = mi_UUID m, ml_ParentUUID = mi_ParentUUID m, ml_ParentPCIBusID = ''''\<rparr>"

definition MigDeviceInfo_CanonicalName :: "MigDeviceInfo \<Rightarrow> string" where
  "MigDeviceInfo_CanonicalName d = ToCanonicalName (MigDeviceInfo_SpecTuple d) (mi_Profile d)"

text \<open>The attributes of \<open>VfioDeviceInfo.GetDevice\<close>.\<close>

definition Vfio_Attributes :: "VfioDeviceInfo \<Rightarrow> (string, DeviceAttribute) gomap" where
  "Vfio_Attributes d =
     (let base = [(''type'', StringValue VfioDeviceType), (''uuid'', StringValue (vi_UUID d)),
            (''deviceID'', StringValue (vi_deviceID d)), (''vendorID'', StringValue (vi_vendorID d)),
            (''numa'', IntValue (vi_numaNode d)), (''productName'', StringValue (vi_productName d)),
            (''iommuFDEnabled'', BoolValue (vi_iommuFDEnabled d))];
          add = (\<lambda>a m. case a of None \<Rightarrow> m | Some (k, v) \<Rightarrow> AList.update k v m)
      in add (vi_pcieRootAttr d) (add (vi_pciBusIDAttr d) base))"

section \<open>Allocatable devices (allocatable.go)\<close>

record DeviceTaint =
  tn_Key :: string
  tn_Value :: string
  tn_Effect :: string
  tn_TimeAdded :: "string option"

record AllocatableDevice =
  ad_Gpu :: "GpuInfo option"
  ad_MigDynamic :: "MigSpec option"
  ad_MigStatic :: "MigDeviceInfo option"
  ad_Vfio :: "VfioDeviceInfo option"
  ad_taints :: "DeviceTaint list"

type_synonym AllocatableDevices = "(string, AllocatableDevice) gomap"
type_synonym PerGPUAllocatableDevices = "(string, AllocatableDevices) gomap"

definition ad_Type :: "AllocatableDevice \<Rightarrow> string" where
  "ad_Type d =
     (if ad_Gpu d \<noteq> None then GpuDeviceType
      else if ad_MigDynamic d \<noteq> None then MigDynamicDeviceType
      else if ad_MigStatic d \<noteq> None then MigStaticDeviceType
      else if ad_Vfio d \<noteq> None then VfioDeviceType
      else UnknownDeviceType)"

definition IsStaticOrDynMigDevice :: "AllocatableDevice \<Rightarrow> bool" where
  "IsStaticOrDynMigDevice d \<longleftrightarrow> ad_Type d \<in> {MigStaticDeviceType, MigDynamicDeviceType}"

text \<open>A switch on \<open>Type()\<close> whose branches read the field that is set.\<close>

definition by_type ::
  "(GpuInfo \<Rightarrow> 'a) \<Rightarrow> (MigSpec \<Rightarrow> 'a) \<Rightarrow> (MigDeviceInfo \<Rightarrow> 'a) \<Rightarrow> (VfioDeviceInfo \<Rightarrow> 'a) \<Rightarrow> AllocatableDevice \<Rightarrow> 'a go" where
  "by_type fg fd fs fv d =
     (case ad_Gpu d of Some g \<Rightarrow> Ok (fg g)
      | None \<Rightarrow> (case ad_MigDynamic d of Some m \<Rightarrow> Ok (fd m)
      | None \<Rightarrow> (case ad_MigStatic d of Some m \<Rightarrow> Ok (fs m)
      | None \<Rightarrow> (case ad_Vfio d of Some v \<Rightarrow> Ok (fv v)
      | None \<Rightarrow> Panic ''unexpected type for AllocatableDevice''))))"

definition ad_CanonicalName :: "AllocatableDevice \<Rightarrow> string go" where
  "ad_CanonicalName = by_type GpuInfo_CanonicalName MigSpec_CanonicalName MigDeviceInfo_CanonicalName
     (\<lambda>v. Vfio_CanonicalName (vi_index v))"

definition GetGPUPCIBusID :: "AllocatableDevice \<Rightarrow> string go" where
  "GetGPUPCIBusID = by_type gi_pciBusID (\<lambda>m. gi_pciBusID (mp_Parent m)) (\<lambda>m. gi_pciBusID (mi_parent m)) vi_PciBusID"

text \<open>\<open>UUID\<close> tests the static MIG device before the dynamic one, which has none.\<close>

definition ad_UUID :: "AllocatableDevice \<Rightarrow> string go" where
  "ad_UUID d =
     (case ad_Gpu d of Some g \<Rightarrow> Ok (gi_UUID g)
      | None \<Rightarrow> (case ad_MigStatic d of Some m \<Rightarrow> Ok (mi_UUID m)
      | None \<Rightarrow> (if ad_MigDynamic d \<noteq> None then Panic ''unexpected UUID() call for AllocatableDevice of type MigDynamic''
                else case ad_Vfio d of Some v \<Rightarrow> Ok (vi_UUID v)
                  | None \<Rightarrow> Panic ''unexpected type for AllocatableDevice'')))"

definition ads_GpuUUIDs :: "AllocatableDevices \<Rightarrow> string list" where
  "ads_GpuUUIDs ds = sort (List.map_filter (\<lambda>(k, d). map_option gi_UUID (ad_Gpu d)) ds)"

fun ads_uuids :: "AllocatableDevices \<Rightarrow> string list go" where
  "ads_uuids [] = Ok []"
| "ads_uuids ((k, d) # ds) = bind_go (ad_UUID d) (\<lambda>u. bind_go (ads_uuids ds) (\<lambda>us. Ok (u # us)))"

definition ads_UUIDs :: "AllocatableDevices \<Rightarrow> string list go" where
  "ads_UUIDs ds = bind_go (ads_uuids ds) (\<lambda>us. Ok (sort us))"

definition gpu_devices :: "PerGPUAllocatableDevices \<Rightarrow> string \<Rightarrow> AllocatableDevices" where
  "gpu_devices m pci = (case map_of m pci of None \<Rightarrow> [] | Some ds \<Rightarrow> ds)"

definition GetGPUDeviceByPCIBusID :: "PerGPUAllocatableDevices \<Rightarrow> string \<Rightarrow> AllocatableDevice option" where
  "GetGPUDeviceByPCIBusID m pci =
     find (\<lambda>d. ad_Type d = GpuDeviceType) (map snd (gpu_devices m pci))"

text \<open>The key is the PCI address, then the canonical name.\<close>

definition AddAllocatableDevice :: "AllocatableDevice option \<Rightarrow> PerGPUAllocatableDevices \<Rightarrow> PerGPUAllocatableDevices go" where
  "AddAllocatableDevice allocatable m = (case allocatable of
     None \<Rightarrow> Err (Errorf ''allocatable is nil'')
   | Some d \<Rightarrow>
       bind_go (GetGPUPCIBusID d) (\<lambda>pci. bind_go (ad_CanonicalName d) (\<lambda>name.
         Ok (AList.update pci (AList.update name d (gpu_devices m pci)) m))))"

definition AddGPUAllocatables ::
  "string \<Rightarrow> AllocatableDevices option \<Rightarrow> PerGPUAllocatableDevices \<Rightarrow> PerGPUAllocatableDevices go" where
  "AddGPUAllocatables pci allocatables m = (case allocatables of
     None \<Rightarrow> Err (Errorf ''allocatables is nil'')
   | Some ds \<Rightarrow> Ok (AList.update pci ds m))"

fun GetAllocatableDevice :: "PerGPUAllocatableDevices \<Rightarrow> string \<Rightarrow> AllocatableDevice option" where
  "GetAllocatableDevice [] name = None"
| "GetAllocatableDevice ((pci, ds) # m) name =
     (case map_of ds name of Some d \<Rightarrow> Some d | None \<Rightarrow> GetAllocatableDevice m name)"

text \<open>The loop of \<open>RemoveSiblingDevices\<close>: an entry deleted before it is reached is not visited.\<close>

fun remove_siblings :: "string \<Rightarrow> AllocatableDevices \<Rightarrow> AllocatableDevices \<Rightarrow> AllocatableDevices" where
  "remove_siblings ty [] ds = ds"
| "remove_siblings ty ((k, sibling) # es) ds =
     (if map_of ds k = None \<or> ad_Type sibling = ty then remove_siblings ty es ds
      else case (ad_Gpu sibling, ad_Vfio sibling) of
        (Some g, _) \<Rightarrow> remove_siblings ty es (AList.delete (GpuInfo_CanonicalName g) ds)
      | (None, Some v) \<Rightarrow>
          if ad_Type sibling = VfioDeviceType then remove_siblings ty es (AList.delete (Vfio_CanonicalName (vi_index v)) ds)
          else remove_siblings ty es ds
      | (None, None) \<Rightarrow> remove_siblings ty es ds)"

definition RemoveSiblingDevices :: "AllocatableDevice \<Rightarrow> PerGPUAllocatableDevices \<Rightarrow> PerGPUAllocatableDevices" where
  "RemoveSiblingDevices device m =
     (if IsStaticOrDynMigDevice device then m
      else
        let pci = (case ad_Gpu device of Some g \<Rightarrow> gi_pciBusID g
                   | None \<Rightarrow> (case ad_Vfio device of Some v \<Rightarrow> vi_PciBusID v | None \<Rightarrow> ''''))
        in case map_of m pci of
             None \<Rightarrow> m
           | Some ds \<Rightarrow> AList.update pci (remove_siblings (ad_Type device) ds ds) m)"

text \<open>A taint with the key of an existing one replaces its value and effect.\<close>

fun add_taint :: "DeviceTaint \<Rightarrow> DeviceTaint list \<Rightarrow> DeviceTaint list \<times> bool" where
  "add_taint taint [] = ([taint], True)"
| "add_taint taint (existing # rest) =
     (if tn_Key existing = tn_Key taint then
        (if tn_Value existing = tn_Value taint \<and> tn_Effect existing = tn_Effect taint then (existing # rest, False)
         else (existing\<lparr>tn_Value := tn_Value taint, tn_Effect := tn_Effect taint, tn_TimeAdded := None\<rparr> # rest, True))
      else case add_taint taint rest of (rest', modified) \<Rightarrow> (existing # rest', modified))"

definition AddOrUpdateTaint :: "DeviceTaint \<Rightarrow> AllocatableDevice \<Rightarrow> AllocatableDevice \<times> bool" where
  "AddOrUpdateTaint taint d = (case add_taint taint (ad_taints d) of (ts, modified) \<Rightarrow> (d\<lparr>ad_taints := ts\<rparr>, modified))"

section \<open>Prepared devices (prepared.go)\<close>

record PreparedGpu =
  pg_UUID :: string
  pg_Device :: kubelet_Device

record PreparedMigDevice =
  pm_Concrete :: MigLiveTuple
  pm_Device :: kubelet_Device

record PreparedVfioDevice =
  pv_UUID :: string
  pv_PciBusID :: string
  pv_Device :: kubelet_Device

record PreparedDevice =
  pd_Gpu :: "PreparedGpu option"
  pd_Mig :: "PreparedMigDevice option"
  pd_Vfio :: "PreparedVfioDevice option"

definition pd_Type :: "PreparedDevice \<Rightarrow> string" where
  "pd_Type d =
     (if pd_Gpu d \<noteq> None then GpuDeviceType
      else if pd_Mig d \<noteq> None then PreparedMigDeviceType
      else if pd_Vfio d \<noteq> None then VfioDeviceType
      else UnknownDeviceType)"

text \<open>The \<open>Device\<close> of the field that is set.\<close>

definition pd_Device :: "PreparedDevice \<Rightarrow> kubelet_Device option" where
  "pd_Device d =
     (case pd_Gpu d of Some g \<Rightarrow> Some (pg_Device g)
      | None \<Rightarrow> (case pd_Mig d of Some m \<Rightarrow> Some (pm_Device m)
      | None \<Rightarrow> (case pd_Vfio d of Some v \<Rightarrow> Some (pv_Device v) | None \<Rightarrow> None)))"

definition pd_CanonicalName :: "PreparedDevice \<Rightarrow> string go" where
  "pd_CanonicalName d = (case pd_Device d of
     Some kd \<Rightarrow> Ok (kd_DeviceName kd) | None \<Rightarrow> Panic ''unexpected type for AllocatableDevice'')"

definition list_GetDevices :: "PreparedDevice list \<Rightarrow> kubelet_Device list" where
  "list_GetDevices ds = List.map_filter pd_Device ds"

definition list_GpuUUIDs :: "PreparedDevice list \<Rightarrow> string list" where
  "list_GpuUUIDs ds = sort (List.map_filter (\<lambda>d. map_option pg_UUID (pd_Gpu d)) ds)"

definition list_MigDeviceUUIDs :: "PreparedDevice list \<Rightarrow> string list" where
  "list_MigDeviceUUIDs ds =
     sort (map (\<lambda>m. ml_MigUUID (pm_Concrete m))
       (List.map_filter pd_Mig (filter (\<lambda>d. pd_Type d = PreparedMigDeviceType) ds)))"

definition VfioDevices :: "PreparedDevice list \<Rightarrow> PreparedDevice list" where
  "VfioDevices ds = filter (\<lambda>d. pd_Type d = VfioDeviceType) ds"

definition list_VfioDeviceUUIDs :: "PreparedDevice list \<Rightarrow> string list" where
  "list_VfioDeviceUUIDs ds = sort (map pv_UUID (List.map_filter pd_Vfio (VfioDevices ds)))"

definition list_UUIDs :: "PreparedDevice list \<Rightarrow> string list" where
  "list_UUIDs ds = sort (list_GpuUUIDs ds @ list_MigDeviceUUIDs ds @ list_VfioDeviceUUIDs ds)"

section \<open>Invariants and lemmas\<close>

lemma device_types_differ [simp]:
  "GpuDeviceType \<noteq> MigStaticDeviceType" "GpuDeviceType \<noteq> MigDynamicDeviceType" "GpuDeviceType \<noteq> VfioDeviceType"
  "MigStaticDeviceType \<noteq> GpuDeviceType" "MigDynamicDeviceType \<noteq> GpuDeviceType" "VfioDeviceType \<noteq> GpuDeviceType"
  "VfioDeviceType \<noteq> MigStaticDeviceType" "VfioDeviceType \<noteq> MigDynamicDeviceType"
  "MigStaticDeviceType \<noteq> VfioDeviceType" "MigDynamicDeviceType \<noteq> VfioDeviceType"
  "UnknownDeviceType \<noteq> VfioDeviceType" "UnknownDeviceType \<noteq> GpuDeviceType"
  "UnknownDeviceType \<noteq> MigStaticDeviceType" "UnknownDeviceType \<noteq> MigDynamicDeviceType"
  by (simp_all add: device_type_defs)

lemma ad_Type_Gpu [simp]: "ad_Type d = GpuDeviceType \<longleftrightarrow> ad_Gpu d \<noteq> None"
  by (simp add: ad_Type_def)

lemma ad_Type_Vfio:
  "ad_Type d = VfioDeviceType \<longleftrightarrow> ad_Gpu d = None \<and> ad_MigDynamic d = None \<and> ad_MigStatic d = None \<and> ad_Vfio d \<noteq> None"
  by (auto simp: ad_Type_def)

text \<open>Every device of a physical GPU is stored under its canonical name.\<close>

definition well_named_devices :: "AllocatableDevices \<Rightarrow> bool" where
  "well_named_devices ds \<longleftrightarrow> gomap ds \<and> (\<forall>(k, d) \<in> set ds. ad_CanonicalName d = Ok k)"

definition well_named :: "PerGPUAllocatableDevices \<Rightarrow> bool" where
  "well_named m \<longleftrightarrow> gomap m \<and> (\<forall>(pci, ds) \<in> set m. well_named_devices ds)"

lemma well_named_update:
  "well_named m \<Longrightarrow> well_named_devices ds \<Longrightarrow> well_named (AList.update pci ds m)"
  using set_update_subset [of pci ds m] by (auto simp: well_named_def)

lemma well_named_gpu_devices: "well_named m \<Longrightarrow> well_named_devices (gpu_devices m pci)"
  by (auto simp: well_named_def gpu_devices_def well_named_devices_def split: option.splits dest: map_of_SomeD)

lemma AddAllocatableDevice_well_named:
  assumes "AddAllocatableDevice d m = Ok m'" and "well_named m"
  shows "well_named m'"
proof -
  from assms(1) obtain a pci name where a: "ad_CanonicalName a = Ok name"
    and m': "m' = AList.update pci (AList.update name a (gpu_devices m pci)) m"
    by (auto simp: AddAllocatableDevice_def split: option.splits)
  have "well_named_devices (AList.update name a (gpu_devices m pci))"
    using well_named_gpu_devices [OF assms(2), of pci] a set_update_subset [of name a "gpu_devices m pci"]
    by (auto simp: well_named_devices_def)
  with assms(2) show ?thesis unfolding m' by (rule well_named_update)
qed

lemma GetAllocatableDevice_SomeD:
  "GetAllocatableDevice m name = Some d \<Longrightarrow> \<exists>pci ds. (pci, ds) \<in> set m \<and> map_of ds name = Some d"
  by (induction m name rule: GetAllocatableDevice.induct) (auto split: option.splits)

lemma GetAllocatableDevice_named:
  "well_named m \<Longrightarrow> GetAllocatableDevice m name = Some d \<Longrightarrow> ad_CanonicalName d = Ok name"
  by (fastforce simp: well_named_def well_named_devices_def dest: GetAllocatableDevice_SomeD map_of_SomeD)

lemma ad_CanonicalName_Ok_type: "ad_CanonicalName d = Ok n \<Longrightarrow> ad_Type d \<noteq> UnknownDeviceType"
  by (auto simp: ad_CanonicalName_def by_type_def ad_Type_def device_type_defs split: option.splits)

text \<open>What the loop deletes from a well-named list: exactly the GPU or passthrough devices of the
  other type.\<close>

definition sibling :: "string \<Rightarrow> AllocatableDevice \<Rightarrow> bool" where
  "sibling ty d \<longleftrightarrow> ad_Type d \<noteq> ty \<and> ad_Type d \<in> {GpuDeviceType, VfioDeviceType}"

lemma remove_siblings_step:
  assumes "ad_CanonicalName d = Ok k"
  shows "remove_siblings ty ((k, d) # es) ds =
    (if map_of ds k \<noteq> None \<and> sibling ty d then remove_siblings ty es (AList.delete k ds) else remove_siblings ty es ds)"
  using assms
  by (auto simp: ad_CanonicalName_def by_type_def sibling_def ad_Type_def device_type_defs split: option.splits)

lemma delete_filter: "AList.delete k ds = filter (\<lambda>(k', d). k' \<noteq> k) ds"
  by (auto simp: AList.delete_eq intro: filter_cong)

lemma delete_absent: "k \<notin> fst ` set ds \<Longrightarrow> AList.delete k ds = ds"
  by (rule AList.delete_id)

lemma delete_append: "AList.delete k (xs @ ys) = AList.delete k xs @ AList.delete k ys"
  by (simp add: delete_filter)

lemma remove_siblings_filter:
  assumes "gomap (es0 @ es)" and "\<forall>(k, d) \<in> set (es0 @ es). ad_CanonicalName d = Ok k"
  shows "remove_siblings ty es (filter (\<lambda>(k, d). \<not> sibling ty d) es0 @ es) =
    filter (\<lambda>(k, d). \<not> sibling ty d) (es0 @ es)"
  using assms
proof (induction es arbitrary: es0)
  case Nil
  then show ?case by simp
next
  case (Cons e es)
  obtain k d where e: "e = (k, d)" by (cases e)
  from Cons.prems e have k: "k \<notin> fst ` set es0" "k \<notin> fst ` set es" and n: "ad_CanonicalName d = Ok k" by auto
  let ?f = "filter (\<lambda>(k, d). \<not> sibling ty d)"
  have del: "AList.delete k (?f es0 @ (k, d) # es) = ?f es0 @ es"
    using k by (auto simp: delete_append intro!: delete_absent)
  have look: "map_of (?f es0 @ (k, d) # es) k = Some d"
  proof -
    have "map_of (?f es0) k = None" using k(1) by (force simp: map_of_eq_None_iff)
    then show ?thesis by (simp add: map_add_def)
  qed
  have ih: "remove_siblings ty es (?f (es0 @ [(k, d)]) @ es) = ?f ((es0 @ [(k, d)]) @ es)"
    using Cons.prems e by (intro Cons.IH) auto
  show ?case
    using ih del look unfolding e remove_siblings_step [OF n] by auto
qed

lemma remove_siblings_well_named:
  assumes "well_named_devices ds"
  shows "remove_siblings ty ds ds = filter (\<lambda>(k, d). \<not> sibling ty d) ds"
  using remove_siblings_filter [of "[]" ds ty] assms by (simp add: well_named_devices_def)

lemma well_named_devices_filter: "well_named_devices ds \<Longrightarrow> well_named_devices (filter P ds)"
  by (auto simp: well_named_devices_def distinct_map_filter)

lemma RemoveSiblingDevices_well_named: "well_named m \<Longrightarrow> well_named (RemoveSiblingDevices d m)"
proof -
  assume wn: "well_named m"
  have "well_named_devices ds" if "map_of m pci = Some ds" for pci ds
    using well_named_gpu_devices [OF wn, of pci] that by (simp add: gpu_devices_def)
  with wn show ?thesis
    by (auto simp: RemoveSiblingDevices_def Let_def remove_siblings_well_named
        split: option.splits intro!: well_named_update well_named_devices_filter)
qed

section \<open>Properties\<close>

text \<open>While a GPU or a passthrough device is prepared, its physical GPU is not offered in the other
  role: removing the siblings of a device leaves, on its physical GPU, exactly the devices that are
  neither a full GPU nor a passthrough device of the other kind, all under their own names, and
  leaves every other physical GPU alone.\<close>

theorem siblings_removed:
  assumes "well_named m" and "ad_Type d \<in> {GpuDeviceType, VfioDeviceType}" and "GetGPUPCIBusID d = Ok pci"
  shows "gpu_devices (RemoveSiblingDevices d m) pci = filter (\<lambda>(k, a). \<not> sibling (ad_Type d) a) (gpu_devices m pci) \<and>
    (\<forall>pci'. pci' \<noteq> pci \<longrightarrow> gpu_devices (RemoveSiblingDevices d m) pci' = gpu_devices m pci') \<and>
    well_named (RemoveSiblingDevices d m)"
proof -
  have pci: "pci = (case ad_Gpu d of Some g \<Rightarrow> gi_pciBusID g
      | None \<Rightarrow> (case ad_Vfio d of Some v \<Rightarrow> vi_PciBusID v | None \<Rightarrow> ''''))"
    using assms(2,3) by (auto simp: GetGPUPCIBusID_def by_type_def ad_Type_def device_type_defs split: option.splits if_splits)
  have nomig: "\<not> IsStaticOrDynMigDevice d" 
    using assms(2) unfolding IsStaticOrDynMigDevice_def by (metis device_types_differ emptyE insertE)
  have wn: "well_named_devices ds" if "map_of m pci = Some ds" for ds
    using well_named_gpu_devices [OF assms(1), of pci] that by (simp add: gpu_devices_def)
  show ?thesis
    using RemoveSiblingDevices_well_named [OF assms(1), of d] nomig wn
    by (auto simp: RemoveSiblingDevices_def Let_def gpu_devices_def remove_siblings_well_named update_conv' simp flip: pci
        split: option.splits)
qed

definition example_gpu :: GpuInfo where
  "example_gpu = \<lparr>gi_UUID = ''GPU-a'', gi_minor = 0, gi_migEnabled = False, gi_vfioEnabled = True, gi_memoryBytes = 85899345920,
     gi_productName = ''H100'', gi_brand = ''Nvidia'', gi_architecture = ''Hopper'', gi_cudaComputeCapability = ''9.0'',
     gi_driverVersion = ''580.65'', gi_cudaDriverVersion = ''13.0'', gi_pciBusID = ''0000:01:00.0'', gi_pciBusIDAttr = None,
     gi_pcieRootAttr = None, gi_migProfiles = [], gi_addressingMode = None, gi_maxCapacities = [], gi_memSliceCount = 0\<rparr>"

definition example_vfio :: VfioDeviceInfo where
  "example_vfio = \<lparr>vi_UUID = ''vfio-a'', vi_deviceID = ''0x2330'', vi_vendorID = ''0x10de'', vi_index = 0, vi_parent = Some example_gpu,
     vi_productName = ''H100'', vi_PciBusID = ''0000:01:00.0'', vi_pciBusIDAttr = None, vi_pcieRootAttr = None,
     vi_numaNode = 0, vi_iommuFDEnabled = False, vi_addressableMemoryBytes = 0\<rparr>"

definition gpu_allocatable :: "GpuInfo \<Rightarrow> AllocatableDevice" where
  "gpu_allocatable g = \<lparr>ad_Gpu = Some g, ad_MigDynamic = None, ad_MigStatic = None, ad_Vfio = None, ad_taints = []\<rparr>"

definition vfio_allocatable :: "VfioDeviceInfo \<Rightarrow> AllocatableDevice" where
  "vfio_allocatable v = \<lparr>ad_Gpu = None, ad_MigDynamic = None, ad_MigStatic = None, ad_Vfio = Some v, ad_taints = []\<rparr>"

definition example_allocatables :: PerGPUAllocatableDevices where
  "example_allocatables = [(''0000:01:00.0'',
     [(''gpu-0'', gpu_allocatable example_gpu), (''gpu-vfio-0'', vfio_allocatable example_vfio)])]"

theorem siblings_removed_witness:
  "gpu_devices (RemoveSiblingDevices (vfio_allocatable example_vfio) example_allocatables) ''0000:01:00.0'' =
     [(''gpu-vfio-0'', vfio_allocatable example_vfio)]"
proof -
  have "well_named example_allocatables" by code_simp
  moreover have "ad_Type (vfio_allocatable example_vfio) \<in> {GpuDeviceType, VfioDeviceType}" by code_simp
  moreover have "GetGPUPCIBusID (vfio_allocatable example_vfio) = Ok ''0000:01:00.0''" by code_simp
  ultimately have "gpu_devices (RemoveSiblingDevices (vfio_allocatable example_vfio) example_allocatables) ''0000:01:00.0'' =
      filter (\<lambda>(k, a). \<not> sibling (ad_Type (vfio_allocatable example_vfio)) a) (gpu_devices example_allocatables ''0000:01:00.0'')"
    using siblings_removed by blast
  also have "\<dots> = [(''gpu-vfio-0'', vfio_allocatable example_vfio)]" by code_simp
  finally show ?thesis .
qed

end
