(* ===== verification/Cdi_Spec.thy ===== *)
theory Cdi_Spec
  imports Claims
begin

text \<open>
  The parts of the Container Device Interface that the GPU and the compute-domain plugin use: container
  edits and the specification of a device.
\<close>

record DeviceNode =
  dn_Path :: string
  dn_Type :: string
  dn_FileMode :: "int option"
  dn_Major :: int
  dn_Minor :: int

record Mount =
  mt_ContainerPath :: string
  mt_HostPath :: string
  mt_Options :: "string list"

text \<open>\<open>ce_Other\<close> stands for the edits the plugin only passes on (hooks and the like).\<close>

record ContainerEdits =
  ce_Env :: "string list"
  ce_DeviceNodes :: "DeviceNode list"
  ce_Mounts :: "Mount list"
  ce_Other :: "string list"

record cdispec_Device =
  sp_Name :: string
  sp_Edits :: ContainerEdits

definition path_node :: "string \<Rightarrow> DeviceNode" where
  "path_node p = \<lparr>dn_Path = p, dn_Type = '''', dn_FileMode = None, dn_Major = 0, dn_Minor = 0\<rparr>"

definition no_edits :: ContainerEdits where
  "no_edits = \<lparr>ce_Env = [], ce_DeviceNodes = [], ce_Mounts = [], ce_Other = []\<rparr>"

text \<open>\<open>ContainerEdits.Append\<close> of the CDI library.\<close>

definition edits_Append :: "ContainerEdits \<Rightarrow> ContainerEdits \<Rightarrow> ContainerEdits" where
  "edits_Append a b = \<lparr>ce_Env = ce_Env a @ ce_Env b, ce_DeviceNodes = ce_DeviceNodes a @ ce_DeviceNodes b,
     ce_Mounts = ce_Mounts a @ ce_Mounts b, ce_Other = ce_Other a @ ce_Other b\<rparr>"

definition index0 :: "'a list \<Rightarrow> 'a go" where
  "index0 xs = (case xs of [] \<Rightarrow> Panic ''index out of range [0] with length 0'' | x # _ \<Rightarrow> Ok x)"

text \<open>\<open>GenerateTransientSpecName\<close> of the CDI library: the name of a spec file.\<close>

definition GenerateTransientSpecName :: "string \<Rightarrow> string \<Rightarrow> string \<Rightarrow> string" where
  "GenerateTransientSpecName vendor class tid =
     vendor @ ''-'' @ class @ ''_'' @ map (\<lambda>c. if c = CHR ''/'' then CHR ''_'' else c) tid"

text \<open>\<open>QualifiedName\<close> of the CDI parser.\<close>

definition QualifiedName :: "string \<Rightarrow> string \<Rightarrow> string \<Rightarrow> string" where
  "QualifiedName vendor class name = vendor @ ''/'' @ class @ ''='' @ name"

end
