(* ===== verification/Gpu_Cdi.thy ===== *)
theory Gpu_Cdi
  imports Gpu_Devices Cdi_Spec
begin

text \<open>
  CDI spec files of the GPU kubelet plugin (\<open>cdi.go\<close>, \<open>vfio-cdi.go\<close>). For each claim one
  transient spec file defines the devices to inject into its containers.

  The CDI libraries are parameters (record \<open>gpu_cdi_lib\<close>): what \<open>nvcdi\<close> returns for the common
  edits and for a GPU (possibly from the handler's cache), the PCI information of a passthrough
  device, the device nodes of a MIG device, the rewriting of host paths before a file is
  saved, and whether building, saving or removing a spec is refused. Appending to a slice makes a copy here; the
  handler's shallow copies of cached specs are discussed in the header of the development.
\<close>

section \<open>Data\<close>

record gpu_cdi_spec =
  gsp_Vendor :: string
  gsp_Class :: string
  gsp_Devices :: "cdispec_Device list"
  gsp_Edits :: ContainerEdits

record NvidiaPCIDevice =
  np_IommuFD :: string
  np_IommuGroup :: int

record gpu_cdi_lib =
  gl_GetCommonEdits :: "ContainerEdits go"
  gl_GetDeviceSpecsByUUID :: "string \<Rightarrow> cdispec_Device list go"
  gl_GetGPUByPciBusID :: "string \<Rightarrow> NvidiaPCIDevice go"
  gl_GetDevNodesForMigDevice :: "MigLiveTuple \<Rightarrow> DeviceNode list go"
  gl_newSpecRefused :: "cdispec_Device list \<Rightarrow> ContainerEdits \<Rightarrow> goerr option"
  gl_transformEdits :: "ContainerEdits \<Rightarrow> ContainerEdits"
  gl_saveRefused :: "string \<Rightarrow> gpu_cdi_spec \<Rightarrow> goerr option"
  gl_removeRefused :: "string \<Rightarrow> goerr option"
  gl_iommuFDEnabled :: bool

text \<open>The configuration of a group of devices; only \<open>MpsControlDaemonID\<close> is serialised.\<close>

record DeviceConfigState =
  dcs_MpsControlDaemonID :: string
  dcs_Config :: "RuntimeObject option"
  dcs_containerEdits :: "ContainerEdits option"

record PreparedDeviceGroup =
  gr_Devices :: "PreparedDevice list"
  gr_ConfigState :: DeviceConfigState

type_synonym gpu_PreparedDevices = "PreparedDeviceGroup list"

type_synonym gpu_cdi_files = "(string, gpu_cdi_spec) gomap"

definition gpu_GetDevices :: "gpu_PreparedDevices \<Rightarrow> kubelet_Device list" where
  "gpu_GetDevices d = concat (map (\<lambda>g. list_GetDevices (gr_Devices g)) d)"

definition gpu_cdiVendor :: string where "gpu_cdiVendor = ''k8s.'' @ gpu_DriverName"
definition gpu_cdiClaimClass :: string where "gpu_cdiClaimClass = ''claim''"

section \<open>Passthrough devices (vfio-cdi.go)\<close>

definition vfio_GetCommonEdits :: "gpu_cdi_lib \<Rightarrow> bool \<Rightarrow> bool \<Rightarrow> ContainerEdits" where
  "vfio_GetCommonEdits l enableAPIDevice preferIommuFD =
     (let edits = no_edits\<lparr>ce_Env := [''NVIDIA_VISIBLE_DEVICES=void'']\<rparr>
      in if \<not> enableAPIDevice then edits
         else if preferIommuFD \<and> gl_iommuFDEnabled l then edits\<lparr>ce_DeviceNodes := [path_node ''/dev/iommu'']\<rparr>
         else edits\<lparr>ce_DeviceNodes := [path_node ''/dev/vfio/vfio'']\<rparr>)"

definition GetDeviceSpecsByPCIBusID :: "gpu_cdi_lib \<Rightarrow> string \<Rightarrow> bool \<Rightarrow> cdispec_Device list go" where
  "GetDeviceSpecsByPCIBusID l pci preferIommuFD =
     bind_go (wrap_go (Wrapf ''error getting PCI device info for GPU'') (gl_GetGPUByPciBusID l pci)) (\<lambda>info.
       if preferIommuFD \<and> gl_iommuFDEnabled l then
         (if \<not> prefix ''vfio'' (np_IommuFD info) then Err (Errorf ''missing iommufd cdev for GPU'')
          else Ok [\<lparr>sp_Name = '''', sp_Edits = no_edits\<lparr>ce_DeviceNodes := [path_node (''/dev/vfio/devices/'' @ np_IommuFD info)]\<rparr>\<rparr>])
       else Ok [\<lparr>sp_Name = '''', sp_Edits = no_edits\<lparr>ce_DeviceNodes := [path_node (''/dev/vfio/'' @ show_int (np_IommuGroup info))]\<rparr>\<rparr>])"

section \<open>Spec files (cdi.go)\<close>

text \<open>The spec of a device before its name and the group's edits are set.\<close>

definition base_spec :: "gpu_cdi_lib \<Rightarrow> DeviceConfigState \<Rightarrow> PreparedDevice \<Rightarrow> cdispec_Device go" where
  "base_spec l cs dev =
     (case pd_Gpu dev of
        Some g \<Rightarrow> bind_go (wrap_go (Wrapf ''unable to get device spec'') (gl_GetDeviceSpecsByUUID l (pg_UUID g))) index0
      | None \<Rightarrow> (case pd_Mig dev of
          Some m \<Rightarrow>
            bind_go (wrap_go (Wrapf ''unable to get device spec'') (gl_GetDeviceSpecsByUUID l (ml_ParentUUID (pm_Concrete m)))) (\<lambda>ds.
            bind_go (index0 ds) (\<lambda>dspec.
            bind_go (wrap_go (Wrapf ''failed to construct MIG device DeviceNode edits'') (gl_GetDevNodesForMigDevice l (pm_Concrete m))) (\<lambda>nodes.
              Ok (dspec\<lparr>sp_Edits := (sp_Edits dspec)\<lparr>ce_DeviceNodes := ce_DeviceNodes (sp_Edits dspec) @ nodes\<rparr>\<rparr>))))
        | None \<Rightarrow> (case pd_Vfio dev of
            Some v \<Rightarrow> (case dcs_Config cs of
                Some (VfioDeviceConfigObj c) \<Rightarrow>
                  (case vc_Iommu c of
                     None \<Rightarrow> Panic ''nil Iommu''
                   | Some i \<Rightarrow> bind_go (wrap_go (Wrapf ''failed to get CDI container edits for vfio device'')
                       (GetDeviceSpecsByPCIBusID l (pv_PciBusID v) (ShouldPreferIommuFD i))) index0)
              | _ \<Rightarrow> Err (Errorf ''received invalid config type for the vfio device''))
          | None \<Rightarrow> Ok \<lparr>sp_Name = '''', sp_Edits = no_edits\<rparr>)))"

definition is_vfio_config :: "RuntimeObject option \<Rightarrow> bool" where
  "is_vfio_config c = (case c of Some (VfioDeviceConfigObj _) \<Rightarrow> True | _ \<Rightarrow> False)"

text \<open>One step of the inner loop: the spec of a device, and the common edits, which those of a
  passthrough group replace.\<close>

definition device_spec ::
  "gpu_cdi_lib \<Rightarrow> string \<Rightarrow> DeviceConfigState \<Rightarrow> PreparedDevice \<Rightarrow> ContainerEdits \<Rightarrow> (cdispec_Device \<times> ContainerEdits) go" where
  "device_spec l claimUID cs dev common =
     bind_go (pd_CanonicalName dev) (\<lambda>name.
     bind_go (base_spec l cs dev) (\<lambda>dspec.
       let dspec = dspec\<lparr>sp_Name := claimUID @ ''-'' @ name\<rparr>
       in case dcs_containerEdits cs of
            None \<Rightarrow> Ok (dspec, common)
          | Some e \<Rightarrow>
              if is_vfio_config (dcs_Config cs) then Ok (dspec, e)
              else Ok (dspec\<lparr>sp_Edits := edits_Append (sp_Edits dspec) e\<rparr>, common)))"

fun group_specs ::
  "gpu_cdi_lib \<Rightarrow> string \<Rightarrow> (DeviceConfigState \<times> PreparedDevice) list \<Rightarrow> ContainerEdits \<Rightarrow> (cdispec_Device list \<times> ContainerEdits) go" where
  "group_specs l claimUID [] common = Ok ([], common)"
| "group_specs l claimUID ((cs, dev) # ds) common =
     bind_go (device_spec l claimUID cs dev common) (\<lambda>(s, common').
     bind_go (group_specs l claimUID ds common') (\<lambda>(ss, common'').
       Ok (s # ss, common'')))"

definition devices_of_groups :: "gpu_PreparedDevices \<Rightarrow> (DeviceConfigState \<times> PreparedDevice) list" where
  "devices_of_groups gs = concat (map (\<lambda>g. map (Pair (gr_ConfigState g)) (gr_Devices g)) gs)"

definition gpu_spec_name :: "string \<Rightarrow> string" where
  "gpu_spec_name claimUID =
     gpu_cdiVendor @ ''-'' @ gpu_cdiClaimClass @ ''_'' @ map (\<lambda>c. if c = CHR ''/'' then CHR ''_'' else c) claimUID"

definition gpu_writeSpec :: "gpu_cdi_lib \<Rightarrow> gpu_cdi_spec \<Rightarrow> string \<Rightarrow> (gpu_cdi_files, unit) gost" where
  "gpu_writeSpec l spec name files =
     (let spec' = spec\<lparr>gsp_Devices := map (\<lambda>d. d\<lparr>sp_Edits := gl_transformEdits l (sp_Edits d)\<rparr>) (gsp_Devices spec),
            gsp_Edits := gl_transformEdits l (gsp_Edits spec)\<rparr>
      in case gl_saveRefused l name spec' of
           Some e \<Rightarrow> (Err e, files)
         | None \<Rightarrow> (Ok (), AList.update name spec' files))"

definition gpu_CreateClaimSpecFile ::
  "gpu_cdi_lib \<Rightarrow> string \<Rightarrow> gpu_PreparedDevices \<Rightarrow> (gpu_cdi_files, unit) gost" where
  "gpu_CreateClaimSpecFile l claimUID preparedDevices =
     bind_st (lift_st (wrap_go (Wrapf ''failed to get common CDI spec edits'') (gl_GetCommonEdits l))) (\<lambda>common.
     bind_st (lift_st (group_specs l claimUID (devices_of_groups preparedDevices) common)) (\<lambda>(specs, common).
       case gl_newSpecRefused l specs common of
         Some e \<Rightarrow> err_st (Wrapf ''failed to create CDI spec'' e)
       | None \<Rightarrow> gpu_writeSpec l
           \<lparr>gsp_Vendor = gpu_cdiVendor, gsp_Class = gpu_cdiClaimClass, gsp_Devices = specs, gsp_Edits = common\<rparr>
           (gpu_spec_name claimUID)))"

definition gpu_DeleteClaimSpecFile :: "gpu_cdi_lib \<Rightarrow> string \<Rightarrow> (gpu_cdi_files, unit) gost" where
  "gpu_DeleteClaimSpecFile l claimUID files =
     (case gl_removeRefused l (gpu_spec_name claimUID) of
        Some e \<Rightarrow> (Err e, files)
      | None \<Rightarrow> (Ok (), AList.delete (gpu_spec_name claimUID) files))"

definition gpu_GetClaimDeviceName :: "string \<Rightarrow> AllocatableDevice \<Rightarrow> string go" where
  "gpu_GetClaimDeviceName claimUID device =
     bind_go (ad_CanonicalName device) (\<lambda>name.
       Ok (gpu_cdiVendor @ ''/'' @ gpu_cdiClaimClass @ ''='' @ claimUID @ ''-'' @ name))"

section \<open>Lemmas\<close>

text \<open>The devices a written spec file defines are those of the prepared groups, in order.\<close>

lemma device_spec_name:
  "device_spec l uid cs dev common = Ok (s, common') \<Longrightarrow>
     \<exists>kd. pd_Device dev = Some kd \<and> sp_Name s = uid @ ''-'' @ kd_DeviceName kd"
  by (auto simp: device_spec_def pd_CanonicalName_def Let_def split: option.splits if_splits)

lemma group_specs_names:
  "group_specs l uid ds common = Ok (ss, common') \<Longrightarrow>
     map sp_Name ss = map (\<lambda>kd. uid @ ''-'' @ kd_DeviceName kd) (List.map_filter (\<lambda>(cs, d). pd_Device d) ds)"
proof (induction ds arbitrary: common ss common' rule: list.induct)
  case Nil
  then show ?case by simp
next
  case (Cons x ds)
  obtain cs dev where x: "x = (cs, dev)" by (cases x)
  with Cons.prems obtain s common1 ss' where s: "device_spec l uid cs dev common = Ok (s, common1)"
    and ss': "group_specs l uid ds common1 = Ok (ss', common')" "ss = s # ss'"
    by auto
  from device_spec_name [OF s] Cons.IH [OF ss'(1)] show ?case
    by (auto simp: x ss'(2) map_filter_simps)
qed

lemma map_filter_append: "List.map_filter f (xs @ ys) = List.map_filter f xs @ List.map_filter f ys"
  by (simp add: map_filter_def)

lemma devices_of_groups_GetDevices:
  "List.map_filter (\<lambda>(cs, d). pd_Device d) (devices_of_groups gs) = gpu_GetDevices gs"
proof (induction gs)
  case Nil
  then show ?case by (simp add: devices_of_groups_def gpu_GetDevices_def map_filter_simps)
next
  case (Cons g gs)
  have "List.map_filter (\<lambda>(cs, d). pd_Device d) (map (Pair (gr_ConfigState g)) (gr_Devices g)) = list_GetDevices (gr_Devices g)"
    by (simp add: list_GetDevices_def map_filter_def filter_map comp_def)
  with Cons show ?case
    by (simp add: devices_of_groups_def gpu_GetDevices_def map_filter_append)
qed

lemma gpu_CreateClaimSpecFile_Ok:
  assumes "gpu_CreateClaimSpecFile l uid gs files = (Ok (), files')"
  shows "\<exists>spec. files' = AList.update (gpu_spec_name uid) spec files \<and>
    gsp_Vendor spec = gpu_cdiVendor \<and> gsp_Class spec = gpu_cdiClaimClass \<and>
    map sp_Name (gsp_Devices spec) = map (\<lambda>kd. uid @ ''-'' @ kd_DeviceName kd) (gpu_GetDevices gs)"
proof -
  from assms obtain common specs common' where
    g: "group_specs l uid (devices_of_groups gs) common = Ok (specs, common')" and
    w: "gpu_writeSpec l \<lparr>gsp_Vendor = gpu_cdiVendor, gsp_Class = gpu_cdiClaimClass, gsp_Devices = specs, gsp_Edits = common'\<rparr>
          (gpu_spec_name uid) files = (Ok (), files')"
    by (auto simp: gpu_CreateClaimSpecFile_def bind_st_eq_Ok go_simps split: option.splits)
  from group_specs_names [OF g] w show ?thesis
    by (auto simp: gpu_writeSpec_def Let_def devices_of_groups_GetDevices comp_def split: option.splits)
qed

lemma gpu_CreateClaimSpecFile_fail:
  "gpu_CreateClaimSpecFile l uid gs files = (r, files') \<Longrightarrow> \<not> is_ok r \<Longrightarrow> files' = files"
  by (auto simp: gpu_CreateClaimSpecFile_def gpu_writeSpec_def bind_st_def go_simps Let_def
      split: option.splits prod.splits go.splits)

end
