(* ===== verification/Checkpoint.thy ===== *)
theory Checkpoint
  imports Claims
begin

text \<open>
  The checkpoint of the GPU and compute-domain kubelet plugins (\<open>checkpoint.go\<close>, \<open>checkpointv.go\<close>):
  which claims are prepared or being prepared, in two versions of the format written side by side so that an
  older plugin can read the file after a downgrade.

  \<open>'d\<close> is the plugin's type of prepared devices. Package \<open>encoding/json\<close> and the checksum of the
  kubelet are the parameter \<open>json_lib\<close> over a type \<open>'b\<close> of byte strings. A nil map is
  \<open>None\<close>; JSON's \<open>omitempty\<close> drops an empty map, so that it is read back as nil (\<open>canon\<close>).
\<close>

section \<open>Data\<close>

definition ClaimCheckpointStateUnset :: string where "ClaimCheckpointStateUnset = ''''"
definition ClaimCheckpointStatePrepareStarted :: string where
  "ClaimCheckpointStatePrepareStarted = ''PrepareStarted''"
definition ClaimCheckpointStatePrepareCompleted :: string where
  "ClaimCheckpointStatePrepareCompleted = ''PrepareCompleted''"

lemma checkpoint_states [simp]:
  "ClaimCheckpointStatePrepareStarted \<noteq> ClaimCheckpointStatePrepareCompleted"
  "ClaimCheckpointStatePrepareCompleted \<noteq> ClaimCheckpointStatePrepareStarted"
  by (simp_all add: ClaimCheckpointStatePrepareStarted_def ClaimCheckpointStatePrepareCompleted_def)

record 'd PreparedClaimV2 =
  pc_CheckpointState :: string
  pc_Allocation :: "AllocationResult option"
  pc_PreparedDevices :: 'd
  pc_Name :: string
  pc_Namespace :: string

record 'd PreparedClaimV1 =
  p1_Allocation :: "AllocationResult option"
  p1_PreparedDevices :: 'd

record 'd CheckpointV2 =
  c2_Checksum :: nat
  c2_PreparedClaims :: "(string, 'd PreparedClaimV2) gomap option"

record 'd CheckpointV1 =
  c1_PreparedClaims :: "(string, 'd PreparedClaimV1) gomap option"

record 'd Checkpoint =
  cp_Checksum :: nat
  cp_V1 :: "'d CheckpointV1 option"
  cp_V2 :: "'d CheckpointV2 option"

text \<open>Iterating over a nil map is iterating over an empty one.\<close>

definition entries :: "('k, 'v) gomap option \<Rightarrow> ('k, 'v) gomap" where
  "entries m = (case m of None \<Rightarrow> [] | Some l \<Rightarrow> l)"

section \<open>Conversion (checkpointv.go)\<close>

definition CheckpointV1_ToV2 :: "'d CheckpointV1 \<Rightarrow> 'd CheckpointV2" where
  "CheckpointV1_ToV2 v1 = \<lparr>c2_Checksum = 0,
     c2_PreparedClaims = Some (map (\<lambda>(uid, c).
       (uid, \<lparr>pc_CheckpointState = ClaimCheckpointStatePrepareCompleted, pc_Allocation = p1_Allocation c,
              pc_PreparedDevices = p1_PreparedDevices c, pc_Name = '''', pc_Namespace = ''''\<rparr>))
       (entries (c1_PreparedClaims v1)))\<rparr>"

definition completed :: "'d PreparedClaimV2 \<Rightarrow> bool" where
  "completed c \<longleftrightarrow> pc_CheckpointState c = ClaimCheckpointStatePrepareCompleted"

definition CheckpointV2_ToV1 :: "'d CheckpointV2 \<Rightarrow> 'd CheckpointV1" where
  "CheckpointV2_ToV1 v2 = \<lparr>c1_PreparedClaims = Some (map (\<lambda>(uid, c).
       (uid, \<lparr>p1_Allocation = pc_Allocation c, p1_PreparedDevices = pc_PreparedDevices c\<rparr>))
       (filter (\<lambda>(uid, c). completed c) (entries (c2_PreparedClaims v2))))\<rparr>"

section \<open>The checkpoint file (checkpoint.go)\<close>

definition ToLatestVersion :: "'d Checkpoint \<Rightarrow> 'd Checkpoint" where
  "ToLatestVersion cp =
     (let v2 = (case cp_V2 cp of
                  Some v2 \<Rightarrow> v2
                | None \<Rightarrow> (case cp_V1 cp of
                    Some v1 \<Rightarrow> CheckpointV1_ToV2 v1
                  | None \<Rightarrow> \<lparr>c2_Checksum = 0, c2_PreparedClaims = None\<rparr>));
          v2' = (if c2_PreparedClaims v2 = None then v2\<lparr>c2_PreparedClaims := Some []\<rparr> else v2)
      in \<lparr>cp_Checksum = 0, cp_V1 = None, cp_V2 = Some v2'\<rparr>)"

record ('d, 'b) json_lib =
  jl_marshal :: "'d Checkpoint \<Rightarrow> 'b go"
  jl_marshalV2 :: "'d CheckpointV2 \<Rightarrow> 'b go"
  jl_unmarshal :: "'b \<Rightarrow> 'd Checkpoint go"
  jl_checksum :: "'b \<Rightarrow> nat"

definition SetChecksumV1 :: "('d, 'b) json_lib \<Rightarrow> 'd Checkpoint \<Rightarrow> 'd Checkpoint go" where
  "SetChecksumV1 lib cp =
     bind_go (jl_marshal lib (cp\<lparr>cp_V2 := None, cp_Checksum := 0\<rparr>)) (\<lambda>out.
       Ok (cp\<lparr>cp_Checksum := jl_checksum lib out\<rparr>))"

text \<open>A nil \<open>V2\<close> is dereferenced.\<close>

definition SetChecksumV2 :: "('d, 'b) json_lib \<Rightarrow> 'd Checkpoint \<Rightarrow> 'd Checkpoint go" where
  "SetChecksumV2 lib cp = (case cp_V2 cp of
     None \<Rightarrow> Panic ''nil pointer dereference''
   | Some v2 \<Rightarrow>
       bind_go (jl_marshalV2 lib (v2\<lparr>c2_Checksum := 0\<rparr>)) (\<lambda>out.
         Ok (cp\<lparr>cp_V2 := Some (v2\<lparr>c2_Checksum := jl_checksum lib out\<rparr>)\<rparr>)))"

definition MarshalCheckpoint :: "('d, 'b) json_lib \<Rightarrow> 'd Checkpoint \<Rightarrow> 'b go" where
  "MarshalCheckpoint lib cp =
     (let cp = ToLatestVersion cp; cp = cp\<lparr>cp_V1 := map_option CheckpointV2_ToV1 (cp_V2 cp)\<rparr>
      in bind_go (wrap_go (Wrapf ''error setting v1 checksum'') (SetChecksumV1 lib cp)) (\<lambda>cp.
           bind_go (wrap_go (Wrapf ''error setting v2 checksum'') (SetChecksumV2 lib cp)) (\<lambda>cp.
             jl_marshal lib cp)))"

definition verify :: "('d, 'b) json_lib \<Rightarrow> nat \<Rightarrow> 'b \<Rightarrow> unit go" where
  "verify lib ck out = (if jl_checksum lib out = ck then Ok () else Err (Errorf ''checkpoint is corrupted''))"

definition VerifyChecksumV1 :: "('d, 'b) json_lib \<Rightarrow> 'd Checkpoint \<Rightarrow> unit go" where
  "VerifyChecksumV1 lib cp =
     bind_go (jl_marshal lib (cp\<lparr>cp_V2 := None, cp_Checksum := 0\<rparr>)) (verify lib (cp_Checksum cp))"

definition VerifyChecksumV2 :: "('d, 'b) json_lib \<Rightarrow> 'd Checkpoint \<Rightarrow> unit go" where
  "VerifyChecksumV2 lib cp = (case cp_V2 cp of
     None \<Rightarrow> Ok ()
   | Some v2 \<Rightarrow> bind_go (jl_marshalV2 lib (v2\<lparr>c2_Checksum := 0\<rparr>)) (verify lib (c2_Checksum v2)))"

definition VerifyChecksum :: "('d, 'b) json_lib \<Rightarrow> 'd Checkpoint \<Rightarrow> unit go" where
  "VerifyChecksum lib cp = bind_go (VerifyChecksumV1 lib cp) (\<lambda>_. VerifyChecksumV2 lib cp)"

text \<open>What the checkpoint manager of the kubelet does to read a file: unmarshal, then verify.\<close>

definition load_checkpoint :: "('d, 'b) json_lib \<Rightarrow> 'b \<Rightarrow> 'd Checkpoint go" where
  "load_checkpoint lib b =
     bind_go (jl_unmarshal lib b) (\<lambda>cp. bind_go (VerifyChecksum lib cp) (\<lambda>_. Ok cp))"

section \<open>The round trip\<close>

definition drop_empty :: "('k, 'v) gomap option \<Rightarrow> ('k, 'v) gomap option" where
  "drop_empty m = (if entries m = [] then None else m)"

definition canonV2 :: "'d CheckpointV2 \<Rightarrow> 'd CheckpointV2" where
  "canonV2 v2 = v2\<lparr>c2_PreparedClaims := drop_empty (c2_PreparedClaims v2)\<rparr>"

definition canon :: "'d Checkpoint \<Rightarrow> 'd Checkpoint" where
  "canon cp = cp\<lparr>cp_V1 := map_option (\<lambda>v1. v1\<lparr>c1_PreparedClaims := drop_empty (c1_PreparedClaims v1)\<rparr>) (cp_V1 cp),
                 cp_V2 := map_option canonV2 (cp_V2 cp)\<rparr>"

text \<open>What is relied on of \<open>encoding/json\<close>: both types marshal, unmarshalling gives the value back up
  to empty maps, and these make no difference to the bytes.\<close>

definition json_ok :: "('d, 'b) json_lib \<Rightarrow> bool" where
  "json_ok lib \<longleftrightarrow>
     (\<forall>cp. \<exists>b. jl_marshal lib cp = Ok b \<and> jl_unmarshal lib b = Ok (canon cp)) \<and>
     (\<forall>cp. jl_marshal lib (canon cp) = jl_marshal lib cp) \<and>
     (\<forall>v2. is_ok (jl_marshalV2 lib v2)) \<and>
     (\<forall>v2. jl_marshalV2 lib (canonV2 v2) = jl_marshalV2 lib v2)"

definition latest_claims :: "'d Checkpoint \<Rightarrow> (string, 'd PreparedClaimV2) gomap" where
  "latest_claims cp = entries (case cp_V2 (ToLatestVersion cp) of None \<Rightarrow> None | Some v2 \<Rightarrow> c2_PreparedClaims v2)"

lemma entries_simps [simp]: "entries None = []" "entries (Some l) = l" "entries (drop_empty m) = entries m"
  by (auto simp: entries_def drop_empty_def split: option.splits)

lemma latest_claims_V2: "cp_V2 cp = Some v2 \<Longrightarrow> latest_claims cp = entries (c2_PreparedClaims v2)"
  by (simp add: latest_claims_def ToLatestVersion_def Let_def)

lemma canon_parts:
  "canon (cp\<lparr>cp_V2 := None, cp_Checksum := 0\<rparr>) = (canon cp)\<lparr>cp_V2 := None, cp_Checksum := 0\<rparr>"
  "canonV2 (v2\<lparr>c2_Checksum := 0\<rparr>) = (canonV2 v2)\<lparr>c2_Checksum := 0\<rparr>"
  by (simp_all add: canon_def canonV2_def)

lemma written_file:
  assumes "json_ok lib"
  shows "\<exists>b v2 k. MarshalCheckpoint lib cp = Ok b \<and> load_checkpoint lib b = Ok (canon \<lparr>cp_Checksum = k,
      cp_V1 = Some (CheckpointV2_ToV1 v2), cp_V2 = Some v2\<rparr>) \<and> entries (c2_PreparedClaims v2) = latest_claims cp"
proof -
  obtain v0 where v0: "cp_V2 (ToLatestVersion cp) = Some v0" "cp_V1 (ToLatestVersion cp) = None"
    by (simp add: ToLatestVersion_def Let_def)
  have claims: "entries (c2_PreparedClaims v0) = latest_claims cp" by (simp add: latest_claims_def v0)
  let ?cp = "(ToLatestVersion cp)\<lparr>cp_V1 := Some (CheckpointV2_ToV1 v0)\<rparr>"
  obtain b1 where b1: "jl_marshal lib (?cp\<lparr>cp_V2 := None, cp_Checksum := 0\<rparr>) = Ok b1"
    using assms unfolding json_ok_def by blast
  obtain b2 where b2: "jl_marshalV2 lib (v0\<lparr>c2_Checksum := 0\<rparr>) = Ok b2"
    using assms unfolding json_ok_def by (metis is_ok_iff)
  let ?v2 = "v0\<lparr>c2_Checksum := jl_checksum lib b2\<rparr>"
  let ?cp' = "?cp\<lparr>cp_Checksum := jl_checksum lib b1, cp_V2 := Some ?v2\<rparr>"
  obtain b where b: "jl_marshal lib ?cp' = Ok b" "jl_unmarshal lib b = Ok (canon ?cp')"
    using assms unfolding json_ok_def by blast
  have "MarshalCheckpoint lib cp = Ok b"
    using b1 b2 b(1) v0 by (simp add: MarshalCheckpoint_def SetChecksumV1_def SetChecksumV2_def Let_def)
  moreover have "VerifyChecksum lib (canon ?cp') = Ok ()"
  proof -
    have "jl_marshal lib ((canon ?cp')\<lparr>cp_V2 := None, cp_Checksum := 0\<rparr>) =
        jl_marshal lib (?cp'\<lparr>cp_V2 := None, cp_Checksum := 0\<rparr>)"
      using assms unfolding json_ok_def canon_parts(1) [symmetric] by blast
    moreover have "?cp'\<lparr>cp_V2 := None, cp_Checksum := 0\<rparr> = ?cp\<lparr>cp_V2 := None, cp_Checksum := 0\<rparr>" by simp
    ultimately have m1: "jl_marshal lib ((canon ?cp')\<lparr>cp_V2 := None, cp_Checksum := 0\<rparr>) = Ok b1"
      using b1 by simp
    have "jl_marshalV2 lib ((canonV2 ?v2)\<lparr>c2_Checksum := 0\<rparr>) = jl_marshalV2 lib (?v2\<lparr>c2_Checksum := 0\<rparr>)"
      using assms unfolding json_ok_def canon_parts(2) [symmetric] by blast
    then have m2: "jl_marshalV2 lib ((canonV2 ?v2)\<lparr>c2_Checksum := 0\<rparr>) = Ok b2" using b2 by simp
    have parts: "cp_Checksum (canon ?cp') = jl_checksum lib b1" "cp_V2 (canon ?cp') = Some (canonV2 ?v2)"
      "c2_Checksum (canonV2 ?v2) = jl_checksum lib b2"
      by (simp_all add: canon_def canonV2_def)
    show ?thesis
      unfolding VerifyChecksum_def VerifyChecksumV1_def VerifyChecksumV2_def m1 parts verify_def
      by (simp add: m2 parts verify_def)
  qed
  ultimately have stored: "MarshalCheckpoint lib cp = Ok b" "load_checkpoint lib b = Ok (canon ?cp')"
    using b(2) by (simp_all add: load_checkpoint_def)
  have "?cp' = \<lparr>cp_Checksum = jl_checksum lib b1, cp_V1 = Some (CheckpointV2_ToV1 ?v2), cp_V2 = Some ?v2\<rparr>"
    by (simp add: CheckpointV2_ToV1_def)
  moreover have "entries (c2_PreparedClaims ?v2) = latest_claims cp" using claims by simp
  ultimately show ?thesis using stored by metis
qed

section \<open>Properties\<close>

text \<open>C31. A written checkpoint can always be read back: it passes both checksums, a plugin of this version
  finds exactly the claims that were stored, in every state, and a plugin that knows only the first
  version of the format finds exactly the completely prepared ones.\<close>

theorem checkpoint_roundtrip:
  assumes "json_ok lib"
  shows "\<exists>b cp'. MarshalCheckpoint lib cp = Ok b \<and> load_checkpoint lib b = Ok cp' \<and>
    latest_claims cp' = latest_claims cp \<and>
    map (\<lambda>(uid, c). (uid, pc_Allocation c, pc_PreparedDevices c, completed c)) (latest_claims (cp'\<lparr>cp_V2 := None\<rparr>)) =
    map (\<lambda>(uid, c). (uid, pc_Allocation c, pc_PreparedDevices c, True))
      (filter (\<lambda>(uid, c). completed c) (latest_claims cp))"
proof -
  from written_file [OF assms, of cp] obtain b v2 k where b: "MarshalCheckpoint lib cp = Ok b"
    and l: "load_checkpoint lib b = Ok (canon \<lparr>cp_Checksum = k, cp_V1 = Some (CheckpointV2_ToV1 v2), cp_V2 = Some v2\<rparr>)"
      (is "_ = Ok ?cp'")
    and claims: "entries (c2_PreparedClaims v2) = latest_claims cp"
    by blast
  have "latest_claims ?cp' = latest_claims cp"
    using claims by (simp add: latest_claims_V2 canon_def canonV2_def)
  moreover have "latest_claims (?cp'\<lparr>cp_V2 := None\<rparr>) =
      map (\<lambda>(uid, c). (uid, \<lparr>pc_CheckpointState = ClaimCheckpointStatePrepareCompleted, pc_Allocation = pc_Allocation c,
          pc_PreparedDevices = pc_PreparedDevices c, pc_Name = '''', pc_Namespace = ''''\<rparr>))
        (filter (\<lambda>(uid, c). completed c) (latest_claims cp))"
    using claims by (simp add: latest_claims_def ToLatestVersion_def CheckpointV1_ToV2_def CheckpointV2_ToV1_def
        canon_def Let_def case_prod_beta comp_def)
  ultimately show ?thesis
    using b l by (auto simp: completed_def comp_def case_prod_beta)
qed

text \<open>A codec that meets the requirements: bytes are canonical values.\<close>

definition example_json :: "('d, 'd Checkpoint + 'd CheckpointV2) json_lib" where
  "example_json = \<lparr>jl_marshal = (\<lambda>cp. Ok (Inl (canon cp))), jl_marshalV2 = (\<lambda>v2. Ok (Inr (canonV2 v2))),
     jl_unmarshal = (\<lambda>b. case b of Inl cp \<Rightarrow> Ok cp | Inr _ \<Rightarrow> Err (Errorf ''not a checkpoint'')),
     jl_checksum = (\<lambda>b. case b of Inl cp \<Rightarrow> length (entries (case cp_V1 cp of None \<Rightarrow> None | Some v \<Rightarrow> c1_PreparedClaims v))
                             | Inr v2 \<Rightarrow> length (entries (c2_PreparedClaims v2)))\<rparr>"

lemma drop_empty_idem [simp]: "drop_empty (drop_empty m) = drop_empty m"
  by (simp add: drop_empty_def)

lemma canonV2_idem [simp]: "canonV2 (canonV2 v2) = canonV2 v2"
  by (simp add: canonV2_def)

lemma canon_idem [simp]: "canon (canon cp) = canon cp"
  by (cases "cp_V1 cp"; cases "cp_V2 cp") (simp_all add: canon_def)

lemma example_json_ok: "json_ok example_json"
  by (simp add: json_ok_def example_json_def)

definition example_checkpoint :: "unit Checkpoint" where
  "example_checkpoint = \<lparr>cp_Checksum = 0, cp_V1 = None, cp_V2 = Some \<lparr>c2_Checksum = 0, c2_PreparedClaims = Some
     [(''u1'', \<lparr>pc_CheckpointState = ClaimCheckpointStatePrepareCompleted, pc_Allocation = None, pc_PreparedDevices = (),
        pc_Name = '''', pc_Namespace = ''''\<rparr>),
      (''u2'', \<lparr>pc_CheckpointState = ClaimCheckpointStatePrepareStarted, pc_Allocation = None, pc_PreparedDevices = (),
        pc_Name = ''c'', pc_Namespace = ''ns''\<rparr>)]\<rparr>\<rparr>"

theorem checkpoint_roundtrip_witness:
  "\<exists>b cp'. MarshalCheckpoint example_json example_checkpoint = Ok b \<and> load_checkpoint example_json b = Ok cp' \<and>
     latest_claims cp' = latest_claims example_checkpoint \<and> length (latest_claims (cp'\<lparr>cp_V2 := None\<rparr>)) = 1"
proof -
  have one: "length (filter (\<lambda>(uid, c). completed c) (latest_claims example_checkpoint)) = 1" by code_simp
  from checkpoint_roundtrip [OF example_json_ok, of example_checkpoint] obtain b cp' where
    "MarshalCheckpoint example_json example_checkpoint = Ok b" "load_checkpoint example_json b = Ok cp'"
    "latest_claims cp' = latest_claims example_checkpoint"
    and m: "map (\<lambda>(uid, c). (uid, pc_Allocation c, pc_PreparedDevices c, completed c)) (latest_claims (cp'\<lparr>cp_V2 := None\<rparr>)) =
      map (\<lambda>(uid, c). (uid, pc_Allocation c, pc_PreparedDevices c, True))
        (filter (\<lambda>(uid, c). completed c) (latest_claims example_checkpoint))"
    by blast
  moreover from arg_cong [OF m, of length] one have "length (latest_claims (cp'\<lparr>cp_V2 := None\<rparr>)) = 1" by simp
  ultimately show ?thesis by blast
qed

end
