(* ===== verification/Prepared_Claims.thy ===== *)
theory Prepared_Claims
  imports Checkpoint
begin

text \<open>
  What the GPU and the compute-domain kubelet plugin do alike with the claims of their checkpoint:
  the check that no device is prepared for two claims, and the clean-up of stale partial
  preparations (\<open>cleanup.go\<close>). The plugins carry the same code, with their own driver name, so the definitions here
  have the driver name as an argument; clean-up has the handler that unprepares a claim as
  an argument, as in the source.

  Locale \<open>claim_handlers\<close> is the contract of a plugin's two handlers with the checkpoint: what they may do
  to its entries. It gives that devices stay exclusive and what clean-up removes.
\<close>

section \<open>Overlap check\<close>

text \<open>\<open>GetNonAdminDevices\<close> reads \<open>Allocation\<close> before it tests it for nil.\<close>

definition GetNonAdminDevices :: "string \<Rightarrow> AllocationResult option \<Rightarrow> string list go" where
  "GetNonAdminDevices driver al = (case al of
     None \<Rightarrow> Panic ''nil Allocation''
   | Some al \<Rightarrow> Ok (non_admin_devices driver (al_Results al)))"

definition requestedNonAdminDevices :: "string \<Rightarrow> ResourceClaim \<Rightarrow> string list go" where
  "requestedNonAdminDevices driver claim = (case rc_Allocation claim of
     None \<Rightarrow> Panic ''nil Allocation''
   | Some al \<Rightarrow> Ok (non_admin_devices driver (al_Results al)))"

fun overlap_loop :: "string \<Rightarrow> string \<Rightarrow> string list \<Rightarrow> (string, 'd PreparedClaimV2) gomap \<Rightarrow> unit go" where
  "overlap_loop driver claimUID requested [] = Ok ()"
| "overlap_loop driver claimUID requested ((uid, pc) # rest) =
     (if uid = claimUID then overlap_loop driver claimUID requested rest
      else if pc_CheckpointState pc \<noteq> ClaimCheckpointStatePrepareCompleted then overlap_loop driver claimUID requested rest
      else bind_go (GetNonAdminDevices driver (pc_Allocation pc)) (\<lambda>prepared.
        if set requested \<inter> set prepared \<noteq> {} then
          Err (Errorf ''requested device is already allocated to different claim'')
        else overlap_loop driver claimUID requested rest))"

definition validateNoOverlappingPreparedDevices ::
  "string \<Rightarrow> (string, 'd PreparedClaimV2) gomap \<Rightarrow> ResourceClaim \<Rightarrow> unit go" where
  "validateNoOverlappingPreparedDevices driver claims claim =
     bind_go (requestedNonAdminDevices driver claim) (\<lambda>requested.
       if requested = [] then Ok () else overlap_loop driver (rc_UID claim) requested claims)"

section \<open>Clean-up (cleanup.go)\<close>

text \<open>\<open>getClaim name namespace\<close> is the API server's answer: the UID of the claim found.\<close>

definition getClaimByName :: "(string \<Rightarrow> string \<Rightarrow> string go) \<Rightarrow> string \<Rightarrow> string \<Rightarrow> string go" where
  "getClaimByName getClaim name ns = wrap_go (Wrapf ''error getting resource claim'') (getClaim name ns)"

definition cleanup_unprepare ::
  "(NamespacedObject \<Rightarrow> ('s, unit) gost) \<Rightarrow> string \<Rightarrow> 'd PreparedClaimV2 \<Rightarrow> ('s, unit) gost" where
  "cleanup_unprepare unprepfunc uid claim s =
     (case unprepfunc \<lparr>no_UID = uid, no_Name = pc_Name claim, no_Namespace = pc_Namespace claim\<rparr> s of
        (Panic p, s') \<Rightarrow> (Panic p, s')
      | (_, s') \<Rightarrow> (Ok (), s'))"

definition unprepareIfStale ::
  "(string \<Rightarrow> string \<Rightarrow> string go) \<Rightarrow> (NamespacedObject \<Rightarrow> ('s, unit) gost) \<Rightarrow> string \<Rightarrow> 'd PreparedClaimV2 \<Rightarrow>
   ('s, unit) gost" where
  "unprepareIfStale getClaim unprepfunc cpuid cpclaim =
     (if pc_Name cpclaim = '''' then ret_st ()
      else case getClaimByName getClaim (pc_Name cpclaim) (pc_Namespace cpclaim) of
        Err e \<Rightarrow> if IsNotFound e then cleanup_unprepare unprepfunc cpuid cpclaim else ret_st ()
      | Ok uid \<Rightarrow> if uid \<noteq> cpuid then cleanup_unprepare unprepfunc cpuid cpclaim else ret_st ()
      | Panic p \<Rightarrow> lift_st (Panic p))"

definition cleanup ::
  "('s, (string, 'd PreparedClaimV2) gomap) gost \<Rightarrow> (string \<Rightarrow> string \<Rightarrow> string go) \<Rightarrow>
   (NamespacedObject \<Rightarrow> ('s, unit) gost) \<Rightarrow> ('s, unit) gost" where
  "cleanup getCheckpoint getClaim unprepfunc s = (case getCheckpoint s of
     (Ok cp, s') \<Rightarrow>
       each (\<lambda>(cpuid, cpclaim). unprepareIfStale getClaim unprepfunc cpuid cpclaim)
         (filter (\<lambda>(uid, c). pc_CheckpointState c = ClaimCheckpointStatePrepareStarted) cp) s'
   | (_, s') \<Rightarrow> (Ok (), s'))"

section \<open>Exclusive use of devices\<close>

definition nonadmin :: "string \<Rightarrow> 'd PreparedClaimV2 \<Rightarrow> string set" where
  "nonadmin driver c = (case pc_Allocation c of None \<Rightarrow> {} | Some al \<Rightarrow> set (non_admin_devices driver (al_Results al)))"

definition exclusive :: "string \<Rightarrow> (string, 'd PreparedClaimV2) gomap \<Rightarrow> bool" where
  "exclusive driver cs \<longleftrightarrow>
     (\<forall>u1 c1 u2 c2. map_of cs u1 = Some c1 \<and> map_of cs u2 = Some c2 \<and> u1 \<noteq> u2 \<and> completed c1 \<and> completed c2 \<longrightarrow>
        nonadmin driver c1 \<inter> nonadmin driver c2 = {})"

lemma exclusive_Nil [simp]: "exclusive driver []"
  by (simp add: exclusive_def)

lemma overlap_loop_Ok:
  "overlap_loop driver uid req cs = Ok () \<Longrightarrow> (u, c) \<in> set cs \<Longrightarrow> u \<noteq> uid \<Longrightarrow> completed c \<Longrightarrow>
     set req \<inter> nonadmin driver c = {}"
  by (induction cs) (auto simp: completed_def nonadmin_def GetNonAdminDevices_def split: if_splits option.splits)

lemma validate_Ok:
  assumes "validateNoOverlappingPreparedDevices driver cs claim = Ok ()" and "map_of cs u = Some c" and "u \<noteq> rc_UID claim"
    and "completed c" and "pc_Allocation pc = rc_Allocation claim"
  shows "nonadmin driver pc \<inter> nonadmin driver c = {}"
proof -
  from assms(1) obtain al where al: "rc_Allocation claim = Some al"
    and v: "non_admin_devices driver (al_Results al) = [] \<or>
      overlap_loop driver (rc_UID claim) (non_admin_devices driver (al_Results al)) cs = Ok ()"
    by (auto simp: validateNoOverlappingPreparedDevices_def requestedNonAdminDevices_def split: option.splits if_splits)
  have "nonadmin driver pc = set (non_admin_devices driver (al_Results al))"
    by (simp add: nonadmin_def assms(5) al)
  with v overlap_loop_Ok [OF _ map_of_SomeD [OF assms(2)] assms(3,4)] show ?thesis by (metis Int_empty_left list.set(1))
qed

lemma exclusive_update_incomplete:
  "exclusive driver cs \<Longrightarrow> \<not> completed c \<Longrightarrow> exclusive driver (AList.update u c cs)"
  by (fastforce simp: exclusive_def update_conv' split: if_splits)

lemma exclusive_update_completed:
  assumes "exclusive driver cs"
    and "\<And>u' c'. map_of cs u' = Some c' \<Longrightarrow> u' \<noteq> u \<Longrightarrow> completed c' \<Longrightarrow> nonadmin driver c \<inter> nonadmin driver c' = {}"
  shows "exclusive driver (AList.update u c cs)"
  unfolding exclusive_def
proof (intro allI impI, elim conjE)
  fix u1 c1 u2 c2
  assume look: "map_of (AList.update u c cs) u1 = Some c1" "map_of (AList.update u c cs) u2 = Some c2"
    and neq: "u1 \<noteq> u2" and comp: "completed c1" "completed c2"
  show "nonadmin driver c1 \<inter> nonadmin driver c2 = {}"
  proof (cases "u1 = u")
    case True
    with look neq comp assms(2) [of u2 c2] show ?thesis by simp
  next
    case False
    with look neq comp assms(2) [of u1 c1] assms(1) show ?thesis
      by (cases "u2 = u") (auto simp: exclusive_def)
  qed
qed

lemma exclusive_delete: "exclusive driver cs \<Longrightarrow> exclusive driver (AList.delete u cs)"
  by (fastforce simp: exclusive_def delete_conv' split: if_splits)

section \<open>The handlers of a plugin\<close>

text \<open>A claim that clean-up may remove.\<close>

definition stale_claim :: "(string \<Rightarrow> string \<Rightarrow> string go) \<Rightarrow> string \<Rightarrow> 'd PreparedClaimV2 \<Rightarrow> bool" where
  "stale_claim getClaim uid c \<longleftrightarrow> pc_Name c \<noteq> '''' \<and>
     (case getClaim (pc_Name c) (pc_Namespace c) of Ok uid' \<Rightarrow> uid' \<noteq> uid | Err e \<Rightarrow> IsNotFound e | Panic p \<Rightarrow> False)"

locale claim_handlers =
  fixes claims :: "'s \<Rightarrow> (string, 'd PreparedClaimV2) gomap" and driver :: string
    and prepare :: "'c \<Rightarrow> ResourceClaim \<Rightarrow> 's \<Rightarrow> 's" and unprepare :: "'c \<Rightarrow> NamespacedObject \<Rightarrow> ('s, unit) gost"
  assumes prepare_entries:
    "claims (prepare c claim s) = claims s \<or>
     (\<exists>pc. claims (prepare c claim s) = AList.update (rc_UID claim) pc (claims s) \<and>
        (completed pc \<longrightarrow> validateNoOverlappingPreparedDevices driver (claims s) claim = Ok () \<and>
           pc_Allocation pc = rc_Allocation claim))"
    and unprepare_entries:
    "claims (snd (unprepare c ref s)) \<in> {claims s, AList.delete (no_UID ref) (claims s)}"
begin

lemma exclusive_prepare: "exclusive driver (claims s) \<Longrightarrow> exclusive driver (claims (prepare c claim s))"
  using prepare_entries [of c claim s]
proof (elim disjE exE conjE)
  fix pc
  assume ex: "exclusive driver (claims s)" and eq: "claims (prepare c claim s) = AList.update (rc_UID claim) pc (claims s)"
    and v: "completed pc \<longrightarrow> validateNoOverlappingPreparedDevices driver (claims s) claim = Ok () \<and>
      pc_Allocation pc = rc_Allocation claim"
  show "exclusive driver (claims (prepare c claim s))"
  proof (cases "completed pc")
    case True
    show ?thesis
      unfolding eq by (rule exclusive_update_completed [OF ex]) (use validate_Ok True v in blast)
  qed (simp add: eq exclusive_update_incomplete [OF ex])
qed simp

lemma exclusive_unprepare: "exclusive driver (claims s) \<Longrightarrow> exclusive driver (claims (snd (unprepare c ref s)))"
  using unprepare_entries [of c ref s] exclusive_delete by auto

lemma gomap_prepare: "gomap (claims s) \<Longrightarrow> gomap (claims (prepare c claim s))"
  using prepare_entries [of c claim s] by auto

lemma gomap_unprepare: "gomap (claims s) \<Longrightarrow> gomap (claims (snd (unprepare c ref s)))"
  using unprepare_entries [of c ref s] by auto

lemma snd_unprepareIfStale:
  "snd (unprepareIfStale getClaim (unprepare c) uid pc s) = s \<or>
   stale_claim getClaim uid pc \<and>
   snd (unprepareIfStale getClaim (unprepare c) uid pc s) =
     snd (unprepare c \<lparr>no_UID = uid, no_Name = pc_Name pc, no_Namespace = pc_Namespace pc\<rparr> s)"
proof -
  have "snd (cleanup_unprepare (unprepare c) uid pc s) =
      snd (unprepare c \<lparr>no_UID = uid, no_Name = pc_Name pc, no_Namespace = pc_Namespace pc\<rparr> s)"
    by (auto simp: cleanup_unprepare_def split: prod.splits go.splits)
  then show ?thesis
    by (cases "getClaim (pc_Name pc) (pc_Namespace pc)")
      (auto simp: unprepareIfStale_def stale_claim_def getClaimByName_def)
qed

lemma unprepareIfStale_entries:
  "claims (snd (unprepareIfStale getClaim (unprepare c) uid pc s)) = claims s \<or>
   stale_claim getClaim uid pc \<and> claims (snd (unprepareIfStale getClaim (unprepare c) uid pc s)) = AList.delete uid (claims s)"
  using snd_unprepareIfStale [of getClaim c uid pc s]
    unprepare_entries [of c "\<lparr>no_UID = uid, no_Name = pc_Name pc, no_Namespace = pc_Namespace pc\<rparr>" s] by auto

text \<open>Clean-up: the environment of an unpreparation may depend on the claim.\<close>

lemma cleanup_loop_entries:
  fixes calls getClaim
  defines "loop \<equiv> \<lambda>es. each (\<lambda>(uid, pc). unprepareIfStale getClaim (\<lambda>ref. unprepare (calls (no_UID ref)) ref) uid pc) es"
  shows "map_of (claims (snd (loop es s))) u = map_of (claims s) u \<or>
    map_of (claims (snd (loop es s))) u = None \<and> (\<exists>pc. (u, pc) \<in> set es \<and> stale_claim getClaim u pc)"
proof (induction es arbitrary: s)
  case Nil
  then show ?case by (simp add: loop_def go_simps)
next
  case (Cons e es)
  obtain uid pc where e: "e = (uid, pc)" by (cases e)
  have same: "unprepareIfStale getClaim (\<lambda>ref. unprepare (calls (no_UID ref)) ref) uid pc =
      unprepareIfStale getClaim (unprepare (calls uid)) uid pc"
    by (auto simp: unprepareIfStale_def cleanup_unprepare_def fun_eq_iff split: go.split)
  obtain r t where rt: "unprepareIfStale getClaim (unprepare (calls uid)) uid pc s = (r, t)" by fastforce
  have t: "map_of (claims t) u = map_of (claims s) u \<or>
      map_of (claims t) u = None \<and> u = uid \<and> stale_claim getClaim uid pc"
    using unprepareIfStale_entries [of getClaim "calls uid" uid pc s] rt by (cases "u = uid") (auto simp: delete_conv')
  have step: "loop (e # es) s = bind_st (unprepareIfStale getClaim (unprepare (calls uid)) uid pc) (\<lambda>_. loop es) s"
    by (simp add: loop_def e same)
  show ?case
  proof (cases r)
    case (Ok x)
    with Cons.IH [of t] t rt show ?thesis unfolding step by (auto simp: e snd_bind_st)
  qed (use t rt in \<open>unfold step, auto simp: e snd_bind_st\<close>)
qed

lemma cleanup_entries:
  fixes calls getClaim
  assumes "gomap (claims s)" and "\<And>s. getCp s = (Ok (claims s), s) \<or> (\<exists>e. getCp s = (Err e, s))"
  defines "s' \<equiv> snd (cleanup getCp getClaim (\<lambda>ref. unprepare (calls (no_UID ref)) ref) s)"
  shows "map_of (claims s') u = map_of (claims s) u \<or>
    map_of (claims s') u = None \<and>
    (\<exists>pc. map_of (claims s) u = Some pc \<and> pc_CheckpointState pc = ClaimCheckpointStatePrepareStarted \<and> stale_claim getClaim u pc)"
proof (cases "getCp s = (Ok (claims s), s)")
  case True
  then have "s' = snd (each (\<lambda>(uid, pc). unprepareIfStale getClaim (\<lambda>ref. unprepare (calls (no_UID ref)) ref) uid pc)
      (filter (\<lambda>(uid, c). pc_CheckpointState c = ClaimCheckpointStatePrepareStarted) (claims s)) s)"
    by (simp add: s'_def cleanup_def)
  with cleanup_loop_entries [of getClaim calls
      "filter (\<lambda>(uid, c). pc_CheckpointState c = ClaimCheckpointStatePrepareStarted) (claims s)" s u]
  show ?thesis using assms(1) by (auto simp: map_of_iff)
next
  case False
  with assms(2) [of s] show ?thesis by (auto simp: s'_def cleanup_def)
qed

end

end
