(* ===== verification/Gpu_State.thy ===== *)
theory Gpu_State
  imports Gpu_Cdi Prepared_Claims
begin

text \<open>
  The device state of the GPU kubelet plugin (\<open>device_state.go\<close>): preparing the devices allocated to a
  claim, unpreparing them, and the roll-back of partial preparations.

  The state has the checkpointed claims, the allocatable devices, the CDI spec files and the
  hardware. The claims are the latest version of the checkpoint file: theory \<open>Checkpoint\<close> shows
  that what is written is read back. An entry is stored without the fields that are not serialised
  (\<open>serialised\<close>). A read or write of the checkpoint that fails leaves the file alone.

  Everything that reaches the hardware, the kernel or a control daemon (\<open>nvlib.go\<close>,
  \<open>vfio-device.go\<close>, the MPS deployments of \<open>sharing.go\<close>) is an operation of the parameter \<open>hardware\<close> over an
  arbitrary hardware state \<open>'h\<close>; the theorems hold for all of them. \<open>en_order1\<close> and \<open>en_order2\<close> are the
  orders in which Go visits the map of configurations in its two loops.
\<close>

section \<open>State and environment\<close>

type_synonym gpu_claims = "(string, gpu_PreparedDevices PreparedClaimV2) gomap"

record 'h gpu_state =
  gst_claims :: gpu_claims
  gst_allocatable :: PerGPUAllocatableDevices
  gst_cdi :: gpu_cdi_files
  gst_hw :: 'h

record 'h hardware =
  hw_createMigDevice :: "MigSpec \<Rightarrow> ('h, MigDeviceInfo) gost"
  hw_deleteMigDevice :: "MigLiveTuple \<Rightarrow> ('h, unit) gost"
  hw_FindMigDevBySpec :: "MigSpecTuple \<Rightarrow> ('h, MigLiveTuple option) gost"
  hw_obliterateStaleMIGDevices :: "string list \<Rightarrow> ('h, unit) gost"
  hw_setComputeMode :: "string list \<Rightarrow> string \<Rightarrow> ('h, unit) gost"
  hw_setTimeSlice :: "string list \<Rightarrow> int \<Rightarrow> ('h, unit) gost"
  hw_vfioConfigure :: "VfioDeviceInfo \<Rightarrow> ('h, unit) gost"
  hw_vfioUnconfigure :: "VfioDeviceInfo \<Rightarrow> ('h, unit) gost"
  hw_discoverVfioDevice :: "GpuInfo \<Rightarrow> ('h, AllocatableDevice option) gost"
  hw_discoverGPUByPCIBusID :: "string \<Rightarrow> ('h, AllocatableDevice option) gost"
  hw_mpsStart :: "string \<Rightarrow> string list \<Rightarrow> string list \<Rightarrow> MpsConfig option \<Rightarrow> ('h, unit) gost"
  hw_mpsAssertReady :: "string \<Rightarrow> ('h, unit) gost"
  hw_mpsStop :: "string \<Rightarrow> ('h, unit) gost"

type_synonym config_map = "(nat, DeviceRequestAllocationResult list) gomap"

record 'h gpu_env =
  en_gates :: gates
  en_decode :: "string \<Rightarrow> RuntimeObject go"
  en_hw :: "'h hardware"
  en_cdi :: gpu_cdi_lib
  en_get :: "goerr option"
  en_update1 :: "goerr option"
  en_update2 :: "goerr option"
  en_order1 :: "config_map \<Rightarrow> config_map"
  en_order2 :: "config_map \<Rightarrow> config_map"
  en_sha256hex :: "string \<Rightarrow> string"
  en_mpsRoot :: string

definition on_hw :: "('h, 'a) gost \<Rightarrow> ('h gpu_state, 'a) gost" where
  "on_hw m s = (case m (gst_hw s) of (r, h) \<Rightarrow> (r, s\<lparr>gst_hw := h\<rparr>))"

definition on_cdi :: "(gpu_cdi_files, 'a) gost \<Rightarrow> ('h gpu_state, 'a) gost" where
  "on_cdi m s = (case m (gst_cdi s) of (r, f) \<Rightarrow> (r, s\<lparr>gst_cdi := f\<rparr>))"

definition on_allocatable :: "(PerGPUAllocatableDevices \<Rightarrow> PerGPUAllocatableDevices go) \<Rightarrow> ('h gpu_state, unit) gost" where
  "on_allocatable f s = (case f (gst_allocatable s) of
     Ok m \<Rightarrow> (Ok (), s\<lparr>gst_allocatable := m\<rparr>) | Err e \<Rightarrow> (Err e, s) | Panic p \<Rightarrow> (Panic p, s))"

section \<open>Checkpoint access\<close>

definition serialised :: "gpu_PreparedDevices \<Rightarrow> gpu_PreparedDevices" where
  "serialised d = map (\<lambda>g. g\<lparr>gr_ConfigState := (gr_ConfigState g)\<lparr>dcs_Config := None, dcs_containerEdits := None\<rparr>\<rparr>) d"

definition getCheckpoint :: "goerr option \<Rightarrow> ('h gpu_state, gpu_claims) gost" where
  "getCheckpoint fail = (case fail of Some e \<Rightarrow> err_st e | None \<Rightarrow> gets gst_claims)"

definition updateCheckpoint :: "goerr option \<Rightarrow> (gpu_claims \<Rightarrow> gpu_claims) \<Rightarrow> ('h gpu_state, unit) gost" where
  "updateCheckpoint fail mutate s = (case fail of
     Some e \<Rightarrow> (Err e, s)
   | None \<Rightarrow> (Ok (), s\<lparr>gst_claims := mutate (gst_claims s)\<rparr>))"

definition deleteClaimFromCheckpoint :: "goerr option \<Rightarrow> string \<Rightarrow> ('h gpu_state, unit) gost" where
  "deleteClaimFromCheckpoint fail uid =
     wrap_st (Wrapf ''unable to update checkpoint'') (updateCheckpoint fail (AList.delete uid))"

section \<open>Roll-back of partial preparations\<close>

fun used_by_completed :: "string \<Rightarrow> gpu_claims \<Rightarrow> bool go" where
  "used_by_completed dname [] = Ok False"
| "used_by_completed dname ((uid, c) # rest) =
     (case pc_Allocation c of
        None \<Rightarrow> Panic ''nil Allocation''
      | Some al \<Rightarrow> if dname \<in> dr_Device ` set (al_Results al) then Ok True else used_by_completed dname rest)"

definition deleteMigDevIfExistsAndNotUsedByCompletedClaim ::
  "'h hardware \<Rightarrow> MigSpecTuple \<Rightarrow> string \<Rightarrow> gpu_claims \<Rightarrow> ('h gpu_state, unit) gost" where
  "deleteMigDevIfExistsAndNotUsedByCompletedClaim hw ms dname completedClaims =
     bind_st (lift_st (used_by_completed dname completedClaims)) (\<lambda>used.
       if used then ret_st ()
       else bind_st (wrap_st (\<lambda>_. Errorf ''FindMigDevBySpecTuple() failed'') (on_hw (hw_FindMigDevBySpec hw ms))) (\<lambda>mlt.
         case mlt of
           None \<Rightarrow> ret_st ()
         | Some mlt \<Rightarrow> wrap_st (Wrapf ''MIG device deletion failed'') (on_hw (hw_deleteMigDevice hw mlt))))"

definition rollback_device :: "'h hardware \<Rightarrow> gpu_claims \<Rightarrow> DeviceRequestAllocationResult \<Rightarrow> ('h gpu_state, unit) gost" where
  "rollback_device hw completedClaims r =
     (case NewMigSpecTupleFromCanonicalName (dr_Device r) of
        Ok ms \<Rightarrow> wrap_st (Wrapf ''deleteMigDevIfExistsAndNotUsedByCompletedClaim failed'')
          (deleteMigDevIfExistsAndNotUsedByCompletedClaim hw ms (dr_Device r) completedClaims)
      | _ \<Rightarrow> ret_st ())"

definition unpreparePartiallyPrepairedClaim ::
  "'h gpu_env \<Rightarrow> gpu_PreparedDevices PreparedClaimV2 \<Rightarrow> gpu_claims \<Rightarrow> ('h gpu_state, unit) gost" where
  "unpreparePartiallyPrepairedClaim en pc claims =
     (case pc_Allocation pc of
        None \<Rightarrow> lift_st (Panic ''nil Allocation'')
      | Some al \<Rightarrow>
          if \<not> en_gates en DynamicMIG then ret_st ()
          else each (rollback_device (en_hw en) (filter (\<lambda>(uid, c). completed c) claims)) (al_Results al))"

section \<open>Applying configurations (device_state.go, sharing.go)\<close>

definition SetTimeSlice :: "'h hardware \<Rightarrow> string list \<Rightarrow> TimeSlicingConfig \<Rightarrow> ('h, unit) gost" where
  "SetTimeSlice hw uuids config =
     bind_st (wrap_st (Wrapf ''error setting compute mode'') (hw_setComputeMode hw uuids ''DEFAULT'')) (\<lambda>_.
       case Interval config of
         None \<Rightarrow> lift_st (Panic ''nil Interval'')
       | Some t \<Rightarrow> wrap_st (Wrapf ''error setting time slice'') (hw_setTimeSlice hw uuids (TimeSliceInterval_Int t)))"

definition GetMpsControlDaemonID :: "(string \<Rightarrow> string) \<Rightarrow> string \<Rightarrow> string list \<Rightarrow> string" where
  "GetMpsControlDaemonID sha256hex claimUID uuids =
     claimUID @ ''-'' @ take 5 (sha256hex (strings_Join '','' uuids))"

definition GetCDIContainerEdits :: "string \<Rightarrow> string \<Rightarrow> ContainerEdits" where
  "GetCDIContainerEdits root did =
     no_edits\<lparr>ce_Env := [''CUDA_MPS_PIPE_DIRECTORY=/tmp/nvidia-mps''],
       ce_Mounts := [\<lparr>mt_ContainerPath = ''/dev/shm'', mt_HostPath = root @ ''/'' @ did @ ''/shm'',
                       mt_Options = [''rw'', ''nosuid'', ''nodev'', ''bind'']\<rparr>,
                     \<lparr>mt_ContainerPath = ''/tmp/nvidia-mps'', mt_HostPath = root @ ''/'' @ did @ ''/pipe'',
                       mt_Options = [''rw'', ''nosuid'', ''nodev'', ''bind'']\<rparr>]\<rparr>"

text \<open>The interface \<open>configapi.Sharing\<close> and its two implementations.\<close>

datatype Sharing = GpuSh "GpuSharing option" | MigSh "MigDeviceSharing option"

fun IsTimeSlicing :: "Sharing \<Rightarrow> bool" where
  "IsTimeSlicing (GpuSh s) = GpuSharing_IsTimeSlicing s"
| "IsTimeSlicing (MigSh s) = MigDeviceSharing_IsTimeSlicing s"

fun IsMps :: "Sharing \<Rightarrow> bool" where
  "IsMps (GpuSh s) = GpuSharing_IsMps s"
| "IsMps (MigSh s) = MigDeviceSharing_IsMps s"

fun GetTimeSlicingConfig :: "Sharing \<Rightarrow> TimeSlicingConfig option go" where
  "GetTimeSlicingConfig (GpuSh s) = GpuSharing_GetTimeSlicingConfig s"
| "GetTimeSlicingConfig (MigSh s) = MigDeviceSharing_GetTimeSlicingConfig s"

fun GetMpsConfig :: "Sharing \<Rightarrow> MpsConfig option go" where
  "GetMpsConfig (GpuSh s) = GpuSharing_GetMpsConfig s"
| "GetMpsConfig (MigSh s) = MigDeviceSharing_GetMpsConfig s"

fun requested_devices ::
  "PerGPUAllocatableDevices \<Rightarrow> DeviceRequestAllocationResult list \<Rightarrow> AllocatableDevices \<Rightarrow> AllocatableDevices go" where
  "requested_devices m [] acc = Ok acc"
| "requested_devices m (r # rs) acc = (case GetAllocatableDevice m (dr_Device r) of
     None \<Rightarrow> Err (Errorf ''allocatable not found for device'')
   | Some d \<Rightarrow> requested_devices m rs (AList.update (dr_Device r) d acc))"

definition empty_config_state :: DeviceConfigState where
  "empty_config_state = \<lparr>dcs_MpsControlDaemonID = '''', dcs_Config = None, dcs_containerEdits = None\<rparr>"

definition apply_time_slicing :: "'h gpu_env \<Rightarrow> Sharing \<Rightarrow> AllocatableDevices \<Rightarrow> ('h gpu_state, unit) gost" where
  "apply_time_slicing en config devs =
     (if en_gates en TimeSlicingSettings \<and> IsTimeSlicing config then
        bind_st (lift_st (wrap_go (Wrapf ''error getting timeslice config'') (GetTimeSlicingConfig config))) (\<lambda>tsc.
          case tsc of
            None \<Rightarrow> ret_st ()
          | Some tsc \<Rightarrow> wrap_st (Wrapf ''error setting timeslice config'')
              (on_hw (SetTimeSlice (en_hw en) (ads_GpuUUIDs devs) tsc)))
      else ret_st ())"

definition apply_mps :: "'h gpu_env \<Rightarrow> Sharing \<Rightarrow> string \<Rightarrow> AllocatableDevices \<Rightarrow> ('h gpu_state, DeviceConfigState) gost" where
  "apply_mps en config claimUID devs =
     (if en_gates en MPSSupport \<and> IsMps config then
        (if en_gates en DynamicMIG then err_st (Errorf ''MPS is not yet supported when using featureGates.DynamicMIG=true'')
         else
           bind_st (lift_st (wrap_go (Wrapf ''error getting MPS configuration'') (GetMpsConfig config))) (\<lambda>mpsc.
           bind_st (lift_st (ads_UUIDs devs)) (\<lambda>uuids.
             let did = GetMpsControlDaemonID (en_sha256hex en) claimUID uuids
             in bind_st (wrap_st (Wrapf ''error starting MPS control daemon'')
                   (on_hw (hw_mpsStart (en_hw en) did uuids (ads_GpuUUIDs devs) mpsc))) (\<lambda>_.
                bind_st (wrap_st (Wrapf ''MPS control daemon is not yet ready'') (on_hw (hw_mpsAssertReady (en_hw en) did))) (\<lambda>_.
                  ret_st \<lparr>dcs_MpsControlDaemonID = did, dcs_Config = None,
                          dcs_containerEdits = Some (GetCDIContainerEdits (en_mpsRoot en) did)\<rparr>)))))
      else ret_st empty_config_state)"

definition applySharingConfig ::
  "'h gpu_env \<Rightarrow> Sharing \<Rightarrow> string \<Rightarrow> DeviceRequestAllocationResult list \<Rightarrow> ('h gpu_state, DeviceConfigState) gost" where
  "applySharingConfig en config claimUID results =
     bind_st (gets gst_allocatable) (\<lambda>m.
     bind_st (lift_st (requested_devices m results [])) (\<lambda>devs.
     bind_st (apply_time_slicing en config devs) (\<lambda>_.
       apply_mps en config claimUID devs)))"

definition configure_vfio :: "'h gpu_env \<Rightarrow> DeviceRequestAllocationResult \<Rightarrow> ('h gpu_state, unit) gost" where
  "configure_vfio en r =
     bind_st (gets gst_allocatable) (\<lambda>m.
       case GetAllocatableDevice m (dr_Device r) of
         None \<Rightarrow> err_st (Errorf ''allocatable not found for vfio device'')
       | Some d \<Rightarrow> (case ad_Vfio d of
           None \<Rightarrow> lift_st (Panic ''nil VfioDeviceInfo'')
         | Some v \<Rightarrow> wrap_st (Wrapf ''error configuring vfio device'') (on_hw (hw_vfioConfigure (en_hw en) v))))"

definition applyVfioDeviceConfig ::
  "'h gpu_env \<Rightarrow> VfioDeviceConfig \<Rightarrow> DeviceRequestAllocationResult list \<Rightarrow> ('h gpu_state, DeviceConfigState) gost" where
  "applyVfioDeviceConfig en config results = (case vc_Iommu config of
     None \<Rightarrow> lift_st (Panic ''nil Iommu'')
   | Some i \<Rightarrow>
       bind_st (each (configure_vfio en) results) (\<lambda>_.
         ret_st \<lparr>dcs_MpsControlDaemonID = '''', dcs_Config = Some (VfioDeviceConfigObj config),
           dcs_containerEdits = Some (vfio_GetCommonEdits (en_cdi en) (ShouldEnableAPIDevice i) (ShouldPreferIommuFD i))\<rparr>))"

definition applyConfig ::
  "'h gpu_env \<Rightarrow> RuntimeObject \<Rightarrow> string \<Rightarrow> DeviceRequestAllocationResult list \<Rightarrow> ('h gpu_state, DeviceConfigState) gost" where
  "applyConfig en config claimUID results = (case config of
     GpuConfigObj c \<Rightarrow> applySharingConfig en (GpuSh (gc_Sharing c)) claimUID results
   | MigDeviceConfigObj c \<Rightarrow> applySharingConfig en (MigSh (mc_Sharing c)) claimUID results
   | VfioDeviceConfigObj c \<Rightarrow> applyVfioDeviceConfig en c results
   | _ \<Rightarrow> err_st (Errorf ''unknown config type''))"

section \<open>Preparing devices\<close>

text \<open>Whether a configuration may be applied to a device: the three type assertions.\<close>

definition applicable :: "AllocatableDevice \<Rightarrow> RuntimeObject \<Rightarrow> bool" where
  "applicable d config = (case config of
     GpuConfigObj _ \<Rightarrow> ad_Type d = GpuDeviceType
   | MigDeviceConfigObj _ \<Rightarrow> IsStaticOrDynMigDevice d
   | VfioDeviceConfigObj _ \<Rightarrow> ad_Type d = VfioDeviceType
   | _ \<Rightarrow> True)"

definition with_defaults :: "gates \<Rightarrow> OpaqueDeviceConfig list \<Rightarrow> OpaqueDeviceConfig list" where
  "with_defaults g configs =
     (if g PassthroughSupport then
        (case DefaultVfioDeviceConfig g of
           None \<Rightarrow> [] | Some c \<Rightarrow> [\<lparr>odc_Requests = [], odc_Config = VfioDeviceConfigObj c\<rparr>])
      else []) @
     \<lparr>odc_Requests = [], odc_Config = MigDeviceConfigObj (DefaultMigDeviceConfig g)\<rparr> #
     \<lparr>odc_Requests = [], odc_Config = GpuConfigObj (DefaultGpuConfig g)\<rparr> # configs"

definition normalize_and_validate :: "gates \<Rightarrow> RuntimeObject \<Rightarrow> RuntimeObject go" where
  "normalize_and_validate g config =
     (case config of
           GpuConfigObj c \<Rightarrow> bind_go (wrap_go (Wrapf ''error normalizing GPU config'') (GpuConfig_Normalize g c)) (\<lambda>c.
             bind_go (wrap_go (Wrapf ''error validating GPU config'') (GpuConfig_Validate g c)) (\<lambda>_. Ok (GpuConfigObj c)))
         | MigDeviceConfigObj c \<Rightarrow> bind_go (wrap_go (Wrapf ''error normalizing GPU config'') (MigDeviceConfig_Normalize g c)) (\<lambda>c.
             bind_go (wrap_go (Wrapf ''error validating GPU config'') (MigDeviceConfig_Validate g c)) (\<lambda>_. Ok (MigDeviceConfigObj c)))
         | VfioDeviceConfigObj c \<Rightarrow> bind_go (wrap_go (Wrapf ''error normalizing GPU config'') (VfioDeviceConfig_Normalize c)) (\<lambda>c.
             bind_go (wrap_go (Wrapf ''error validating GPU config'') (VfioDeviceConfig_Validate c)) (\<lambda>_. Ok (VfioDeviceConfigObj c)))
         | _ \<Rightarrow> Err (Errorf ''runtime object is not a recognized configuration''))"

text \<open>The first loop over the map of configurations.\<close>

fun apply_configs ::
  "'h gpu_env \<Rightarrow> string \<Rightarrow> OpaqueDeviceConfig list \<Rightarrow> config_map \<Rightarrow> ('h gpu_state, (nat, DeviceConfigState) gomap) gost" where
  "apply_configs en claimUID configs [] = ret_st []"
| "apply_configs en claimUID configs ((i, results) # rest) =
     bind_st (lift_st (normalize_and_validate (en_gates en) (odc_Config (configs ! i)))) (\<lambda>config.
     bind_st (wrap_st (Wrapf ''error applying config'') (applyConfig en config claimUID results)) (\<lambda>cs.
     bind_st (apply_configs en claimUID configs rest) (\<lambda>states.
       ret_st ((i, cs) # states))))"

text \<open>The second loop: one prepared device per allocation result.\<close>

definition kubelet_device :: "'h gpu_env \<Rightarrow> string \<Rightarrow> AllocatableDevice \<Rightarrow> DeviceRequestAllocationResult \<Rightarrow> kubelet_Device" where
  "kubelet_device en cdiName d r =
     \<lparr>kd_Requests = [dr_Request r], kd_PoolName = dr_Pool r, kd_DeviceName = dr_Device r,
      kd_CDIDeviceIDs = (if cdiName \<noteq> '''' then [cdiName] else []),
      kd_Metadata = (if en_gates en DeviceMetadata \<and> ad_Type d = VfioDeviceType
                     then map_option Vfio_Attributes (ad_Vfio d) else None)\<rparr>"

definition no_device :: PreparedDevice where
  "no_device = \<lparr>pd_Gpu = None, pd_Mig = None, pd_Vfio = None\<rparr>"

definition prepare_result ::
  "'h gpu_env \<Rightarrow> string \<Rightarrow> DeviceRequestAllocationResult \<Rightarrow> ('h gpu_state, PreparedDevice) gost" where
  "prepare_result en claimUID r =
     bind_st (gets gst_allocatable) (\<lambda>m.
       case GetAllocatableDevice m (dr_Device r) of
         None \<Rightarrow> err_st (Errorf ''allocatable not found for device'')
       | Some d \<Rightarrow>
           bind_st (lift_st (gpu_GetClaimDeviceName claimUID d)) (\<lambda>cdiName.
             let device = kubelet_device en cdiName d r
             in case ad_Gpu d of
                  Some g \<Rightarrow> ret_st (no_device\<lparr>pd_Gpu := Some \<lparr>pg_UUID = gi_UUID g, pg_Device = device\<rparr>\<rparr>)
                | None \<Rightarrow> (case ad_MigDynamic d of
                  Some spec \<Rightarrow>
                    bind_st (wrap_st (Wrapf ''error creating MIG device'') (on_hw (hw_createMigDevice (en_hw en) spec))) (\<lambda>mig.
                      ret_st (no_device\<lparr>pd_Mig := Some \<lparr>pm_Concrete = LiveTuple mig, pm_Device = device\<rparr>\<rparr>))
                | None \<Rightarrow> (case ad_MigStatic d of
                  Some mig \<Rightarrow> ret_st (no_device\<lparr>pd_Mig := Some \<lparr>pm_Concrete = LiveTuple mig, pm_Device = device\<rparr>\<rparr>)
                | None \<Rightarrow> (case ad_Vfio d of
                  Some v \<Rightarrow> ret_st (no_device\<lparr>pd_Vfio := Some \<lparr>pv_UUID = vi_UUID v, pv_PciBusID = vi_PciBusID v, pv_Device = device\<rparr>\<rparr>)
                | None \<Rightarrow> ret_st no_device)))))"

fun prepare_results ::
  "'h gpu_env \<Rightarrow> string \<Rightarrow> DeviceRequestAllocationResult list \<Rightarrow> ('h gpu_state, PreparedDevice list) gost" where
  "prepare_results en claimUID [] = ret_st []"
| "prepare_results en claimUID (r # rs) =
     bind_st (prepare_result en claimUID r) (\<lambda>d.
     bind_st (prepare_results en claimUID rs) (\<lambda>ds. ret_st (d # ds)))"

fun prepare_groups ::
  "'h gpu_env \<Rightarrow> string \<Rightarrow> (nat, DeviceConfigState) gomap \<Rightarrow> config_map \<Rightarrow> ('h gpu_state, gpu_PreparedDevices) gost" where
  "prepare_groups en claimUID states [] = ret_st []"
| "prepare_groups en claimUID states ((i, results) # rest) = (case map_of states i of
     None \<Rightarrow> lift_st (Panic ''nil DeviceConfigState'')
   | Some cs \<Rightarrow>
       bind_st (prepare_results en claimUID results) (\<lambda>ds.
       bind_st (prepare_groups en claimUID states rest) (\<lambda>gs.
         ret_st (\<lparr>gr_Devices = ds, gr_ConfigState = cs\<rparr> # gs))))"

definition gpu_prepareDevices :: "'h gpu_env \<Rightarrow> ResourceClaim \<Rightarrow> ('h gpu_state, gpu_PreparedDevices) gost" where
  "gpu_prepareDevices en claim = (case rc_Allocation claim of
     None \<Rightarrow> err_st (Errorf ''claim not yet allocated'')
   | Some al \<Rightarrow>
       bind_st (lift_st (wrap_go (\<lambda>_. Errorf ''error getting opaque device configs'')
           (gpu_GetOpaqueDeviceConfigs (en_decode en) gpu_DriverName (al_Config al)))) (\<lambda>opaque.
         let configs = with_defaults (en_gates en) opaque
         in bind_st (gets gst_allocatable) (\<lambda>m.
            bind_st (lift_st (config_results (\<lambda>n. map_option applicable (GetAllocatableDevice m n)) gpu_DriverName configs
                 (al_Results al) [])) (\<lambda>crm.
            bind_st (apply_configs en (rc_UID claim) configs (en_order1 en crm)) (\<lambda>states.
              prepare_groups en (rc_UID claim) states (en_order2 en crm))))))"

definition remove_siblings_of :: "kubelet_Device \<Rightarrow> ('h gpu_state, unit) gost" where
  "remove_siblings_of kd s = (case GetAllocatableDevice (gst_allocatable s) (kd_DeviceName kd) of
     None \<Rightarrow> (Ok (), s)
   | Some d \<Rightarrow> (Ok (), s\<lparr>gst_allocatable := RemoveSiblingDevices d (gst_allocatable s)\<rparr>))"

text \<open>The entries that \<open>Prepare\<close> writes.\<close>

definition started_entry :: "ResourceClaim \<Rightarrow> gpu_PreparedDevices PreparedClaimV2" where
  "started_entry claim = \<lparr>pc_CheckpointState = ClaimCheckpointStatePrepareStarted, pc_Allocation = rc_Allocation claim,
     pc_PreparedDevices = [], pc_Name = rc_Name claim, pc_Namespace = rc_Namespace claim\<rparr>"

definition completed_entry :: "ResourceClaim \<Rightarrow> gpu_PreparedDevices \<Rightarrow> gpu_PreparedDevices PreparedClaimV2" where
  "completed_entry claim devices = \<lparr>pc_CheckpointState = ClaimCheckpointStatePrepareCompleted, pc_Allocation = rc_Allocation claim,
     pc_PreparedDevices = serialised devices, pc_Name = '''', pc_Namespace = ''''\<rparr>"

definition rollback_prior ::
  "'h gpu_env \<Rightarrow> gpu_claims \<Rightarrow> gpu_PreparedDevices PreparedClaimV2 option \<Rightarrow> ('h gpu_state, unit) gost" where
  "rollback_prior en cp prior = (case prior of
     Some pc \<Rightarrow>
       if pc_CheckpointState pc = ClaimCheckpointStatePrepareStarted then
         wrap_st (Wrapf ''unprepare failed for partially prepared claim'') (unpreparePartiallyPrepairedClaim en pc cp)
       else ret_st ()
   | None \<Rightarrow> ret_st ())"

definition commit_prepared ::
  "'h gpu_env \<Rightarrow> ResourceClaim \<Rightarrow> gpu_PreparedDevices \<Rightarrow> ('h gpu_state, kubelet_Device list) gost" where
  "commit_prepared en claim preparedDevices =
     bind_st (if en_gates en PassthroughSupport then each remove_siblings_of (gpu_GetDevices preparedDevices) else ret_st ()) (\<lambda>_.
     bind_st (wrap_st (Wrapf ''unable to create CDI spec file for claim'')
         (on_cdi (gpu_CreateClaimSpecFile (en_cdi en) (rc_UID claim) preparedDevices))) (\<lambda>_.
     bind_st (wrap_st (Wrapf ''unable to update checkpoint'')
         (updateCheckpoint (en_update2 en) (AList.update (rc_UID claim) (completed_entry claim preparedDevices)))) (\<lambda>_.
       ret_st (gpu_GetDevices preparedDevices))))"

definition prepare_fresh ::
  "'h gpu_env \<Rightarrow> ResourceClaim \<Rightarrow> gpu_claims \<Rightarrow> gpu_PreparedDevices PreparedClaimV2 option \<Rightarrow>
   ('h gpu_state, kubelet_Device list) gost" where
  "prepare_fresh en claim cp prior =
     bind_st (lift_st (wrap_go (Wrapf ''unable to prepare claim'') (validateNoOverlappingPreparedDevices gpu_DriverName cp claim))) (\<lambda>_.
     bind_st (rollback_prior en cp prior) (\<lambda>_.
     bind_st (wrap_st (Wrapf ''unable to update checkpoint'')
         (updateCheckpoint (en_update1 en) (AList.update (rc_UID claim) (started_entry claim)))) (\<lambda>_.
     bind_st (wrap_st (Wrapf ''prepare devices failed'') (gpu_prepareDevices en claim)) (\<lambda>preparedDevices.
       commit_prepared en claim preparedDevices))))"

definition gpu_Prepare :: "'h gpu_env \<Rightarrow> ResourceClaim \<Rightarrow> ('h gpu_state, kubelet_Device list) gost" where
  "gpu_Prepare en claim =
     bind_st (wrap_st (\<lambda>_. Errorf ''unable to get checkpoint'') (getCheckpoint (en_get en))) (\<lambda>cp.
       let prior = map_of cp (rc_UID claim)
       in case prior of
            Some pc \<Rightarrow>
              if pc_CheckpointState pc = ClaimCheckpointStatePrepareCompleted
              then ret_st (gpu_GetDevices (pc_PreparedDevices pc))
              else prepare_fresh en claim cp prior
          | None \<Rightarrow> prepare_fresh en claim cp prior)"

section \<open>Unpreparing devices\<close>

definition unconfigure_vfio :: "'h gpu_env \<Rightarrow> PreparedDevice \<Rightarrow> ('h gpu_state, unit) gost" where
  "unconfigure_vfio en d = (case pd_Vfio d of
     None \<Rightarrow> lift_st (Panic ''nil PreparedVfioDevice'')
   | Some pv \<Rightarrow>
       bind_st (gets gst_allocatable) (\<lambda>m.
         case GetAllocatableDevice m (kd_DeviceName (pv_Device pv)) of
           None \<Rightarrow> err_st (Errorf ''allocatable not found for vfio device'')
         | Some a \<Rightarrow> (case ad_Vfio a of
             None \<Rightarrow> lift_st (Panic ''nil VfioDeviceInfo'')
           | Some v \<Rightarrow> wrap_st (Wrapf ''error unconfiguring vfio device'') (on_hw (hw_vfioUnconfigure (en_hw en) v)))))"

definition unprepareVfioDevices :: "'h gpu_env \<Rightarrow> PreparedDevice list \<Rightarrow> ('h gpu_state, unit) gost" where
  "unprepareVfioDevices en devices = each (unconfigure_vfio en) devices"

definition unprepare_device :: "'h gpu_env \<Rightarrow> PreparedDevice \<Rightarrow> ('h gpu_state, unit) gost" where
  "unprepare_device en d =
     (case (pd_Gpu d, pd_Mig d) of
        (None, Some m) \<Rightarrow>
          if en_gates en DynamicMIG then
            wrap_st (Wrapf ''error deleting MIG device'') (on_hw (hw_deleteMigDevice (en_hw en) (pm_Concrete m)))
          else ret_st ()
      | _ \<Rightarrow> ret_st ())"

definition unprepare_group :: "'h gpu_env \<Rightarrow> string \<Rightarrow> PreparedDeviceGroup \<Rightarrow> ('h gpu_state, unit) gost" where
  "unprepare_group en claimUID g =
     bind_st (if en_gates en PassthroughSupport
              then wrap_st (Wrapf ''error unpreparing VFIO devices'') (unprepareVfioDevices en (VfioDevices (gr_Devices g)))
              else ret_st ()) (\<lambda>_.
     bind_st (each (unprepare_device en) (gr_Devices g)) (\<lambda>_.
     bind_st (if en_gates en MPSSupport
              then wrap_st (Wrapf ''error stopping MPS control daemon'')
                (on_hw (hw_mpsStop (en_hw en) (GetMpsControlDaemonID (en_sha256hex en) claimUID (list_UUIDs (gr_Devices g)))))
              else ret_st ()) (\<lambda>_.
       if en_gates en TimeSlicingSettings then
         wrap_st (Wrapf ''error setting timeslice for devices'')
           (on_hw (SetTimeSlice (en_hw en) (list_GpuUUIDs (gr_Devices g)) default_TimeSlicingConfig))
       else ret_st ())))"

text \<open>\<open>unprepareDevices\<close> first logs the names of all devices, which panics for one without a type.\<close>

definition unprepareDevices :: "'h gpu_env \<Rightarrow> string \<Rightarrow> gpu_PreparedDevices \<Rightarrow> ('h gpu_state, unit) gost" where
  "unprepareDevices en claimUID devices =
     (if \<exists>g \<in> set devices. \<exists>d \<in> set (gr_Devices g). pd_Device d = None
      then lift_st (Panic ''unexpected type for AllocatableDevice'')
      else each (unprepare_group en claimUID) devices)"

text \<open>\<open>device.Vfio.parent = gpu.Gpu\<close> through the pointer that the lookup of \<open>name\<close> returned.\<close>

fun set_vfio_parent :: "string \<Rightarrow> GpuInfo option \<Rightarrow> PerGPUAllocatableDevices \<Rightarrow> PerGPUAllocatableDevices" where
  "set_vfio_parent name g [] = []"
| "set_vfio_parent name g ((pci, ds) # m) = (case map_of ds name of
     Some d \<Rightarrow> (pci, AList.update name (d\<lparr>ad_Vfio := map_option (\<lambda>v. v\<lparr>vi_parent := g\<rparr>) (ad_Vfio d)\<rparr>) ds) # m
   | None \<Rightarrow> (pci, ds) # set_vfio_parent name g m)"

definition discoverSiblingAllocatables :: "'h gpu_env \<Rightarrow> string \<Rightarrow> AllocatableDevice \<Rightarrow> ('h gpu_state, unit) gost" where
  "discoverSiblingAllocatables en name device =
     (case ad_Gpu device of
        Some g \<Rightarrow>
          if \<not> gi_vfioEnabled g then ret_st ()
          else bind_st (wrap_st (Wrapf ''error discovering vfio device'') (on_hw (hw_discoverVfioDevice (en_hw en) g))) (\<lambda>v.
            wrap_st (Wrapf ''error adding allocatable device'') (on_allocatable (AddAllocatableDevice v)))
      | None \<Rightarrow>
          (if ad_Type device = VfioDeviceType then
             (case ad_Vfio device of
                None \<Rightarrow> ret_st ()
              | Some v \<Rightarrow>
                  bind_st (wrap_st (Wrapf ''error discovering gpu by pci bus id'')
                      (on_hw (hw_discoverGPUByPCIBusID (en_hw en) (vi_PciBusID v)))) (\<lambda>gpu.
                  bind_st (wrap_st (Wrapf ''error adding allocatable device'') (on_allocatable (AddAllocatableDevice gpu))) (\<lambda>_.
                    on_allocatable (\<lambda>m. Ok (set_vfio_parent name (case gpu of None \<Rightarrow> None | Some a \<Rightarrow> ad_Gpu a) m)))))
           else ret_st ()))"

definition rediscover_siblings :: "'h gpu_env \<Rightarrow> kubelet_Device \<Rightarrow> ('h gpu_state, unit) gost" where
  "rediscover_siblings en kd =
     bind_st (gets gst_allocatable) (\<lambda>m.
       case GetAllocatableDevice m (kd_DeviceName kd) of
         None \<Rightarrow> ret_st ()
       | Some d \<Rightarrow> wrap_st (Wrapf ''error discovering sibling allocatables'') (discoverSiblingAllocatables en (kd_DeviceName kd) d))"

text \<open>An error of the removal of the spec file is logged only.\<close>

definition delete_spec_file :: "'h gpu_env \<Rightarrow> string \<Rightarrow> ('h gpu_state, unit) gost" where
  "delete_spec_file en uid s = (case on_cdi (gpu_DeleteClaimSpecFile (en_cdi en) uid) s of
     (Panic p, s') \<Rightarrow> (Panic p, s') | (_, s') \<Rightarrow> (Ok (), s'))"

definition unprepare_claim ::
  "'h gpu_env \<Rightarrow> string \<Rightarrow> gpu_claims \<Rightarrow> gpu_PreparedDevices PreparedClaimV2 \<Rightarrow> ('h gpu_state, unit) gost" where
  "unprepare_claim en uid cp pc =
     (if pc_CheckpointState pc = ClaimCheckpointStatePrepareStarted then
        wrap_st (Wrapf ''unprepare failed for partially prepared claim'') (unpreparePartiallyPrepairedClaim en pc cp)
      else if pc_CheckpointState pc = ClaimCheckpointStatePrepareCompleted then
        wrap_st (Wrapf ''unprepare devices failed'') (unprepareDevices en uid (pc_PreparedDevices pc))
      else err_st (Errorf ''unsupported ClaimCheckpointState''))"

definition gpu_Unprepare :: "'h gpu_env \<Rightarrow> NamespacedObject \<Rightarrow> ('h gpu_state, unit) gost" where
  "gpu_Unprepare en ref =
     bind_st (wrap_st (\<lambda>_. Errorf ''unable to get checkpoint'') (getCheckpoint (en_get en))) (\<lambda>cp.
       case map_of cp (no_UID ref) of
         None \<Rightarrow> ret_st ()
       | Some pc \<Rightarrow>
           bind_st (unprepare_claim en (no_UID ref) cp pc) (\<lambda>_.
           bind_st (if en_gates en PassthroughSupport
                    then each (rediscover_siblings en) (gpu_GetDevices (pc_PreparedDevices pc)) else ret_st ()) (\<lambda>_.
           bind_st (delete_spec_file en (no_UID ref)) (\<lambda>_.
             wrap_st (Wrapf ''error deleting claim from checkpoint'') (deleteClaimFromCheckpoint (en_update1 en) (no_UID ref))))))"

section \<open>Unknown MIG devices\<close>

fun expected_device_names :: "gpu_claims \<Rightarrow> string list go" where
  "expected_device_names [] = Ok []"
| "expected_device_names ((uid, c) # rest) = (case pc_Allocation c of
     None \<Rightarrow> Panic ''nil Allocation''
   | Some al \<Rightarrow> bind_go (expected_device_names rest) (\<lambda>names. Ok (map dr_Device (al_Results al) @ names)))"

text \<open>Best effort: errors are logged.\<close>

definition DestroyUnknownMIGDevices :: "'h gpu_env \<Rightarrow> 'h gpu_state \<Rightarrow> unit go \<times> 'h gpu_state" where
  "DestroyUnknownMIGDevices en s = (case getCheckpoint (en_get en) s of
     (Ok cp, s) \<Rightarrow>
       (case expected_device_names (filter (\<lambda>(uid, c). completed c) cp) of
          Ok names \<Rightarrow>
            (case on_hw (hw_obliterateStaleMIGDevices (en_hw en) names) s of
               (Panic p, s') \<Rightarrow> (Panic p, s') | (_, s') \<Rightarrow> (Ok (), s'))
        | Panic p \<Rightarrow> (Panic p, s)
        | Err e \<Rightarrow> (Err e, s))
   | (_, s) \<Rightarrow> (Ok (), s))"

section \<open>Frames\<close>

text \<open>
  What the parts of an operation leave alone. A predicate on the state that no change of the hardware can
  falsify (\<open>hw_frame\<close>) is kept by everything that prepares or unprepares devices; one that also
  survives the changes to the CDI files and to the allocatable devices (\<open>device_frame\<close>) is kept by all steps
  but the writes of the checkpoint.
\<close>

lemma snd_delete_spec_file: "snd (delete_spec_file en uid s) = snd (on_cdi (gpu_DeleteClaimSpecFile (en_cdi en) uid) s)"
  by (auto simp: delete_spec_file_def split: prod.splits go.splits)

locale hw_frame =
  fixes P :: "'h gpu_state \<Rightarrow> bool"
  assumes hw: "P s \<Longrightarrow> P (s\<lparr>gst_hw := h\<rparr>)"
begin

lemma keeps_on_hw: "keeps P (on_hw m)"
  by (auto simp: keeps_def on_hw_def split: prod.splits intro: hw)

lemma keeps_rollback: "keeps P (unpreparePartiallyPrepairedClaim en pc claims)"
proof -
  have "keeps P (deleteMigDevIfExistsAndNotUsedByCompletedClaim hw' ms dname cs)" for hw' ms dname cs
    by (auto simp: deleteMigDevIfExistsAndNotUsedByCompletedClaim_def split: option.split intro!: keeps_rules keeps_on_hw)
  then have "keeps P (rollback_device hw' cs r)" for hw' cs r
    by (auto simp: rollback_device_def split: go.split intro!: keeps_rules)
  then show ?thesis
    by (auto simp: unpreparePartiallyPrepairedClaim_def split: option.split intro!: keeps_rules)
qed

lemma keeps_applyConfig: "keeps P (applyConfig en config uid results)"
proof -
  have ts: "keeps P (apply_time_slicing en c devs)" for c devs
    by (auto simp: apply_time_slicing_def split: option.split intro!: keeps_rules keeps_on_hw)
  have mps: "keeps P (apply_mps en c uid devs)" for c devs
    by (auto simp: apply_mps_def Let_def intro!: keeps_rules keeps_on_hw)
  have sharing: "keeps P (applySharingConfig en c uid results)" for c
    by (auto simp: applySharingConfig_def intro!: keeps_rules ts mps)
  have "keeps P (configure_vfio en r)" for r
    by (auto simp: configure_vfio_def split: option.split intro!: keeps_rules keeps_on_hw)
  then have "keeps P (applyVfioDeviceConfig en c results)" for c
    by (auto simp: applyVfioDeviceConfig_def split: option.split intro!: keeps_rules)
  with sharing show ?thesis
    by (auto simp: applyConfig_def split: RuntimeObject.split)
qed

lemma keeps_prepareDevices: "keeps P (gpu_prepareDevices en claim)"
proof -
  have configs: "keeps P (apply_configs en uid configs crm)" for uid configs crm
    by (induction crm) (auto split: prod.splits intro!: keeps_rules keeps_applyConfig)
  have "keeps P (prepare_result en uid r)" for uid r
    by (auto simp: prepare_result_def Let_def split: option.split intro!: keeps_rules keeps_on_hw)
  then have "keeps P (prepare_results en uid rs)" for uid rs
    by (induction rs) (auto intro!: keeps_rules)
  then have "keeps P (prepare_groups en uid states crm)" for uid states crm
    by (induction crm) (auto split: prod.splits option.split intro!: keeps_rules)
  with configs show ?thesis
    by (auto simp: gpu_prepareDevices_def Let_def split: option.split intro!: keeps_rules)
qed

lemma keeps_unprepareDevices: "keeps P (unprepareDevices en uid devices)"
proof -
  have "keeps P (unconfigure_vfio en d)" for d
    by (auto simp: unconfigure_vfio_def split: option.split intro!: keeps_rules keeps_on_hw)
  then have vfio: "keeps P (unprepareVfioDevices en ds)" for ds
    by (auto simp: unprepareVfioDevices_def intro!: keeps_rules)
  have dev: "keeps P (unprepare_device en d)" for d
    by (auto simp: unprepare_device_def split: option.split intro!: keeps_rules keeps_on_hw)
  have "keeps P (unprepare_group en uid g)" for g
    by (auto simp: unprepare_group_def intro!: keeps_rules keeps_on_hw vfio dev)
  then show ?thesis
    by (auto simp: unprepareDevices_def intro!: keeps_rules)
qed

lemma keeps_unprepare_claim: "keeps P (unprepare_claim en uid cp pc)"
  by (auto simp: unprepare_claim_def intro!: keeps_rules keeps_rollback keeps_unprepareDevices)

lemma keeps_rollback_prior: "keeps P (rollback_prior en cp prior)"
  by (auto simp: rollback_prior_def split: option.split intro!: keeps_rules keeps_rollback)

end

locale device_frame = hw_frame P for P :: "'h gpu_state \<Rightarrow> bool" +
  assumes cdi: "P s \<Longrightarrow> P (s\<lparr>gst_cdi := f\<rparr>)"
    and removed: "P s \<Longrightarrow> P (s\<lparr>gst_allocatable := RemoveSiblingDevices d (gst_allocatable s)\<rparr>)"
    and added: "P s \<Longrightarrow> AddAllocatableDevice a (gst_allocatable s) = Ok m \<Longrightarrow> P (s\<lparr>gst_allocatable := m\<rparr>)"
    and parent: "P s \<Longrightarrow> P (s\<lparr>gst_allocatable := set_vfio_parent name g (gst_allocatable s)\<rparr>)"
begin

lemma keeps_on_cdi: "keeps P (on_cdi m)"
  by (auto simp: keeps_def on_cdi_def split: prod.splits intro: cdi)

lemma keeps_delete_spec_file: "keeps P (delete_spec_file en uid)"
  using keeps_on_cdi [of "gpu_DeleteClaimSpecFile (en_cdi en) uid"] by (simp add: keeps_def snd_delete_spec_file)

lemma keeps_remove_siblings_of: "keeps P (remove_siblings_of kd)"
  by (auto simp: keeps_def remove_siblings_of_def split: option.splits intro: removed)

lemma keeps_rediscover: "keeps P (rediscover_siblings en kd)"
proof -
  have add: "keeps P (on_allocatable (AddAllocatableDevice a))" for a
    by (auto simp: keeps_def on_allocatable_def split: go.splits intro: added)
  have par: "keeps P (on_allocatable (\<lambda>m. Ok (set_vfio_parent name g m)))" for name g
    by (auto simp: keeps_def on_allocatable_def intro: parent)
  have "keeps P (discoverSiblingAllocatables en name d)" for name d
    by (auto simp: discoverSiblingAllocatables_def split: option.split intro!: keeps_rules keeps_on_hw add par)
  then show ?thesis
    by (auto simp: rediscover_siblings_def split: option.split intro!: keeps_rules)
qed

end

interpretation claims_kept: device_frame "\<lambda>s. gst_claims s = cs" for cs
  by unfold_locales simp_all

lemma CanonicalName_parent [simp]:
  "ad_CanonicalName (d\<lparr>ad_Vfio := map_option (\<lambda>v. v\<lparr>vi_parent := g\<rparr>) (ad_Vfio d)\<rparr>) = ad_CanonicalName d"
  by (auto simp: ad_CanonicalName_def by_type_def split: option.splits)

lemma keys_set_vfio_parent [simp]: "map fst (set_vfio_parent name g m) = map fst m"
  by (induction m rule: set_vfio_parent.induct) (auto split: option.splits)

lemma set_vfio_parent_devices:
  "\<forall>(pci, ds) \<in> set m. well_named_devices ds \<Longrightarrow> \<forall>(pci, ds) \<in> set (set_vfio_parent name g m). well_named_devices ds"
proof (induction m rule: set_vfio_parent.induct)
  case (2 name g pci ds m)
  show ?case
  proof (cases "map_of ds name")
    case None
    with 2 show ?thesis by auto
  next
    case (Some d)
    then have "(name, d) \<in> set ds" by (rule map_of_SomeD)
    let ?d = "d\<lparr>ad_Vfio := map_option (\<lambda>v. v\<lparr>vi_parent := g\<rparr>) (ad_Vfio d)\<rparr>"
    have "well_named_devices (AList.update name ?d ds)"
    proof -
      have ds: "well_named_devices ds" using 2(2) by simp
      have "ad_CanonicalName b = Ok k" if "(k, b) \<in> set (AList.update name ?d ds)" for k b
      proof -
        from that set_update_subset [of name ?d ds] have "(k, b) = (name, ?d) \<or> (k, b) \<in> set ds" by blast
        then show ?thesis using ds \<open>(name, d) \<in> set ds\<close> by (auto simp: well_named_devices_def)
      qed
      with ds show ?thesis by (auto simp: well_named_devices_def)
    qed
    with 2(2) Some show ?thesis by auto
  qed
qed simp

lemma set_vfio_parent_well_named: "well_named m \<Longrightarrow> well_named (set_vfio_parent name g m)"
  unfolding well_named_def using set_vfio_parent_devices [of m name g] by simp

interpretation names_kept: device_frame "\<lambda>s. well_named (gst_allocatable s)"
  by unfold_locales (simp_all add: RemoveSiblingDevices_well_named AddAllocatableDevice_well_named set_vfio_parent_well_named)

text \<open>The frame facts in the form the proofs below use: a part that keeps the claims ends with the claims it
  started from.\<close>

lemma claims_eq: "keeps (\<lambda>s. gst_claims s = gst_claims s0) m \<Longrightarrow> m s0 = (r, s') \<Longrightarrow> gst_claims s' = gst_claims s0"
  using keepsD [of "\<lambda>s. gst_claims s = gst_claims s0" m s0] by simp

lemma names_eq: "keeps (\<lambda>s. well_named (gst_allocatable s)) m \<Longrightarrow> m s0 = (r, s') \<Longrightarrow> well_named (gst_allocatable s0) \<Longrightarrow>
    well_named (gst_allocatable s')"
  using keepsD [of "\<lambda>s. well_named (gst_allocatable s)" m s0] by simp

lemma updateCheckpoint_result:
  "updateCheckpoint fail f s = (if fail = None then (Ok (), s\<lparr>gst_claims := f (gst_claims s)\<rparr>) else (Err (the fail), s))"
  by (cases fail) (simp_all add: updateCheckpoint_def)

lemma updateCheckpoint_cases:
  assumes "updateCheckpoint fail f s = (r, s')"
  obtains (written) "r = Ok ()" and "s' = s\<lparr>gst_claims := f (gst_claims s)\<rparr>"
  | (failed) "\<not> is_ok r" and "s' = s"
proof (cases fail)
  case None
  with assms show ?thesis by (intro written) (simp_all add: updateCheckpoint_result)
next
  case (Some e)
  with assms show ?thesis by (intro failed) (auto simp: updateCheckpoint_result)
qed

lemma getCheckpoint_result:
  "getCheckpoint fail s = (if fail = None then (Ok (gst_claims s), s) else (Err (the fail), s))"
  by (cases fail) (simp_all add: getCheckpoint_def gets_def go_simps)

section \<open>What the operations do to the checkpoint\<close>

lemma gpu_GetDevices_serialised [simp]: "gpu_GetDevices (serialised d) = gpu_GetDevices d"
  by (simp add: gpu_GetDevices_def serialised_def comp_def)

text \<open>A successful last phase of \<open>Prepare\<close> records the claim as completed; a failed one leaves the claims alone.\<close>

lemma commit_prepared_claims:
  assumes "commit_prepared en claim devs s = (r, s')"
  shows "(r = Ok (gpu_GetDevices devs) \<and>
      gst_claims s' = AList.update (rc_UID claim) (completed_entry claim devs) (gst_claims s)) \<or>
    (\<not> is_ok r \<and> gst_claims s' = gst_claims s)"
proof -
  let ?m1 = "if en_gates en PassthroughSupport then each remove_siblings_of (gpu_GetDevices devs) else ret_st ()"
  let ?m2 = "wrap_st (Wrapf ''unable to create CDI spec file for claim'')
    (on_cdi (gpu_CreateClaimSpecFile (en_cdi en) (rc_UID claim) devs))"
  have k1: "keeps (\<lambda>t. gst_claims t = gst_claims s) ?m1"
    by (auto intro!: keeps_each claims_kept.keeps_remove_siblings_of)
  have k2: "keeps (\<lambda>u. gst_claims u = gst_claims t) ?m2" for t
    by (auto intro!: keeps_wrap claims_kept.keeps_on_cdi)
  from assms [unfolded commit_prepared_def] show ?thesis
  proof (cases rule: bind_cases)
    case (ok a t)
    from claims_eq [OF k1 ok(1)] have t: "gst_claims t = gst_claims s" .
    from ok(2) show ?thesis
    proof (cases rule: bind_cases)
      case (ok b u)
      from claims_eq [OF k2 ok(1)] t have u: "gst_claims u = gst_claims s" by simp
      from ok(2) u show ?thesis
        by (auto simp: bind_st_def wrap_st_def go_simps updateCheckpoint_def split: option.splits)
    next
      case (fail r0)
      with claims_eq [OF k2 fail(1)] t show ?thesis by simp
    qed
  next
    case (fail r0)
    with claims_eq [OF k1 fail(1)] show ?thesis by simp
  qed
qed

text \<open>The three ways in which a preparation that is not yet complete can end.\<close>

lemma prepare_fresh_claims:
  assumes "prepare_fresh en claim (gst_claims s) prior s = (r, s')"
  shows "(\<not> is_ok r \<and> gst_claims s' = gst_claims s) \<or>
    validateNoOverlappingPreparedDevices gpu_DriverName (gst_claims s) claim = Ok () \<and>
    ((\<not> is_ok r \<and> gst_claims s' = AList.update (rc_UID claim) (started_entry claim) (gst_claims s)) \<or>
     (\<exists>devs. r = Ok (gpu_GetDevices devs) \<and>
        gst_claims s' = AList.update (rc_UID claim) (completed_entry claim devs)
          (AList.update (rc_UID claim) (started_entry claim) (gst_claims s))))"
  using assms unfolding prepare_fresh_def
proof (cases rule: bind_cases)
  case (fail r0)
  then show ?thesis by (auto simp: go_simps)
next
  case (ok a t)
  then have v: "validateNoOverlappingPreparedDevices gpu_DriverName (gst_claims s) claim = Ok ()" and [simp]: "t = s"
    by (auto simp: go_simps)
  from ok(2) show ?thesis
  proof (cases rule: bind_cases)
    case (fail r0)
    with claims_eq [OF claims_kept.keeps_rollback_prior fail(1)] show ?thesis by simp
  next
    case (ok b t1)
    from claims_eq [OF claims_kept.keeps_rollback_prior ok(1)] have t1: "gst_claims t1 = gst_claims s" by simp
    from ok(2) show ?thesis
    proof (cases rule: bind_cases)
      case (fail r0)
      then show ?thesis using t1 by (elim wrap_cases updateCheckpoint_cases) auto
    next
      case (ok c u)
      then have u: "gst_claims u = AList.update (rc_UID claim) (started_entry claim) (gst_claims s)"
        using t1 by (elim wrap_cases updateCheckpoint_cases) auto
      from ok(2) show ?thesis
      proof (cases rule: bind_cases)
        case (fail r0)
        from claims_eq [OF keeps_wrap [OF claims_kept.keeps_prepareDevices] fail(1)] fail(3) u v show ?thesis by simp
      next
        case (ok devs w)
        from claims_eq [OF keeps_wrap [OF claims_kept.keeps_prepareDevices] ok(1)] have w: "gst_claims w = gst_claims u" .
        from commit_prepared_claims [OF ok(2)] w u v show ?thesis by auto
      qed
    qed
  qed
qed

lemma bind_getCheckpoint:
  "bind_st (wrap_st w (getCheckpoint fail)) f s = (if fail = None then f (gst_claims s) s else (Err (w (the fail)), s))"
  by (simp add: bind_st_def wrap_st_def getCheckpoint_result)

lemma gpu_Prepare_eq:
  "gpu_Prepare en claim s =
     (if en_get en \<noteq> None then (Err (Errorf ''unable to get checkpoint''), s)
      else case map_of (gst_claims s) (rc_UID claim) of
        Some pc \<Rightarrow> if completed pc then (Ok (gpu_GetDevices (pc_PreparedDevices pc)), s)
                   else prepare_fresh en claim (gst_claims s) (Some pc) s
      | None \<Rightarrow> prepare_fresh en claim (gst_claims s) None s)"
  by (simp add: gpu_Prepare_def bind_getCheckpoint completed_def Let_def ret_st_def split: option.split)

lemma gpu_Prepare_claims:
  assumes "gpu_Prepare en claim s = (r, s')"
  shows "(gst_claims s' = gst_claims s \<and>
       (is_ok r \<longrightarrow> (\<exists>pc. map_of (gst_claims s) (rc_UID claim) = Some pc \<and> completed pc \<and>
          r = Ok (gpu_GetDevices (pc_PreparedDevices pc)) \<and> s' = s))) \<or>
    validateNoOverlappingPreparedDevices gpu_DriverName (gst_claims s) claim = Ok () \<and>
    (\<forall>pc. map_of (gst_claims s) (rc_UID claim) = Some pc \<longrightarrow> \<not> completed pc) \<and>
    ((\<not> is_ok r \<and> gst_claims s' = AList.update (rc_UID claim) (started_entry claim) (gst_claims s)) \<or>
     (\<exists>devs. r = Ok (gpu_GetDevices devs) \<and>
        gst_claims s' = AList.update (rc_UID claim) (completed_entry claim devs)
          (AList.update (rc_UID claim) (started_entry claim) (gst_claims s))))"
proof (cases "en_get en \<noteq> None \<or> (\<exists>pc. map_of (gst_claims s) (rc_UID claim) = Some pc \<and> completed pc)")
  case True
  with assms show ?thesis by (auto simp: gpu_Prepare_eq split: if_splits)
next
  case False
  then have "prepare_fresh en claim (gst_claims s) (map_of (gst_claims s) (rc_UID claim)) s = (r, s')"
    using assms by (cases "map_of (gst_claims s) (rc_UID claim)") (auto simp: gpu_Prepare_eq)
  from prepare_fresh_claims [OF this] False show ?thesis by auto
qed

lemma gpu_Unprepare_eq:
  "gpu_Unprepare en ref s =
     (if en_get en \<noteq> None then (Err (Errorf ''unable to get checkpoint''), s)
      else case map_of (gst_claims s) (no_UID ref) of
        None \<Rightarrow> (Ok (), s)
      | Some pc \<Rightarrow>
           bind_st (unprepare_claim en (no_UID ref) (gst_claims s) pc) (\<lambda>_.
           bind_st (if en_gates en PassthroughSupport
                    then each (rediscover_siblings en) (gpu_GetDevices (pc_PreparedDevices pc)) else ret_st ()) (\<lambda>_.
           bind_st (delete_spec_file en (no_UID ref)) (\<lambda>_.
             wrap_st (Wrapf ''error deleting claim from checkpoint'') (deleteClaimFromCheckpoint (en_update1 en) (no_UID ref))))) s)"
  by (simp add: gpu_Unprepare_def bind_getCheckpoint fun_cong [OF ret_st_def] split: option.split)

lemma gpu_Unprepare_claims:
  assumes "gpu_Unprepare en ref s = (r, s')"
  shows "gst_claims s' = (if is_ok r then AList.delete (no_UID ref) (gst_claims s) else gst_claims s)"
proof (cases "en_get en \<noteq> None \<or> map_of (gst_claims s) (no_UID ref) = None")
  case True
  then have "map_of (gst_claims s) (no_UID ref) = None \<Longrightarrow> AList.delete (no_UID ref) (gst_claims s) = gst_claims s"
    by (intro AList.delete_id) (simp add: map_of_eq_None_iff)
  with True assms show ?thesis by (auto simp: gpu_Unprepare_eq split: if_splits)
next
  case False
  then obtain pc where pc: "map_of (gst_claims s) (no_UID ref) = Some pc" "en_get en = None" by auto
  let ?m2 = "if en_gates en PassthroughSupport
                    then each (rediscover_siblings en) (gpu_GetDevices (pc_PreparedDevices pc)) else ret_st ()"
  have k2: "keeps (\<lambda>u. gst_claims u = gst_claims t) ?m2" for t
    by (auto intro!: keeps_each claims_kept.keeps_rediscover)
  from assms pc have "bind_st (unprepare_claim en (no_UID ref) (gst_claims s) pc) (\<lambda>_. bind_st ?m2 (\<lambda>_.
           bind_st (delete_spec_file en (no_UID ref)) (\<lambda>_.
             wrap_st (Wrapf ''error deleting claim from checkpoint'') (deleteClaimFromCheckpoint (en_update1 en) (no_UID ref))))) s = (r, s')"
    by (simp add: gpu_Unprepare_eq)
  then show ?thesis
  proof (cases rule: bind_cases)
    case (fail r0)
    with claims_eq [OF claims_kept.keeps_unprepare_claim fail(1)] show ?thesis by simp
  next
    case (ok a t)
    from claims_eq [OF claims_kept.keeps_unprepare_claim ok(1)] have t: "gst_claims t = gst_claims s" .
    from ok(2) show ?thesis
    proof (cases rule: bind_cases)
      case (fail r0)
      with claims_eq [OF k2 fail(1)] t show ?thesis by simp
    next
      case (ok b u)
      from claims_eq [OF k2 ok(1)] t have u: "gst_claims u = gst_claims s" by simp
      from ok(2) show ?thesis
      proof (cases rule: bind_cases)
        case (fail r0)
        with claims_eq [OF claims_kept.keeps_delete_spec_file fail(1)] u show ?thesis by simp
      next
        case (ok c w)
        from claims_eq [OF claims_kept.keeps_delete_spec_file ok(1)] u have w: "gst_claims w = gst_claims s" by simp
        from ok(2) w show ?thesis
          unfolding deleteClaimFromCheckpoint_def by (elim wrap_cases updateCheckpoint_cases) auto
      qed
    qed
  qed
qed

lemma DestroyUnknown_claims: "gst_claims (snd (DestroyUnknownMIGDevices en s)) = gst_claims s"
  by (auto simp: DestroyUnknownMIGDevices_def getCheckpoint_result on_hw_def split: go.splits prod.splits)

lemma started_not_completed [simp]: "\<not> completed (started_entry claim)"
  by (simp add: completed_def started_entry_def)

lemma completed_completed [simp]: "completed (completed_entry claim devs)"
  by (simp add: completed_def completed_entry_def)

lemma keeps_names_checkpoint:
  "keeps (\<lambda>s. well_named (gst_allocatable s)) (updateCheckpoint fail f)"
  "keeps (\<lambda>s. well_named (gst_allocatable s)) (getCheckpoint fail)"
  by (simp_all add: keeps_def updateCheckpoint_result getCheckpoint_result)

lemmas keeps_names = keeps_rules keeps_names_checkpoint names_kept.keeps_rollback_prior names_kept.keeps_prepareDevices
  names_kept.keeps_remove_siblings_of names_kept.keeps_on_cdi names_kept.keeps_unprepare_claim names_kept.keeps_rediscover
  names_kept.keeps_delete_spec_file

lemma Prepare_names: "keeps (\<lambda>s. well_named (gst_allocatable s)) (gpu_Prepare en claim)"
proof -
  have "keeps (\<lambda>s. well_named (gst_allocatable s)) (commit_prepared en claim devs)" for devs
    by (auto simp: commit_prepared_def intro!: keeps_names)
  then have "keeps (\<lambda>s. well_named (gst_allocatable s)) (prepare_fresh en claim cp prior)" for cp prior
    by (auto simp: prepare_fresh_def intro!: keeps_names)
  then show ?thesis
    by (auto simp: gpu_Prepare_def Let_def split: option.split intro!: keeps_names)
qed

lemma Unprepare_names: "keeps (\<lambda>s. well_named (gst_allocatable s)) (gpu_Unprepare en ref)"
  by (auto simp: gpu_Unprepare_def deleteClaimFromCheckpoint_def split: option.split intro!: keeps_names)

lemma Destroy_names: "gst_allocatable (snd (DestroyUnknownMIGDevices en s)) = gst_allocatable s"
  by (auto simp: DestroyUnknownMIGDevices_def getCheckpoint_result on_hw_def split: go.splits prod.splits)

section \<open>What a successful preparation returns\<close>

interpretation devices_kept: hw_frame "\<lambda>s. gst_allocatable s = m" for m
  by unfold_locales simp

lemma allocatable_eq:
  "keeps (\<lambda>s. gst_allocatable s = gst_allocatable s0) m \<Longrightarrow> m s0 = (r, s') \<Longrightarrow> gst_allocatable s' = gst_allocatable s0"
  using keepsD [of "\<lambda>s. gst_allocatable s = gst_allocatable s0" m s0] by simp

text \<open>The answer to the kubelet for one allocated device.\<close>

definition answer_for :: "string \<Rightarrow> DeviceRequestAllocationResult \<Rightarrow> kubelet_Device \<Rightarrow> bool" where
  "answer_for uid r kd \<longleftrightarrow> kd_Requests kd = [dr_Request r] \<and> kd_PoolName kd = dr_Pool r \<and> kd_DeviceName kd = dr_Device r \<and>
     kd_CDIDeviceIDs kd = [gpu_cdiVendor @ ''/'' @ gpu_cdiClaimClass @ ''='' @ uid @ ''-'' @ dr_Device r]"

lemma kubelet_device_answer:
  "ad_CanonicalName d = Ok (dr_Device r) \<Longrightarrow> gpu_GetClaimDeviceName uid d = Ok n \<Longrightarrow> answer_for uid r (kubelet_device en n d r)"
  by (auto simp: gpu_GetClaimDeviceName_def answer_for_def kubelet_device_def)

lemma prepare_result_answer:
  assumes "prepare_result en uid r s = (Ok d, s')" and "well_named (gst_allocatable s)"
  shows "\<exists>kd. pd_Device d = Some kd \<and> answer_for uid r kd"
proof -
  from assms(1) obtain a n where a: "GetAllocatableDevice (gst_allocatable s) (dr_Device r) = Some a"
    and n: "gpu_GetClaimDeviceName uid a = Ok n"
    by (auto simp: prepare_result_def bind_st_eq_Ok gets_def go_simps Let_def split: option.splits)
  have name: "ad_CanonicalName a = Ok (dr_Device r)" by (rule GetAllocatableDevice_named [OF assms(2) a])
  then have "pd_Device d = Some (kubelet_device en n a r)"
    using assms(1) a n
    by (auto simp: prepare_result_def bind_st_eq_Ok wrap_st_eq_Ok gets_def go_simps Let_def pd_Device_def no_device_def
        ad_CanonicalName_def by_type_def split: option.splits)
  with kubelet_device_answer [OF name n] show ?thesis by blast
qed

lemma keeps_allocatable_prepare_results:
  "keeps (\<lambda>s. gst_allocatable s = m) (prepare_results en uid rs)"
proof -
  have "keeps (\<lambda>s. gst_allocatable s = m) (prepare_result en uid r)" for r
    by (auto simp: prepare_result_def Let_def split: option.split intro!: keeps_rules devices_kept.keeps_on_hw)
  then show ?thesis by (induction rs) (auto intro!: keeps_rules)
qed

lemma prepare_results_answer:
  "prepare_results en uid rs s = (Ok ds, s') \<Longrightarrow> well_named (gst_allocatable s) \<Longrightarrow>
     list_all2 (answer_for uid) rs (list_GetDevices ds)"
proof (induction rs arbitrary: s ds)
  case Nil
  then show ?case by (simp add: go_simps list_GetDevices_def map_filter_simps)
next
  case (Cons r rs)
  then obtain d t ds' where d: "prepare_result en uid r s = (Ok d, t)"
    and ds': "prepare_results en uid rs t = (Ok ds', s')" "ds = d # ds'"
    by (auto simp: bind_st_eq_Ok go_simps)
  have "prepare_results en uid [r] s = (Ok [d], t)" using d by (simp add: bind_st_def go_simps)
  from allocatable_eq [OF keeps_allocatable_prepare_results this] Cons.prems(2) have "well_named (gst_allocatable t)" by simp
  from Cons.IH [OF ds'(1) this] prepare_result_answer [OF d Cons.prems(2)] ds'(2) show ?case
    by (auto simp: list_GetDevices_def map_filter_simps)
qed

lemma prepare_groups_answer:
  "prepare_groups en uid states crm s = (Ok gs, s') \<Longrightarrow> well_named (gst_allocatable s) \<Longrightarrow>
     list_all2 (answer_for uid) (concat (map snd crm)) (gpu_GetDevices gs)"
proof (induction crm arbitrary: s gs)
  case Nil
  then show ?case by (simp add: go_simps gpu_GetDevices_def)
next
  case (Cons x crm)
  obtain i results where x: "x = (i, results)" by (cases x)
  with Cons.prems obtain cs ds t gs' where ds: "prepare_results en uid results s = (Ok ds, t)"
    and gs': "prepare_groups en uid states crm t = (Ok gs', s')" "gs = \<lparr>gr_Devices = ds, gr_ConfigState = cs\<rparr> # gs'"
    by (auto simp: bind_st_eq_Ok go_simps split: option.splits)
  from allocatable_eq [OF keeps_allocatable_prepare_results ds] Cons.prems(2) have "well_named (gst_allocatable t)" by simp
  from Cons.IH [OF gs'(1) this] prepare_results_answer [OF ds Cons.prems(2)] gs'(2) x show ?case
    by (auto simp: gpu_GetDevices_def intro: list_all2_appendI)
qed

text \<open>Every device that can be allocated has a default configuration.\<close>

definition passthrough_ok :: "'h gpu_env \<Rightarrow> PerGPUAllocatableDevices \<Rightarrow> bool" where
  "passthrough_ok en m \<longleftrightarrow> en_gates en PassthroughSupport \<or> (\<forall>(pci, ds) \<in> set m. \<forall>(n, d) \<in> set ds. ad_Type d \<noteq> VfioDeviceType)"

lemma with_defaults_mem:
  "\<lparr>odc_Requests = [], odc_Config = GpuConfigObj (DefaultGpuConfig g)\<rparr> \<in> set (with_defaults g configs)"
  "\<lparr>odc_Requests = [], odc_Config = MigDeviceConfigObj (DefaultMigDeviceConfig g)\<rparr> \<in> set (with_defaults g configs)"
  unfolding with_defaults_def set_append list.set by blast+

lemma default_applies:
  "\<lparr>odc_Requests = [], odc_Config = c\<rparr> \<in> S \<Longrightarrow> ap c \<Longrightarrow> \<exists>x \<in> S. odc_Requests x = [] \<and> ap (odc_Config x)"
  by (rule bexI) simp_all

lemma with_defaults_vfio:
  "DefaultVfioDeviceConfig g = Some c \<Longrightarrow> g PassthroughSupport \<Longrightarrow>
     \<lparr>odc_Requests = [], odc_Config = VfioDeviceConfigObj c\<rparr> \<in> set (with_defaults g configs)"
  unfolding with_defaults_def by simp

lemma with_defaults_fallback:
  assumes "well_named m" and "passthrough_ok en m"
  shows "has_fallback (\<lambda>n. map_option applicable (GetAllocatableDevice m n)) (with_defaults (en_gates en) configs)"
  unfolding has_fallback_def
proof (intro allI impI)
  fix n ap
  assume "map_option applicable (GetAllocatableDevice m n) = Some ap"
  then obtain d where d: "GetAllocatableDevice m n = Some d" and ap: "ap = applicable d" by auto
  have known: "ad_Type d \<noteq> UnknownDeviceType"
    using GetAllocatableDevice_named [OF assms(1) d] ad_CanonicalName_Ok_type by blast
  obtain pci ds where "(pci, ds) \<in> set m" "(n, d) \<in> set ds"
    using GetAllocatableDevice_SomeD [OF d] map_of_SomeD by metis
  then have gate: "ad_Type d = VfioDeviceType \<Longrightarrow> en_gates en PassthroughSupport"
    using assms(2) by (auto simp: passthrough_ok_def)
  from known consider (gpu) "ad_Type d = GpuDeviceType" | (mig) "IsStaticOrDynMigDevice d" | (vfio) "ad_Type d = VfioDeviceType"
    unfolding IsStaticOrDynMigDevice_def ad_Type_def by (auto split: if_splits)
  then show "\<exists>c \<in> set (with_defaults (en_gates en) configs). odc_Requests c = [] \<and> ap (odc_Config c)"
  proof cases
    case gpu
    have a: "ap (GpuConfigObj (DefaultGpuConfig (en_gates en)))" using gpu by (simp add: ap applicable_def)
    show ?thesis by (rule default_applies [where ap = ap, OF with_defaults_mem(1) a])
  next
    case mig
    have a: "ap (MigDeviceConfigObj (DefaultMigDeviceConfig (en_gates en)))" using mig by (simp add: ap applicable_def)
    show ?thesis by (rule default_applies [where ap = ap, OF with_defaults_mem(2) a])
  next
    case vfio
    with gate obtain c where c: "DefaultVfioDeviceConfig (en_gates en) = Some c" "en_gates en PassthroughSupport"
      by (auto simp: DefaultVfioDeviceConfig_def)
    from vfio have a: "ap (VfioDeviceConfigObj c)" by (simp add: ap applicable_def)
    show ?thesis by (rule default_applies [where ap = ap, OF with_defaults_vfio [OF c] a])
  qed
qed

definition orders_ok :: "'h gpu_env \<Rightarrow> bool" where
  "orders_ok en \<longleftrightarrow> (\<forall>m. mset (en_order1 en m) = mset m \<and> mset (en_order2 en m) = mset m)"

lemma mset_concat_perm: "mset m1 = mset m2 \<Longrightarrow> mset (concat (map snd m1)) = mset (concat (map snd m2))"
proof -
  have "mset (concat (map snd m)) = sum_mset (image_mset (\<lambda>p. mset (snd p)) (mset m))" for m :: "('a \<times> 'b list) list"
    by (induction m) auto
  then show "mset m1 = mset m2 \<Longrightarrow> ?thesis" by simp
qed

lemma gpu_prepareDevices_answer:
  assumes "gpu_prepareDevices en claim s = (Ok gs, s')" and "well_named (gst_allocatable s)"
    and "passthrough_ok en (gst_allocatable s)" and "orders_ok en" and "rc_Allocation claim = Some al"
  shows "\<exists>results. mset results = mset (filter (\<lambda>r. dr_Driver r = gpu_DriverName) (al_Results al)) \<and>
    list_all2 (answer_for (rc_UID claim)) results (gpu_GetDevices gs)"
proof -
  from assms(1,5) obtain opaque crm states t where
    crm: "config_results (\<lambda>n. map_option applicable (GetAllocatableDevice (gst_allocatable s) n)) gpu_DriverName
      (with_defaults (en_gates en) opaque) (al_Results al) [] = Ok crm"
    and st: "apply_configs en (rc_UID claim) (with_defaults (en_gates en) opaque) (en_order1 en crm) s = (Ok states, t)"
    and gs: "prepare_groups en (rc_UID claim) states (en_order2 en crm) t = (Ok gs, s')"
    by (auto simp: gpu_prepareDevices_def bind_st_eq_Ok gets_def go_simps Let_def)
  have k: "keeps (\<lambda>s. gst_allocatable s = m) (apply_configs en uid configs crm)" for m uid configs crm
    by (induction crm) (auto split: prod.splits intro!: keeps_rules devices_kept.keeps_applyConfig)
  from allocatable_eq [OF k st] assms(2) have "well_named (gst_allocatable t)" by simp
  from prepare_groups_answer [OF gs this]
  have "list_all2 (answer_for (rc_UID claim)) (concat (map snd (en_order2 en crm))) (gpu_GetDevices gs)" .
  moreover have "mset (concat (map snd (en_order2 en crm))) = mset (filter (\<lambda>r. dr_Driver r = gpu_DriverName) (al_Results al))"
  proof -
    have "mset (concat (map snd (en_order2 en crm))) = mset (concat (map snd crm))"
      using assms(4) by (intro mset_concat_perm) (simp add: orders_ok_def)
    also have "\<dots> = mset (filter (\<lambda>r. dr_Driver r = gpu_DriverName) (al_Results al))"
      using config_results_partition [OF with_defaults_fallback [OF assms(2,3)] crm] by simp
    finally show ?thesis .
  qed
  ultimately show ?thesis by blast
qed

lemma commit_prepared_Ok:
  assumes "commit_prepared en claim devs s = (Ok out, s')"
  shows "out = gpu_GetDevices devs \<and> (\<exists>spec. map_of (gst_cdi s') (gpu_spec_name (rc_UID claim)) = Some spec \<and>
    map sp_Name (gsp_Devices spec) = map (\<lambda>kd. rc_UID claim @ ''-'' @ kd_DeviceName kd) out)"
proof -
  from assms obtain t u where t: "on_cdi (gpu_CreateClaimSpecFile (en_cdi en) (rc_UID claim) devs) t = (Ok (), u)"
    and u: "updateCheckpoint (en_update2 en) (AList.update (rc_UID claim) (completed_entry claim devs)) u = (Ok (), s')"
    and out: "out = gpu_GetDevices devs"
    by (auto simp: commit_prepared_def bind_st_eq_Ok wrap_st_eq_Ok go_simps)
  from t obtain f where f: "gpu_CreateClaimSpecFile (en_cdi en) (rc_UID claim) devs (gst_cdi t) = (Ok (), f)" "gst_cdi u = f"
    by (auto simp: on_cdi_def split: prod.splits)
  from u have "gst_cdi s' = gst_cdi u" by (auto simp: updateCheckpoint_result split: if_splits)
  with gpu_CreateClaimSpecFile_Ok [OF f(1)] f(2) out show ?thesis by auto
qed

lemma prepare_fresh_Ok:
  assumes "prepare_fresh en claim cp prior s = (Ok out, s')"
  obtains t devs w where "gpu_prepareDevices en claim t = (Ok devs, w)" and "commit_prepared en claim devs w = (Ok out, s')"
    and "gst_allocatable t = gst_allocatable s"
proof -
  from assms obtain t1 t devs w where t1: "rollback_prior en cp prior s = (Ok (), t1)"
    and t: "updateCheckpoint (en_update1 en) (AList.update (rc_UID claim) (started_entry claim)) t1 = (Ok (), t)"
    and w: "gpu_prepareDevices en claim t = (Ok devs, w)" and c: "commit_prepared en claim devs w = (Ok out, s')"
    by (auto simp: prepare_fresh_def bind_st_eq_Ok wrap_st_eq_Ok go_simps)
  from t have "gst_allocatable t = gst_allocatable t1" by (auto simp: updateCheckpoint_result split: if_splits)
  moreover from allocatable_eq [OF devices_kept.keeps_rollback_prior t1] have "gst_allocatable t1 = gst_allocatable s" .
  ultimately show thesis using that w c by simp
qed

section \<open>Properties\<close>

text \<open>C32. A claim that is prepared gets what it was allocated: the kubelet's answer has exactly one device for
  each allocation result of this driver, with its request, pool and name and one CDI device, which
  the claim's spec file defines under that name; the checkpoint then holds the claim as completed,
  with the same devices; no other claim's entry changes.\<close>

theorem gpu_prepare_exposes_allocation:
  assumes "gpu_Prepare en claim s = (Ok devs, s')" and "rc_Allocation claim = Some al"
    and "\<forall>pc. map_of (gst_claims s) (rc_UID claim) = Some pc \<longrightarrow> \<not> completed pc"
    and "well_named (gst_allocatable s)" and "passthrough_ok en (gst_allocatable s)" and "orders_ok en"
  shows "\<exists>results spec pc.
    mset results = mset (filter (\<lambda>r. dr_Driver r = gpu_DriverName) (al_Results al)) \<and>
    list_all2 (answer_for (rc_UID claim)) results devs \<and>
    map_of (gst_cdi s') (gpu_spec_name (rc_UID claim)) = Some spec \<and>
    map sp_Name (gsp_Devices spec) = map (\<lambda>kd. rc_UID claim @ ''-'' @ kd_DeviceName kd) devs \<and>
    map_of (gst_claims s') (rc_UID claim) = Some pc \<and> completed pc \<and> pc_Allocation pc = Some al \<and>
    gpu_GetDevices (pc_PreparedDevices pc) = devs \<and>
    (\<forall>u. u \<noteq> rc_UID claim \<longrightarrow> map_of (gst_claims s') u = map_of (gst_claims s) u)"
proof -
  have "prepare_fresh en claim (gst_claims s) (map_of (gst_claims s) (rc_UID claim)) s = (Ok devs, s')"
    using assms(1,3) by (auto simp: gpu_Prepare_eq split: if_splits option.splits)
  then obtain t gs w where p: "gpu_prepareDevices en claim t = (Ok gs, w)" and c: "commit_prepared en claim gs w = (Ok devs, s')"
    and t: "gst_allocatable t = gst_allocatable s"
    by (rule prepare_fresh_Ok)
  from gpu_prepareDevices_answer [OF p] t assms(2,4,5,6) obtain results where
    "mset results = mset (filter (\<lambda>r. dr_Driver r = gpu_DriverName) (al_Results al))"
    "list_all2 (answer_for (rc_UID claim)) results (gpu_GetDevices gs)" by metis
  moreover from commit_prepared_Ok [OF c] obtain spec where "devs = gpu_GetDevices gs"
    "map_of (gst_cdi s') (gpu_spec_name (rc_UID claim)) = Some spec"
    "map sp_Name (gsp_Devices spec) = map (\<lambda>kd. rc_UID claim @ ''-'' @ kd_DeviceName kd) devs" by blast
  moreover from gpu_Prepare_claims [OF assms(1)] assms(3) obtain ds where ds: "devs = gpu_GetDevices ds"
    and cl: "gst_claims s' = AList.update (rc_UID claim) (completed_entry claim ds)
          (AList.update (rc_UID claim) (started_entry claim) (gst_claims s))"
    by auto
  moreover have "map_of (gst_claims s') (rc_UID claim) = Some (completed_entry claim ds)" by (simp add: cl)
  moreover have "pc_Allocation (completed_entry claim ds) = Some al"
    "gpu_GetDevices (pc_PreparedDevices (completed_entry claim ds)) = devs"
    using ds assms(2) by (simp_all add: completed_entry_def)
  moreover have "\<forall>u. u \<noteq> rc_UID claim \<longrightarrow> map_of (gst_claims s') u = map_of (gst_claims s) u" by (auto simp: cl)
  ultimately show ?thesis using completed_completed by blast
qed

text \<open>Preparing is idempotent and at most once: after a successful \<open>Prepare\<close>, every later call for the
  same claim that can read the checkpoint returns the same devices and changes nothing, neither files nor
  hardware.\<close>

theorem gpu_prepare_idempotent:
  assumes "gpu_Prepare en claim s = (Ok devs, s')" and "en_get en' = None" and "rc_UID claim' = rc_UID claim"
  shows "gpu_Prepare en' claim' s' = (Ok devs, s')"
proof -
  from gpu_Prepare_claims [OF assms(1)] obtain pc where
    "map_of (gst_claims s') (rc_UID claim) = Some pc" "completed pc" "gpu_GetDevices (pc_PreparedDevices pc) = devs"
    by (auto simp: completed_entry_def completed_def)
  with assms(2,3) show ?thesis by (simp add: gpu_Prepare_eq)
qed

text \<open>C33. A preparation that fails leaves at most a trace that can be cleaned up: other claims' entries are
  untouched, and the entry of the claim is as before or in state PrepareStarted with the claim's
  allocation, name and namespace, which is what roll-back and clean-up need; it is never completed
  by a failing call.\<close>

theorem gpu_prepare_failure:
  assumes "gpu_Prepare en claim s = (r, s')" and "\<not> is_ok r"
  shows "(\<forall>u. u \<noteq> rc_UID claim \<longrightarrow> map_of (gst_claims s') u = map_of (gst_claims s) u) \<and>
    (map_of (gst_claims s') (rc_UID claim) = map_of (gst_claims s) (rc_UID claim) \<or>
     (\<exists>pc. map_of (gst_claims s') (rc_UID claim) = Some pc \<and>
        pc_CheckpointState pc = ClaimCheckpointStatePrepareStarted \<and> pc_Allocation pc = rc_Allocation claim \<and>
        pc_Name pc = rc_Name claim \<and> pc_Namespace pc = rc_Namespace claim))"
  using gpu_Prepare_claims [OF assms(1)] assms(2) by (auto simp: started_entry_def)

text \<open>Unpreparing removes the claim or nothing: a successful \<open>Unprepare\<close> removes exactly the
  claim's entry from the checkpoint, and repeating it is then a successful no-op; a failed one
  changes no entry, so that it can be retried.\<close>

theorem gpu_unprepare_effect:
  assumes "gpu_Unprepare en ref s = (r, s')"
  shows "map_of (gst_claims s') = (if is_ok r then (map_of (gst_claims s))(no_UID ref := None) else map_of (gst_claims s)) \<and>
    (is_ok r \<longrightarrow> (\<forall>en'. en_get en' = None \<longrightarrow> gpu_Unprepare en' ref s' = (Ok (), s')))"
  using gpu_Unprepare_claims [OF assms] by (simp add: gpu_Unprepare_eq delete_conv')

subsection \<open>An example node\<close>

text \<open>One GPU with a passthrough twin, hardware operations that succeed (the state records what is deleted), one
  claim for the GPU.\<close>

definition example_hardware :: "string list hardware" where
  "example_hardware = \<lparr>
     hw_createMigDevice = (\<lambda>spec h. (Err (Errorf ''no MIG''), h)),
     hw_deleteMigDevice = (\<lambda>m h. (Ok (), ml_MigUUID m # h)),
     hw_FindMigDevBySpec = (\<lambda>ms h. (Ok (Some \<lparr>ml_ParentMinor = ms_ParentMinor ms, ml_GIID = ms_ProfileID ms,
        ml_CIID = ms_PlacementStart ms, ml_MigUUID = show_int (ms_ParentMinor ms) @ ''-'' @ show_int (ms_PlacementStart ms),
        ml_ParentUUID = '''', ml_ParentPCIBusID = ''''\<rparr>), h)),
     hw_obliterateStaleMIGDevices = (\<lambda>names h. (Ok (), h)),
     hw_setComputeMode = (\<lambda>us m h. (Ok (), h)), hw_setTimeSlice = (\<lambda>us i h. (Ok (), h)),
     hw_vfioConfigure = (\<lambda>v h. (Ok (), h)), hw_vfioUnconfigure = (\<lambda>v h. (Ok (), h)),
     hw_discoverVfioDevice = (\<lambda>g h. (Ok (Some (vfio_allocatable example_vfio)), h)),
     hw_discoverGPUByPCIBusID = (\<lambda>p h. (Ok (Some (gpu_allocatable example_gpu)), h)),
     hw_mpsStart = (\<lambda>i us gs c h. (Ok (), h)), hw_mpsAssertReady = (\<lambda>i h. (Ok (), h)), hw_mpsStop = (\<lambda>i h. (Ok (), h))\<rparr>"

definition example_gpu_cdi :: gpu_cdi_lib where
  "example_gpu_cdi = \<lparr>gl_GetCommonEdits = Ok no_edits,
     gl_GetDeviceSpecsByUUID = (\<lambda>u. Ok [\<lparr>sp_Name = u, sp_Edits = no_edits\<rparr>]),
     gl_GetGPUByPciBusID = (\<lambda>p. Ok \<lparr>np_IommuFD = ''vfio0'', np_IommuGroup = 7\<rparr>),
     gl_GetDevNodesForMigDevice = (\<lambda>m. Ok []), gl_newSpecRefused = (\<lambda>ds e. None), gl_transformEdits = (\<lambda>e. e),
     gl_saveRefused = (\<lambda>n sp. None), gl_removeRefused = (\<lambda>n. None), gl_iommuFDEnabled = False\<rparr>"

definition example_env :: "gates \<Rightarrow> goerr option \<Rightarrow> string list gpu_env" where
  "example_env g fail2 = \<lparr>en_gates = g, en_decode = (\<lambda>b. Err (Errorf ''no configuration'')), en_hw = example_hardware,
     en_cdi = example_gpu_cdi, en_get = None, en_update1 = None, en_update2 = fail2, en_order1 = (\<lambda>m. m), en_order2 = (\<lambda>m. m),
     en_sha256hex = (\<lambda>s. s), en_mpsRoot = ''/mps''\<rparr>"

definition passthrough_gates :: gates where
  "passthrough_gates f \<longleftrightarrow> f = PassthroughSupport \<or> default_gates f"

definition mig_gates :: gates where
  "mig_gates f \<longleftrightarrow> f = DynamicMIG \<or> default_gates f"

definition example_result :: "string \<Rightarrow> DeviceRequestAllocationResult" where
  "example_result d = \<lparr>dr_Request = ''r'', dr_Driver = gpu_DriverName, dr_Pool = ''node'', dr_Device = d, dr_AdminAccess = None\<rparr>"

definition example_claim :: "string \<Rightarrow> string \<Rightarrow> ResourceClaim" where
  "example_claim uid d = \<lparr>rc_UID = uid, rc_Name = ''c'', rc_Namespace = ''ns'', rc_Annotations = None, rc_SpecConfig = [],
     rc_Allocation = Some \<lparr>al_Results = [example_result d], al_Config = []\<rparr>\<rparr>"

definition example_node :: "string list gpu_state" where
  "example_node = \<lparr>gst_claims = [], gst_allocatable = example_allocatables, gst_cdi = [], gst_hw = []\<rparr>"

definition example_ref :: "string \<Rightarrow> NamespacedObject" where
  "example_ref uid = \<lparr>no_UID = uid, no_Name = ''c'', no_Namespace = ''ns''\<rparr>"

definition node_after_prepare :: "string list gpu_state" where
  "node_after_prepare = snd (gpu_Prepare (example_env passthrough_gates None) (example_claim ''u1'' ''gpu-0'') example_node)"

definition example_answer :: kubelet_Device where
  "example_answer = \<lparr>kd_Requests = [''r''], kd_PoolName = ''node'', kd_DeviceName = ''gpu-0'',
     kd_CDIDeviceIDs = [''k8s.gpu.nvidia.com/claim=u1-gpu-0''], kd_Metadata = None\<rparr>"

lemma example_prepared:
  "gpu_Prepare (example_env passthrough_gates None) (example_claim ''u1'' ''gpu-0'') example_node =
     (Ok [example_answer], node_after_prepare)"
proof -
  have "fst (gpu_Prepare (example_env passthrough_gates None) (example_claim ''u1'' ''gpu-0'') example_node) = Ok [example_answer]"
    by code_simp
  then show ?thesis by (simp add: node_after_prepare_def prod_eq_iff)
qed

theorem gpu_prepare_exposes_allocation_witness:
  "\<exists>results spec pc. mset results = {#example_result ''gpu-0''#} \<and>
    list_all2 (answer_for ''u1'') results [example_answer] \<and>
    map_of (gst_cdi node_after_prepare) (gpu_spec_name ''u1'') = Some spec \<and> map sp_Name (gsp_Devices spec) = [''u1-gpu-0''] \<and>
    map_of (gst_claims node_after_prepare) ''u1'' = Some pc \<and> completed pc"
proof -
  have [simp]: "rc_UID (example_claim ''u1'' ''gpu-0'') = ''u1''" by (simp add: example_claim_def)
  have al: "rc_Allocation (example_claim ''u1'' ''gpu-0'') = Some \<lparr>al_Results = [example_result ''gpu-0''], al_Config = []\<rparr>"
    by (simp add: example_claim_def)
  have wn: "well_named (gst_allocatable example_node)" by code_simp
  have pt: "passthrough_ok (example_env passthrough_gates None) (gst_allocatable example_node)" by code_simp
  have oo: "orders_ok (example_env passthrough_gates None)" by (simp add: orders_ok_def example_env_def)
  have "filter (\<lambda>r. dr_Driver r = gpu_DriverName) [example_result ''gpu-0''] = [example_result ''gpu-0'']" by code_simp
  moreover have "kd_DeviceName example_answer = ''gpu-0''" by (simp add: example_answer_def)
  ultimately show ?thesis
    using gpu_prepare_exposes_allocation [OF example_prepared al _ wn pt oo] by (fastforce simp: example_node_def)
qed

theorem gpu_prepare_idempotent_witness:
  "gpu_Prepare (example_env default_gates None) (example_claim ''u1'' ''gpu-0'') node_after_prepare =
     (Ok [example_answer], node_after_prepare)"
  by (rule gpu_prepare_idempotent [OF example_prepared]) (simp_all add: example_env_def)

theorem gpu_prepare_failure_witness:
  "\<exists>pc. map_of (gst_claims (snd (gpu_Prepare (example_env passthrough_gates (Some (Errorf ''disk full'')))
       (example_claim ''u1'' ''gpu-0'') example_node))) ''u1'' = Some pc \<and>
     pc_CheckpointState pc = ClaimCheckpointStatePrepareStarted \<and> pc_Name pc = ''c''"
proof -
  let ?p = "gpu_Prepare (example_env passthrough_gates (Some (Errorf ''disk full''))) (example_claim ''u1'' ''gpu-0'') example_node"
  have "\<not> is_ok (fst ?p)" by code_simp
  moreover have "map_of (gst_claims (snd ?p)) ''u1'' \<noteq> map_of (gst_claims example_node) ''u1''" by code_simp
  ultimately show ?thesis
    using gpu_prepare_failure [of "example_env passthrough_gates (Some (Errorf ''disk full''))" "example_claim ''u1'' ''gpu-0''"
        example_node "fst ?p" "snd ?p"]
    by (auto simp: example_claim_def)
qed

theorem gpu_unprepare_effect_witness:
  "map_of (gst_claims (snd (gpu_Unprepare (example_env passthrough_gates None) (example_ref ''u1'') node_after_prepare))) ''u1'' = None"
proof -
  let ?u = "gpu_Unprepare (example_env passthrough_gates None) (example_ref ''u1'') node_after_prepare"
  have "is_ok (fst ?u)" by code_simp
  then show ?thesis
    using gpu_unprepare_effect [of "example_env passthrough_gates None" "example_ref ''u1''" node_after_prepare "fst ?u" "snd ?u"]
    by (simp add: example_ref_def)
qed

subsection \<open>Roll-back\<close>

definition used_devices :: "gpu_PreparedDevices PreparedClaimV2 \<Rightarrow> string set" where
  "used_devices c = (case pc_Allocation c of None \<Rightarrow> {} | Some al \<Rightarrow> dr_Device ` set (al_Results al))"

lemma used_by_completed_False:
  "used_by_completed d cs = Ok False \<Longrightarrow> (u, c) \<in> set cs \<Longrightarrow> d \<notin> used_devices c"
  by (induction cs) (auto simp: used_devices_def split: option.splits if_splits)

lemma keeps_rollback_device:
  fixes hw :: "'a hardware"
  assumes find: "\<And>ms h. P h \<Longrightarrow> P (snd (hw_FindMigDevBySpec hw ms h))"
    and del: "\<And>ms h mlt h'. used_by_completed (dr_Device r) cs = Ok False \<Longrightarrow> NewMigSpecTupleFromCanonicalName (dr_Device r) = Ok ms \<Longrightarrow>
      P h \<Longrightarrow> hw_FindMigDevBySpec hw ms h = (Ok (Some mlt), h') \<Longrightarrow> P (snd (hw_deleteMigDevice hw mlt h'))"
  shows "keeps (\<lambda>s. P (gst_hw s)) (rollback_device hw cs r)"
proof (rule keepsI)
  fix s :: "'a gpu_state"
  assume P: "P (gst_hw s)"
  show "P (gst_hw (snd (rollback_device hw cs r s)))"
  proof (cases "NewMigSpecTupleFromCanonicalName (dr_Device r)")
    case (Ok ms)
    obtain fr h' where fh: "hw_FindMigDevBySpec hw ms (gst_hw s) = (fr, h')" by fastforce
    from find [OF P, of ms] fh have Ph: "P h'" by simp
    show ?thesis
    proof (cases "used_by_completed (dr_Device r) cs = Ok False \<and> (\<exists>mlt. fr = Ok (Some mlt))")
      case True
      then obtain mlt where u: "used_by_completed (dr_Device r) cs = Ok False" and "fr = Ok (Some mlt)" by blast
      with del [OF u Ok P] fh have "P (snd (hw_deleteMigDevice hw mlt h'))" by simp
      with Ok u fh \<open>fr = Ok (Some mlt)\<close> show ?thesis
        by (simp add: rollback_device_def deleteMigDevIfExistsAndNotUsedByCompletedClaim_def bind_st_def wrap_st_def go_simps
            on_hw_def case_prod_beta)
    next
      case False
      with Ok fh Ph P show ?thesis
        by (auto simp: rollback_device_def deleteMigDevIfExistsAndNotUsedByCompletedClaim_def bind_st_def wrap_st_def go_simps
            on_hw_def split: go.splits option.splits)
    qed
  qed (simp_all add: rollback_device_def P)
qed

text \<open>C34. Rolling back a partial preparation never tears down a device of a completely prepared claim: the only
  MIG devices it deletes are those found under the specification that the name of one of the claim's devices
  encodes, where no completed claim in the checkpoint was allocated a device of that name. Here \<open>P\<close> is any
  property of the hardware that looking devices up and deleting such devices cannot falsify.\<close>

theorem rollback_spares_completed_claims:
  assumes "unpreparePartiallyPrepairedClaim en pc claims s = (r, s')" and "pc_Allocation pc = Some al" and "P (gst_hw s)"
    and "\<And>ms h. P h \<Longrightarrow> P (snd (hw_FindMigDevBySpec (en_hw en) ms h))"
    and "\<And>d ms h mlt h'. d \<in> dr_Device ` set (al_Results al) \<Longrightarrow>
      (\<forall>(u, c) \<in> set claims. completed c \<longrightarrow> d \<notin> used_devices c) \<Longrightarrow> NewMigSpecTupleFromCanonicalName d = Ok ms \<Longrightarrow>
      P h \<Longrightarrow> hw_FindMigDevBySpec (en_hw en) ms h = (Ok (Some mlt), h') \<Longrightarrow> P (snd (hw_deleteMigDevice (en_hw en) mlt h'))"
  shows "P (gst_hw s')"
proof -
  let ?cs = "filter (\<lambda>(u, c). completed c) claims"
  have "keeps (\<lambda>s. P (gst_hw s)) (rollback_device (en_hw en) ?cs r)" if "r \<in> set (al_Results al)" for r
  proof (rule keeps_rollback_device)
    fix ms h mlt h'
    assume "used_by_completed (dr_Device r) ?cs = Ok False" and ms: "NewMigSpecTupleFromCanonicalName (dr_Device r) = Ok ms"
      and h: "P h" "hw_FindMigDevBySpec (en_hw en) ms h = (Ok (Some mlt), h')"
    then have "\<forall>(u, c) \<in> set claims. completed c \<longrightarrow> dr_Device r \<notin> used_devices c"
      using used_by_completed_False by fastforce
    from assms(5) [OF imageI [OF that] this ms h] show "P (snd (hw_deleteMigDevice (en_hw en) mlt h'))" .
  qed (rule assms(4))
  then have "keeps (\<lambda>s. P (gst_hw s)) (unpreparePartiallyPrepairedClaim en pc claims)"
    by (auto simp: unpreparePartiallyPrepairedClaim_def assms(2) intro: keeps_each_in)
  from keepsD [OF this assms(3)] assms(1) show ?thesis by simp
qed

definition example_entry :: "string \<Rightarrow> string list \<Rightarrow> gpu_PreparedDevices PreparedClaimV2" where
  "example_entry st ds = \<lparr>pc_CheckpointState = st, pc_Allocation = Some \<lparr>al_Results = map example_result ds, al_Config = []\<rparr>,
     pc_PreparedDevices = [], pc_Name = ''c'', pc_Namespace = ''ns''\<rparr>"

definition mig_claims :: gpu_claims where
  "mig_claims = [(''u1'', example_entry ClaimCheckpointStatePrepareCompleted [''gpu-0-mig-1g5gb-19-0'']),
     (''u2'', example_entry ClaimCheckpointStatePrepareStarted [''gpu-0-mig-1g5gb-19-0'', ''gpu-0-mig-1g5gb-19-4''])]"

text \<open>The second claim's device at placement 4 is deleted, the first claim's device is not.\<close>

theorem rollback_spares_completed_claims_witness:
  "''0-0'' \<notin> set (gst_hw (snd (unpreparePartiallyPrepairedClaim (example_env mig_gates None)
     (example_entry ClaimCheckpointStatePrepareStarted [''gpu-0-mig-1g5gb-19-0'', ''gpu-0-mig-1g5gb-19-4'']) mig_claims example_node)))"
proof -
  let ?ds = "[''gpu-0-mig-1g5gb-19-0'', ''gpu-0-mig-1g5gb-19-4'']"
  let ?pc = "example_entry ClaimCheckpointStatePrepareStarted ?ds"
  let ?en = "example_env mig_gates None"
  let ?u = "unpreparePartiallyPrepairedClaim ?en ?pc mig_claims example_node"
  have al: "pc_Allocation ?pc = Some \<lparr>al_Results = map example_result ?ds, al_Config = []\<rparr>" by (simp add: example_entry_def)
  have parse: "NewMigSpecTupleFromCanonicalName ''gpu-0-mig-1g5gb-19-4'' =
      Ok \<lparr>ms_ParentMinor = 0, ms_ParentPCIBusID = '''', ms_ProfileID = 19, ms_PlacementStart = 4\<rparr>" by code_simp
  have four: "show_int 0 @ ''-'' @ show_int 4 = ''0-4''" by code_simp
  have used: "completed (example_entry ClaimCheckpointStatePrepareCompleted ds)" for ds by (simp add: completed_def example_entry_def)
  have start: "''0-0'' \<notin> set (gst_hw example_node)" by (simp add: example_node_def)
  show ?thesis
  proof (rule rollback_spares_completed_claims [OF prod.collapse [symmetric] al, where P = "\<lambda>h. ''0-0'' \<notin> set h", OF start])
    fix d ms and h h' :: "string list" and mlt
    assume d: "d \<in> dr_Device ` set (al_Results \<lparr>al_Results = map example_result ?ds, al_Config = []\<rparr>)"
      and free: "\<forall>(u, c) \<in> set mig_claims. completed c \<longrightarrow> d \<notin> used_devices c"
      and ms: "NewMigSpecTupleFromCanonicalName d = Ok ms" and h: "''0-0'' \<notin> set h"
      and find: "hw_FindMigDevBySpec (en_hw ?en) ms h = (Ok (Some mlt), h')"
    from d have "d \<in> set ?ds" by (auto simp: example_result_def)
    moreover from free have "d \<noteq> ''gpu-0-mig-1g5gb-19-0''"
      by (auto simp: mig_claims_def used used_devices_def example_entry_def example_result_def completed_def)
    ultimately have "d = ''gpu-0-mig-1g5gb-19-4''" by simp
    with ms parse find four have "ml_MigUUID mlt = ''0-4''" "h' = h"
      by (auto simp: example_env_def example_hardware_def)
    with h show "''0-0'' \<notin> set (snd (hw_deleteMigDevice (en_hw ?en) mlt h'))"
      by (simp add: example_env_def example_hardware_def)
  qed (simp_all add: example_env_def example_hardware_def)
qed

subsection \<open>A lost sibling\<close>

text \<open>A failed preparation can take a device out of service: with passthrough enabled, a claim for a GPU
  whose last checkpoint write fails and that is then unprepared successfully leaves no claim in
  the checkpoint, but the passthrough device of that GPU, which could be allocated before, is no longer
  offered; \<open>Unprepare\<close> rediscovers the siblings of prepared devices only, and a partial preparation has none.\<close>

theorem failed_prepare_loses_sibling:
  "\<exists>s1 s2. gpu_Prepare (example_env passthrough_gates (Some (Errorf ''disk full''))) (example_claim ''u1'' ''gpu-0'') example_node =
       (Err (Wrapf ''unable to update checkpoint'' (Errorf ''disk full'')), s1) \<and>
     gpu_Unprepare (example_env passthrough_gates None) (example_ref ''u1'') s1 = (Ok (), s2) \<and>
     gst_claims s2 = gst_claims example_node \<and>
     GetAllocatableDevice (gst_allocatable example_node) ''gpu-vfio-0'' \<noteq> None \<and>
     GetAllocatableDevice (gst_allocatable s2) ''gpu-vfio-0'' = None"
proof -
  let ?p = "gpu_Prepare (example_env passthrough_gates (Some (Errorf ''disk full''))) (example_claim ''u1'' ''gpu-0'') example_node"
  let ?u = "gpu_Unprepare (example_env passthrough_gates None) (example_ref ''u1'') (snd ?p)"
  have "fst ?p = Err (Wrapf ''unable to update checkpoint'' (Errorf ''disk full''))" by code_simp
  moreover have "fst ?u = Ok ()" by code_simp
  moreover have "gst_claims (snd ?u) = gst_claims example_node" by code_simp
  moreover have "GetAllocatableDevice (gst_allocatable example_node) ''gpu-vfio-0'' \<noteq> None" by code_simp
  moreover have "GetAllocatableDevice (gst_allocatable (snd ?u)) ''gpu-vfio-0'' = None" by code_simp
  ultimately show ?thesis by (intro exI [of _ "snd ?p"] exI [of _ "snd ?u"]) (simp add: prod_eq_iff)
qed

end
