(* ===== verification/Gpu_Driver.thy ===== *)
theory Gpu_Driver
  imports Gpu_State
begin

text \<open>
  The request handlers of the GPU kubelet plugin (\<open>driver.go\<close>) and the clean-up of stale partial
  preparations (\<open>cleanup.go\<close>).

  A call has its own environment (\<open>call\<close>): that of the device state, the outcome of acquiring the lock
  file that serialises preparations on a node, and the outcome of publishing resources. The lock
  makes calls atomic, so a run is a sequence of calls; \<open>gpu_run\<close> adds restarts of the plugin.
\<close>

section \<open>Handlers (driver.go)\<close>

record 'h call =
  ca_env :: "'h gpu_env"
  ca_lock :: "goerr option"
  ca_publish :: "PerGPUAllocatableDevices \<Rightarrow> unit go"

definition publish :: "'h call \<Rightarrow> ('h gpu_state, unit) gost" where
  "publish ca = (if en_gates (ca_env ca) PassthroughSupport
     then (\<lambda>s. (ca_publish ca (gst_allocatable s), s)) else ret_st ())"

definition gpu_nodePrepareResource :: "'h call \<Rightarrow> ResourceClaim \<Rightarrow> ('h gpu_state, kubelet_Device list) gost" where
  "gpu_nodePrepareResource ca claim = (case ca_lock ca of
     Some e \<Rightarrow> err_st (Wrapf ''error acquiring prep/unprep lock'' e)
   | None \<Rightarrow>
       bind_st (wrap_st (Wrapf ''error preparing devices for claim'') (gpu_Prepare (ca_env ca) claim)) (\<lambda>devs.
       bind_st (wrap_st (Wrapf ''error preparing devices for claim'') (publish ca)) (\<lambda>_.
         ret_st devs)))"

definition gpu_nodeUnprepareResource :: "'h call \<Rightarrow> NamespacedObject \<Rightarrow> ('h gpu_state, unit) gost" where
  "gpu_nodeUnprepareResource ca ref = (case ca_lock ca of
     Some e \<Rightarrow> err_st (Wrapf ''error acquiring prep/unprep lock'' e)
   | None \<Rightarrow>
       bind_st (wrap_st (Wrapf ''error unpreparing devices for claim'') (gpu_Unprepare (ca_env ca) ref)) (\<lambda>_.
         wrap_st (Wrapf ''error publishing resources'') (publish ca)))"

text \<open>The results by claim UID. A panic ends the process, and the call has no results.\<close>

fun gpu_PrepareResourceClaims ::
  "('h call \<times> ResourceClaim) list \<Rightarrow> (string, kubelet_Device list go) gomap \<Rightarrow>
   ('h gpu_state, (string, kubelet_Device list go) gomap) gost" where
  "gpu_PrepareResourceClaims [] results = ret_st results"
| "gpu_PrepareResourceClaims ((ca, claim) # rest) results = (\<lambda>s.
     case gpu_nodePrepareResource ca claim s of
       (Panic p, s') \<Rightarrow> (Panic p, s')
     | (r, s') \<Rightarrow> gpu_PrepareResourceClaims rest (AList.update (rc_UID claim) r results) s')"

fun gpu_UnprepareResourceClaims ::
  "('h call \<times> NamespacedObject) list \<Rightarrow> (string, unit go) gomap \<Rightarrow> ('h gpu_state, (string, unit go) gomap) gost" where
  "gpu_UnprepareResourceClaims [] results = ret_st results"
| "gpu_UnprepareResourceClaims ((ca, ref) # rest) results = (\<lambda>s.
     case gpu_nodeUnprepareResource ca ref s of
       (Panic p, s') \<Rightarrow> (Panic p, s')
     | (r, s') \<Rightarrow> gpu_UnprepareResourceClaims rest (AList.update (no_UID ref) r results) s')"

section \<open>Clean-up (cleanup.go)\<close>

text \<open>Clean-up is that of theory \<open>Prepared_Claims\<close>, with the handler above; \<open>calls\<close> is the environment of the
  unpreparation of a claim.\<close>

definition gpu_cleanup ::
  "goerr option \<Rightarrow> (string \<Rightarrow> string \<Rightarrow> string go) \<Rightarrow> (string \<Rightarrow> 'h call) \<Rightarrow> ('h gpu_state, unit) gost" where
  "gpu_cleanup fail getClaim calls =
     cleanup (getCheckpoint fail) getClaim (\<lambda>ref. gpu_nodeUnprepareResource (calls (no_UID ref)) ref)"

section \<open>Lemmas\<close>

lemma publish_state [simp]: "snd (publish ca s) = s"
  by (simp add: publish_def)

lemma snd_bind_publish: "snd (bind_st m (\<lambda>a. bind_st (wrap_st w (publish ca)) (\<lambda>_. ret_st a)) s) = snd (m s)"
  by (auto simp: bind_st_def wrap_st_def go_simps publish_def split: prod.splits go.splits)

lemma snd_bind_publish2: "snd (bind_st m (\<lambda>_. wrap_st w (publish ca)) s) = snd (m s)"
  by (auto simp: bind_st_def publish_def split: prod.splits go.splits)

lemma snd_nodePrepare:
  "snd (gpu_nodePrepareResource ca claim s) = (if ca_lock ca = None then snd (gpu_Prepare (ca_env ca) claim s) else s)"
  by (cases "ca_lock ca") (simp_all add: gpu_nodePrepareResource_def snd_bind_publish)

lemma snd_nodeUnprepare:
  "snd (gpu_nodeUnprepareResource ca ref s) = (if ca_lock ca = None then snd (gpu_Unprepare (ca_env ca) ref s) else s)"
  by (cases "ca_lock ca") (simp_all add: gpu_nodeUnprepareResource_def snd_bind_publish2)

lemma Unprepare_claims_cases:
  "gst_claims (snd (gpu_Unprepare en ref s)) \<in> {gst_claims s, AList.delete (no_UID ref) (gst_claims s)}"
  using gpu_Unprepare_claims [of en ref s "fst (gpu_Unprepare en ref s)" "snd (gpu_Unprepare en ref s)"] by simp

lemma nodeUnprepare_claims_cases:
  "gst_claims (snd (gpu_nodeUnprepareResource ca ref s)) \<in> {gst_claims s, AList.delete (no_UID ref) (gst_claims s)}"
  using Unprepare_claims_cases [of "ca_env ca" ref s] by (simp add: snd_nodeUnprepare)

lemma nodePrepare_claims:
  "gst_claims (snd (gpu_nodePrepareResource ca claim s)) = gst_claims s \<or>
   (\<exists>pc. gst_claims (snd (gpu_nodePrepareResource ca claim s)) = AList.update (rc_UID claim) pc (gst_claims s) \<and>
      (completed pc \<longrightarrow> validateNoOverlappingPreparedDevices gpu_DriverName (gst_claims s) claim = Ok () \<and>
         pc_Allocation pc = rc_Allocation claim))"
proof -
  have alloc: "pc_Allocation (completed_entry claim devs) = rc_Allocation claim" for devs
    by (simp add: completed_entry_def)
  from gpu_Prepare_claims [OF prod.collapse [symmetric], of "ca_env ca" claim s]
  show ?thesis
    unfolding snd_nodePrepare using started_not_completed [of claim] alloc
    by (cases "ca_lock ca = None") auto
qed

interpretation gpu: claim_handlers gst_claims gpu_DriverName "\<lambda>ca claim s. snd (gpu_nodePrepareResource ca claim s)"
    gpu_nodeUnprepareResource
  by unfold_locales (rule nodePrepare_claims, rule nodeUnprepare_claims_cases)

section \<open>Runs of the plugin\<close>

inductive gpu_run :: "'h gpu_state \<Rightarrow> bool" where
  start: "gst_claims s = [] \<Longrightarrow> well_named (gst_allocatable s) \<Longrightarrow> gpu_run s"
| prepare: "gpu_run s \<Longrightarrow> gpu_run (snd (gpu_nodePrepareResource ca claim s))"
| unprepare: "gpu_run s \<Longrightarrow> gpu_run (snd (gpu_nodeUnprepareResource ca ref s))"
| stale: "gpu_run s \<Longrightarrow> gpu_run (snd (unprepareIfStale getClaim (gpu_nodeUnprepareResource ca) uid (c :: gpu_PreparedDevices PreparedClaimV2) s))"
| destroy: "gpu_run s \<Longrightarrow> gpu_run (snd (DestroyUnknownMIGDevices en s))"
| restart: "gpu_run s \<Longrightarrow> well_named m \<Longrightarrow> gpu_run (s\<lparr>gst_allocatable := m, gst_hw := h, gst_cdi := f\<rparr>)"

lemma names_nodeUnprepare:
  "well_named (gst_allocatable s) \<Longrightarrow> well_named (gst_allocatable (snd (gpu_nodeUnprepareResource ca ref s)))"
  using keepsD [OF Unprepare_names, of s "ca_env ca" ref] by (simp add: snd_nodeUnprepare)

definition gpu_inv :: "'h gpu_state \<Rightarrow> bool" where
  "gpu_inv s \<longleftrightarrow> gomap (gst_claims s) \<and> exclusive gpu_DriverName (gst_claims s) \<and> well_named (gst_allocatable s)"

lemma gpu_inv_nodeUnprepare: "gpu_inv s \<Longrightarrow> gpu_inv (snd (gpu_nodeUnprepareResource ca ref s))"
  by (simp add: gpu_inv_def gpu.exclusive_unprepare names_nodeUnprepare gpu.gomap_unprepare)

lemma gpu_run_inv: "gpu_run s \<Longrightarrow> gpu_inv s"
proof (induction rule: gpu_run.induct)
  case (start s)
  then show ?case by (simp add: gpu_inv_def exclusive_def)
next
  case (prepare s ca claim)
  then show ?case
    using keepsD [OF Prepare_names, of s "ca_env ca" claim] gpu.exclusive_prepare [of s ca claim] gpu.gomap_prepare [of s ca claim]
    by (simp add: gpu_inv_def snd_nodePrepare)
next
  case (unprepare s ca ref)
  then show ?case by (simp add: gpu_inv_nodeUnprepare)
next
  case (stale s getClaim ca uid c)
  then show ?case using gpu.snd_unprepareIfStale [of getClaim ca uid c s] gpu_inv_nodeUnprepare by metis
next
  case (destroy s en)
  then show ?case by (simp add: gpu_inv_def DestroyUnknown_claims Destroy_names)
next
  case (restart s m h f)
  then show ?case by (simp add: gpu_inv_def)
qed

section \<open>Properties\<close>

text \<open>C37. A device is never in exclusive use by two claims: in every run of the plugin, whatever calls fail, whatever the
  hardware does and however often the plugin restarts, two completely prepared claims share no
  device of this driver unless one of them has it with admin access.\<close>

theorem gpu_devices_exclusive:
  assumes "gpu_run s" and "map_of (gst_claims s) u1 = Some c1" and "map_of (gst_claims s) u2 = Some c2"
    and "u1 \<noteq> u2" and "completed c1" and "completed c2"
  shows "nonadmin gpu_DriverName c1 \<inter> nonadmin gpu_DriverName c2 = {}"
  using gpu_run_inv [OF assms(1)] assms(2-6) unfolding gpu_inv_def exclusive_def by blast


subsection \<open>Witnesses\<close>

definition example_call :: "gates \<Rightarrow> goerr option \<Rightarrow> string list call" where
  "example_call g fail2 = \<lparr>ca_env = example_env g fail2, ca_lock = None, ca_publish = (\<lambda>m. Ok ())\<rparr>"

definition two_gpus :: PerGPUAllocatableDevices where
  "two_gpus = [(''0000:01:00.0'', [(''gpu-0'', gpu_allocatable example_gpu)]),
     (''0000:02:00.0'', [(''gpu-1'', gpu_allocatable (example_gpu\<lparr>gi_UUID := ''GPU-b'', gi_minor := 1, gi_pciBusID := ''0000:02:00.0''\<rparr>))])]"

text \<open>Two claims for one GPU each.\<close>

definition two_claims_node :: "string list gpu_state" where
  "two_claims_node =
     snd (gpu_nodePrepareResource (example_call default_gates None) (example_claim ''u2'' ''gpu-1'')
       (snd (gpu_nodePrepareResource (example_call default_gates None) (example_claim ''u1'' ''gpu-0'')
         (example_node\<lparr>gst_allocatable := two_gpus\<rparr>))))"

lemma two_claims_run: "gpu_run two_claims_node"
  unfolding two_claims_node_def
  by (intro gpu_run.prepare gpu_run.start) (simp add: example_node_def, code_simp)

theorem gpu_devices_exclusive_witness:
  "\<exists>c1 c2. map_of (gst_claims two_claims_node) ''u1'' = Some c1 \<and> map_of (gst_claims two_claims_node) ''u2'' = Some c2 \<and>
     nonadmin gpu_DriverName c1 = {''gpu-0''} \<and> nonadmin gpu_DriverName c1 \<inter> nonadmin gpu_DriverName c2 = {}"
proof -
  have "map_option completed (map_of (gst_claims two_claims_node) ''u1'') = Some True"
    "map_option completed (map_of (gst_claims two_claims_node) ''u2'') = Some True"
    "map_option (nonadmin gpu_DriverName) (map_of (gst_claims two_claims_node) ''u1'') = Some {''gpu-0''}" by code_simp+
  then obtain c1 c2 where "map_of (gst_claims two_claims_node) ''u1'' = Some c1" "completed c1" "nonadmin gpu_DriverName c1 = {''gpu-0''}"
    "map_of (gst_claims two_claims_node) ''u2'' = Some c2" "completed c2" by auto
  with gpu_devices_exclusive [OF two_claims_run, of "''u1''" c1 "''u2''" c2] show ?thesis by simp
qed

text \<open>A preparation fails at its last write; the claim is gone from the API server.\<close>

definition stale_node :: "string list gpu_state" where
  "stale_node = snd (gpu_nodePrepareResource (example_call default_gates (Some (Errorf ''disk full''))) (example_claim ''u1'' ''gpu-0'')
     example_node)"


end
