(* ===== verification/Gpu_Announce.thy ===== *)
theory Gpu_Announce
  imports Gpu_Devices
begin

text \<open>
  What the GPU kubelet plugin announces to the scheduler: attributes and capacities of devices (\<open>deviceinfo.go\<close>, \<open>mig.go\<close>),
  the counters of partitionable devices (\<open>partitions.go\<close>), the enumeration of all MIG profiles and placements of a GPU
  (\<open>inspectMigProfilesAndPlacements\<close> in \<open>nvlib.go\<close>), and the ResourceSlices made of them (\<open>driver.go\<close>).

  With dynamic MIG, a GPU is announced together with all MIG devices it could be split into. The counters must keep
  the scheduler from allocating devices that do not fit beside each other: every memory slice is a counter
  of capacity 1, and a device consumes the slices of its placement. \<open>feasible\<close> is the rule of the scheduler
  (KEP 4815): the allocated devices together consume no more of a counter than there is.

  Parsing of versions (\<open>semver\<close>), NVML and go-nvlib are parameters. A quantity is its integer value.
\<close>

section \<open>Attributes and capacities\<close>

text \<open>\<open>int64(i)\<close>. The memory size below is a \<open>uint64\<close>, so its product is taken modulo \<open>2^64\<close>.\<close>

definition to_int64 :: "int \<Rightarrow> int" where
  [code del]: "to_int64 i = (i + 2 ^ 63) mod 2 ^ 64 - 2 ^ 63"

lemma to_int64_code [code]: "to_int64 i = (if 0 \<le> i \<and> i < 9223372036854775808 then i
     else (i + 9223372036854775808) mod 18446744073709551616 - 9223372036854775808)"
  by (simp add: to_int64_def)

definition intcap :: "int \<Rightarrow> int" where
  "intcap i = to_int64 i"

definition CommonCapacitiesMig :: "GpuInstanceProfileInfo \<Rightarrow> (string, int) gomap" where
  "CommonCapacitiesMig p =
     [(''multiprocessors'', intcap (ip_MultiprocessorCount p)), (''copyEngines'', intcap (ip_CopyEngineCount p)),
      (''decoders'', intcap (ip_DecoderCount p)), (''encoders'', intcap (ip_EncoderCount p)),
      (''jpegEngines'', intcap (ip_JpegCount p)), (''ofaEngines'', intcap (ip_OfaCount p)),
      (''memory'', intcap (to_int64 ((ip_MemorySizeMB p * 1024 * 1024) mod 18446744073709551616)))]"

definition put_attr :: "(string \<times> DeviceAttribute) option \<Rightarrow> (string, DeviceAttribute) gomap \<Rightarrow> (string, DeviceAttribute) gomap" where
  "put_attr a m = (case a of None \<Rightarrow> m | Some (k, v) \<Rightarrow> AList.update k v m)"

definition put_mode :: "string option \<Rightarrow> (string, DeviceAttribute) gomap \<Rightarrow> (string, DeviceAttribute) gomap" where
  "put_mode mode = put_attr (map_option (\<lambda>s. (''addressingMode'', StringValue s)) mode)"

text \<open>\<open>mustParse\<close> is \<open>semver.MustParse(_).String()\<close>, which panics on what is not a version.\<close>

definition CommonAttributesMig ::
  "(string \<Rightarrow> string go) \<Rightarrow> GpuInfo \<Rightarrow> string \<Rightarrow> (string, DeviceAttribute) gomap go" where
  "CommonAttributesMig mustParse parent profileName =
     bind_go (mustParse (gi_cudaComputeCapability parent)) (\<lambda>capability.
     bind_go (mustParse (gi_driverVersion parent)) (\<lambda>driver.
     bind_go (mustParse (gi_cudaDriverVersion parent)) (\<lambda>cudaDriver.
       let attrs = [(''type'', StringValue ''mig''), (''parentUUID'', StringValue (gi_UUID parent)),
             (''profile'', StringValue profileName), (''productName'', StringValue (gi_productName parent)),
             (''brand'', StringValue (gi_brand parent)), (''architecture'', StringValue (gi_architecture parent)),
             (''cudaComputeCapability'', VersionValue capability), (''driverVersion'', VersionValue driver),
             (''cudaDriverVersion'', VersionValue cudaDriver)]
       in Ok (put_attr (gi_pcieRootAttr parent) (put_attr (gi_pciBusIDAttr parent) (put_mode (gi_addressingMode parent) attrs))))))"

definition GpuInfo_Attributes :: "(string \<Rightarrow> string go) \<Rightarrow> GpuInfo \<Rightarrow> (string, DeviceAttribute) gomap go" where
  "GpuInfo_Attributes mustParse d =
     bind_go (mustParse (gi_cudaComputeCapability d)) (\<lambda>capability.
     bind_go (mustParse (gi_driverVersion d)) (\<lambda>driver.
     bind_go (mustParse (gi_cudaDriverVersion d)) (\<lambda>cudaDriver.
       let attrs = [(''type'', StringValue GpuDeviceType), (''uuid'', StringValue (gi_UUID d)),
             (''productName'', StringValue (gi_productName d)), (''brand'', StringValue (gi_brand d)),
             (''architecture'', StringValue (gi_architecture d)),
             (''cudaComputeCapability'', VersionValue capability), (''driverVersion'', VersionValue driver),
             (''cudaDriverVersion'', VersionValue cudaDriver)]
       in Ok (put_mode (gi_addressingMode d)
            (put_attr (gi_pciBusIDAttr d) (put_attr (gi_pcieRootAttr d) (put_attr (gi_pciBusIDAttr d) attrs)))))))"

text \<open>\<open>resourceapi.Device\<close>\<close>

record CounterSet =
  cs_Name :: string
  cs_Counters :: "(string, int) gomap"

record DeviceCounterConsumption =
  cc_CounterSet :: string
  cc_Counters :: "(string, int) gomap"

record resource_Device =
  rd_Name :: string
  rd_Attributes :: "(string, DeviceAttribute) gomap"
  rd_Capacity :: "(string, int) gomap"
  rd_ConsumesCounters :: "DeviceCounterConsumption list"
  rd_Taints :: "DeviceTaint list"

definition GpuInfo_GetDevice :: "(string \<Rightarrow> string go) \<Rightarrow> GpuInfo \<Rightarrow> resource_Device go" where
  "GpuInfo_GetDevice mustParse d =
     bind_go (GpuInfo_Attributes mustParse d) (\<lambda>attrs.
       Ok \<lparr>rd_Name = GpuInfo_CanonicalName d, rd_Attributes = attrs,
           rd_Capacity = [(''memory'', to_int64 (gi_memoryBytes d))], rd_ConsumesCounters = [], rd_Taints = []\<rparr>)"

text \<open>The capacities of a MIG device that exists name its memory slices, too.\<close>

definition MigDeviceInfo_GetDevice :: "(string \<Rightarrow> string go) \<Rightarrow> MigDeviceInfo \<Rightarrow> resource_Device go" where
  "MigDeviceInfo_GetDevice mustParse d =
     bind_go (CommonAttributesMig mustParse (mi_parent d) (mi_Profile d)) (\<lambda>attrs.
     case mi_giProfileInfo d of
       None \<Rightarrow> Panic ''nil pointer dereference''
     | Some p \<Rightarrow>
         Ok \<lparr>rd_Name = MigDeviceInfo_CanonicalName d, rd_Attributes = AList.update ''uuid'' (StringValue (mi_UUID d)) attrs,
             rd_Capacity = fold (\<lambda>i. AList.update (''memorySlice'' @ show_int i) 1)
               [mi_PlacementStart d..mi_PlacementStart d + mi_PlacementSize d - 1] (CommonCapacitiesMig p),
             rd_ConsumesCounters = [], rd_Taints = []\<rparr>)"

definition Vfio_GetDevice :: "VfioDeviceInfo \<Rightarrow> resource_Device" where
  "Vfio_GetDevice d = \<lparr>rd_Name = Vfio_CanonicalName (vi_index d), rd_Attributes = Vfio_Attributes d,
     rd_Capacity = [(''addressableMemory'', to_int64 (vi_addressableMemoryBytes d))], rd_ConsumesCounters = [], rd_Taints = []\<rparr>"

text \<open>A panic inside a branch ends the call.\<close>

definition join_go :: "'a go go \<Rightarrow> 'a go" where
  "join_go r = bind_go r (\<lambda>x. x)"

definition ad_GetDevice :: "(string \<Rightarrow> string go) \<Rightarrow> AllocatableDevice \<Rightarrow> resource_Device go" where
  "ad_GetDevice mustParse d = join_go (by_type (GpuInfo_GetDevice mustParse)
     (\<lambda>m. Panic ''GetDevice() must currently not be called for MigDynamicDeviceType'')
     (MigDeviceInfo_GetDevice mustParse) (\<lambda>v. Ok (Vfio_GetDevice v)) d)"

section \<open>Partitions (partitions.go)\<close>

text \<open>
  The two regular expressions of \<open>camelToDNSName\<close>: a hyphen goes between a lower-case letter or digit and an
  upper-case letter, and before an upper-case letter that ends a run of them and is followed by a lower-case one.
  Their matches do not overlap.
\<close>

definition is_upper :: "char \<Rightarrow> bool" where
  "is_upper c \<longleftrightarrow> 65 \<le> (of_char c :: nat) \<and> (of_char c :: nat) \<le> 90"

definition is_lower :: "char \<Rightarrow> bool" where
  "is_lower c \<longleftrightarrow> 97 \<le> (of_char c :: nat) \<and> (of_char c :: nat) \<le> 122"

fun hyphen_before_upper :: "string \<Rightarrow> string" where
  "hyphen_before_upper (c # d # cs) =
     (if (is_lower c \<or> is_digit c) \<and> is_upper d then c # CHR ''-'' # hyphen_before_upper (d # cs)
      else c # hyphen_before_upper (d # cs))"
| "hyphen_before_upper cs = cs"

fun hyphen_before_last_upper :: "string \<Rightarrow> string" where
  "hyphen_before_last_upper (c # d # e # cs) =
     (if is_upper c \<and> is_upper d \<and> is_lower e then c # CHR ''-'' # hyphen_before_last_upper (d # e # cs)
      else c # hyphen_before_last_upper (d # e # cs))"
| "hyphen_before_last_upper cs = cs"

definition camelToDNSName :: "string \<Rightarrow> string" where
  "camelToDNSName s = toRFC1123Compliant (hyphen_before_last_upper (hyphen_before_upper s))"

definition memsliceCounterName :: "int \<Rightarrow> string" where
  "memsliceCounterName i = ''memory-slice-'' @ show_int i"

definition addCountersForMemSlices :: "(string, int) gomap \<Rightarrow> int \<Rightarrow> int \<Rightarrow> (string, int) gomap" where
  "addCountersForMemSlices counters start sz =
     fold (\<lambda>i. AList.update (memsliceCounterName i) 1) [start..start + sz - 1] counters"

definition capacitiesToCounters :: "(string, int) gomap \<Rightarrow> (string, int) gomap" where
  "capacitiesToCounters m = fold (\<lambda>(name, cap). AList.update (camelToDNSName name) cap) m []"

definition GetSharedCounterSetName :: "GpuInfo \<Rightarrow> string" where
  "GetSharedCounterSetName d = toRFC1123Compliant (GpuInfo_CanonicalName d @ ''-counter-set'')"

definition PartSharedCounterSets :: "GpuInfo \<Rightarrow> CounterSet list" where
  "PartSharedCounterSets d = [\<lparr>cs_Name = GetSharedCounterSetName d,
     cs_Counters = addCountersForMemSlices (capacitiesToCounters (gi_maxCapacities d)) 0 (gi_memSliceCount d)\<rparr>]"

definition GpuInfo_PartConsumesCounters :: "GpuInfo \<Rightarrow> DeviceCounterConsumption list" where
  "GpuInfo_PartConsumesCounters d = [\<lparr>cc_CounterSet = GetSharedCounterSetName d,
     cc_Counters = addCountersForMemSlices (capacitiesToCounters (gi_maxCapacities d)) 0 (gi_memSliceCount d)\<rparr>]"

definition GpuInfo_PartGetDevice :: "(string \<Rightarrow> string go) \<Rightarrow> GpuInfo \<Rightarrow> resource_Device go" where
  "GpuInfo_PartGetDevice mustParse d =
     bind_go (GpuInfo_Attributes mustParse d) (\<lambda>attrs.
       Ok \<lparr>rd_Name = GpuInfo_CanonicalName d, rd_Attributes = put_attr (gi_pcieRootAttr d) attrs,
           rd_Capacity = gi_maxCapacities d, rd_ConsumesCounters = GpuInfo_PartConsumesCounters d, rd_Taints = []\<rparr>)"

definition MigSpec_Capacities :: "MigSpec \<Rightarrow> (string, int) gomap" where
  "MigSpec_Capacities i = CommonCapacitiesMig (mp_GIProfileInfo i)"

definition MigSpec_Attributes :: "(string \<Rightarrow> string go) \<Rightarrow> MigSpec \<Rightarrow> (string, DeviceAttribute) gomap go" where
  "MigSpec_Attributes mustParse i = CommonAttributesMig mustParse (mp_Parent i) (pr_String (mp_Profile i))"

definition MigSpec_PartConsumesCounters :: "MigSpec \<Rightarrow> DeviceCounterConsumption list" where
  "MigSpec_PartConsumesCounters i = [\<lparr>cc_CounterSet = GetSharedCounterSetName (mp_Parent i),
     cc_Counters = addCountersForMemSlices (capacitiesToCounters (MigSpec_Capacities i)) (mp_PlacementStart i) (mp_PlacementSize i)\<rparr>]"

definition MigSpec_PartGetDevice :: "(string \<Rightarrow> string go) \<Rightarrow> MigSpec \<Rightarrow> resource_Device go" where
  "MigSpec_PartGetDevice mustParse i =
     bind_go (MigSpec_Attributes mustParse i) (\<lambda>attrs.
       Ok \<lparr>rd_Name = MigSpec_CanonicalName i, rd_Attributes = attrs, rd_Capacity = MigSpec_Capacities i,
           rd_ConsumesCounters = MigSpec_PartConsumesCounters i, rd_Taints = []\<rparr>)"

definition ad_PartGetDevice :: "(string \<Rightarrow> string go) \<Rightarrow> AllocatableDevice \<Rightarrow> resource_Device go" where
  "ad_PartGetDevice mustParse d = join_go (by_type (GpuInfo_PartGetDevice mustParse) (MigSpec_PartGetDevice mustParse)
     (\<lambda>m. Panic ''PartGetDevice() called for MigStaticDeviceType'') (\<lambda>v. Panic ''not yet implemented'') d)"

section \<open>Profiles and placements (nvlib.go)\<close>

datatype nvml_Error = ERROR_NOT_SUPPORTED | ERROR_INVALID_ARGUMENT | ERROR_NOT_FOUND | ERROR_TIMEOUT | ERROR_GPU_IS_LOST | ERROR_OTHER string

datatype 'a nvml = NvSuccess 'a | NvFailure nvml_Error

text \<open>What NVML answers for a GPU: profile information by profile ID, and placements (start, size) of a profile.\<close>

record nvml_profiles =
  np_GetGpuInstanceProfileInfo :: "int \<Rightarrow> GpuInstanceProfileInfo nvml"
  np_GetGpuInstancePossiblePlacements :: "GpuInstanceProfileInfo \<Rightarrow> (int \<times> int) list nvml"

definition COMPUTE_INSTANCE_PROFILE_1_SLICE_REV1 :: int where "COMPUTE_INSTANCE_PROFILE_1_SLICE_REV1 = 7"

definition setMax :: "(string, int) gomap \<Rightarrow> string \<Rightarrow> int \<Rightarrow> (string, int) gomap" where
  "setMax m k v = (case map_of m k of
     None \<Rightarrow> AList.update k v m
   | Some cur \<Rightarrow> if v > cur then AList.update k v m else m)"

record mig_walk =
  mw_infos :: "MigSpec list"
  mw_maxCapacities :: "(string, int) gomap"
  mw_maxMemSlicesConsumed :: int

definition walk_placement :: "GpuInfo \<Rightarrow> MigProfile \<Rightarrow> GpuInstanceProfileInfo \<Rightarrow> int \<times> int \<Rightarrow> mig_walk \<Rightarrow> mig_walk" where
  "walk_placement g profile info placement w =
     (let mi = \<lparr>mp_Parent = g, mp_Profile = profile, mp_GIProfileInfo = info, mp_PlacementStart = fst placement,
            mp_PlacementSize = snd placement\<rparr>
      in \<lparr>mw_infos = mw_infos w @ [mi],
          mw_maxCapacities = fold (\<lambda>(name, cap) m. setMax m name cap) (MigSpec_Capacities mi) (mw_maxCapacities w),
          mw_maxMemSlicesConsumed = Orderings.max (mw_maxMemSlicesConsumed w) (snd placement)\<rparr>)"

definition visit_profile :: "nvml_profiles \<Rightarrow> GpuInfo \<Rightarrow> MigProfile \<Rightarrow> mig_walk \<Rightarrow> mig_walk go" where
  "visit_profile nv g profile w =
     (if pr_C profile \<noteq> pr_G profile then Ok w
      else if pr_CIProfileID profile = COMPUTE_INSTANCE_PROFILE_1_SLICE_REV1 then Ok w
      else case np_GetGpuInstanceProfileInfo nv (pr_GIProfileID profile) of
        NvFailure ERROR_NOT_SUPPORTED \<Rightarrow> Ok w
      | NvFailure ERROR_INVALID_ARGUMENT \<Rightarrow> Ok w
      | NvFailure _ \<Rightarrow> Err (Errorf ''error getting GI Profile info for MIG profile'')
      | NvSuccess info \<Rightarrow>
          (case np_GetGpuInstancePossiblePlacements nv info of
             NvFailure ERROR_NOT_SUPPORTED \<Rightarrow> Ok w
           | NvFailure ERROR_INVALID_ARGUMENT \<Rightarrow> Ok w
           | NvFailure _ \<Rightarrow> Err (Errorf ''error getting GI possible placements for MIG profile'')
           | NvSuccess placements \<Rightarrow> Ok (fold (walk_placement g profile info) placements w)))"

fun visit_profiles :: "nvml_profiles \<Rightarrow> GpuInfo \<Rightarrow> MigProfile list \<Rightarrow> mig_walk \<Rightarrow> mig_walk go" where
  "visit_profiles nv g [] w = Ok w"
| "visit_profiles nv g (p # ps) w = bind_go (visit_profile nv g p w) (visit_profiles nv g ps)"

definition AddDetailAfterWalkingMigProfiles :: "(string, int) gomap \<Rightarrow> int \<Rightarrow> GpuInfo \<Rightarrow> GpuInfo" where
  "AddDetailAfterWalkingMigProfiles maxcap memSliceCount d = d\<lparr>gi_maxCapacities := maxcap, gi_memSliceCount := memSliceCount\<rparr>"

text \<open>The result is the enriched GPU and its possible MIG devices, which point to it. \<open>profiles\<close> are those
  that go-nvlib's \<open>VisitMigProfiles\<close> visits.\<close>

definition inspectMigProfilesAndPlacements ::
  "nvml_profiles \<Rightarrow> MigProfile list \<Rightarrow> GpuInfo \<Rightarrow> (GpuInfo \<times> MigSpec list) go" where
  "inspectMigProfilesAndPlacements nv profiles g =
     bind_go (wrap_go (Wrapf ''error visiting MIG profiles'')
       (visit_profiles nv g profiles \<lparr>mw_infos = [], mw_maxCapacities = [], mw_maxMemSlicesConsumed = 0\<rparr>)) (\<lambda>w.
       let g' = AddDetailAfterWalkingMigProfiles (mw_maxCapacities w) (mw_maxMemSlicesConsumed w) g
       in Ok (g', map (\<lambda>m. m\<lparr>mp_Parent := g'\<rparr>) (mw_infos w)))"

section \<open>ResourceSlices (driver.go)\<close>

record Slice =
  rs_SharedCounters :: "CounterSet list"
  rs_Devices :: "resource_Device list"

text \<open>The devices of one GPU in the order of their names, and the counter sets of full GPUs among them.\<close>

fun announce_devices ::
  "(string \<Rightarrow> string go) \<Rightarrow> AllocatableDevices \<Rightarrow> string list \<Rightarrow> (CounterSet list \<times> resource_Device list) go" where
  "announce_devices mustParse ds [] = Ok ([], [])"
| "announce_devices mustParse ds (name # names) = (case map_of ds name of
     None \<Rightarrow> announce_devices mustParse ds names
   | Some d \<Rightarrow>
       bind_go (ad_PartGetDevice mustParse d) (\<lambda>r.
       bind_go (announce_devices mustParse ds names) (\<lambda>(css, rs).
         Ok ((case ad_Gpu d of Some g \<Rightarrow> PartSharedCounterSets g | None \<Rightarrow> []) @ css, r # rs))))"

fun announce_gpus ::
  "(string \<Rightarrow> string go) \<Rightarrow> PerGPUAllocatableDevices \<Rightarrow> string list \<Rightarrow> (CounterSet list \<times> resource_Device list) list go" where
  "announce_gpus mustParse m [] = Ok []"
| "announce_gpus mustParse m (pci # pcis) =
     bind_go (announce_devices mustParse (gpu_devices m pci) (sort (map fst (gpu_devices m pci)))) (\<lambda>gpu.
     bind_go (announce_gpus mustParse m pcis) (\<lambda>gpus. Ok (gpu # gpus)))"

definition generateSplitResourceSlices :: "(string \<Rightarrow> string go) \<Rightarrow> PerGPUAllocatableDevices \<Rightarrow> Slice list go" where
  "generateSplitResourceSlices mustParse m =
     bind_go (announce_gpus mustParse m (sort (map fst m))) (\<lambda>gpus.
       Ok (\<lparr>rs_SharedCounters = concat (map fst gpus), rs_Devices = []\<rparr> #
           map (\<lambda>(css, ds). \<lparr>rs_SharedCounters = [], rs_Devices = ds\<rparr>) gpus))"

definition generateCombinedResourceSlices :: "(string \<Rightarrow> string go) \<Rightarrow> PerGPUAllocatableDevices \<Rightarrow> Slice list go" where
  "generateCombinedResourceSlices mustParse m =
     bind_go (announce_gpus mustParse m (sort (map fst m))) (\<lambda>gpus.
       Ok (map (\<lambda>(css, ds). \<lparr>rs_SharedCounters = css, rs_Devices = ds\<rparr>) gpus))"

definition GenerateDriverResources :: "(string \<Rightarrow> string go) \<Rightarrow> bool \<Rightarrow> PerGPUAllocatableDevices \<Rightarrow> Slice list go" where
  "GenerateDriverResources mustParse useSplitResourceSlices m =
     (if useSplitResourceSlices then generateSplitResourceSlices mustParse m else generateCombinedResourceSlices mustParse m)"

fun get_devices :: "(string \<Rightarrow> string go) \<Rightarrow> AllocatableDevice list \<Rightarrow> resource_Device list go" where
  "get_devices mustParse [] = Ok []"
| "get_devices mustParse (d # ds) =
     bind_go (ad_GetDevice mustParse d) (\<lambda>r. bind_go (get_devices mustParse ds) (\<lambda>rs. Ok (r # rs)))"

text \<open>\<open>PublishResources\<close> of the kubelet plugin helper takes the slices of the pool of this node.\<close>

definition publishResources ::
  "gates \<Rightarrow> (string \<Rightarrow> string go) \<Rightarrow> bool \<Rightarrow> (Slice list \<Rightarrow> unit go) \<Rightarrow> PerGPUAllocatableDevices \<Rightarrow> unit go" where
  "publishResources g mustParse split PublishResources m =
     (if g DynamicMIG then bind_go (GenerateDriverResources mustParse split m) PublishResources
      else bind_go (get_devices mustParse (map snd (concat (map snd m)))) (\<lambda>ds.
        PublishResources [\<lparr>rs_SharedCounters = [], rs_Devices = ds\<rparr>]))"

definition getAPIServerVersion :: "(string \<Rightarrow> 'v go) \<Rightarrow> string go \<Rightarrow> 'v go" where
  "getAPIServerVersion NewVersion serverVersion =
     bind_go (wrap_go (Wrapf ''failed to get server version'') serverVersion) (\<lambda>v.
       wrap_go (Wrapf ''failed to parse version'') (NewVersion v))"

definition shouldUseSplitResourceSlices :: "(string \<Rightarrow> 'v go) \<Rightarrow> ('v \<Rightarrow> string \<Rightarrow> bool) \<Rightarrow> string go \<Rightarrow> bool go" where
  "shouldUseSplitResourceSlices NewVersion LessThan serverVersion =
     bind_go (wrap_go (Wrapf ''API server version detection failed'') (getAPIServerVersion NewVersion serverVersion)) (\<lambda>v.
       Ok (\<not> LessThan v ''1.35.0''))"

section \<open>The rule of the scheduler\<close>

definition counter :: "(string, int) gomap \<Rightarrow> string \<Rightarrow> int" where
  "counter m c = (case map_of m c of None \<Rightarrow> 0 | Some v \<Rightarrow> v)"

definition shared :: "CounterSet list \<Rightarrow> string \<Rightarrow> string \<Rightarrow> int" where
  "shared css n c = (case find (\<lambda>s. cs_Name s = n) css of None \<Rightarrow> 0 | Some s \<Rightarrow> counter (cs_Counters s) c)"

definition consumed :: "string \<Rightarrow> string \<Rightarrow> resource_Device \<Rightarrow> int" where
  "consumed n c d = sum_list (map (\<lambda>cc. if cc_CounterSet cc = n then counter (cc_Counters cc) c else 0) (rd_ConsumesCounters d))"

definition feasible :: "CounterSet list \<Rightarrow> resource_Device list \<Rightarrow> bool" where
  "feasible css ds \<longleftrightarrow> (\<forall>d \<in> set ds. \<forall>cc \<in> set (rd_ConsumesCounters d). \<forall>c \<in> fst ` set (cc_Counters cc).
     sum_list (map (consumed (cc_CounterSet cc) c) ds) \<le> shared css (cc_CounterSet cc) c)"

text \<open>The memory slices of a device.\<close>

definition mem_slices :: "AllocatableDevice \<Rightarrow> int set" where
  "mem_slices d = (case ad_Gpu d of Some g \<Rightarrow> {0..<gi_memSliceCount g}
   | None \<Rightarrow> (case ad_MigDynamic d of Some m \<Rightarrow> {mp_PlacementStart m..<mp_PlacementStart m + mp_PlacementSize m} | None \<Rightarrow> {}))"

definition mig_allocatable :: "MigSpec \<Rightarrow> AllocatableDevice" where
  "mig_allocatable m = \<lparr>ad_Gpu = None, ad_MigDynamic = Some m, ad_MigStatic = None, ad_Vfio = None, ad_taints = []\<rparr>"

section \<open>Lemmas\<close>

lemma map_of_fold_update_const:
  "map_of (fold (\<lambda>i. AList.update (f i) v) is m) k = (if k \<in> f ` set is then Some v else map_of m k)"
  by (induction "is" arbitrary: m) (auto simp: update_conv')

lemma memsliceCounterName_inject [simp]: "memsliceCounterName i = memsliceCounterName j \<longleftrightarrow> i = j"
  by (simp add: memsliceCounterName_def)

lemma map_of_addCounters:
  "map_of (addCountersForMemSlices m s z) k = (if k \<in> memsliceCounterName ` {s..<s + z} then Some 1 else map_of m k)"
proof -
  have "set [s..s + z - 1] = {s..<s + z}" by auto
  then show ?thesis by (simp only: addCountersForMemSlices_def map_of_fold_update_const)
qed

lemma keys_capacitiesToCounters: "fst ` set (capacitiesToCounters m) = camelToDNSName ` fst ` set m"
proof -
  have "fst ` set (fold (\<lambda>(name, cap). AList.update (camelToDNSName name) cap) m acc) = fst ` set acc \<union> camelToDNSName ` fst ` set m" for acc
  proof (induction m arbitrary: acc)
    case (Cons e m)
    have "fst ` set (AList.update (camelToDNSName (fst e)) (snd e) acc) = insert (camelToDNSName (fst e)) (fst ` set acc)"
      by (simp add: dom_map_of_conv_image_fst [symmetric] update_conv')
    with Cons.IH show ?case by (cases e) auto
  qed simp
  from this [of "[]"] show ?thesis by (simp add: capacitiesToCounters_def)
qed

definition capacity_names :: "string list" where
  "capacity_names = [''multiprocessors'', ''copyEngines'', ''decoders'', ''encoders'', ''jpegEngines'', ''ofaEngines'', ''memory'']"

lemma keys_CommonCapacitiesMig: "map fst (CommonCapacitiesMig p) = capacity_names"
  by (simp add: CommonCapacitiesMig_def capacity_names_def)

lemma counter_names:
  "map camelToDNSName capacity_names =
     [''multiprocessors'', ''copy-engines'', ''decoders'', ''encoders'', ''jpeg-engines'', ''ofa-engines'', ''memory'']"
  by code_simp

lemma no_slice_counter:
  assumes "fst ` set m \<subseteq> set capacity_names"
  shows "map_of (capacitiesToCounters m) (memsliceCounterName i) = None"
proof -
  have "memsliceCounterName i \<notin> set (map camelToDNSName capacity_names)"
    unfolding counter_names by (simp add: memsliceCounterName_def)
  then have "memsliceCounterName i \<notin> fst ` set (capacitiesToCounters m)"
    using assms by (auto simp: keys_capacitiesToCounters)
  then show ?thesis by (simp add: map_of_eq_None_iff)
qed

lemma counter_slice:
  "fst ` set m \<subseteq> set capacity_names \<Longrightarrow>
     counter (addCountersForMemSlices (capacitiesToCounters m) s z) (memsliceCounterName i) = of_bool (s \<le> i \<and> i < s + z)"
  by (auto simp: counter_def map_of_addCounters no_slice_counter)

subsection \<open>Walking the profiles\<close>

definition walk_ok :: "GpuInfo \<Rightarrow> mig_walk \<Rightarrow> bool" where
  "walk_ok g w \<longleftrightarrow> gomap (mw_maxCapacities w) \<and> fst ` set (mw_maxCapacities w) \<subseteq> set capacity_names \<and> 0 \<le> mw_maxMemSlicesConsumed w \<and>
     (\<forall>m \<in> set (mw_infos w). mp_Parent m = g \<and> mp_PlacementSize m \<le> mw_maxMemSlicesConsumed w \<and>
        (\<forall>k v. (k, v) \<in> set (MigSpec_Capacities m) \<longrightarrow> v \<le> counter (mw_maxCapacities w) k \<and> map_of (mw_maxCapacities w) k \<noteq> None))"

lemma keys_setMax: "fst ` set (setMax m k v) = insert k (fst ` set m)"
  by (auto simp: setMax_def dom_map_of_conv_image_fst [symmetric] update_conv' split: option.splits)

lemma setMax_bounds:
  "map_of (setMax m k v) k \<noteq> None" "v \<le> counter (setMax m k v) k"
  "map_of m k' \<noteq> None \<Longrightarrow> map_of (setMax m k v) k' \<noteq> None \<and> counter m k' \<le> counter (setMax m k v) k'"
  by (auto simp: setMax_def counter_def update_conv' split: option.splits if_splits)

definition fold_setMax :: "(string, int) gomap \<Rightarrow> (string, int) gomap \<Rightarrow> (string, int) gomap" where
  "fold_setMax caps m = fold (\<lambda>(name, cap) m. setMax m name cap) caps m"

lemma keys_fold_setMax: "fst ` set (fold_setMax caps m) = fst ` set caps \<union> fst ` set m"
  unfolding fold_setMax_def
proof (induction caps arbitrary: m)
  case (Cons e caps)
  then show ?case by (cases e) (simp add: keys_setMax)
qed simp

lemma gomap_fold_setMax: "gomap m \<Longrightarrow> gomap (fold_setMax caps m)"
  unfolding fold_setMax_def
proof (induction caps arbitrary: m)
  case (Cons e caps)
  have "gomap (setMax m k v)" for k v using Cons.prems by (simp add: setMax_def distinct_update split: option.split)
  with Cons show ?case by (cases e) simp
qed simp

lemma fold_setMax_mono:
  "map_of m k \<noteq> None \<Longrightarrow> map_of (fold_setMax caps m) k \<noteq> None \<and> counter m k \<le> counter (fold_setMax caps m) k"
  unfolding fold_setMax_def
proof (induction caps arbitrary: m)
  case (Cons e caps)
  obtain n c where e: "e = (n, c)" by force
  from setMax_bounds(3) [OF Cons.prems, where k = n and v = c] Cons.IH [of "setMax m n c"] show ?case unfolding e by force
qed simp

lemma fold_setMax_above:
  "(k, v) \<in> set caps \<Longrightarrow> map_of (fold_setMax caps m) k \<noteq> None \<and> v \<le> counter (fold_setMax caps m) k"
proof (induction caps arbitrary: m)
  case (Cons e caps)
  obtain n c where e: "e = (n, c)" by force
  have step: "fold_setMax (e # caps) m = fold_setMax caps (setMax m n c)" by (simp add: e fold_setMax_def)
  show ?case
  proof (cases "(k, v) = (n, c)")
    case True
    with setMax_bounds(1,2) [where m = m and k = n and v = c] fold_setMax_mono [of "setMax m n c" n caps] show ?thesis
      unfolding step by fastforce
  next
    case False
    then have "(k, v) \<in> set caps" using Cons.prems e by auto
    then show ?thesis unfolding step by (rule Cons.IH)
  qed
qed simp

lemma walk_placement_ok:
  assumes "walk_ok g w" shows "walk_ok g (walk_placement g profile info placement w)"
proof -
  let ?caps = "CommonCapacitiesMig info" and ?M = "mw_maxCapacities w"
  have caps: "fst ` set ?caps = set capacity_names" using keys_CommonCapacitiesMig [of info] by (metis list.set_map)
  have M: "mw_maxCapacities (walk_placement g profile info placement w) = fold_setMax ?caps ?M"
    by (simp add: walk_placement_def Let_def MigSpec_Capacities_def fold_setMax_def)
  have keys: "fst ` set (fold_setMax ?caps ?M) \<subseteq> set capacity_names"
    using assms caps by (auto simp: keys_fold_setMax walk_ok_def)
  have old: "v \<le> counter (fold_setMax ?caps ?M) k \<and> map_of (fold_setMax ?caps ?M) k \<noteq> None"
    if "m \<in> set (mw_infos w)" "(k, v) \<in> set (MigSpec_Capacities m)" for m k v
  proof -
    from assms that have "v \<le> counter ?M k" "map_of ?M k \<noteq> None" unfolding walk_ok_def by blast+
    with fold_setMax_mono [of ?M k ?caps] show ?thesis by force
  qed
  have new: "v \<le> counter (fold_setMax ?caps ?M) k \<and> map_of (fold_setMax ?caps ?M) k \<noteq> None" if "(k, v) \<in> set ?caps" for k v
    using fold_setMax_above [OF that] by blast
  show ?thesis
    using assms keys old new gomap_fold_setMax [of ?M ?caps] unfolding walk_ok_def M
    by (fastforce simp: walk_placement_def Let_def MigSpec_Capacities_def)
qed

lemma walk_placements_ok: "walk_ok g w \<Longrightarrow> walk_ok g (fold (walk_placement g profile info) ps w)"
  by (induction ps arbitrary: w) (simp_all add: walk_placement_ok)

lemma visit_profile_ok: "visit_profile nv g p w = Ok w' \<Longrightarrow> walk_ok g w \<Longrightarrow> walk_ok g w'"
  by (auto simp: visit_profile_def walk_placements_ok split: if_splits nvml.splits nvml_Error.splits)

lemma visit_profiles_ok: "visit_profiles nv g ps w = Ok w' \<Longrightarrow> walk_ok g w \<Longrightarrow> walk_ok g w'"
  by (induction ps arbitrary: w) (auto simp: visit_profile_ok)

lemma inspect_Ok:
  assumes "inspectMigProfilesAndPlacements nv profiles g = Ok (g', specs)"
  obtains w where "walk_ok g w" "g' = g\<lparr>gi_maxCapacities := mw_maxCapacities w, gi_memSliceCount := mw_maxMemSlicesConsumed w\<rparr>"
    "specs = map (\<lambda>m. m\<lparr>mp_Parent := g'\<rparr>) (mw_infos w)"
proof -
  let ?w0 = "\<lparr>mw_infos = [], mw_maxCapacities = [], mw_maxMemSlicesConsumed = 0\<rparr>"
  from assms obtain w where w: "visit_profiles nv g profiles ?w0 = Ok w"
    "g' = AddDetailAfterWalkingMigProfiles (mw_maxCapacities w) (mw_maxMemSlicesConsumed w) g"
    "specs = map (\<lambda>m. m\<lparr>mp_Parent := g'\<rparr>) (mw_infos w)"
    by (auto simp: inspectMigProfilesAndPlacements_def Let_def)
  have "walk_ok g ?w0" by (simp add: walk_ok_def)
  from visit_profiles_ok [OF w(1) this] w(2,3) show thesis by (intro that [of w]) (simp_all add: AddDetailAfterWalkingMigProfiles_def)
qed

subsection \<open>Consumed counters\<close>

lemma announced_counters:
  "ad_PartGetDevice mustParse (gpu_allocatable g) = Ok r \<Longrightarrow> rd_ConsumesCounters r = GpuInfo_PartConsumesCounters g"
  "ad_PartGetDevice mustParse (mig_allocatable m) = Ok r \<Longrightarrow> rd_ConsumesCounters r = MigSpec_PartConsumesCounters m"
  by (auto simp: ad_PartGetDevice_def join_go_def by_type_def gpu_allocatable_def mig_allocatable_def
      GpuInfo_PartGetDevice_def MigSpec_PartGetDevice_def)

definition partitions :: "GpuInfo \<Rightarrow> MigSpec list \<Rightarrow> AllocatableDevice set" where
  "partitions g specs = insert (gpu_allocatable g) (mig_allocatable ` set specs)"

lemma inspected:
  assumes "inspectMigProfilesAndPlacements nv profiles g = Ok (g', specs)"
  shows "fst ` set (gi_maxCapacities g') \<subseteq> set capacity_names" "gomap (gi_maxCapacities g')" "m \<in> set specs \<Longrightarrow> mp_Parent m = g'"
    "m \<in> set specs \<Longrightarrow> (k, v) \<in> set (MigSpec_Capacities m) \<Longrightarrow> v \<le> counter (gi_maxCapacities g') k"
proof -
  obtain w where w: "walk_ok g w"
    "g' = g\<lparr>gi_maxCapacities := mw_maxCapacities w, gi_memSliceCount := mw_maxMemSlicesConsumed w\<rparr>"
    "specs = map (\<lambda>m. m\<lparr>mp_Parent := g'\<rparr>) (mw_infos w)" using inspect_Ok [OF assms] .
  show "fst ` set (gi_maxCapacities g') \<subseteq> set capacity_names" "gomap (gi_maxCapacities g')" using w(1,2) by (simp_all add: walk_ok_def)
  show "mp_Parent m = g'" if "m \<in> set specs" using that unfolding w(3) by auto
  show "v \<le> counter (gi_maxCapacities g') k" if m: "m \<in> set specs" and k: "(k, v) \<in> set (MigSpec_Capacities m)"
  proof -
    from m obtain m0 where m0: "m0 \<in> set (mw_infos w)" "m = m0\<lparr>mp_Parent := g'\<rparr>" unfolding w(3) by auto
    then have "(k, v) \<in> set (MigSpec_Capacities m0)" using k by (simp add: MigSpec_Capacities_def)
    with m0(1) w(1) have "v \<le> counter (mw_maxCapacities w) k" unfolding walk_ok_def by blast
    then show ?thesis by (simp add: w(2))
  qed
qed

lemma partition_counters:
  assumes ins: "inspectMigProfilesAndPlacements nv profiles g = Ok (g', specs)" and d: "d \<in> partitions g' specs"
    and r: "ad_PartGetDevice mustParse d = Ok r"
  obtains caps s z where "rd_ConsumesCounters r = [\<lparr>cc_CounterSet = GetSharedCounterSetName g',
      cc_Counters = addCountersForMemSlices (capacitiesToCounters caps) s z\<rparr>]"
    "fst ` set caps \<subseteq> set capacity_names" "mem_slices d = {s..<s + z}" "gomap caps"
    "\<And>k v. (k, v) \<in> set caps \<Longrightarrow> v \<le> counter (gi_maxCapacities g') k"
proof (cases "d = gpu_allocatable g'")
  case True
  have "mem_slices d = {0..<0 + gi_memSliceCount g'}" by (simp add: True mem_slices_def gpu_allocatable_def)
  moreover have "rd_ConsumesCounters r = GpuInfo_PartConsumesCounters g'" using announced_counters(1) r True by blast
  moreover have "v \<le> counter (gi_maxCapacities g') k" if "(k, v) \<in> set (gi_maxCapacities g')" for k v
    using that inspected(2) [OF ins] by (simp add: counter_def)
  ultimately show thesis
    using inspected(1,2) [OF ins] by (intro that [of "gi_maxCapacities g'" 0 "gi_memSliceCount g'"])
      (simp_all add: GpuInfo_PartConsumesCounters_def)
next
  case False
  with d obtain m where m: "m \<in> set specs" "d = mig_allocatable m" by (auto simp: partitions_def)
  have "fst ` set (MigSpec_Capacities m) = set capacity_names" and "gomap (MigSpec_Capacities m)"
    using keys_CommonCapacitiesMig [of "mp_GIProfileInfo m"]
    by (simp_all add: MigSpec_Capacities_def capacity_names_def flip: list.set_map)
  moreover have "mem_slices d = {mp_PlacementStart m..<mp_PlacementStart m + mp_PlacementSize m}"
    by (simp add: m mem_slices_def mig_allocatable_def)
  moreover have "rd_ConsumesCounters r = MigSpec_PartConsumesCounters m" using announced_counters(2) r m by blast
  ultimately show thesis
    using inspected(3,4) [OF ins m(1)] by (intro that [of "MigSpec_Capacities m" "mp_PlacementStart m" "mp_PlacementSize m"])
      (simp_all add: MigSpec_PartConsumesCounters_def)
qed

lemma shared_counter:
  "shared (PartSharedCounterSets g) (GetSharedCounterSetName g) c =
     counter (addCountersForMemSlices (capacitiesToCounters (gi_maxCapacities g)) 0 (gi_memSliceCount g)) c"
  by (simp add: shared_def PartSharedCounterSets_def)

lemma consumed_slice:
  assumes "inspectMigProfilesAndPlacements nv profiles g = Ok (g', specs)" and "d \<in> partitions g' specs"
    and "ad_PartGetDevice mustParse d = Ok r"
  shows "consumed (GetSharedCounterSetName g') (memsliceCounterName i) r = of_bool (i \<in> mem_slices d)"
  using partition_counters [OF assms] by (cases rule: partition_counters [OF assms]) (simp add: consumed_def counter_slice)

lemma two_summands:
  fixes f :: "'a \<Rightarrow> int"
  assumes "\<And>x. x \<in> set xs \<Longrightarrow> 0 \<le> f x" and "i < j" and "j < length xs"
  shows "f (xs ! i) + f (xs ! j) \<le> sum_list (map f xs)"
proof -
  have "(\<Sum>n \<in> {i, j}. f (xs ! n)) \<le> (\<Sum>n \<in> {0..<length xs}. f (xs ! n))"
    using assms by (intro sum_mono2) auto
  then show ?thesis using assms(2) by (simp add: sum_list_sum_nth)
qed

lemma one_summand:
  fixes f :: "'a \<Rightarrow> int"
  assumes "\<And>x. x \<in> set xs \<Longrightarrow> 0 \<le> f x" and "i < length xs"
  shows "f (xs ! i) \<le> sum_list (map f xs)"
proof -
  have "(\<Sum>n \<in> {i}. f (xs ! n)) \<le> (\<Sum>n \<in> {0..<length xs}. f (xs ! n))"
    using assms by (intro sum_mono2) auto
  then show ?thesis by (simp add: sum_list_sum_nth)
qed

text \<open>All memory slices an allocation uses are counted, and counted once.\<close>

lemma feasible_slice:
  assumes ins: "inspectMigProfilesAndPlacements nv profiles g = Ok (g', specs)" and ds: "set ds \<subseteq> partitions g' specs"
    and rs: "list_all2 (\<lambda>d r. ad_PartGetDevice mustParse d = Ok r) ds rs"
    and feas: "feasible (PartSharedCounterSets g') rs" and i: "i < length ds" and k: "k \<in> mem_slices (ds ! i)"
  shows "sum_list (map (consumed (GetSharedCounterSetName g') (memsliceCounterName k)) rs) \<le> of_bool (0 \<le> k \<and> k < gi_memSliceCount g')"
proof -
  have di: "ds ! i \<in> partitions g' specs" using ds i by auto
  have ri: "ad_PartGetDevice mustParse (ds ! i) = Ok (rs ! i)" "rs ! i \<in> set rs"
    using rs i by (auto simp: list_all2_conv_all_nth)
  obtain caps s z where c: "rd_ConsumesCounters (rs ! i) = [\<lparr>cc_CounterSet = GetSharedCounterSetName g',
      cc_Counters = addCountersForMemSlices (capacitiesToCounters caps) s z\<rparr>]" "mem_slices (ds ! i) = {s..<s + z}"
    using partition_counters [OF ins di ri(1)] by metis
  have "map_of (addCountersForMemSlices (capacitiesToCounters caps) s z) (memsliceCounterName k) = Some 1"
    using k c(2) by (simp add: map_of_addCounters)
  then have "memsliceCounterName k \<in> fst ` set (addCountersForMemSlices (capacitiesToCounters caps) s z)"
    by (metis map_of_eq_None_iff option.distinct(1))
  with feas ri(2) c(1) have "sum_list (map (consumed (GetSharedCounterSetName g') (memsliceCounterName k)) rs)
      \<le> shared (PartSharedCounterSets g') (GetSharedCounterSetName g') (memsliceCounterName k)"
    unfolding feasible_def by fastforce
  then show ?thesis using inspected(1) [OF ins] by (simp add: shared_counter counter_slice)
qed

subsection \<open>Capacities\<close>

lemma camelToDNSName_inj: "inj_on camelToDNSName (set capacity_names)"
proof -
  have "distinct (map camelToDNSName capacity_names)" unfolding counter_names by simp
  then show ?thesis by (simp add: distinct_map)
qed

lemma map_of_capacitiesToCounters:
  assumes "gomap m" and "fst ` set m \<subseteq> set capacity_names" and "k \<in> set capacity_names"
  shows "map_of (capacitiesToCounters m) (camelToDNSName k) = map_of m k"
proof -
  have "map_of (fold (\<lambda>(name, cap). AList.update (camelToDNSName name) cap) m acc) (camelToDNSName k) =
      (case map_of m k of Some v \<Rightarrow> Some v | None \<Rightarrow> map_of acc (camelToDNSName k))" for acc
    using assms(1,2)
  proof (induction m arbitrary: acc)
    case (Cons e m)
    obtain n v where e: "e = (n, v)" by force
    from Cons.prems assms(3) have "camelToDNSName n = camelToDNSName k \<longleftrightarrow> n = k"
      by (intro inj_on_eq_iff [OF camelToDNSName_inj]) (simp_all add: e)
    moreover have "n = k \<Longrightarrow> map_of m k = None" using Cons.prems by (simp add: e map_of_eq_None_iff)
    ultimately show ?case
      using Cons.IH [of "AList.update (camelToDNSName n) v acc"] Cons.prems
      by (auto simp: e update_conv' split: option.split)
  qed simp
  from this [of "[]"] show ?thesis by (simp add: capacitiesToCounters_def split: option.split)
qed

text \<open>A device by itself fits into the counters of its GPU.\<close>

lemma counter_fits:
  assumes caps: "gomap caps" "fst ` set caps \<subseteq> set capacity_names" and all: "gomap all" "fst ` set all \<subseteq> set capacity_names"
    and le: "\<And>k v. (k, v) \<in> set caps \<Longrightarrow> v \<le> counter all k" and sub: "{s..<s + z} \<subseteq> {0..<n}"
    and c: "c \<in> fst ` set (addCountersForMemSlices (capacitiesToCounters caps) s z)"
  shows "counter (addCountersForMemSlices (capacitiesToCounters caps) s z) c \<le> counter (addCountersForMemSlices (capacitiesToCounters all) 0 n) c"
proof (cases "c \<in> range memsliceCounterName")
  case True
  then obtain k where k: "c = memsliceCounterName k" by auto
  have "s \<le> k \<and> k < s + z \<Longrightarrow> 0 \<le> k \<and> k < n" using sub by (metis atLeastLessThan_iff subsetD)
  then show ?thesis by (simp add: k counter_slice caps all)
next
  case False
  then have look: "map_of (addCountersForMemSlices (capacitiesToCounters m) s z) c = map_of (capacitiesToCounters m) c" for m s z
    by (auto simp: map_of_addCounters)
  from c have "map_of (addCountersForMemSlices (capacitiesToCounters caps) s z) c \<noteq> None" by (simp add: map_of_eq_None_iff)
  then have "c \<in> fst ` set (capacitiesToCounters caps)" unfolding look by (metis map_of_eq_None_iff)
  then obtain k where k: "c = camelToDNSName k" "k \<in> fst ` set caps" "k \<in> set capacity_names"
    using caps(2) by (auto simp: keys_capacitiesToCounters)
  then obtain v where v: "(k, v) \<in> set caps" by auto
  then have "map_of caps k = Some v" using caps(1) by simp
  with le [OF v] show ?thesis
    using k(3) by (simp add: counter_def look [unfolded k(1)] k(1) map_of_capacitiesToCounters caps all)
qed

section \<open>Properties\<close>

text \<open>C7. The announced counters keep partitions apart: when the devices of a GPU that the scheduler allocates together consume no
  more of any counter than announced, then no two of them (MIG devices or the full GPU) have a memory
  slice in common, and all their memory slices exist on the GPU.\<close>

theorem partitions_exclusive:
  assumes "inspectMigProfilesAndPlacements nv profiles g = Ok (g', specs)" and "set ds \<subseteq> partitions g' specs"
    and "list_all2 (\<lambda>d r. ad_PartGetDevice mustParse d = Ok r) ds rs" and "feasible (PartSharedCounterSets g') rs"
    and "i < j" and "j < length ds"
  shows "mem_slices (ds ! i) \<inter> mem_slices (ds ! j) = {} \<and> mem_slices (ds ! j) \<subseteq> {0..<gi_memSliceCount g'}"
proof -
  let ?f = "\<lambda>k. consumed (GetSharedCounterSetName g') (memsliceCounterName k)"
  have len: "length rs = length ds" and r: "\<And>n. n < length ds \<Longrightarrow> ad_PartGetDevice mustParse (ds ! n) = Ok (rs ! n)"
    using assms(3) by (auto simp: list_all2_conv_all_nth)
  have f: "?f k (rs ! n) = of_bool (k \<in> mem_slices (ds ! n))" if "n < length ds" for k n
    using consumed_slice [OF assms(1) _ r [OF that]] assms(2) that by (meson nth_mem subsetD)
  then have pos: "0 \<le> ?f k x" if "x \<in> set rs" for k x
    using that len by (auto simp: in_set_conv_nth)
  note sum = feasible_slice [OF assms(1-4)]
  have False if "k \<in> mem_slices (ds ! i)" "k \<in> mem_slices (ds ! j)" for k
  proof -
    have "?f k (rs ! i) + ?f k (rs ! j) = 2" using f assms(5,6) that by simp
    with two_summands [of rs "?f k" i j, OF pos assms(5)] sum [OF assms(6) that(2)] assms(6) len show False
      by (simp add: of_bool_def split: if_splits)
  qed
  moreover have "0 \<le> k \<and> k < gi_memSliceCount g'" if "k \<in> mem_slices (ds ! j)" for k
  proof -
    have "?f k (rs ! j) = 1" using f assms(6) that by simp
    with one_summand [of rs "?f k" j, OF pos] sum [OF assms(6) that] assms(6) len show ?thesis
      by (simp add: of_bool_def split: if_splits)
  qed
  ultimately show ?thesis by auto
qed

text \<open>Every announced device of a GPU can be allocated when nothing else is: it consumes no more of any counter than
  announced, provided that the largest placement covers all others.\<close>

theorem partition_allocatable:
  assumes "inspectMigProfilesAndPlacements nv profiles g = Ok (g', specs)" and "d \<in> partitions g' specs"
    and "ad_PartGetDevice mustParse d = Ok r" and "mem_slices d \<subseteq> {0..<gi_memSliceCount g'}"
  shows "feasible (PartSharedCounterSets g') [r]"
proof -
  obtain caps s z where c: "rd_ConsumesCounters r = [\<lparr>cc_CounterSet = GetSharedCounterSetName g',
      cc_Counters = addCountersForMemSlices (capacitiesToCounters caps) s z\<rparr>]"
    "fst ` set caps \<subseteq> set capacity_names" "mem_slices d = {s..<s + z}" "gomap caps"
    "\<And>k v. (k, v) \<in> set caps \<Longrightarrow> v \<le> counter (gi_maxCapacities g') k"
    by (rule partition_counters [OF assms(1-3)]) blast
  show ?thesis
    using counter_fits [OF c(4,2) inspected(2,1) [OF assms(1)] c(5) assms(4) [unfolded c(3)]]
    by (simp add: feasible_def c(1) consumed_def shared_counter)
qed

subsection \<open>Witnesses\<close>

text \<open>A GPU with two memory slices: two small partitions, or a large one.\<close>

definition example_profile :: "int \<Rightarrow> MigProfile" where
  "example_profile i = \<lparr>pr_String = show_int i @ ''g.10gb'', pr_G = i, pr_C = i, pr_GIProfileID = i, pr_CIProfileID = 0, pr_CIEngProfileID = 0\<rparr>"

definition example_info :: "int \<Rightarrow> GpuInstanceProfileInfo" where
  "example_info i = \<lparr>ip_Id = i, ip_MultiprocessorCount = 16 * i, ip_CopyEngineCount = i, ip_DecoderCount = i, ip_EncoderCount = 0,
     ip_JpegCount = i, ip_OfaCount = 0, ip_MemorySizeMB = 10240 * i\<rparr>"

definition example_nvml :: nvml_profiles where
  "example_nvml = \<lparr>np_GetGpuInstanceProfileInfo = (\<lambda>i. NvSuccess (example_info i)),
     np_GetGpuInstancePossiblePlacements = (\<lambda>p. NvSuccess (if ip_Id p = 1 then [(0, 1), (1, 1)] else [(0, 2)]))\<rparr>"

definition split_gpu :: GpuInfo where
  "split_gpu = example_gpu\<lparr>gi_maxCapacities := CommonCapacitiesMig (example_info 2), gi_memSliceCount := 2\<rparr>"

definition example_spec :: "int \<Rightarrow> int \<Rightarrow> int \<Rightarrow> MigSpec" where
  "example_spec i start sz = \<lparr>mp_Parent = split_gpu, mp_Profile = example_profile i, mp_GIProfileInfo = example_info i,
     mp_PlacementStart = start, mp_PlacementSize = sz\<rparr>"

lemma visit_example:
  "visit_profile example_nvml g (example_profile i) w =
     Ok (fold (walk_placement g (example_profile i) (example_info i)) (if i = 1 then [(0, 1), (1, 1)] else [(0, 2)]) w)"
  by (simp add: visit_profile_def example_nvml_def example_profile_def COMPUTE_INSTANCE_PROFILE_1_SLICE_REV1_def example_info_def)

lemma example_maxima:
  "fold_setMax (CommonCapacitiesMig (example_info 1)) [] = CommonCapacitiesMig (example_info 1)"
  "fold_setMax (CommonCapacitiesMig (example_info 1)) (CommonCapacitiesMig (example_info 1)) = CommonCapacitiesMig (example_info 1)"
  "fold_setMax (CommonCapacitiesMig (example_info 2)) (CommonCapacitiesMig (example_info 1)) = CommonCapacitiesMig (example_info 2)"
  by (simp_all add: fold_setMax_def CommonCapacitiesMig_def setMax_def example_info_def intcap_def to_int64_def)

lemma walk_placement_eq:
  "walk_placement g profile info (start, sz) \<lparr>mw_infos = is, mw_maxCapacities = m, mw_maxMemSlicesConsumed = n\<rparr> =
     \<lparr>mw_infos = is @ [\<lparr>mp_Parent = g, mp_Profile = profile, mp_GIProfileInfo = info, mp_PlacementStart = start, mp_PlacementSize = sz\<rparr>],
      mw_maxCapacities = fold_setMax (CommonCapacitiesMig info) m, mw_maxMemSlicesConsumed = Orderings.max n sz\<rparr>"
  by (simp add: walk_placement_def MigSpec_Capacities_def fold_setMax_def)

lemma example_inspected:
  "inspectMigProfilesAndPlacements example_nvml [example_profile 1, example_profile 2] example_gpu =
     Ok (split_gpu, [example_spec 1 0 1, example_spec 1 1 1, example_spec 2 0 2])"
  by (simp add: inspectMigProfilesAndPlacements_def visit_example walk_placement_eq example_maxima
      AddDetailAfterWalkingMigProfiles_def split_gpu_def example_spec_def Let_def)

lemma capacity_counters:
  "capacitiesToCounters (CommonCapacitiesMig p) =
     [(''multiprocessors'', intcap (ip_MultiprocessorCount p)), (''copy-engines'', intcap (ip_CopyEngineCount p)),
      (''decoders'', intcap (ip_DecoderCount p)), (''encoders'', intcap (ip_EncoderCount p)),
      (''jpeg-engines'', intcap (ip_JpegCount p)), (''ofa-engines'', intcap (ip_OfaCount p)),
      (''memory'', intcap (to_int64 ((ip_MemorySizeMB p * 1024 * 1024) mod 18446744073709551616)))]"
  using counter_names by (simp add: capacitiesToCounters_def CommonCapacitiesMig_def capacity_names_def)

definition announced_spec :: "MigSpec \<Rightarrow> resource_Device" where
  "announced_spec m = \<lparr>rd_Name = MigSpec_CanonicalName m,
     rd_Attributes = (case MigSpec_Attributes Ok m of Ok attrs \<Rightarrow> attrs | _ \<Rightarrow> []), rd_Capacity = MigSpec_Capacities m,
     rd_ConsumesCounters = MigSpec_PartConsumesCounters m, rd_Taints = []\<rparr>"

lemma announced_spec: "ad_PartGetDevice Ok (mig_allocatable m) = Ok (announced_spec m)"
  by (simp add: ad_PartGetDevice_def join_go_def by_type_def mig_allocatable_def MigSpec_PartGetDevice_def announced_spec_def
      MigSpec_Attributes_def CommonAttributesMig_def Let_def)

lemma small_ranges: "[0..1] = [0, 1 :: int]"
  by code_simp

lemma example_feasible:
  "feasible (PartSharedCounterSets split_gpu) [announced_spec (example_spec 1 0 1), announced_spec (example_spec 1 1 1)]"
  by (simp add: feasible_def consumed_def shared_counter announced_spec_def MigSpec_PartConsumesCounters_def example_spec_def
      MigSpec_Capacities_def capacity_counters addCountersForMemSlices_def split_gpu_def example_info_def counter_def
      intcap_def to_int64_def memsliceCounterName_def show_int_def small_ranges)

theorem partitions_exclusive_witness:
  "feasible (PartSharedCounterSets split_gpu) [announced_spec (example_spec 1 0 1), announced_spec (example_spec 1 1 1)] \<and>
   mem_slices (mig_allocatable (example_spec 1 0 1)) \<inter> mem_slices (mig_allocatable (example_spec 1 1 1)) = {}"
  using partitions_exclusive [OF example_inspected _ _ example_feasible, where mustParse = Ok and i = 0 and j = 1
      and ds = "[mig_allocatable (example_spec 1 0 1), mig_allocatable (example_spec 1 1 1)]"] example_feasible
  by (simp add: partitions_def announced_spec)

theorem partition_allocatable_witness:
  "feasible (PartSharedCounterSets split_gpu) [announced_spec (example_spec 2 0 2)]"
proof (rule partition_allocatable [OF example_inspected _ announced_spec])
  show "mem_slices (mig_allocatable (example_spec 2 0 2)) \<subseteq> {0..<gi_memSliceCount split_gpu}"
    by (simp add: mem_slices_def mig_allocatable_def example_spec_def split_gpu_def)
qed (simp add: partitions_def)

end
