(* ===== verification/Gpu_Health.thy ===== *)
theory Gpu_Health
  imports Gpu_Announce
begin

text \<open>
  Device health of the GPU kubelet plugin: the monitor of NVML events (\<open>device_health.go\<close>) and the loop that turns its
  notifications into device taints and publishes them (\<open>deviceHealthEvents\<close> in \<open>driver.go\<close>).

  A device pointer is the key of the device in the map of allocatable devices (\<open>devref\<close>: PCI address and name); no device
  leaves the map, because the feature gate for passthrough excludes health checks. The channel between
  monitor and driver is a queue of bounded length. \<open>health_run\<close> are the reachable states: the monitor adds
  events, the driver takes them, and the driver publishes all devices when it starts, which runs concurrently.
\<close>

section \<open>Events and taints (device_health.go)\<close>

definition FullGPUInstanceID :: int where "FullGPUInstanceID = 4294967295"

definition TaintKeyXID :: string where "TaintKeyXID = ''gpu.nvidia.com/xid''"
definition TaintKeyGPULost :: string where "TaintKeyGPULost = ''gpu.nvidia.com/gpu-lost''"
definition TaintKeyUnmonitored :: string where "TaintKeyUnmonitored = ''gpu.nvidia.com/unmonitored''"

definition DeviceTaintEffectNone :: string where "DeviceTaintEffectNone = ''None''"
definition DeviceTaintEffectNoSchedule :: string where "DeviceTaintEffectNoSchedule = ''NoSchedule''"

lemmas taint_defs = TaintKeyXID_def TaintKeyGPULost_def TaintKeyUnmonitored_def DeviceTaintEffectNone_def
  DeviceTaintEffectNoSchedule_def

datatype DeviceHealthEventType = HealthEventXID | HealthEventGPULost | HealthEventUnmonitored

type_synonym devref = "string \<times> string"

record DeviceHealthEvent =
  he_Devices :: "devref list"
  he_EventType :: DeviceHealthEventType
  he_EventData :: nat

type_synonym devicePlacementMap = "(string, (int, (int, devref) gomap) gomap) gomap"

record health_monitor =
  hm_capacity :: nat
  hm_deviceByPlacement :: devicePlacementMap
  hm_skippedXids :: "nat list"

definition IsEventNonFatal :: "health_monitor \<Rightarrow> DeviceHealthEvent \<Rightarrow> bool" where
  "IsEventNonFatal m event \<longleftrightarrow> he_EventType event = HealthEventXID \<and> he_EventData event \<in> set (hm_skippedXids m)"

definition new_taint :: "string \<Rightarrow> string \<Rightarrow> string \<Rightarrow> DeviceTaint" where
  "new_taint key val eff = \<lparr>tn_Key = key, tn_Value = val, tn_Effect = eff, tn_TimeAdded = None\<rparr>"

definition healthEventToTaint :: "health_monitor \<Rightarrow> DeviceHealthEvent \<Rightarrow> DeviceTaint" where
  "healthEventToTaint m event = (case he_EventType event of
     HealthEventXID \<Rightarrow> new_taint TaintKeyXID (show_nat (he_EventData event))
       (if IsEventNonFatal m event then DeviceTaintEffectNone else DeviceTaintEffectNoSchedule)
   | HealthEventGPULost \<Rightarrow> new_taint TaintKeyGPULost '''' DeviceTaintEffectNoSchedule
   | HealthEventUnmonitored \<Rightarrow> new_taint TaintKeyUnmonitored '''' DeviceTaintEffectNone)"

section \<open>Ignored XIDs\<close>

text \<open>\<open>strconv.ParseUint(s, 10, 64)\<close>\<close>

definition ParseUint64 :: "string \<Rightarrow> nat option" where
  "ParseUint64 s = (if s \<noteq> [] \<and> list_all is_digit s \<and> read_nat 0 s < 18446744073709551616 then Some (read_nat 0 s) else None)"

definition getAdditionalXids :: "string \<Rightarrow> nat list" where
  "getAdditionalXids input =
     (if input = '''' then []
      else List.map_filter (\<lambda>s. let trimmed = strings_TrimSpace s in if trimmed = '''' then None else ParseUint64 trimmed)
        (strings_Split (CHR '','') input))"

definition ignoredXids :: "nat list" where "ignoredXids = [13, 31, 43, 45, 68, 109]"

definition xidsToSkip :: "string \<Rightarrow> nat list" where
  "xidsToSkip additionalXids = ignoredXids @ getAdditionalXids additionalXids"

section \<open>Placements\<close>

definition GetAllDevices :: "PerGPUAllocatableDevices \<Rightarrow> (string, devref \<times> AllocatableDevice) gomap" where
  "GetAllDevices m = fold (\<lambda>(pci, ds) all. fold (\<lambda>(name, d). AList.update name ((pci, name), d)) ds all) m []"

definition addDevice :: "string \<Rightarrow> int \<Rightarrow> int \<Rightarrow> devref \<Rightarrow> devicePlacementMap \<Rightarrow> devicePlacementMap" where
  "addDevice parentUUID giID ciID d p =
     (let giMap = (case map_of p parentUUID of None \<Rightarrow> [] | Some x \<Rightarrow> x);
          ciMap = (case map_of giMap giID of None \<Rightarrow> [] | Some x \<Rightarrow> x)
      in AList.update parentUUID (AList.update giID (AList.update ciID d ciMap) giMap) p)"

definition placement_get :: "devicePlacementMap \<Rightarrow> string \<Rightarrow> int \<Rightarrow> int \<Rightarrow> devref option" where
  "placement_get p uuid gi ci = (case map_of p uuid of None \<Rightarrow> None
   | Some giMap \<Rightarrow> (case map_of giMap gi of None \<Rightarrow> None | Some ciMap \<Rightarrow> map_of ciMap ci))"

text \<open>\<open>None\<close>: the device is skipped. The instance information of a static MIG device is read through a pointer.\<close>

definition device_placement :: "AllocatableDevice \<Rightarrow> (string \<times> int \<times> int) option go" where
  "device_placement d = (case ad_Gpu d of
     Some g \<Rightarrow> Ok (if gi_UUID g = '''' then None else Some (gi_UUID g, FullGPUInstanceID, FullGPUInstanceID))
   | None \<Rightarrow> (case (ad_MigDynamic d, ad_MigStatic d) of
       (None, Some m) \<Rightarrow>
         if gi_UUID (mi_parent m) = '''' then Ok None
         else (case (mi_gIInfo m, mi_cIInfo m) of
             (Some gi, Some ci) \<Rightarrow> Ok (Some (gi_UUID (mi_parent m), gi, ci))
           | _ \<Rightarrow> Panic ''nil pointer dereference'')
     | _ \<Rightarrow> Ok None))"

fun placement_map :: "(string, devref \<times> AllocatableDevice) gomap \<Rightarrow> devicePlacementMap \<Rightarrow> devicePlacementMap go" where
  "placement_map [] p = Ok p"
| "placement_map ((name, r, d) # ds) p = bind_go (device_placement d) (\<lambda>pl. case pl of
     None \<Rightarrow> placement_map ds p
   | Some (uuid, gi, ci) \<Rightarrow> placement_map ds (addDevice uuid gi ci r p))"

definition getDevicePlacementMap :: "(string, devref \<times> AllocatableDevice) gomap \<Rightarrow> devicePlacementMap go" where
  "getDevicePlacementMap allocatable = placement_map allocatable []"

text \<open>\<open>init\<close> is the outcome of initialising NVML.\<close>

definition newNvmlDeviceHealthMonitor :: "unit nvml \<Rightarrow> string \<Rightarrow> PerGPUAllocatableDevices \<Rightarrow> health_monitor go" where
  "newNvmlDeviceHealthMonitor init additionalXids m = (case init of
     NvFailure _ \<Rightarrow> Err (Errorf ''failed to initialize NVML'')
   | NvSuccess _ \<Rightarrow>
       bind_go (getDevicePlacementMap (GetAllDevices m)) (\<lambda>p.
         Ok \<lparr>hm_capacity = length (GetAllDevices m), hm_deviceByPlacement = p, hm_skippedXids = xidsToSkip additionalXids\<rparr>))"

section \<open>The monitor\<close>

definition flattenMIGDeviceMap :: "(int, (int, devref) gomap) gomap \<Rightarrow> devref list" where
  "flattenMIGDeviceMap giMap = concat (map (\<lambda>(gi, ciMap). map snd ciMap) giMap)"

text \<open>A send that does not block: the event is dropped when the channel is full.\<close>

definition sendBatchedHealthEvent ::
  "health_monitor \<Rightarrow> devref list \<Rightarrow> DeviceHealthEventType \<Rightarrow> DeviceHealthEvent list \<Rightarrow> DeviceHealthEvent list" where
  "sendBatchedHealthEvent m devices eventType queue =
     (if devices = [] then queue
      else if length queue < hm_capacity m
      then queue @ [\<lparr>he_Devices = devices, he_EventType = eventType, he_EventData = 0\<rparr>] else queue)"

definition sendHealthEventForDevices ::
  "health_monitor \<Rightarrow> (int, (int, devref) gomap) gomap \<Rightarrow> DeviceHealthEventType \<Rightarrow> DeviceHealthEvent list \<Rightarrow> DeviceHealthEvent list" where
  "sendHealthEventForDevices m giMap eventType = sendBatchedHealthEvent m (flattenMIGDeviceMap giMap) eventType"

definition sendHealthEventForAllDevices ::
  "health_monitor \<Rightarrow> DeviceHealthEventType \<Rightarrow> DeviceHealthEvent list \<Rightarrow> DeviceHealthEvent list" where
  "sendHealthEventForAllDevices m eventType =
     sendBatchedHealthEvent m (concat (map (\<lambda>(uuid, giMap). flattenMIGDeviceMap giMap) (hm_deviceByPlacement m))) eventType"

text \<open>The three calls of NVML that register a GPU: its handle, the supported events, the registration.\<close>

definition monitored :: "unit nvml \<times> unit nvml \<times> unit nvml \<Rightarrow> bool" where
  "monitored answers = (case answers of (handle, supported, register) \<Rightarrow>
     handle = NvSuccess () \<and> supported = NvSuccess () \<and> register = NvSuccess ())"

definition registerEventsForDevices ::
  "health_monitor \<Rightarrow> (string \<Rightarrow> unit nvml \<times> unit nvml \<times> unit nvml) \<Rightarrow> DeviceHealthEvent list \<Rightarrow> DeviceHealthEvent list" where
  "registerEventsForDevices m nv queue =
     fold (\<lambda>(parentUUID, giMap) q. if monitored (nv parentUUID) then q else sendHealthEventForDevices m giMap HealthEventUnmonitored q)
       (hm_deviceByPlacement m) queue"

text \<open>Start-up; the outcomes of initialising NVML and of creating the event set are arguments, and the result is the filled channel.\<close>

definition monitor_Start ::
  "health_monitor \<Rightarrow> unit nvml \<Rightarrow> unit nvml \<Rightarrow> (string \<Rightarrow> unit nvml \<times> unit nvml \<times> unit nvml) \<Rightarrow> DeviceHealthEvent list go" where
  "monitor_Start m init eventSet nv = (case init of
     NvFailure _ \<Rightarrow> Err (Errorf ''failed to initialize NVML'')
   | NvSuccess _ \<Rightarrow> (case eventSet of
       NvFailure _ \<Rightarrow> Err (Errorf ''failed to create event set'')
     | NvSuccess _ \<Rightarrow> Ok (registerEventsForDevices m nv [])))"

record EventData =
  ev_Type :: nat
  ev_Data :: nat
  ev_GpuInstanceId :: int
  ev_ComputeInstanceId :: int
  ev_UUID :: "string nvml"

definition EventTypeXidCriticalError :: nat where "EventTypeXidCriticalError = 8"

text \<open>
  One round of the monitor with the answer of \<open>eventSet.Wait\<close>. An XID is sent with a blocking send: \<open>None\<close>, when the channel is
  full, stands for the monitor waiting.
\<close>

definition monitor_round :: "health_monitor \<Rightarrow> EventData nvml \<Rightarrow> DeviceHealthEvent list \<Rightarrow> DeviceHealthEvent list option" where
  "monitor_round m answer queue = (case answer of
     NvFailure ERROR_GPU_IS_LOST \<Rightarrow> Some (sendHealthEventForAllDevices m HealthEventGPULost queue)
   | NvFailure _ \<Rightarrow> Some queue
   | NvSuccess event \<Rightarrow>
       if ev_Type event \<noteq> EventTypeXidCriticalError then Some queue
       else (case ev_UUID event of
           NvFailure _ \<Rightarrow> Some (sendHealthEventForAllDevices m HealthEventGPULost queue)
         | NvSuccess uuid \<Rightarrow>
             (case placement_get (hm_deviceByPlacement m) uuid (ev_GpuInstanceId event) (ev_ComputeInstanceId event) of
                None \<Rightarrow> Some queue
              | Some d \<Rightarrow>
                  if length queue < hm_capacity m
                  then Some (queue @ [\<lparr>he_Devices = [d], he_EventType = HealthEventXID, he_EventData = ev_Data event\<rparr>])
                  else None)))"

section \<open>The driver (driver.go)\<close>

definition device_at :: "PerGPUAllocatableDevices \<Rightarrow> devref \<Rightarrow> AllocatableDevice option" where
  "device_at m r = map_of (gpu_devices m (fst r)) (snd r)"

definition AddDeviceTaint :: "devref \<Rightarrow> DeviceTaint \<Rightarrow> PerGPUAllocatableDevices \<Rightarrow> PerGPUAllocatableDevices \<times> bool" where
  "AddDeviceTaint r taint m = (case device_at m r of
     None \<Rightarrow> (m, False)
   | Some d \<Rightarrow> (case AddOrUpdateTaint taint d of (d', modified) \<Rightarrow>
       (AList.update (fst r) (AList.update (snd r) d' (gpu_devices m (fst r))) m, modified)))"

text \<open>The loop over the devices of an event; \<open>dev.UUID()\<close> in its log message may panic.\<close>

fun taint_devices :: "DeviceTaint \<Rightarrow> devref list \<Rightarrow> PerGPUAllocatableDevices \<Rightarrow> (PerGPUAllocatableDevices \<times> bool) go" where
  "taint_devices taint [] m = Ok (m, False)"
| "taint_devices taint (r # rs) m =
     bind_go (case device_at m r of None \<Rightarrow> Ok '''' | Some d \<Rightarrow> ad_UUID d) (\<lambda>_.
     case AddDeviceTaint r taint m of (m', modified) \<Rightarrow>
       bind_go (taint_devices taint rs m') (\<lambda>(m'', modified'). Ok (m'', modified \<or> modified')))"

fun tainted_devices :: "(string \<Rightarrow> string go) \<Rightarrow> AllocatableDevice list \<Rightarrow> resource_Device list go" where
  "tainted_devices mustParse [] = Ok []"
| "tainted_devices mustParse (d # ds) =
     bind_go (ad_GetDevice mustParse d) (\<lambda>r. bind_go (tainted_devices mustParse ds) (\<lambda>rs.
       Ok ((if ad_taints d \<noteq> [] then r\<lparr>rd_Taints := ad_taints d\<rparr> else r) # rs)))"

record health =
  hs_allocatable :: PerGPUAllocatableDevices
  hs_queue :: "DeviceHealthEvent list"
  hs_published :: "Slice list option"

definition all_devices :: "PerGPUAllocatableDevices \<Rightarrow> AllocatableDevice list" where
  "all_devices m = map snd (concat (map snd m))"

text \<open>One notification; \<open>publish\<close> is the outcome of \<open>PublishResources\<close>, whose error is only logged.\<close>

definition deviceHealthEvents_round ::
  "health_monitor \<Rightarrow> (string \<Rightarrow> string go) \<Rightarrow> goerr option \<Rightarrow> DeviceHealthEvent \<Rightarrow> health \<Rightarrow> health go" where
  "deviceHealthEvents_round mon mustParse publish event s =
     bind_go (taint_devices (healthEventToTaint mon event) (he_Devices event) (hs_allocatable s)) (\<lambda>(m, modified).
       let s' = s\<lparr>hs_allocatable := m\<rparr>
       in if \<not> modified then Ok s'
          else bind_go (tainted_devices mustParse (all_devices m)) (\<lambda>ds.
            Ok (if publish = None then s'\<lparr>hs_published := Some [\<lparr>rs_SharedCounters = [], rs_Devices = ds\<rparr>]\<rparr> else s')))"

text \<open>The publication when the driver starts: \<open>publishResources\<close> without dynamic MIG.\<close>

definition startup_publish :: "(string \<Rightarrow> string go) \<Rightarrow> goerr option \<Rightarrow> health \<Rightarrow> health go" where
  "startup_publish mustParse publish s =
     bind_go (get_devices mustParse (all_devices (hs_allocatable s))) (\<lambda>ds.
       Ok (if publish = None then s\<lparr>hs_published := Some [\<lparr>rs_SharedCounters = [], rs_Devices = ds\<rparr>]\<rparr> else s))"

inductive health_run :: "health_monitor \<Rightarrow> (string \<Rightarrow> string go) \<Rightarrow> PerGPUAllocatableDevices \<Rightarrow> health \<Rightarrow> bool"
  for mon :: health_monitor and mustParse :: "string \<Rightarrow> string go" and m0 :: PerGPUAllocatableDevices where
  start: "monitor_Start mon init eventSet nv = Ok q \<Longrightarrow>
    health_run mon mustParse m0 \<lparr>hs_allocatable = m0, hs_queue = q, hs_published = None\<rparr>"
| monitor: "health_run mon mustParse m0 s \<Longrightarrow> monitor_round mon answer (hs_queue s) = Some q \<Longrightarrow>
    health_run mon mustParse m0 (s\<lparr>hs_queue := q\<rparr>)"
| handle: "health_run mon mustParse m0 s \<Longrightarrow> hs_queue s = event # q \<Longrightarrow>
    deviceHealthEvents_round mon mustParse publish event (s\<lparr>hs_queue := q\<rparr>) = Ok s' \<Longrightarrow> health_run mon mustParse m0 s'"
| announce: "health_run mon mustParse m0 s \<Longrightarrow> startup_publish mustParse publish s = Ok s' \<Longrightarrow> health_run mon mustParse m0 s'"

section \<open>Lemmas\<close>

definition clear :: "AllocatableDevice \<Rightarrow> AllocatableDevice" where
  "clear d = d\<lparr>ad_taints := []\<rparr>"

definition untaint :: "PerGPUAllocatableDevices \<Rightarrow> PerGPUAllocatableDevices" where
  "untaint m = map (\<lambda>(pci, ds). (pci, map (\<lambda>(name, d). (name, clear d)) ds)) m"

text \<open>A well-formed set of taints: one per key, each made from an event.\<close>

definition taint_ok :: "health_monitor \<Rightarrow> DeviceTaint \<Rightarrow> bool" where
  "taint_ok mon t \<longleftrightarrow>
     tn_Key t = TaintKeyXID \<and> (\<exists>xid. tn_Value t = show_nat xid \<and>
       tn_Effect t = (if xid \<in> set (hm_skippedXids mon) then DeviceTaintEffectNone else DeviceTaintEffectNoSchedule)) \<or>
     tn_Key t = TaintKeyGPULost \<and> tn_Value t = '''' \<and> tn_Effect t = DeviceTaintEffectNoSchedule \<or>
     tn_Key t = TaintKeyUnmonitored \<and> tn_Value t = '''' \<and> tn_Effect t = DeviceTaintEffectNone"

definition taints_ok :: "health_monitor \<Rightarrow> DeviceTaint list \<Rightarrow> bool" where
  "taints_ok mon ts \<longleftrightarrow> distinct (map tn_Key ts) \<and> (\<forall>t \<in> set ts. taint_ok mon t)"

lemma event_taint_ok: "taint_ok mon (healthEventToTaint mon event)"
  by (cases "he_EventType event") (auto simp: taint_ok_def healthEventToTaint_def new_taint_def IsEventNonFatal_def)

lemma keys_add_taint: "tn_Key ` set (fst (add_taint t ts)) = insert (tn_Key t) (tn_Key ` set ts)"
  by (induction ts) (auto split: prod.splits)

lemma add_taint_ok: "taints_ok mon ts \<Longrightarrow> taint_ok mon t \<Longrightarrow> taints_ok mon (fst (add_taint t ts))"
proof (induction ts)
  case (Cons e ts)
  have e: "taint_ok mon (e\<lparr>tn_Value := tn_Value t, tn_Effect := tn_Effect t, tn_TimeAdded := None\<rparr>)" if "tn_Key e = tn_Key t"
    using Cons.prems(2) that by (simp add: taint_ok_def)
  have IH: "taints_ok mon (fst (add_taint t ts))" using Cons by (simp add: taints_ok_def)
  have "tn_Key e \<notin> tn_Key ` set (fst (add_taint t ts))" if "tn_Key e \<noteq> tn_Key t"
    using Cons.prems(1) that unfolding keys_add_taint by (simp add: taints_ok_def)
  with e IH Cons.prems show ?case by (auto simp: taints_ok_def split: prod.splits)
qed (simp add: taints_ok_def)

lemma add_taint_has:
  "distinct (map tn_Key ts) \<Longrightarrow> \<exists>t' \<in> set (fst (add_taint t ts)). tn_Key t' = tn_Key t \<and> tn_Value t' = tn_Value t \<and> tn_Effect t' = tn_Effect t"
  by (induction ts) (auto split: prod.splits)

lemma gpu_devices_update: "gpu_devices (AList.update p v m) p' = (if p' = p then v else gpu_devices m p')"
  by (simp add: gpu_devices_def update_conv')

lemma device_at_taint:
  "device_at (fst (AddDeviceTaint r t m)) r' =
     (if r' = r then map_option (\<lambda>d. fst (AddOrUpdateTaint t d)) (device_at m r) else device_at m r')"
proof (cases "device_at m r")
  case (Some d)
  then have "map_of (gpu_devices m (fst r)) (snd r) = Some d" by (simp add: device_at_def)
  then show ?thesis
    by (cases r; cases r') (auto simp: AddDeviceTaint_def Some device_at_def gpu_devices_update update_conv' split: prod.splits)
qed (simp add: AddDeviceTaint_def)

lemma clear_AddOrUpdateTaint [simp]: "clear (fst (AddOrUpdateTaint t d)) = clear d"
  by (simp add: AddOrUpdateTaint_def clear_def split: prod.splits)

lemma map_update_same:
  "map_of ds k = Some d \<Longrightarrow> f d' = f d \<Longrightarrow> map (\<lambda>(n, d). (n, f d)) (AList.update k d' ds) = map (\<lambda>(n, d). (n, f d)) ds"
  by (induction ds) auto

lemma untaint_taint [simp]: "untaint (fst (AddDeviceTaint r t m)) = untaint m"
proof (cases "device_at m r")
  case (Some d)
  let ?ds = "gpu_devices m (fst r)"
  from Some have d: "map_of ?ds (snd r) = Some d" and ds: "map_of m (fst r) = Some ?ds"
    by (auto simp: device_at_def gpu_devices_def split: option.splits)
  show ?thesis
    using map_update_same [of m "fst r" ?ds "map (\<lambda>(name, d). (name, clear d))" "AList.update (snd r) (fst (AddOrUpdateTaint t d)) ?ds", OF ds]
      map_update_same [of ?ds "snd r" d clear "fst (AddOrUpdateTaint t d)", OF d]
    by (simp add: AddDeviceTaint_def Some untaint_def case_prod_beta)
qed (simp add: AddDeviceTaint_def)

lemma taint_devices_untaint: "taint_devices t rs m = Ok (m', b) \<Longrightarrow> untaint m' = untaint m"
  by (induction rs arbitrary: m b) (auto split: prod.splits, metis fst_conv untaint_taint)

text \<open>The devices keep their data, and their sets of taints stay well-formed.\<close>

definition tainted_ok :: "health_monitor \<Rightarrow> PerGPUAllocatableDevices \<Rightarrow> bool" where
  "tainted_ok mon m \<longleftrightarrow> (\<forall>r d. device_at m r = Some d \<longrightarrow> taints_ok mon (ad_taints d))"

lemma AddOrUpdateTaint_taints: "ad_taints (fst (AddOrUpdateTaint t d)) = fst (add_taint t (ad_taints d))"
  by (simp add: AddOrUpdateTaint_def split: prod.splits)

lemma AddDeviceTaint_ok: "tainted_ok mon m \<Longrightarrow> taint_ok mon t \<Longrightarrow> tainted_ok mon (fst (AddDeviceTaint r t m))"
  by (auto simp: tainted_ok_def device_at_taint AddOrUpdateTaint_taints add_taint_ok)

lemma taint_devices_ok: "taint_devices t rs m = Ok (m', b) \<Longrightarrow> taint_ok mon t \<Longrightarrow> tainted_ok mon m \<Longrightarrow> tainted_ok mon m'"
  by (induction rs arbitrary: m b) (auto split: prod.splits, metis fst_conv AddDeviceTaint_ok)

lemma round_allocatable:
  assumes "deviceHealthEvents_round mon mustParse publish event s = Ok s'"
  obtains b where "taint_devices (healthEventToTaint mon event) (he_Devices event) (hs_allocatable s) = Ok (hs_allocatable s', b)"
    "hs_queue s' = hs_queue s"
    "\<not> b \<and> hs_published s' = hs_published s \<or> b \<and> (\<exists>ds. tainted_devices mustParse (all_devices (hs_allocatable s')) = Ok ds \<and>
       hs_published s' = (if publish = None then Some [\<lparr>rs_SharedCounters = [], rs_Devices = ds\<rparr>] else hs_published s))"
proof -
  from assms obtain m b where t: "taint_devices (healthEventToTaint mon event) (he_Devices event) (hs_allocatable s) = Ok (m, b)"
    and r: "(if \<not> b then Ok (s\<lparr>hs_allocatable := m\<rparr>) else bind_go (tainted_devices mustParse (all_devices m)) (\<lambda>ds.
        Ok (if publish = None then s\<lparr>hs_allocatable := m, hs_published := Some [\<lparr>rs_SharedCounters = [], rs_Devices = ds\<rparr>]\<rparr>
            else s\<lparr>hs_allocatable := m\<rparr>))) = Ok s'"
    by (auto simp: deviceHealthEvents_round_def Let_def)
  show thesis
  proof (cases b)
    case True
    with r obtain ds where "tainted_devices mustParse (all_devices m) = Ok ds"
      "s' = (if publish = None then s\<lparr>hs_allocatable := m, hs_published := Some [\<lparr>rs_SharedCounters = [], rs_Devices = ds\<rparr>]\<rparr>
             else s\<lparr>hs_allocatable := m\<rparr>)" by auto
    with t True show thesis by (intro that [of b]) simp_all
  qed (use r t in \<open>auto intro: that\<close>)
qed

lemma startup_state:
  assumes "startup_publish mustParse publish s = Ok s'"
  shows "hs_allocatable s' = hs_allocatable s" "hs_queue s' = hs_queue s"
  using assms by (auto simp: startup_publish_def split: if_splits)

lemma health_run_inv:
  assumes "health_run mon mustParse m0 s" and "tainted_ok mon m0"
  shows "untaint (hs_allocatable s) = untaint m0 \<and> tainted_ok mon (hs_allocatable s)"
  using assms(1)
proof induction
  case (handle s event q publish s')
  then show ?case
    using taint_devices_untaint taint_devices_ok [OF _ event_taint_ok]
    by (elim round_allocatable) (metis health.select_convs(1) health.simps(4) health.surjective health.update_convs(2))
qed (use assms(2) startup_state in auto)

subsection \<open>Handling a notification\<close>

definition untainted :: "PerGPUAllocatableDevices \<Rightarrow> bool" where
  "untainted m \<longleftrightarrow> (\<forall>d \<in> set (all_devices m). ad_taints d = [])"

lemma device_at_all: "device_at m r = Some d \<Longrightarrow> d \<in> set (all_devices m)"
proof -
  assume "device_at m r = Some d"
  then obtain ds where "map_of m (fst r) = Some ds" "map_of ds (snd r) = Some d"
    by (auto simp: device_at_def gpu_devices_def split: option.splits)
  then have "(fst r, ds) \<in> set m" "(snd r, d) \<in> set ds" by (simp_all add: map_of_SomeD)
  then show ?thesis by (force simp: all_devices_def)
qed

lemma untainted_ok: "untainted m \<Longrightarrow> tainted_ok mon m"
  using device_at_all by (fastforce simp: untainted_def tainted_ok_def taints_ok_def)

lemma untaint_untainted: "untainted m \<Longrightarrow> untaint m = m"
proof -
  assume u: "untainted m"
  have "map (\<lambda>(name, d). (name, clear d)) ds = ds" if "(pci, ds) \<in> set m" for pci ds
  proof -
    have "clear d = d" if "(name, d) \<in> set ds" for name d
    proof -
      have "d \<in> set (all_devices m)" using that \<open>(pci, ds) \<in> set m\<close> by (force simp: all_devices_def)
      with u show ?thesis by (simp add: untainted_def clear_def)
    qed
    then show ?thesis by (intro map_idI) auto
  qed
  then show ?thesis unfolding untaint_def by (intro map_idI) auto
qed

lemma all_devices_untaint: "all_devices (untaint m) = map clear (all_devices m)"
  by (auto simp: all_devices_def untaint_def map_concat comp_def case_prod_beta)

lemma clear_GetDevice [simp]: "ad_GetDevice mustParse (clear d) = ad_GetDevice mustParse d"
  by (simp add: ad_GetDevice_def by_type_def clear_def cong: option.case_cong)

lemma GetDevice_UUID: "ad_GetDevice mustParse d = Ok r \<Longrightarrow> \<exists>u. ad_UUID d = Ok u"
  by (auto simp: ad_GetDevice_def by_type_def join_go_def ad_UUID_def split: option.splits)

definition announceable :: "(string \<Rightarrow> string go) \<Rightarrow> PerGPUAllocatableDevices \<Rightarrow> bool" where
  "announceable mustParse m \<longleftrightarrow> (\<forall>d \<in> set (all_devices m). is_ok (ad_GetDevice mustParse d))"

lemma announceable_untaint: "announceable mustParse (untaint m) = announceable mustParse m"
  by (auto simp: announceable_def all_devices_untaint)

lemma tainted_devices_Ok: "(\<And>d. d \<in> set ds \<Longrightarrow> is_ok (ad_GetDevice mustParse d)) \<Longrightarrow> \<exists>rs. tainted_devices mustParse ds = Ok rs"
proof (induction ds)
  case (Cons d ds)
  from Cons.prems [of d] obtain r where "ad_GetDevice mustParse d = Ok r" by (auto simp: is_ok_iff)
  moreover from Cons obtain rs where "tainted_devices mustParse ds = Ok rs" by auto
  ultimately show ?case by simp
qed simp

lemma add_taint_unmodified: "\<not> snd (add_taint t ts) \<Longrightarrow> fst (add_taint t ts) = ts"
  by (induction ts) (auto split: prod.splits if_splits)

lemma update_id: "map_of m k = Some v \<Longrightarrow> AList.update k v m = m"
  by (induction m) auto

lemma AddDeviceTaint_unmodified: "\<not> snd (AddDeviceTaint r t m) \<Longrightarrow> fst (AddDeviceTaint r t m) = m"
proof (cases "device_at m r")
  case (Some d)
  assume "\<not> snd (AddDeviceTaint r t m)"
  then have "fst (AddOrUpdateTaint t d) = d"
    using add_taint_unmodified [of t "ad_taints d"] by (simp add: AddDeviceTaint_def Some AddOrUpdateTaint_def case_prod_beta)
  moreover from Some have d: "map_of (gpu_devices m (fst r)) (snd r) = Some d" "map_of m (fst r) = Some (gpu_devices m (fst r))"
    by (auto simp: device_at_def gpu_devices_def split: option.splits)
  ultimately show ?thesis by (simp add: AddDeviceTaint_def Some case_prod_beta update_id)
qed (simp add: AddDeviceTaint_def)

lemma bind_go_assoc: "bind_go (bind_go m f) g = bind_go m (\<lambda>x. bind_go (f x) g)"
  by (cases m) simp_all

text \<open>The devices of an event get its taint, all others stay as they are.\<close>

definition has_taint :: "DeviceTaint \<Rightarrow> AllocatableDevice \<Rightarrow> bool" where
  "has_taint t d \<longleftrightarrow> (\<exists>t' \<in> set (ad_taints d). tn_Key t' = tn_Key t \<and> tn_Value t' = tn_Value t \<and> tn_Effect t' = tn_Effect t)"

definition tainted_by :: "DeviceTaint \<Rightarrow> devref list \<Rightarrow> PerGPUAllocatableDevices \<Rightarrow> PerGPUAllocatableDevices \<Rightarrow> bool" where
  "tainted_by t rs m m' \<longleftrightarrow> (\<forall>r d. device_at m r = Some d \<longrightarrow>
     (\<exists>d'. device_at m' r = Some d' \<and> clear d' = clear d \<and> (if r \<in> set rs then has_taint t d' else d' = d)))"

lemma taint_devices_spec:
  assumes "announceable mustParse m" and "tainted_ok mon m" and "taint_ok mon t"
  shows "\<exists>m' b. taint_devices t rs m = Ok (m', b) \<and> (\<not> b \<longrightarrow> m' = m) \<and>
    tainted_by t rs m m'"
  using assms(1,2)
proof (induction rs arbitrary: m rule: rev_induct)
  case (snoc r rs)
  text \<open>The loop is followed from its end.\<close>
  have app: "taint_devices t (rs @ [r]) m = bind_go (taint_devices t rs m) (\<lambda>(m1, b1).
      bind_go (taint_devices t [r] m1) (\<lambda>(m2, b2). Ok (m2, b1 \<or> b2)))" for m
  proof (induction rs arbitrary: m)
    case (Cons q qs)
    show ?case
      by (cases "case device_at m q of None \<Rightarrow> Ok '''' | Some d \<Rightarrow> ad_UUID d"; cases "taint_devices t qs (fst (AddDeviceTaint q t m))")
        (auto simp: Cons.IH case_prod_beta bind_go_assoc split: go.splits)
  qed (simp add: case_prod_beta bind_go_assoc)
  from snoc obtain m1 b1 where 1: "taint_devices t rs m = Ok (m1, b1)" "\<not> b1 \<longrightarrow> m1 = m"
    "tainted_by t rs m m1" by blast
  have m1: "announceable mustParse m1" "tainted_ok mon m1"
    using taint_devices_untaint [OF 1(1)] snoc.prems announceable_untaint taint_devices_ok [OF 1(1) assms(3)] by metis+
  have "\<exists>u. (case device_at m1 r of None \<Rightarrow> Ok '''' | Some d \<Rightarrow> ad_UUID d) = Ok u"
    using m1(1) GetDevice_UUID device_at_all [of m1 r] by (fastforce simp: announceable_def is_ok_iff split: option.split)
  then have 2: "taint_devices t [r] m1 = Ok (fst (AddDeviceTaint r t m1), snd (AddDeviceTaint r t m1))"
    by (auto simp: case_prod_beta)
  have has: "has_taint t (fst (AddOrUpdateTaint t d))" if "device_at m1 r = Some d" for d
  proof -
    from m1(2) that have "distinct (map tn_Key (ad_taints d))" unfolding tainted_ok_def taints_ok_def by blast
    from add_taint_has [OF this] show ?thesis by (simp add: has_taint_def AddOrUpdateTaint_taints)
  qed
  have "taint_devices t (rs @ [r]) m = Ok (fst (AddDeviceTaint r t m1), b1 \<or> snd (AddDeviceTaint r t m1))"
    unfolding app 1(1) by (simp add: 2 case_prod_beta del: taint_devices.simps)
  moreover have "\<not> (b1 \<or> snd (AddDeviceTaint r t m1)) \<longrightarrow> fst (AddDeviceTaint r t m1) = m"
    using 1(2) AddDeviceTaint_unmodified [of r t m1] by auto
  moreover have "tainted_by t (rs @ [r]) m (fst (AddDeviceTaint r t m1))"
    unfolding tainted_by_def
  proof (intro allI impI)
    fix q d assume "device_at m q = Some d"
    with 1(3) obtain d1 where d1: "device_at m1 q = Some d1" "clear d1 = clear d" "if q \<in> set rs then has_taint t d1 else d1 = d"
      unfolding tainted_by_def by blast
    then show "\<exists>d'. device_at (fst (AddDeviceTaint r t m1)) q = Some d' \<and> clear d' = clear d \<and>
        (if q \<in> set (rs @ [r]) then has_taint t d' else d' = d)"
      using has [of d1] by (cases "q = r") (auto simp: device_at_taint)
  qed
  ultimately show ?case by blast
qed (auto simp: tainted_by_def)

subsection \<open>Placements\<close>

lemma get_addDevice:
  "placement_get (addDevice u g c r p) u' g' c' = (if (u', g', c') = (u, g, c) then Some r else placement_get p u' g' c')"
  by (auto simp: placement_get_def addDevice_def Let_def update_conv' split: option.splits)

lemma placement_map_get:
  assumes "placement_map ds p = Ok p'" and "\<And>n r' d. (n, r', d) \<in> set ds \<Longrightarrow> device_placement d = Ok (Some (u, g, c)) \<Longrightarrow> r' = r"
    and "placement_get p u g c = Some r \<or> (\<exists>n r' d. (n, r', d) \<in> set ds \<and> device_placement d = Ok (Some (u, g, c)))"
  shows "placement_get p' u g c = Some r"
  using assms
proof (induction ds arbitrary: p)
  case (Cons e ds)
  obtain name r' d where e: "e = (name, r', d)" by (cases e)
  with Cons.prems(1) obtain pl where pl: "device_placement d = Ok pl" by auto
  note uniq = Cons.prems(2) [OF list.set_intros(2)]
  show ?case
  proof (cases pl)
    case None
    with Cons.prems(1) pl have "placement_map ds p = Ok p'" by (simp add: e)
    moreover have "placement_get p u g c = Some r \<or> (\<exists>n r' d. (n, r', d) \<in> set ds \<and> device_placement d = Ok (Some (u, g, c)))"
      using Cons.prems(3) pl None by (auto simp: e)
    ultimately show ?thesis using Cons.IH uniq by blast
  next
    case (Some x)
    obtain u1 g1 c1 where x: "x = (u1, g1, c1)" by (cases x)
    with Cons.prems(1) pl Some have "placement_map ds (addDevice u1 g1 c1 r' p) = Ok p'" by (simp add: e)
    moreover have "placement_get (addDevice u1 g1 c1 r' p) u g c = Some r \<or>
        (\<exists>n r'' d. (n, r'', d) \<in> set ds \<and> device_placement d = Ok (Some (u, g, c)))"
      using Cons.prems(2) [of name r' d] Cons.prems(3) pl Some x by (auto simp: get_addDevice e)
    ultimately show ?thesis using Cons.IH uniq by blast
  qed
qed simp

lemma update_new: "k \<notin> fst ` set m \<Longrightarrow> AList.update k v m = m @ [(k, v)]"
  by (induction m) auto

lemma GetAllDevices_eq:
  assumes "distinct (concat (map (\<lambda>(pci, ds). map fst ds) m))"
  shows "GetAllDevices m = concat (map (\<lambda>(pci, ds). map (\<lambda>(n, d). (n, (pci, n), d)) ds) m)"
proof -
  have inner: "fold (\<lambda>(n, d). AList.update n ((pci, n), d)) ds all = all @ map (\<lambda>(n, d). (n, (pci, n), d)) ds"
    if "distinct (map fst ds)" "fst ` set all \<inter> fst ` set ds = {}" for pci ds and all :: "(string, devref \<times> AllocatableDevice) gomap"
    using that by (induction ds arbitrary: all) (auto simp: update_new)
  have "fold (\<lambda>(pci, ds) all. fold (\<lambda>(n, d). AList.update n ((pci, n), d)) ds all) m all =
      all @ concat (map (\<lambda>(pci, ds). map (\<lambda>(n, d). (n, (pci, n), d)) ds) m)"
    if "distinct (concat (map (\<lambda>(pci, ds). map fst ds) m))" "fst ` set all \<inter> set (concat (map (\<lambda>(pci, ds). map fst ds) m)) = {}"
    for all :: "(string, devref \<times> AllocatableDevice) gomap"
    using that
  proof (induction m arbitrary: all)
    case (Cons e m)
    obtain pci ds where e: "e = (pci, ds)" by force
    have "fst ` set (all @ map (\<lambda>(n, d). (n, (pci, n), d)) ds) = fst ` set all \<union> fst ` set ds" by force
    with Cons show ?case by (simp add: e inner Int_Un_distrib Int_Un_distrib2)
  qed simp
  from this [OF assms, of "[]"] show ?thesis by (simp add: GetAllDevices_def)
qed

lemma ParseUint64_Nil [simp]: "ParseUint64 [] = None"
  by (simp add: ParseUint64_def)

lemma additional_xids:
  "xid \<in> set (getAdditionalXids input) \<longleftrightarrow>
     (\<exists>w \<in> set (strings_Split (CHR '','') input). ParseUint64 (strings_TrimSpace w) = Some xid)"
proof (cases "input = []")
  case True
  then have "strings_Split (CHR '','') input = [[]]" "strings_TrimSpace [] = []" by (simp, code_simp)
  with True show ?thesis by (simp add: getAdditionalXids_def)
next
  case False
  have "xid \<in> set (getAdditionalXids input) \<longleftrightarrow> (\<exists>w \<in> set (strings_Split (CHR '','') input).
      (if strings_TrimSpace w = [] then None else ParseUint64 (strings_TrimSpace w)) = Some xid)"
    using False by (simp add: getAdditionalXids_def Let_def map_filter_def image_iff)
      (metis option.distinct(1) option.sel)
  moreover have "(if strings_TrimSpace w = [] then None else ParseUint64 (strings_TrimSpace w)) = ParseUint64 (strings_TrimSpace w)" for w
    by (cases "strings_TrimSpace w = []") simp_all
  ultimately show ?thesis by simp
qed

lemma skipped_xids:
  "xid \<in> set (xidsToSkip input) \<longleftrightarrow> xid \<in> {13, 31, 43, 45, 68, 109} \<or>
     (\<exists>w \<in> set (strings_Split (CHR '','') input). ParseUint64 (strings_TrimSpace w) = Some xid)"
  using additional_xids by (auto simp: xidsToSkip_def ignoredXids_def)

section \<open>Properties\<close>

text \<open>C18. Whatever NVML reports and however publications fail, in every state of a run the allocatable devices are those of the start,
  apart from their taints; a device has at most one taint of each kind, and each says what its event means: lost GPUs and
  critical XIDs keep the scheduler away, XIDs to ignore and missing monitoring do not.\<close>

theorem health_taints_sound:
  assumes "health_run mon mustParse m0 s" and "untainted m0"
  shows "untaint (hs_allocatable s) = m0 \<and> (\<forall>r d. device_at (hs_allocatable s) r = Some d \<longrightarrow> taints_ok mon (ad_taints d))"
  using health_run_inv [OF assms(1) untainted_ok [OF assms(2)]] untaint_untainted [OF assms(2)] by (simp add: tainted_ok_def)

text \<open>The driver handles every notification without a panic, as long as the devices can be announced: exactly the devices
  of the event get its taint, and either nothing changed or all devices are published with their taints.\<close>

theorem health_event_handled:
  assumes "health_run mon mustParse m0 s" and "untainted m0" and "announceable mustParse m0"
  shows "\<exists>s'. deviceHealthEvents_round mon mustParse None event s = Ok s' \<and>
    tainted_by (healthEventToTaint mon event) (he_Devices event) (hs_allocatable s) (hs_allocatable s') \<and>
    (hs_allocatable s' = hs_allocatable s \<and> hs_published s' = hs_published s \<or>
     (\<exists>ds. tainted_devices mustParse (all_devices (hs_allocatable s')) = Ok ds \<and>
        hs_published s' = Some [\<lparr>rs_SharedCounters = [], rs_Devices = ds\<rparr>]))"
proof -
  have inv: "untaint (hs_allocatable s) = untaint m0" "tainted_ok mon (hs_allocatable s)"
    using health_run_inv [OF assms(1) untainted_ok [OF assms(2)]] by auto
  then have ann: "announceable mustParse (hs_allocatable s)" using assms(3) announceable_untaint by metis
  from taint_devices_spec [OF ann inv(2) event_taint_ok] obtain m b where
    t: "taint_devices (healthEventToTaint mon event) (he_Devices event) (hs_allocatable s) = Ok (m, b)" "\<not> b \<longrightarrow> m = hs_allocatable s"
    "tainted_by (healthEventToTaint mon event) (he_Devices event) (hs_allocatable s) m" by blast
  have "announceable mustParse m" using ann taint_devices_untaint [OF t(1)] announceable_untaint by metis
  then obtain ds where ds: "tainted_devices mustParse (all_devices m) = Ok ds"
    using tainted_devices_Ok [of "all_devices m" mustParse] by (auto simp: announceable_def)
  show ?thesis
    using t ds by (cases b) (simp_all add: deviceHealthEvents_round_def Let_def)
qed

text \<open>C19. A critical error that NVML reports for a placement is sent to the driver for exactly the device with that placement, and its taint
  keeps the scheduler away, unless the XID is on the built-in list or one of the numbers in the option.\<close>

theorem xid_reported:
  assumes "newNvmlDeviceHealthMonitor init additionalXids m = Ok mon" and "distinct (concat (map (\<lambda>(pci, ds). map fst ds) m))"
    and "(pci, ds) \<in> set m" and "(name, d) \<in> set ds" and "device_placement d = Ok (Some (uuid, gi, ci))"
    and "\<And>pci' ds' name' d'. (pci', ds') \<in> set m \<Longrightarrow> (name', d') \<in> set ds' \<Longrightarrow> device_placement d' = Ok (Some (uuid, gi, ci)) \<Longrightarrow>
      (pci', name') = (pci, name)"
    and "length q < hm_capacity mon"
    and event: "event = \<lparr>he_Devices = [(pci, name)], he_EventType = HealthEventXID, he_EventData = xid\<rparr>"
  shows "monitor_round mon (NvSuccess \<lparr>ev_Type = EventTypeXidCriticalError, ev_Data = xid, ev_GpuInstanceId = gi,
      ev_ComputeInstanceId = ci, ev_UUID = NvSuccess uuid\<rparr>) q = Some (q @ [event]) \<and>
    tn_Effect (healthEventToTaint mon event) =
      (if xid \<in> {13, 31, 43, 45, 68, 109} \<or> (\<exists>w \<in> set (strings_Split (CHR '','') additionalXids). ParseUint64 (strings_TrimSpace w) = Some xid)
       then DeviceTaintEffectNone else DeviceTaintEffectNoSchedule)"
proof -
  from assms(1) have p: "placement_map (GetAllDevices m) [] = Ok (hm_deviceByPlacement mon)" "hm_skippedXids mon = xidsToSkip additionalXids"
    by (auto simp: newNvmlDeviceHealthMonitor_def getDevicePlacementMap_def split: nvml.splits)
  have all: "(n, r, d') \<in> set (GetAllDevices m) \<longleftrightarrow> (\<exists>pci' ds'. (pci', ds') \<in> set m \<and> (n, d') \<in> set ds' \<and> r = (pci', n))" for n r d'
    unfolding GetAllDevices_eq [OF assms(2)] by force
  have "placement_get (hm_deviceByPlacement mon) uuid gi ci = Some (pci, name)"
  proof (rule placement_map_get [OF p(1)])
    show "r = (pci, name)" if "(n, r, d') \<in> set (GetAllDevices m)" "device_placement d' = Ok (Some (uuid, gi, ci))" for n r d'
      using that assms(6) unfolding all by blast
    show "placement_get [] uuid gi ci = Some (pci, name) \<or>
        (\<exists>n r d'. (n, r, d') \<in> set (GetAllDevices m) \<and> device_placement d' = Ok (Some (uuid, gi, ci)))"
      using assms(3-5) unfolding all by blast
  qed
  moreover have "xid \<in> set (hm_skippedXids mon) \<longleftrightarrow> xid \<in> {13, 31, 43, 45, 68, 109} \<or>
      (\<exists>w \<in> set (strings_Split (CHR '','') additionalXids). ParseUint64 (strings_TrimSpace w) = Some xid)"
    unfolding p(2) by (rule skipped_xids)
  ultimately show ?thesis
    using assms(7) by (simp add: monitor_round_def event healthEventToTaint_def IsEventNonFatal_def new_taint_def)
qed

subsection \<open>An example: one healthy GPU\<close>

definition lone_gpu :: PerGPUAllocatableDevices where
  "lone_gpu = [(''0000:01:00.0'', [(''gpu-0'', gpu_allocatable example_gpu)])]"

definition lone_monitor :: health_monitor where
  "lone_monitor = \<lparr>hm_capacity = 1,
     hm_deviceByPlacement = [(''GPU-a'', [(FullGPUInstanceID, [(FullGPUInstanceID, (''0000:01:00.0'', ''gpu-0''))])])],
     hm_skippedXids = [13, 31, 43, 45, 68, 109, 94]\<rparr>"

definition lone_device :: resource_Device where
  "lone_device = (case GpuInfo_GetDevice Ok example_gpu of Ok d \<Rightarrow> d)"

lemma lone_device: "GpuInfo_GetDevice Ok example_gpu = Ok lone_device" "rd_Taints lone_device = []"
  by (simp_all add: lone_device_def GpuInfo_GetDevice_def GpuInfo_Attributes_def Let_def)

lemma lone_announced: "ad_GetDevice Ok (gpu_allocatable example_gpu\<lparr>ad_taints := ts\<rparr>) = Ok lone_device"
  using lone_device by (simp add: ad_GetDevice_def join_go_def by_type_def gpu_allocatable_def)

lemma lone_ready: "untainted lone_gpu" "announceable Ok lone_gpu"
  using lone_announced [of "[]"]
  by (simp_all add: untainted_def announceable_def all_devices_def lone_gpu_def gpu_allocatable_def)

definition lost_event :: DeviceHealthEvent where
  "lost_event = \<lparr>he_Devices = [(''0000:01:00.0'', ''gpu-0'')], he_EventType = HealthEventGPULost, he_EventData = 0\<rparr>"

definition lost_taint :: DeviceTaint where
  "lost_taint = new_taint TaintKeyGPULost '''' DeviceTaintEffectNoSchedule"

definition lost_gpu :: PerGPUAllocatableDevices where
  "lost_gpu = [(''0000:01:00.0'', [(''gpu-0'', gpu_allocatable example_gpu\<lparr>ad_taints := [lost_taint]\<rparr>)])]"

lemma lone_run_start: "health_run lone_monitor Ok lone_gpu \<lparr>hs_allocatable = lone_gpu, hs_queue = [], hs_published = None\<rparr>"
proof (rule health_run.start)
  show "monitor_Start lone_monitor (NvSuccess ()) (NvSuccess ()) (\<lambda>u. (NvSuccess (), NvSuccess (), NvSuccess ())) = Ok []"
    by (simp add: monitor_Start_def registerEventsForDevices_def lone_monitor_def monitored_def)
qed

lemma lost_event_sent: "monitor_round lone_monitor (NvFailure ERROR_GPU_IS_LOST) [] = Some [lost_event]"
  by (simp add: monitor_round_def sendHealthEventForAllDevices_def sendBatchedHealthEvent_def flattenMIGDeviceMap_def
      lone_monitor_def lost_event_def)

lemma lost_event_taints: "taint_devices (healthEventToTaint lone_monitor lost_event) (he_Devices lost_event) lone_gpu = Ok (lost_gpu, True)"
  by (simp add: healthEventToTaint_def lost_event_def device_at_def gpu_devices_def lone_gpu_def AddDeviceTaint_def
      AddOrUpdateTaint_def gpu_allocatable_def lost_gpu_def lost_taint_def ad_UUID_def by_type_def)

lemma lost_event_handled:
  "deviceHealthEvents_round lone_monitor Ok None lost_event \<lparr>hs_allocatable = lone_gpu, hs_queue = [], hs_published = None\<rparr> =
     Ok \<lparr>hs_allocatable = lost_gpu, hs_queue = [],
       hs_published = Some [\<lparr>rs_SharedCounters = [], rs_Devices = [lone_device\<lparr>rd_Taints := [lost_taint]\<rparr>]\<rparr>]\<rparr>"
  by (simp add: deviceHealthEvents_round_def lost_event_taints Let_def all_devices_def lost_gpu_def lone_announced)

lemma lone_run_lost:
  "health_run lone_monitor Ok lone_gpu \<lparr>hs_allocatable = lost_gpu, hs_queue = [],
     hs_published = Some [\<lparr>rs_SharedCounters = [], rs_Devices = [lone_device\<lparr>rd_Taints := [lost_taint]\<rparr>]\<rparr>]\<rparr>"
proof -
  have "health_run lone_monitor Ok lone_gpu \<lparr>hs_allocatable = lone_gpu, hs_queue = [lost_event], hs_published = None\<rparr>"
    using health_run.monitor [OF lone_run_start, of "NvFailure ERROR_GPU_IS_LOST" "[lost_event]"] lost_event_sent by simp
  from health_run.handle [OF this, of lost_event "[]" None] lost_event_handled show ?thesis by simp
qed

theorem health_taints_sound_witness:
  "untaint lost_gpu = lone_gpu \<and> taints_ok lone_monitor [lost_taint]"
proof -
  have "device_at lost_gpu (''0000:01:00.0'', ''gpu-0'') = Some (gpu_allocatable example_gpu\<lparr>ad_taints := [lost_taint]\<rparr>)"
    by (simp add: device_at_def gpu_devices_def lost_gpu_def)
  with health_taints_sound [OF lone_run_lost lone_ready(1)]
  have "untaint lost_gpu = lone_gpu \<and> taints_ok lone_monitor (ad_taints (gpu_allocatable example_gpu\<lparr>ad_taints := [lost_taint]\<rparr>))"
    unfolding health.select_convs by blast
  then show ?thesis by simp
qed

theorem health_event_handled_witness:
  "\<exists>s'. deviceHealthEvents_round lone_monitor Ok None lost_event \<lparr>hs_allocatable = lone_gpu, hs_queue = [], hs_published = None\<rparr> = Ok s' \<and>
    tainted_by (healthEventToTaint lone_monitor lost_event) (he_Devices lost_event) lone_gpu (hs_allocatable s')"
  using health_event_handled [OF lone_run_start lone_ready, of lost_event] by auto

theorem xid_reported_witness:
  "monitor_round lone_monitor (NvSuccess \<lparr>ev_Type = EventTypeXidCriticalError, ev_Data = 79, ev_GpuInstanceId = FullGPUInstanceID,
      ev_ComputeInstanceId = FullGPUInstanceID, ev_UUID = NvSuccess ''GPU-a''\<rparr>) [] =
    Some [\<lparr>he_Devices = [(''0000:01:00.0'', ''gpu-0'')], he_EventType = HealthEventXID, he_EventData = 79\<rparr>]"
proof -
  have "strings_Split (CHR '','') ''94,x'' = [''94'', ''x'']" by simp
  moreover have "strings_TrimSpace ''94'' = ''94''" "strings_TrimSpace ''x'' = ''x''"
    by (simp_all add: strings_Trim_def is_space_def)
  moreover have "ParseUint64 ''94'' = Some 94" "ParseUint64 ''x'' = None"
    by (simp_all add: ParseUint64_def is_digit_def digit_val_def)
  ultimately have x: "getAdditionalXids ''94,x'' = [94]"
    by (simp add: getAdditionalXids_def map_filter_def)
  have mon: "newNvmlDeviceHealthMonitor (NvSuccess ()) ''94,x'' lone_gpu = Ok lone_monitor"
    by (simp add: newNvmlDeviceHealthMonitor_def getDevicePlacementMap_def GetAllDevices_def lone_gpu_def device_placement_def
        gpu_allocatable_def example_gpu_def addDevice_def lone_monitor_def xidsToSkip_def ignoredXids_def x)
  have "device_placement (gpu_allocatable example_gpu) = Ok (Some (''GPU-a'', FullGPUInstanceID, FullGPUInstanceID))"
    by (simp add: device_placement_def gpu_allocatable_def example_gpu_def)
  with xid_reported [OF mon, where pci = "''0000:01:00.0''" and name = "''gpu-0''" and ds = "[(''gpu-0'', gpu_allocatable example_gpu)]"
      and d = "gpu_allocatable example_gpu" and q = "[]" and xid = 79] show ?thesis
    by (simp add: lone_gpu_def lone_monitor_def)
qed

text \<open>The publication at the start of the driver leaves out taints: when it comes after a health event was handled, which the
  order of the calls allows, the GPU that was lost is again offered to the scheduler without its taint, and no event is left that would repair it.\<close>

theorem startup_publication_drops_taints:
  "\<exists>s d. health_run lone_monitor Ok lone_gpu s \<and> hs_queue s = [] \<and>
     device_at (hs_allocatable s) (''0000:01:00.0'', ''gpu-0'') = Some d \<and> lost_taint \<in> set (ad_taints d) \<and>
     hs_published s = Some [\<lparr>rs_SharedCounters = [], rs_Devices = [lone_device]\<rparr>] \<and> rd_Taints lone_device = []"
proof -
  let ?s = "\<lparr>hs_allocatable = lost_gpu, hs_queue = [],
     hs_published = Some [\<lparr>rs_SharedCounters = [], rs_Devices = [lone_device]\<rparr>]\<rparr>"
  have "health_run lone_monitor Ok lone_gpu ?s"
    using health_run.announce [OF lone_run_lost, of None] 
    by (simp add: startup_publish_def all_devices_def lost_gpu_def lone_announced)
  moreover have "device_at lost_gpu (''0000:01:00.0'', ''gpu-0'') = Some (gpu_allocatable example_gpu\<lparr>ad_taints := [lost_taint]\<rparr>)"
    by (simp add: device_at_def gpu_devices_def lost_gpu_def)
  ultimately show ?thesis using lone_device(2) by (intro exI [of _ ?s]) simp
qed

end
