(* ===== verification/Gpu_Nvlib.thy ===== *)
theory Gpu_Nvlib
  imports Gpu_Announce Gpu_Driver "HOL-Library.Signed_Division"
begin

text \<open>
  Hardware access of the GPU kubelet plugin (\<open>nvlib.go\<close>): discovery of devices, and creation, search and deletion of MIG devices.

  NVML, with go-nvlib on top of it, is a parameter: a record of its calls over an arbitrary state \<open>'n\<close>. Handles of
  devices, GPU instances and compute instances are values of the types \<open>'d\<close>, \<open>'g\<close> and \<open>'c\<close>. A call that only reads is a function
  of the state, one that may change it returns the new state. \<open>nvlib\<close> is the state of the device library: its maps and NVML.
  \<open>nvlib_hardware\<close> puts the operations in the place of the hardware parameter of the device state.
\<close>

section \<open>NVML\<close>

record gi_info =
  gn_Id :: int
  gn_ProfileId :: int
  gn_Start :: int
  gn_Size :: int

record 'd ci_info =
  cn_Id :: int
  cn_ProfileId :: int
  cn_Device :: 'd

text \<open>Calls that describe devices. \<open>VisitDevices\<close> of go-nvlib is given by the devices it visits.\<close>

record ('n, 'd) nvml_info =
  ni_VisitDevices :: "'n \<Rightarrow> (int \<times> 'd) list go"
  ni_GetMinorNumber :: "'d \<Rightarrow> 'n \<Rightarrow> int nvml"
  ni_GetUUID :: "'d \<Rightarrow> 'n \<Rightarrow> string nvml"
  ni_IsMigEnabled :: "'d \<Rightarrow> 'n \<Rightarrow> bool nvml"
  ni_GetMemoryInfo :: "'d \<Rightarrow> 'n \<Rightarrow> int nvml"
  ni_GetName :: "'d \<Rightarrow> 'n \<Rightarrow> string nvml"
  ni_GetArchitectureAsString :: "'d \<Rightarrow> 'n \<Rightarrow> string nvml"
  ni_GetBrandAsString :: "'d \<Rightarrow> 'n \<Rightarrow> string nvml"
  ni_GetCudaComputeCapabilityAsString :: "'d \<Rightarrow> 'n \<Rightarrow> string nvml"
  ni_SystemGetDriverVersion :: "'n \<Rightarrow> string nvml"
  ni_SystemGetCudaDriverVersion :: "'n \<Rightarrow> int nvml"
  ni_GetPCIBusID :: "'d \<Rightarrow> 'n \<Rightarrow> string nvml"
  ni_GetAddressingModeAsString :: "'d \<Rightarrow> 'n \<Rightarrow> string nvml"
  ni_GetPCIBusIDAttribute :: "string \<Rightarrow> (string \<times> DeviceAttribute) go"
  ni_GetPCIeRootAttribute :: "string \<Rightarrow> (string \<times> DeviceAttribute) go"
  ni_NewMigProfile :: "int \<Rightarrow> int \<Rightarrow> int \<Rightarrow> int \<Rightarrow> int \<Rightarrow> MigProfile go"
  ni_VisitMigProfiles :: "'d \<Rightarrow> 'n \<Rightarrow> MigProfile list"
  ni_GetGpuInstancePossiblePlacements :: "'d \<Rightarrow> GpuInstanceProfileInfo \<Rightarrow> 'n \<Rightarrow> (int \<times> int) list nvml"

text \<open>Sessions, handles and MIG devices; the handle of a MIG device is a device handle, too.\<close>

record ('n, 'd, 'g, 'c) nvml_mig =
  nm_Init :: "'n \<Rightarrow> unit nvml \<times> 'n"
  nm_Shutdown :: "'n \<Rightarrow> 'n"
  nm_DeviceGetHandleByUUID :: "string \<Rightarrow> 'n \<Rightarrow> 'd nvml"
  nm_GetGpuInstanceProfileInfo :: "'d \<Rightarrow> int \<Rightarrow> 'n \<Rightarrow> GpuInstanceProfileInfo nvml"
  nm_SetMigMode :: "'d \<Rightarrow> bool \<Rightarrow> 'n \<Rightarrow> unit nvml \<times> 'n"
  nm_GetMaxMigDeviceCount :: "'d \<Rightarrow> 'n \<Rightarrow> nat nvml"
  nm_GetMigDeviceHandleByIndex :: "'d \<Rightarrow> nat \<Rightarrow> 'n \<Rightarrow> 'd nvml"
  nm_GetGpuInstanceId :: "'d \<Rightarrow> 'n \<Rightarrow> int nvml"
  nm_GetComputeInstanceId :: "'d \<Rightarrow> 'n \<Rightarrow> int nvml"
  nm_GetGpuInstanceById :: "'d \<Rightarrow> int \<Rightarrow> 'n \<Rightarrow> 'g nvml"
  nm_gi_GetInfo :: "'g \<Rightarrow> 'n \<Rightarrow> gi_info nvml"
  nm_GetComputeInstanceProfileInfo :: "'g \<Rightarrow> int \<Rightarrow> int \<Rightarrow> 'n \<Rightarrow> int nvml"
  nm_GetComputeInstanceById :: "'g \<Rightarrow> int \<Rightarrow> 'n \<Rightarrow> 'c nvml"
  nm_ci_GetInfo :: "'c \<Rightarrow> 'n \<Rightarrow> 'd ci_info nvml"
  nm_CreateGpuInstanceWithPlacement :: "'d \<Rightarrow> GpuInstanceProfileInfo \<Rightarrow> int \<times> int \<Rightarrow> 'n \<Rightarrow> 'g nvml \<times> 'n"
  nm_CreateComputeInstance :: "'g \<Rightarrow> int \<Rightarrow> 'n \<Rightarrow> 'c nvml \<times> 'n"
  nm_gi_Destroy :: "'g \<Rightarrow> 'n \<Rightarrow> unit nvml \<times> 'n"
  nm_ci_Destroy :: "'c \<Rightarrow> 'n \<Rightarrow> unit nvml \<times> 'n"

section \<open>The device library\<close>

record ('n, 'd) nvlib =
  nb_gpuInfosByUUID :: "(string, GpuInfo) gomap"
  nb_gpuUUIDbyPCIBusID :: "(string, string) gomap"
  nb_devhandleByUUID :: "(string, 'd) gomap"
  nb_nvml :: 'n

text \<open>What the operations work with: the feature gates and the two groups of NVML calls.\<close>

record ('n, 'd, 'g, 'c) nvml_env =
  ne_gates :: gates
  ne_info :: "('n, 'd) nvml_info"
  ne_mig :: "('n, 'd, 'g, 'c) nvml_mig"

definition query :: "string \<Rightarrow> ('n \<Rightarrow> 'a nvml) \<Rightarrow> (('n, 'd) nvlib, 'a) gost" where
  "query msg f = (\<lambda>s. (case f (nb_nvml s) of NvSuccess a \<Rightarrow> Ok a | NvFailure _ \<Rightarrow> Err (Errorf msg), s))"

definition act :: "string \<Rightarrow> ('n \<Rightarrow> 'a nvml \<times> 'n) \<Rightarrow> (('n, 'd) nvlib, 'a) gost" where
  "act msg f = (\<lambda>s. case f (nb_nvml s) of (r, n) \<Rightarrow>
     (case r of NvSuccess a \<Rightarrow> Ok a | NvFailure _ \<Rightarrow> Err (Errorf msg), s\<lparr>nb_nvml := n\<rparr>))"

text \<open>A loop with an accumulator.\<close>

fun loop_st :: "('x \<Rightarrow> 'a \<Rightarrow> ('s, 'a) gost) \<Rightarrow> 'x list \<Rightarrow> 'a \<Rightarrow> ('s, 'a) gost" where
  "loop_st f [] a = ret_st a"
| "loop_st f (x # xs) a = bind_st (f x a) (loop_st f xs)"

definition ensureNVML :: "('n, 'd, 'g, 'c) nvml_env \<Rightarrow> ('n, 'd) nvlib \<Rightarrow> unit nvml \<times> ('n, 'd) nvlib" where
  "ensureNVML ne s =
     (if ne_gates ne DynamicMIG then (NvSuccess (), s)
      else case nm_Init (ne_mig ne) (nb_nvml s) of (r, n) \<Rightarrow> (r, s\<lparr>nb_nvml := n\<rparr>))"

definition shutdown :: "('n, 'd, 'g, 'c) nvml_env \<Rightarrow> ('n, 'd) nvlib \<Rightarrow> ('n, 'd) nvlib" where
  "shutdown ne s = (if ne_gates ne DynamicMIG then s else s\<lparr>nb_nvml := nm_Shutdown (ne_mig ne) (nb_nvml s)\<rparr>)"

definition with_nvml :: "('n, 'd, 'g, 'c) nvml_env \<Rightarrow> (('n, 'd) nvlib, 'a) gost \<Rightarrow> (('n, 'd) nvlib, 'a) gost" where
  "with_nvml ne m = (\<lambda>s. case ensureNVML ne s of
     (NvFailure _, s') \<Rightarrow> (Err (Errorf ''ensureNVML failed''), s')
   | (NvSuccess _, s') \<Rightarrow> (case m s' of (r, s'') \<Rightarrow> (r, shutdown ne s'')))"

definition DeviceGetHandleByUUID :: "('n, 'd, 'g, 'c) nvml_env \<Rightarrow> string \<Rightarrow> ('n, 'd) nvlib \<Rightarrow> 'd nvml \<times> ('n, 'd) nvlib" where
  "DeviceGetHandleByUUID ne uuid s = (case ensureNVML ne s of
     (NvFailure e, s') \<Rightarrow> (NvFailure e, s')
   | (NvSuccess _, s') \<Rightarrow>
       if \<not> ne_gates ne DynamicMIG then (nm_DeviceGetHandleByUUID (ne_mig ne) uuid (nb_nvml s'), shutdown ne s')
       else (case map_of (nb_devhandleByUUID s') uuid of
           Some d \<Rightarrow> (NvSuccess d, shutdown ne s')
         | None \<Rightarrow> (case nm_DeviceGetHandleByUUID (ne_mig ne) uuid (nb_nvml s') of
             NvFailure e \<Rightarrow> (NvFailure e, shutdown ne s')
           | NvSuccess d \<Rightarrow> (NvSuccess d, shutdown ne (s'\<lparr>nb_devhandleByUUID := AList.update uuid d (nb_devhandleByUUID s')\<rparr>)))))"

definition gpu_handle :: "('n, 'd, 'g, 'c) nvml_env \<Rightarrow> string \<Rightarrow> string \<Rightarrow> (('n, 'd) nvlib, 'd) gost" where
  "gpu_handle ne msg uuid = (\<lambda>s. case DeviceGetHandleByUUID ne uuid s of
     (NvSuccess d, s') \<Rightarrow> (Ok d, s') | (NvFailure _, s') \<Rightarrow> (Err (Errorf msg), s'))"

section \<open>Description of a GPU\<close>

definition GPU_INSTANCE_PROFILE_COUNT :: nat where "GPU_INSTANCE_PROFILE_COUNT = 17"
definition COMPUTE_INSTANCE_PROFILE_COUNT :: nat where "COMPUTE_INSTANCE_PROFILE_COUNT = 8"
definition COMPUTE_INSTANCE_ENGINE_PROFILE_COUNT :: nat where "COMPUTE_INSTANCE_ENGINE_PROFILE_COUNT = 1"

text \<open>\<open>None\<close> for what the GPU does not support.\<close>

definition query_supported :: "string \<Rightarrow> ('n \<Rightarrow> 'a nvml) \<Rightarrow> (('n, 'd) nvlib, 'a option) gost" where
  "query_supported msg f = (\<lambda>s. (case f (nb_nvml s) of
     NvSuccess a \<Rightarrow> Ok (Some a)
   | NvFailure ERROR_NOT_SUPPORTED \<Rightarrow> Ok None
   | NvFailure ERROR_INVALID_ARGUMENT \<Rightarrow> Ok None
   | NvFailure _ \<Rightarrow> Err (Errorf msg), s))"

definition add_profile ::
  "('n, 'd) nvml_info \<Rightarrow> int \<Rightarrow> GpuInstanceProfileInfo \<Rightarrow> int \<Rightarrow> nat \<times> nat \<Rightarrow> MigProfile list \<Rightarrow> (('n, 'd) nvlib, MigProfile list) gost" where
  "add_profile ni i info memTotal = (\<lambda>(j, k) profiles.
     bind_st (wrap_st (\<lambda>_. Errorf ''error building MIG profile from GpuInstanceProfileInfo'')
         (lift_st (ni_NewMigProfile ni i (int j) (int k) (ip_MemorySizeMB info) memTotal))) (\<lambda>p.
       ret_st (if pr_G p \<noteq> pr_C p then profiles else profiles @ [p])))"

definition add_profiles ::
  "('n, 'd, 'g, 'c) nvml_env \<Rightarrow> 'd \<Rightarrow> int \<Rightarrow> nat \<Rightarrow> MigProfile list \<Rightarrow> (('n, 'd) nvlib, MigProfile list) gost" where
  "add_profiles ne device memTotal i profiles =
     bind_st (query_supported ''error retrieving GpuInstanceProfileInfo'' (nm_GetGpuInstanceProfileInfo (ne_mig ne) device (int i))) (\<lambda>info.
     case info of None \<Rightarrow> ret_st profiles | Some info \<Rightarrow>
     bind_st (query_supported ''error retrieving GpuInstancePossiblePlacements''
         (ni_GetGpuInstancePossiblePlacements (ne_info ne) device info)) (\<lambda>placements.
     case placements of None \<Rightarrow> ret_st profiles | Some _ \<Rightarrow>
       loop_st (add_profile (ne_info ne) (int i) info memTotal)
         (List.product [0..<COMPUTE_INSTANCE_PROFILE_COUNT] [0..<COMPUTE_INSTANCE_ENGINE_PROFILE_COUNT]) profiles))"

definition getGpuInfo :: "('n, 'd, 'g, 'c) nvml_env \<Rightarrow> 'd \<Rightarrow> (('n, 'd) nvlib, GpuInfo) gost" where
  "getGpuInfo ne device = (let ni = ne_info ne in
     bind_st (query ''error getting minor number'' (ni_GetMinorNumber ni device)) (\<lambda>minor.
     bind_st (query ''error getting UUID'' (ni_GetUUID ni device)) (\<lambda>uuid.
     bind_st (query ''error checking if MIG mode enabled'' (ni_IsMigEnabled ni device)) (\<lambda>migEnabled.
     bind_st (query ''error getting memory info'' (ni_GetMemoryInfo ni device)) (\<lambda>memTotal.
     bind_st (query ''error getting product name'' (ni_GetName ni device)) (\<lambda>productName.
     bind_st (query ''error getting architecture'' (ni_GetArchitectureAsString ni device)) (\<lambda>architecture.
     bind_st (query ''error getting brand'' (ni_GetBrandAsString ni device)) (\<lambda>brand.
     bind_st (query ''error getting CUDA compute capability'' (ni_GetCudaComputeCapabilityAsString ni device)) (\<lambda>capability.
     bind_st (query ''error getting driver version'' (ni_SystemGetDriverVersion ni)) (\<lambda>driver.
     bind_st (query ''error getting CUDA driver version'' (ni_SystemGetCudaDriverVersion ni)) (\<lambda>cuda.
     bind_st (query ''error getting PCI bus ID'' (ni_GetPCIBusID ni device)) (\<lambda>pci.
     bind_st (query ''error getting addressing mode'' (ni_GetAddressingModeAsString ni device)) (\<lambda>mode.
     bind_st (wrap_st (Wrapf ''error getting PCI bus ID'') (lift_st (ni_GetPCIBusIDAttribute ni pci))) (\<lambda>pciAttr.
     bind_st (loop_st (add_profiles ne device memTotal) [0..<GPU_INSTANCE_PROFILE_COUNT] []) (\<lambda>profiles.
       ret_st \<lparr>gi_UUID = uuid, gi_minor = minor, gi_migEnabled = migEnabled, gi_vfioEnabled = False, gi_memoryBytes = memTotal,
         gi_productName = productName, gi_brand = brand, gi_architecture = architecture, gi_cudaComputeCapability = capability,
         gi_driverVersion = driver,
         gi_cudaDriverVersion = show_int (cuda sdiv 1000) @ ''.'' @ show_int (cuda smod 1000 sdiv 10),
         gi_pciBusID = pci, gi_pciBusIDAttr = Some pciAttr,
         gi_pcieRootAttr = (case ni_GetPCIeRootAttribute ni pci of Ok a \<Rightarrow> Some a | _ \<Rightarrow> None),
         gi_migProfiles = profiles, gi_addressingMode = (if mode = '''' then None else Some mode),
         gi_maxCapacities = [], gi_memSliceCount = 0\<rparr>)))))))))))))))"

section \<open>MIG devices that exist\<close>

definition walkMigDevices ::
  "('n, 'd, 'g, 'c) nvml_mig \<Rightarrow> 'd \<Rightarrow> ('d \<Rightarrow> 'a \<Rightarrow> (('n, 'd) nvlib, 'a) gost) \<Rightarrow> 'a \<Rightarrow> (('n, 'd) nvlib, 'a) gost" where
  "walkMigDevices nm d f a =
     bind_st (query ''error getting max MIG device count'' (nm_GetMaxMigDeviceCount nm d)) (\<lambda>cnt.
       loop_st (\<lambda>i a s. case nm_GetMigDeviceHandleByIndex nm d i (nb_nvml s) of
           NvSuccess device \<Rightarrow> f device a s
         | NvFailure ERROR_NOT_FOUND \<Rightarrow> (Ok a, s)
         | NvFailure ERROR_INVALID_ARGUMENT \<Rightarrow> (Ok a, s)
         | NvFailure _ \<Rightarrow> (Err (Errorf ''error getting MIG device handle at index''), s)) [0..<cnt] a)"

text \<open>The last profile of the GPU whose instance profiles are those of the device.\<close>

definition find_profile ::
  "('n, 'd, 'g, 'c) nvml_mig \<Rightarrow> 'd \<Rightarrow> 'g \<Rightarrow> gi_info \<Rightarrow> 'd ci_info \<Rightarrow> MigProfile list \<Rightarrow> 'n \<Rightarrow> (MigProfile \<times> GpuInstanceProfileInfo) option" where
  "find_profile nm device gi giInfo ciInfo profiles n = fold (\<lambda>p found.
     case nm_GetGpuInstanceProfileInfo nm device (pr_GIProfileID p) n of
       NvFailure _ \<Rightarrow> found
     | NvSuccess gip \<Rightarrow>
         if gn_ProfileId giInfo \<noteq> ip_Id gip then found
         else (case nm_GetComputeInstanceProfileInfo nm gi (pr_CIProfileID p) (pr_CIEngProfileID p) n of
             NvFailure _ \<Rightarrow> found
           | NvSuccess cip \<Rightarrow> if cn_ProfileId ciInfo \<noteq> cip then found else Some (p, gip))) profiles None"

definition add_mig_device ::
  "('n, 'd, 'g, 'c) nvml_env \<Rightarrow> GpuInfo \<Rightarrow> 'd \<Rightarrow> 'd \<Rightarrow> (string, MigDeviceInfo) gomap \<Rightarrow> (('n, 'd) nvlib, (string, MigDeviceInfo) gomap) gost" where
  "add_mig_device ne gpuInfo device migDevice infos = (let nm = ne_mig ne in
     bind_st (query ''error getting GPU instance ID for MIG device'' (nm_GetGpuInstanceId nm migDevice)) (\<lambda>giID.
     bind_st (query ''error getting GPU instance'' (nm_GetGpuInstanceById nm device giID)) (\<lambda>gi.
     bind_st (query ''error getting GPU instance info'' (nm_gi_GetInfo nm gi)) (\<lambda>giInfo.
     bind_st (query ''error getting Compute instance ID for MIG device'' (nm_GetComputeInstanceId nm migDevice)) (\<lambda>ciID.
     bind_st (query ''error getting Compute instance'' (nm_GetComputeInstanceById nm gi ciID)) (\<lambda>ci.
     bind_st (query ''error getting Compute instance info'' (nm_ci_GetInfo nm ci)) (\<lambda>ciInfo.
     bind_st (query ''error getting UUID for MIG device'' (ni_GetUUID (ne_info ne) migDevice)) (\<lambda>uuid.
     bind_st (gets (\<lambda>s. find_profile nm device gi giInfo ciInfo (gi_migProfiles gpuInfo) (nb_nvml s))) (\<lambda>found.
     case found of
       None \<Rightarrow> err_st (Errorf ''error getting profile info for MIG device'')
     | Some (p, gip) \<Rightarrow>
         ret_st (AList.update uuid \<lparr>mi_UUID = uuid, mi_Profile = pr_String p, mi_ParentUUID = gi_UUID gpuInfo,
           mi_GiProfileID = ip_Id gip, mi_ParentMinor = gi_minor gpuInfo, mi_CIID = cn_Id ciInfo, mi_GIID = gn_Id giInfo,
           mi_PlacementStart = gn_Start giInfo, mi_PlacementSize = gn_Size giInfo, mi_gIInfo = Some (gn_Id giInfo),
           mi_cIInfo = Some (cn_Id ciInfo), mi_parent = gpuInfo, mi_giProfileInfo = Some gip\<rparr> infos))))))))))"

definition getMigDevices :: "('n, 'd, 'g, 'c) nvml_env \<Rightarrow> GpuInfo \<Rightarrow> (('n, 'd) nvlib, (string, MigDeviceInfo) gomap) gost" where
  "getMigDevices ne gpuInfo =
     (if \<not> gi_migEnabled gpuInfo then ret_st []
      else with_nvml ne (
        bind_st (gpu_handle ne ''error getting GPU device handle'' (gi_UUID gpuInfo)) (\<lambda>device.
          wrap_st (Wrapf ''error enumerating MIG devices'') (walkMigDevices (ne_mig ne) device (add_mig_device ne gpuInfo device) []))))"

section \<open>Creating and deleting MIG devices\<close>

text \<open>The part after the GPU instance was created.\<close>

definition finish_mig_device ::
  "('n, 'd, 'g, 'c) nvml_env \<Rightarrow> MigSpec \<Rightarrow> GpuInstanceProfileInfo \<Rightarrow> 'g \<Rightarrow> (('n, 'd) nvlib, MigDeviceInfo) gost" where
  "finish_mig_device ne migspec gip gi = (let nm = ne_mig ne; gpu = mp_Parent migspec; profile = mp_Profile migspec in
     bind_st (query ''error getting GPU instance info'' (nm_gi_GetInfo nm gi)) (\<lambda>giInfo.
     bind_st (query ''error getting Compute instance profile info''
         (nm_GetComputeInstanceProfileInfo nm gi (pr_CIProfileID profile) (pr_CIEngProfileID profile))) (\<lambda>cip.
     bind_st (act ''error creating Compute instance'' (nm_CreateComputeInstance nm gi cip)) (\<lambda>ci.
     bind_st (query ''error getting GPU instance info'' (nm_ci_GetInfo nm ci)) (\<lambda>ciInfo.
     bind_st (query ''error getting UUID from CI info'' (ni_GetUUID (ne_info ne) (cn_Device ciInfo))) (\<lambda>uuid.
       ret_st \<lparr>mi_UUID = uuid, mi_Profile = pr_String profile, mi_ParentUUID = gi_UUID gpu, mi_GiProfileID = ip_Id gip,
         mi_ParentMinor = gi_minor gpu, mi_CIID = cn_Id ciInfo, mi_GIID = gn_Id giInfo,
         mi_PlacementStart = mp_PlacementStart migspec, mi_PlacementSize = mp_PlacementSize migspec,
         mi_gIInfo = Some (gn_Id giInfo), mi_cIInfo = Some (cn_Id ciInfo), mi_parent = gpu, mi_giProfileInfo = None\<rparr>))))))"

definition createMigDevice :: "('n, 'd, 'g, 'c) nvml_env \<Rightarrow> MigSpec \<Rightarrow> (('n, 'd) nvlib, MigDeviceInfo) gost" where
  "createMigDevice ne migspec = (let nm = ne_mig ne in
     bind_st (gpu_handle ne ''error getting GPU device handle'' (gi_UUID (mp_Parent migspec))) (\<lambda>device.
     bind_st (query ''error checking if MIG mode enabled'' (ni_IsMigEnabled (ne_info ne) device)) (\<lambda>migEnabled.
     bind_st (if migEnabled then ret_st () else act ''error enabling MIG mode'' (nm_SetMigMode nm device True)) (\<lambda>_.
     bind_st (query ''error getting GPU instance profile info''
         (nm_GetGpuInstanceProfileInfo nm device (pr_GIProfileID (mp_Profile migspec)))) (\<lambda>gip.
     bind_st (act ''error creating GPU instance''
         (nm_CreateGpuInstanceWithPlacement nm device gip (mp_PlacementStart migspec, mp_PlacementSize migspec)))
       (finish_mig_device ne migspec gip))))))"

definition maybeDisableMigMode :: "('n, 'd, 'g, 'c) nvml_env \<Rightarrow> string \<Rightarrow> 'd \<Rightarrow> (('n, 'd) nvlib, unit) gost" where
  "maybeDisableMigMode ne uuid nvmldev =
     bind_st (gets (\<lambda>s. map_of (nb_gpuInfosByUUID s) uuid)) (\<lambda>gpu.
     case gpu of
       None \<Rightarrow> err_st (Errorf ''uuid not in gpuInfosByUUID'')
     | Some gpu \<Rightarrow>
         bind_st (wrap_st (Wrapf ''error getting MIG devices'') (getMigDevices ne gpu)) (\<lambda>migs.
           if migs \<noteq> [] then ret_st ()
           else act ''error disabling MIG mode'' (nm_SetMigMode (ne_mig ne) nvmldev False)))"

text \<open>Destroying the two instances.\<close>

definition destroy_instances :: "('n, 'd, 'g, 'c) nvml_mig \<Rightarrow> 'g \<Rightarrow> 'c nvml \<Rightarrow> (('n, 'd) nvlib, unit) gost" where
  "destroy_instances nm gi cires =
     bind_st (case cires of
         NvFailure ERROR_NOT_FOUND \<Rightarrow> ret_st ()
       | NvFailure _ \<Rightarrow> err_st (Errorf ''error getting Compute instance handle for MIG device'')
       | NvSuccess ci \<Rightarrow> act ''error destroying Compute instance'' (nm_ci_Destroy nm ci)) (\<lambda>_.
       act ''error destroying GPU Instance'' (nm_gi_Destroy nm gi))"

definition deleteMigDevice :: "('n, 'd, 'g, 'c) nvml_env \<Rightarrow> MigLiveTuple \<Rightarrow> (('n, 'd) nvlib, unit) gost" where
  "deleteMigDevice ne miglt = (let nm = ne_mig ne; parentUUID = ml_ParentUUID miglt in
     bind_st (gpu_handle ne ''error getting device from UUID'' parentUUID) (\<lambda>parent.
     bind_st (gets (\<lambda>s. nm_GetGpuInstanceById nm parent (ml_GIID miglt) (nb_nvml s))) (\<lambda>gires.
     case gires of
       NvFailure ERROR_NOT_SUPPORTED \<Rightarrow> ret_st ()
     | NvFailure ERROR_NOT_FOUND \<Rightarrow> wrap_st (Wrapf ''failed maybeDisableMigMode'') (maybeDisableMigMode ne parentUUID parent)
     | NvFailure _ \<Rightarrow> err_st (Errorf ''error getting GPU instance handle for MIG device'')
     | NvSuccess gi \<Rightarrow>
         bind_st (gets (\<lambda>s. nm_GetComputeInstanceById nm gi (ml_CIID miglt) (nb_nvml s))) (\<lambda>cires.
         bind_st (destroy_instances nm gi cires) (\<lambda>_.
           wrap_st (Wrapf ''failed maybeDisableMigMode'') (maybeDisableMigMode ne parentUUID parent))))))"

text \<open>One slot of \<open>FindMigDevBySpec\<close>; a slot whose handle cannot be read counts as empty.\<close>

definition find_slot ::
  "('n, 'd, 'g, 'c) nvml_env \<Rightarrow> MigSpecTuple \<Rightarrow> string \<Rightarrow> 'd \<Rightarrow> nat \<Rightarrow> (('n, 'd) nvlib, MigLiveTuple option) gost" where
  "find_slot ne ms parentUUID parent i = (let nm = ne_mig ne in
     bind_st (gets (\<lambda>s. nm_GetMigDeviceHandleByIndex nm parent i (nb_nvml s))) (\<lambda>h.
     case h of
       NvFailure _ \<Rightarrow> ret_st None
     | NvSuccess migHandle \<Rightarrow>
         bind_st (query ''failed to get GI ID'' (nm_GetGpuInstanceId nm migHandle)) (\<lambda>giId.
         bind_st (query ''failed to get GI handle'' (nm_GetGpuInstanceById nm parent giId)) (\<lambda>gi.
         bind_st (query ''failed to get GI info'' (nm_gi_GetInfo nm gi)) (\<lambda>giInfo.
           if gn_ProfileId giInfo \<noteq> ms_ProfileID ms \<or> gn_Start giInfo \<noteq> ms_PlacementStart ms then ret_st None
           else bind_st (gets (\<lambda>s. (nm_GetComputeInstanceId nm migHandle (nb_nvml s), ni_GetUUID (ne_info ne) migHandle (nb_nvml s)))) (\<lambda>(ciId, uuid).
             ret_st (Some \<lparr>ml_ParentMinor = ms_ParentMinor ms, ml_GIID = giId,
               ml_CIID = (case ciId of NvSuccess c \<Rightarrow> c | NvFailure _ \<Rightarrow> 0),
               ml_MigUUID = (case uuid of NvSuccess u \<Rightarrow> u | NvFailure _ \<Rightarrow> ''''),
               ml_ParentUUID = parentUUID, ml_ParentPCIBusID = ''''\<rparr>)))))))"

fun find_slots ::
  "('n, 'd, 'g, 'c) nvml_env \<Rightarrow> MigSpecTuple \<Rightarrow> string \<Rightarrow> 'd \<Rightarrow> nat list \<Rightarrow> (('n, 'd) nvlib, MigLiveTuple option) gost" where
  "find_slots ne ms parentUUID parent [] = ret_st None"
| "find_slots ne ms parentUUID parent (i # is) =
     bind_st (find_slot ne ms parentUUID parent i) (\<lambda>r. case r of
       Some mlt \<Rightarrow> ret_st (Some mlt) | None \<Rightarrow> find_slots ne ms parentUUID parent is)"

text \<open>A failing count of slots is ignored, and reading the map for an unknown address gives the empty UUID.\<close>

definition FindMigDevBySpec :: "('n, 'd, 'g, 'c) nvml_env \<Rightarrow> MigSpecTuple \<Rightarrow> (('n, 'd) nvlib, MigLiveTuple option) gost" where
  "FindMigDevBySpec ne ms =
     bind_st (gets (\<lambda>s. case map_of (nb_gpuUUIDbyPCIBusID s) (ms_ParentPCIBusID ms) of None \<Rightarrow> '''' | Some u \<Rightarrow> u)) (\<lambda>parentUUID.
     bind_st (gpu_handle ne ''could not get device handle by UUID'' parentUUID) (\<lambda>parent.
     bind_st (gets (\<lambda>s. case nm_GetMaxMigDeviceCount (ne_mig ne) parent (nb_nvml s) of NvSuccess c \<Rightarrow> c | NvFailure _ \<Rightarrow> 0)) (\<lambda>cnt.
       find_slots ne ms parentUUID parent [0..<cnt])))"

section \<open>Discovery\<close>

text \<open>Tearing down what is not expected, for the devices of one GPU in the order of the map.\<close>

definition obliterate_gpu :: "('n, 'd, 'g, 'c) nvml_env \<Rightarrow> string list \<Rightarrow> 'd \<Rightarrow> (('n, 'd) nvlib, unit) gost" where
  "obliterate_gpu ne expectedDeviceNames d =
     bind_st (wrap_st (Wrapf ''error getting info for GPU'') (getGpuInfo ne d)) (\<lambda>ginfo.
     bind_st (wrap_st (Wrapf ''error getting MIG devices for GPU'') (getMigDevices ne ginfo)) (\<lambda>migs.
     bind_st (each (\<lambda>(uuid, mdi).
         if MigDeviceInfo_CanonicalName mdi \<in> set expectedDeviceNames then ret_st ()
         else wrap_st (Wrapf ''could not delete unexpected MIG device'') (deleteMigDevice ne (LiveTuple mdi))) migs) (\<lambda>_.
       wrap_st (Wrapf ''maybeDisableMigMode failed'') (maybeDisableMigMode ne (gi_UUID ginfo) d))))"

definition obliterateStaleMIGDevices :: "('n, 'd, 'g, 'c) nvml_env \<Rightarrow> string list \<Rightarrow> (('n, 'd) nvlib, unit) gost" where
  "obliterateStaleMIGDevices ne expectedDeviceNames =
     wrap_st (Wrapf ''error visiting devices'')
       (bind_st (\<lambda>s. (ni_VisitDevices (ne_info ne) (nb_nvml s), s)) (each (\<lambda>(i, d). obliterate_gpu ne expectedDeviceNames d)))"

definition static_device :: "MigDeviceInfo \<Rightarrow> AllocatableDevice" where
  "static_device m = \<lparr>ad_Gpu = None, ad_MigDynamic = None, ad_MigStatic = Some m, ad_Vfio = None, ad_taints = []\<rparr>"

definition discoverMigDevicesByGPU :: "('n, 'd, 'g, 'c) nvml_env \<Rightarrow> GpuInfo \<Rightarrow> (('n, 'd) nvlib, MigDeviceInfo list) gost" where
  "discoverMigDevicesByGPU ne gpuInfo =
     bind_st (wrap_st (Wrapf ''error getting MIG devices for GPU'') (getMigDevices ne gpuInfo)) (\<lambda>migs. ret_st (map snd migs))"

text \<open>The calls of NVML that the walk over MIG profiles uses, in the current state.\<close>

definition profiles_of :: "('n, 'd, 'g, 'c) nvml_env \<Rightarrow> 'd \<Rightarrow> 'n \<Rightarrow> nvml_profiles" where
  "profiles_of ne d n = \<lparr>np_GetGpuInstanceProfileInfo = (\<lambda>i. nm_GetGpuInstanceProfileInfo (ne_mig ne) d i n),
     np_GetGpuInstancePossiblePlacements = (\<lambda>p. ni_GetGpuInstancePossiblePlacements (ne_info ne) d p n)\<rparr>"

definition store_info :: "GpuInfo \<Rightarrow> ('n, 'd) nvlib \<Rightarrow> unit go \<times> ('n, 'd) nvlib" where
  "store_info g s = (Ok (), s\<lparr>nb_gpuInfosByUUID := AList.update (gi_UUID g) g (nb_gpuInfosByUUID s)\<rparr>)"

definition store_gpu :: "GpuInfo \<Rightarrow> ('n, 'd) nvlib \<Rightarrow> unit go \<times> ('n, 'd) nvlib" where
  "store_gpu g = bind_st (store_info g) (\<lambda>_ s.
     (Ok (), s\<lparr>nb_gpuUUIDbyPCIBusID := AList.update (gi_pciBusID g) (gi_UUID g) (nb_gpuUUIDbyPCIBusID s)\<rparr>))"

text \<open>With dynamic MIG. The maps hold pointers, so they see the details that the walk adds to the GPU.\<close>

definition dynamic_allocatables :: "('n, 'd, 'g, 'c) nvml_env \<Rightarrow> 'd \<Rightarrow> GpuInfo \<Rightarrow> (('n, 'd) nvlib, AllocatableDevices) gost" where
  "dynamic_allocatables ne d gpuInfo =
     bind_st (\<lambda>s. case DeviceGetHandleByUUID ne (gi_UUID gpuInfo) s of (_, s') \<Rightarrow> (Ok (), s')) (\<lambda>_.
     bind_st (\<lambda>s. (wrap_go (Wrapf ''error getting MIG info for GPU'')
         (inspectMigProfilesAndPlacements (profiles_of ne d (nb_nvml s)) (ni_VisitMigProfiles (ne_info ne) d (nb_nvml s)) gpuInfo), s)) (\<lambda>(g, migspecs).
     bind_st (store_info g) (\<lambda>_.
       ret_st (fold (\<lambda>m. AList.update (MigSpec_CanonicalName m) (mig_allocatable m)) migspecs
         [(GpuInfo_CanonicalName g, gpu_allocatable g)]))))"

text \<open>Without. The GPU itself is only announced when its MIG mode is off.\<close>

definition static_allocatables :: "('n, 'd, 'g, 'c) nvml_env \<Rightarrow> GpuInfo \<Rightarrow> (('n, 'd) nvlib, AllocatableDevices) gost" where
  "static_allocatables ne gpuInfo =
     bind_st (wrap_st (Wrapf ''error discovering MIG devices for GPU'') (discoverMigDevicesByGPU ne gpuInfo)) (\<lambda>migdevs.
     let g = (if ne_gates ne PassthroughSupport then gpuInfo\<lparr>gi_vfioEnabled := (migdevs = [])\<rparr> else gpuInfo) in
     bind_st (store_info g) (\<lambda>_.
       ret_st (if \<not> gi_migEnabled g then [(GpuInfo_CanonicalName g, gpu_allocatable g)]
         else fold (\<lambda>m. AList.update (MigDeviceInfo_CanonicalName m) (static_device (m\<lparr>mi_parent := g\<rparr>))) migdevs [])))"

definition visit_gpu ::
  "('n, 'd, 'g, 'c) nvml_env \<Rightarrow> int list option \<Rightarrow> int \<times> 'd \<Rightarrow> PerGPUAllocatableDevices \<Rightarrow> (('n, 'd) nvlib, PerGPUAllocatableDevices) gost" where
  "visit_gpu ne indices = (\<lambda>(i, d) all.
     if (case indices of None \<Rightarrow> False | Some is \<Rightarrow> i \<notin> set is) then ret_st all
     else
       bind_st (wrap_st (Wrapf ''error getting info for GPU'') (getGpuInfo ne d)) (\<lambda>gpuInfo.
       bind_st (store_gpu gpuInfo) (\<lambda>_.
       bind_st (if ne_gates ne DynamicMIG then dynamic_allocatables ne d gpuInfo else static_allocatables ne gpuInfo) (\<lambda>ds.
         wrap_st (Wrapf ''error adding allocatables for PCI bus ID'') (lift_st (AddGPUAllocatables (gi_pciBusID gpuInfo) (Some ds) all))))))"

definition GetPerGpuAllocatableDevices ::
  "('n, 'd, 'g, 'c) nvml_env \<Rightarrow> int list option \<Rightarrow> (('n, 'd) nvlib, PerGPUAllocatableDevices) gost" where
  "GetPerGpuAllocatableDevices ne indices =
     with_nvml ne (wrap_st (Wrapf ''error visiting devices'')
       (bind_st (\<lambda>s. (ni_VisitDevices (ne_info ne) (nb_nvml s), s)) (\<lambda>ds. loop_st (visit_gpu ne indices) ds [])))"

text \<open>\<open>discoverGPUByPCIBusID\<close> always opens a session of its own, and returns the last GPU with the address.\<close>

definition rediscover ::
  "('n, 'd, 'g, 'c) nvml_env \<Rightarrow> string \<Rightarrow> int \<times> 'd \<Rightarrow> AllocatableDevice option \<times> AllocatableDevice list \<Rightarrow>
   (('n, 'd) nvlib, AllocatableDevice option \<times> AllocatableDevice list) gost" where
  "rediscover ne pciBusID = (\<lambda>(i, d) found.
     bind_st (query ''error getting PCI bus ID for device'' (ni_GetPCIBusID (ne_info ne) d)) (\<lambda>pci.
       if pci \<noteq> pciBusID then ret_st found
       else
         bind_st (wrap_st (Wrapf ''error getting info for GPU'') (getGpuInfo ne d)) (\<lambda>gpuInfo.
         bind_st (wrap_st (Wrapf ''error discovering MIG devices for GPU'') (discoverMigDevicesByGPU ne gpuInfo)) (\<lambda>migs.
           let g = gpuInfo\<lparr>gi_vfioEnabled := (migs = [])\<rparr>
           in ret_st (Some (gpu_allocatable g), map (\<lambda>m. static_device (m\<lparr>mi_parent := g\<rparr>)) migs)))))"

definition discoverGPUByPCIBusID ::
  "('n, 'd, 'g, 'c) nvml_env \<Rightarrow> string \<Rightarrow> (('n, 'd) nvlib, AllocatableDevice option \<times> AllocatableDevice list) gost" where
  "discoverGPUByPCIBusID ne pciBusID =
     bind_st (act ''error initializing NVML'' (nm_Init (ne_mig ne))) (\<lambda>_ s.
       case wrap_st (Wrapf ''error visiting devices'')
           (bind_st (\<lambda>s. (ni_VisitDevices (ne_info ne) (nb_nvml s), s)) (\<lambda>ds. loop_st (rediscover ne pciBusID) ds (None, []))) s of
         (r, s') \<Rightarrow> (r, s'\<lparr>nb_nvml := nm_Shutdown (ne_mig ne) (nb_nvml s')\<rparr>))"

section \<open>Passthrough devices\<close>

text \<open>A GPU on the PCI bus, as nvpci describes it, and what else \<open>getVfioDeviceInfo\<close> asks for.\<close>

record pci_device =
  pci_Address :: string
  pci_DeviceName :: string
  pci_Device :: int
  pci_Vendor :: int
  pci_NumaNode :: int
  pci_TotalMemory :: int

record pci_lib =
  pl_GetGPUs :: "pci_device list go"
  pl_checkIommuFDEnabled :: "bool go"
  pl_GetPCIBusIDAttribute :: "string \<Rightarrow> (string \<times> DeviceAttribute) go"
  pl_GetPCIeRootAttribute :: "string \<Rightarrow> (string \<times> DeviceAttribute) go"
  pl_uuid :: "string \<Rightarrow> string"

text \<open>The format \<open>%04x\<close> of a number of 16 bits.\<close>

definition hex04 :: "int \<Rightarrow> string" where
  "hex04 n = map (\<lambda>k. let v = nat (n div 16 ^ k mod 16) in char_of (if v < 10 then 48 + v else 87 + v)) [3, 2, 1, 0]"

definition getVfioDeviceInfo :: "pci_lib \<Rightarrow> int \<Rightarrow> pci_device \<Rightarrow> VfioDeviceInfo go" where
  "getVfioDeviceInfo pl idx device =
     bind_go (wrap_go (Wrapf ''error checking if IOMMUFD is supported'') (pl_checkIommuFDEnabled pl)) (\<lambda>iommuFD.
     bind_go (wrap_go (Wrapf ''error getting PCI bus ID for device'') (pl_GetPCIBusIDAttribute pl (pci_Address device))) (\<lambda>attr.
       Ok \<lparr>vi_UUID = pl_uuid pl (pci_Address device), vi_deviceID = ''0x'' @ hex04 (pci_Device device),
         vi_vendorID = ''0x'' @ hex04 (pci_Vendor device), vi_index = idx, vi_parent = None,
         vi_productName = pci_DeviceName device, vi_PciBusID = pci_Address device, vi_pciBusIDAttr = Some attr,
         vi_pcieRootAttr = (case pl_GetPCIeRootAttribute pl (pci_Address device) of Ok a \<Rightarrow> Some a | _ \<Rightarrow> None),
         vi_numaNode = pci_NumaNode device, vi_iommuFDEnabled = iommuFD, vi_addressableMemoryBytes = pci_TotalMemory device\<rparr>))"

fun enumerate_vfio :: "pci_lib \<Rightarrow> (nat \<times> pci_device) list \<Rightarrow> PerGPUAllocatableDevices \<Rightarrow> PerGPUAllocatableDevices go" where
  "enumerate_vfio pl [] m = Ok m"
| "enumerate_vfio pl ((idx, pci) # ds) m =
     (let parent = GetGPUDeviceByPCIBusID m (pci_Address pci)
      in if (case parent of Some p \<Rightarrow> (case ad_Gpu p of Some g \<Rightarrow> \<not> gi_vfioEnabled g | None \<Rightarrow> False) | None \<Rightarrow> False)
         then enumerate_vfio pl ds m
         else
           bind_go (wrap_go (Wrapf ''error getting GPU info from PCI device'') (getVfioDeviceInfo pl (int idx) pci)) (\<lambda>v.
           bind_go (wrap_go (Wrapf ''error adding GPU VFIO device'')
               (AddAllocatableDevice (Some (vfio_allocatable (v\<lparr>vi_parent := (case parent of None \<Rightarrow> None | Some p \<Rightarrow> ad_Gpu p)\<rparr>))) m))
             (enumerate_vfio pl ds)))"

definition enumerateGpuVfioDevices :: "pci_lib \<Rightarrow> PerGPUAllocatableDevices \<Rightarrow> PerGPUAllocatableDevices go" where
  "enumerateGpuVfioDevices pl m =
     bind_go (wrap_go (Wrapf ''error getting GPU PCI devices'') (pl_GetGPUs pl)) (\<lambda>gpus. enumerate_vfio pl (enumerate 0 gpus) m)"

definition enumerateAllPossibleDevices ::
  "('n, 'd, 'g, 'c) nvml_env \<Rightarrow> pci_lib \<Rightarrow> (('n, 'd) nvlib, PerGPUAllocatableDevices) gost" where
  "enumerateAllPossibleDevices ne pl =
     bind_st (wrap_st (Wrapf ''error enumerating allocatable devices'') (GetPerGpuAllocatableDevices ne None)) (\<lambda>m.
       if ne_gates ne PassthroughSupport
       then wrap_st (Wrapf ''error enumerating GPU PCI devices'') (lift_st (enumerateGpuVfioDevices pl m))
       else ret_st m)"

definition discoverVfioDevice :: "pci_lib \<Rightarrow> GpuInfo \<Rightarrow> AllocatableDevice go" where
  "discoverVfioDevice pl gpuInfo =
     bind_go (wrap_go (Wrapf ''error getting GPU PCI devices'') (pl_GetGPUs pl)) (\<lambda>gpus.
     case find (\<lambda>(idx, gpu). pci_Address gpu = gi_pciBusID gpuInfo) (enumerate 0 gpus) of
       None \<Rightarrow> Err (Errorf ''error discovering VFIO device by PCI bus ID'')
     | Some (idx, gpu) \<Rightarrow>
         bind_go (wrap_go (Wrapf ''error getting VFIO device info'') (getVfioDeviceInfo pl (int idx) gpu)) (\<lambda>v.
           Ok (vfio_allocatable (v\<lparr>vi_parent := Some gpuInfo\<rparr>))))"

section \<open>The hardware of the device state\<close>

text \<open>The operations above in the place of the hardware parameter; \<open>hw\<close> has those of MPS, time slicing and driver binding.\<close>

definition nvlib_hardware ::
  "('n, 'd, 'g, 'c) nvml_env \<Rightarrow> pci_lib \<Rightarrow> ('n, 'd) nvlib hardware \<Rightarrow> ('n, 'd) nvlib hardware" where
  "nvlib_hardware ne pl hw = hw\<lparr>hw_createMigDevice := createMigDevice ne, hw_deleteMigDevice := deleteMigDevice ne,
     hw_FindMigDevBySpec := FindMigDevBySpec ne, hw_obliterateStaleMIGDevices := obliterateStaleMIGDevices ne,
     hw_discoverVfioDevice := (\<lambda>g. lift_st (bind_go (discoverVfioDevice pl g) (\<lambda>d. Ok (Some d)))),
     hw_discoverGPUByPCIBusID := (\<lambda>pci. bind_st (discoverGPUByPCIBusID ne pci) (\<lambda>(gpu, migs). ret_st gpu))\<rparr>"

section \<open>Roll-back of dynamic MIG devices\<close>

lemma parsed_tuple: "NewMigSpecTupleFromCanonicalName name = Ok ms \<Longrightarrow> ms_ParentPCIBusID ms = ''''"
  by (auto simp: NewMigSpecTupleFromCanonicalName_def split: option.splits prod.splits)

definition nameless_gpu :: "('n, 'd, 'g, 'c) nvml_env \<Rightarrow> ('n, 'd) nvlib \<Rightarrow> bool" where
  "nameless_gpu ne s \<longleftrightarrow> map_of (nb_gpuUUIDbyPCIBusID s) '''' \<noteq> None \<or> map_of (nb_devhandleByUUID s) '''' \<noteq> None \<or>
     (\<exists>d n. nm_DeviceGetHandleByUUID (ne_mig ne) '''' n = NvSuccess d)"

lemma FindMigDevBySpec_parsed:
  assumes "ne_gates ne DynamicMIG" and "\<not> nameless_gpu ne s" and "ms_ParentPCIBusID ms = ''''"
  shows "FindMigDevBySpec ne ms s = (Err (Errorf ''could not get device handle by UUID''), s)"
proof -
  have "nm_DeviceGetHandleByUUID (ne_mig ne) '''' (nb_nvml s) \<noteq> NvSuccess d" for d
    using assms(2) unfolding nameless_gpu_def by blast
  then obtain e where "nm_DeviceGetHandleByUUID (ne_mig ne) '''' (nb_nvml s) = NvFailure e"
    by (cases "nm_DeviceGetHandleByUUID (ne_mig ne) '''' (nb_nvml s)") auto
  with assms show ?thesis
    by (simp add: FindMigDevBySpec_def nameless_gpu_def bind_st_def gets_def gpu_handle_def DeviceGetHandleByUUID_def
        ensureNVML_def shutdown_def)
qed

lemma rollback_device_parsed:
  assumes "ne_gates ne DynamicMIG" and "\<not> nameless_gpu ne (gst_hw s)"
  shows "rollback_device (nvlib_hardware ne pl hw) cs r s = (Ok (), s) \<or>
    (\<not> is_ok (fst (rollback_device (nvlib_hardware ne pl hw) cs r s)) \<and> snd (rollback_device (nvlib_hardware ne pl hw) cs r s) = s)"
    and "NewMigSpecTupleFromCanonicalName (dr_Device r) = Ok ms \<Longrightarrow> used_by_completed (dr_Device r) cs \<noteq> Ok True \<Longrightarrow>
      \<not> is_ok (fst (rollback_device (nvlib_hardware ne pl hw) cs r s))"
  using FindMigDevBySpec_parsed [OF assms parsed_tuple, of "dr_Device r"]
  by (cases "NewMigSpecTupleFromCanonicalName (dr_Device r)"; cases "used_by_completed (dr_Device r) cs";
      auto simp: rollback_device_def deleteMigDevIfExistsAndNotUsedByCompletedClaim_def nvlib_hardware_def bind_st_def wrap_st_def
        go_simps on_hw_def)+

lemma rollback_devices_stuck:
  assumes "ne_gates ne DynamicMIG" and "\<not> nameless_gpu ne (gst_hw s)" and "r \<in> set rs"
    and "NewMigSpecTupleFromCanonicalName (dr_Device r) = Ok ms" and "used_by_completed (dr_Device r) cs \<noteq> Ok True"
  shows "\<not> is_ok (fst (each (rollback_device (nvlib_hardware ne pl hw) cs) rs s)) \<and>
    snd (each (rollback_device (nvlib_hardware ne pl hw) cs) rs s) = s"
  using assms(3)
proof (induction rs)
  case (Cons q rs)
  from rollback_device_parsed(1) [OF assms(1,2), of pl hw cs q] show ?case
  proof
    assume ok: "rollback_device (nvlib_hardware ne pl hw) cs q s = (Ok (), s)"
    then have "q \<noteq> r" using rollback_device_parsed(2) [OF assms(1,2,4,5), of pl hw] by auto
    with Cons ok show ?thesis by (simp add: bind_st_def)
  next
    assume "\<not> is_ok (fst (rollback_device (nvlib_hardware ne pl hw) cs q s)) \<and> snd (rollback_device (nvlib_hardware ne pl hw) cs q s) = s"
    then show ?thesis by (auto simp: bind_st_def is_ok_iff split: go.splits prod.splits)
  qed
qed simp

lemma unprepare_partial_stuck:
  assumes "en_hw en = nvlib_hardware ne pl hw" and "en_gates en DynamicMIG" and "ne_gates ne DynamicMIG"
    and "\<not> nameless_gpu ne (gst_hw s)" and "pc_Allocation pc = Some al" and "r \<in> set (al_Results al)"
    and "NewMigSpecTupleFromCanonicalName (dr_Device r) = Ok ms"
    and "used_by_completed (dr_Device r) (filter (\<lambda>(uid, c). completed c) claims) \<noteq> Ok True"
  obtains "\<not> is_ok (fst (unpreparePartiallyPrepairedClaim en pc claims s))" "snd (unpreparePartiallyPrepairedClaim en pc claims s) = s"
  using rollback_devices_stuck [OF assms(3,4,6,7,8), of pl hw] assms(1,2,5)
  by (simp add: unpreparePartiallyPrepairedClaim_def)

lemma bind_not_ok: "\<not> is_ok (fst (m s)) \<Longrightarrow> \<not> is_ok (fst (bind_st m f s)) \<and> snd (bind_st m f s) = snd (m s)"
  by (auto simp: bind_st_def split: prod.splits go.splits)

lemma wrap_not_ok: "\<not> is_ok (fst (m s)) \<Longrightarrow> \<not> is_ok (fst (wrap_st f m s)) \<and> snd (wrap_st f m s) = snd (m s)"
  by (auto simp: wrap_st_def split: prod.splits)

section \<open>What discovery finds\<close>

lemma loop_st_inv:
  assumes "loop_st f xs a s = (Ok b, t)" and "P a" and "\<And>x a s b t. f x a s = (Ok b, t) \<Longrightarrow> P a \<Longrightarrow> P b"
  shows "P b"
  using assms(1,2)
proof (induction xs arbitrary: a s)
  case (Cons x xs)
  then show ?case using assms(3) by (auto simp: bind_st_eq_Ok)
qed (simp add: ret_st_def)

lemma set_fold_update: "set (fold (\<lambda>m. AList.update (k m) (v m)) ms acc) \<subseteq> set acc \<union> (\<lambda>m. (k m, v m)) ` set ms"
proof (induction ms arbitrary: acc)
  case (Cons m ms)
  from Cons [of "AList.update (k m) (v m) acc"] set_update_subset [of "k m" "v m" acc] show ?case by auto
qed simp

lemma gomap_fold_update: "gomap acc \<Longrightarrow> gomap (fold (\<lambda>m. AList.update (k m) (v m)) ms acc)"
  by (induction ms arbitrary: acc) simp_all

text \<open>The devices of one physical GPU. With dynamic MIG they are the GPU and partitions of it; otherwise the GPU or its MIG devices.\<close>

definition inspected_gpu :: "GpuInfo \<Rightarrow> MigSpec list \<Rightarrow> bool" where
  "inspected_gpu g specs \<longleftrightarrow> (\<exists>nv profiles g0. inspectMigProfilesAndPlacements nv profiles g0 = Ok (g, specs))"

definition devices_fit :: "bool \<Rightarrow> AllocatableDevice set \<Rightarrow> bool" where
  "devices_fit dynamic D \<longleftrightarrow>
     (if dynamic then D = {} \<or> (\<exists>g specs. inspected_gpu g specs \<and> D \<subseteq> partitions g specs)
      else (\<forall>d \<in> D. ad_MigDynamic d = None) \<and> ((\<exists>d \<in> D. ad_Gpu d \<noteq> None) \<longrightarrow> (\<forall>d \<in> D. ad_MigStatic d = None)))"

definition discovered :: "bool \<Rightarrow> string \<Rightarrow> AllocatableDevices \<Rightarrow> bool" where
  "discovered dynamic pci ds \<longleftrightarrow> gomap ds \<and>
     (\<forall>(name, d) \<in> set ds. ad_CanonicalName d = Ok name \<and> GetGPUPCIBusID d = Ok pci \<and> ad_taints d = []) \<and>
     devices_fit dynamic {d \<in> snd ` set ds. ad_Vfio d = None}"

definition all_discovered :: "bool \<Rightarrow> PerGPUAllocatableDevices \<Rightarrow> bool" where
  "all_discovered dynamic m \<longleftrightarrow> gomap m \<and> (\<forall>(pci, ds) \<in> set m. discovered dynamic pci ds)"

lemma all_discovered_update: "all_discovered dyn m \<Longrightarrow> discovered dyn pci ds \<Longrightarrow> all_discovered dyn (AList.update pci ds m)"
  using set_update_subset [of pci ds m] by (auto simp: all_discovered_def)

lemma devices_fit_mono: "devices_fit dyn D \<Longrightarrow> D' \<subseteq> D \<Longrightarrow> devices_fit dyn D'"
  unfolding devices_fit_def by (simp split: if_splits) blast+

lemma discovered_devices: "all_discovered dyn m \<Longrightarrow> discovered dyn pci (gpu_devices m pci)"
proof (cases "map_of m pci")
  case (Some ds)
  assume "all_discovered dyn m"
  with map_of_SomeD [OF Some] show ?thesis by (auto simp: all_discovered_def gpu_devices_def Some)
qed (simp add: gpu_devices_def discovered_def devices_fit_def)

lemma devices_fit_partitions:
  "inspectMigProfilesAndPlacements nv profiles g0 = Ok (g, specs) \<Longrightarrow> D \<subseteq> partitions g specs \<Longrightarrow> devices_fit True D"
  unfolding devices_fit_def inspected_gpu_def if_True by blast

lemma dynamic_discovered:
  assumes "dynamic_allocatables ne d g0 s = (Ok ds, t)"
  shows "discovered True (gi_pciBusID g0) ds"
proof -
  from assms obtain nv profiles g specs where i: "inspectMigProfilesAndPlacements nv profiles g0 = Ok (g, specs)"
    and ds: "ds = fold (\<lambda>m. AList.update (MigSpec_CanonicalName m) (mig_allocatable m)) specs [(GpuInfo_CanonicalName g, gpu_allocatable g)]"
    by (auto simp: dynamic_allocatables_def bind_st_eq_Ok store_info_def ret_st_def)
  have pci: "gi_pciBusID g = gi_pciBusID g0" by (rule inspect_Ok [OF i]) simp
  have sub: "set ds \<subseteq> insert (GpuInfo_CanonicalName g, gpu_allocatable g) ((\<lambda>m. (MigSpec_CanonicalName m, mig_allocatable m)) ` set specs)"
    unfolding ds using set_fold_update [of MigSpec_CanonicalName mig_allocatable specs "[(GpuInfo_CanonicalName g, gpu_allocatable g)]"] by simp
  have "ad_CanonicalName a = Ok k \<and> GetGPUPCIBusID a = Ok (gi_pciBusID g0) \<and> ad_taints a = []" if "(k, a) \<in> set ds" for k a
    using subsetD [OF sub that] inspected(3) [OF i] pci
    by (auto simp: ad_CanonicalName_def GetGPUPCIBusID_def by_type_def gpu_allocatable_def mig_allocatable_def)
  moreover have "snd ` set ds \<subseteq> partitions g specs" using sub by (auto simp: partitions_def)
  then have "devices_fit True {d \<in> snd ` set ds. ad_Vfio d = None}" by (intro devices_fit_partitions [OF i]) auto
  moreover have "gomap ds" unfolding ds by (rule gomap_fold_update) simp
  ultimately show ?thesis unfolding discovered_def by auto
qed

lemma static_discovered:
  assumes "static_allocatables ne g0 s = (Ok ds, t)"
  shows "discovered False (gi_pciBusID g0) ds"
proof -
  define g where "g b = (if ne_gates ne PassthroughSupport then g0\<lparr>gi_vfioEnabled := b\<rparr> else g0)" for b
  from assms obtain ms where ds: "ds = (if \<not> gi_migEnabled (g (ms = [])) then [(GpuInfo_CanonicalName (g (ms = [])), gpu_allocatable (g (ms = [])))]
      else fold (\<lambda>m. AList.update (MigDeviceInfo_CanonicalName m) (static_device (m\<lparr>mi_parent := g (ms = [])\<rparr>))) ms [])"
    unfolding static_allocatables_def Let_def g_def [symmetric] by (auto simp: bind_st_eq_Ok store_info_def ret_st_def)
  have pci: "gi_pciBusID (g b) = gi_pciBusID g0" for b by (simp add: g_def)
  have sub: "set ds \<subseteq> (if \<not> gi_migEnabled (g (ms = [])) then {(GpuInfo_CanonicalName (g (ms = [])), gpu_allocatable (g (ms = [])))}
      else (\<lambda>m. (MigDeviceInfo_CanonicalName m, static_device (m\<lparr>mi_parent := g (ms = [])\<rparr>))) ` set ms)"
    unfolding ds using set_fold_update [of MigDeviceInfo_CanonicalName "\<lambda>m. static_device (m\<lparr>mi_parent := g (ms = [])\<rparr>)" ms "[]"] by simp
  have name: "MigDeviceInfo_CanonicalName (m\<lparr>mi_parent := g'\<rparr>) = MigDeviceInfo_CanonicalName m" for m g'
    by (simp add: MigDeviceInfo_CanonicalName_def MigDeviceInfo_SpecTuple_def)
  have "gomap (fold (\<lambda>m. AList.update (MigDeviceInfo_CanonicalName m) (static_device (m\<lparr>mi_parent := g'\<rparr>))) ms [])" for g'
    by (rule gomap_fold_update) simp
  then have "gomap ds" unfolding ds by simp
  moreover have "ad_CanonicalName a = Ok k \<and> GetGPUPCIBusID a = Ok (gi_pciBusID g0) \<and> ad_taints a = []" if "(k, a) \<in> set ds" for k a
    using subsetD [OF sub that] pci name
    by (auto simp: ad_CanonicalName_def GetGPUPCIBusID_def by_type_def gpu_allocatable_def static_device_def split: if_splits)
  moreover have "devices_fit False {d \<in> snd ` set ds. ad_Vfio d = None}"
  proof (cases "gi_migEnabled (g (ms = []))")
    case True
    with sub have "\<forall>d \<in> snd ` set ds. ad_MigDynamic d = None \<and> ad_Gpu d = None" by (auto simp: static_device_def)
    then show ?thesis by (auto simp: devices_fit_def)
  next
    case False
    with sub have "snd ` set ds \<subseteq> {gpu_allocatable (g (ms = []))}" by auto
    then show ?thesis by (auto simp: devices_fit_def gpu_allocatable_def)
  qed
  ultimately show ?thesis unfolding discovered_def by auto
qed

lemma visit_gpu_discovered:
  assumes "visit_gpu ne indices x all s = (Ok all', t)" and "all_discovered (ne_gates ne DynamicMIG) all"
  shows "all_discovered (ne_gates ne DynamicMIG) all'"
proof -
  obtain i d where x: "x = (i, d)" by force
  define found where "found g = (if ne_gates ne DynamicMIG then dynamic_allocatables ne d g else static_allocatables ne g)" for g
  have fit: "discovered (ne_gates ne DynamicMIG) (gi_pciBusID g) ds" if "found g u = (Ok ds, u')" for g ds u u'
    using that dynamic_discovered static_discovered by (cases "ne_gates ne DynamicMIG") (auto simp: found_def)
  show ?thesis
  proof (cases "all' = all")
    case False
    with assms(1) obtain g ds u u' where "found g u = (Ok ds, u')" and all': "all' = AList.update (gi_pciBusID g) ds all"
      unfolding visit_gpu_def x prod.case found_def [symmetric]
      by (auto simp: bind_st_eq_Ok wrap_st_eq_Ok lift_st_def AddGPUAllocatables_def ret_st_def split: option.splits if_splits)
    then have "discovered (ne_gates ne DynamicMIG) (gi_pciBusID g) ds" using fit by blast
    with assms(2) show ?thesis unfolding all' by (rule all_discovered_update)
  qed (use assms(2) in simp)
qed

lemma with_nvml_eq_Ok: "with_nvml ne m s = (Ok a, t) \<Longrightarrow> \<exists>s' t'. m s' = (Ok a, t')"
  by (auto simp: with_nvml_def split: prod.splits nvml.splits)

lemma GetPerGpu_discovered:
  assumes "GetPerGpuAllocatableDevices ne indices s = (Ok m, t)"
  shows "all_discovered (ne_gates ne DynamicMIG) m"
proof -
  from assms obtain ds u u' where "loop_st (visit_gpu ne indices) ds [] u = (Ok m, u')"
    unfolding GetPerGpuAllocatableDevices_def by (auto dest!: with_nvml_eq_Ok simp: wrap_st_eq_Ok bind_st_eq_Ok)
  then show ?thesis
  proof (rule loop_st_inv)
    show "all_discovered (ne_gates ne DynamicMIG) []" by (simp add: all_discovered_def)
  qed (rule visit_gpu_discovered)
qed

lemma vfio_discovered:
  assumes "AddAllocatableDevice (Some (vfio_allocatable v)) m = Ok m'" and "all_discovered dyn m"
  shows "all_discovered dyn m'"
proof -
  let ?ds = "AList.update (Vfio_CanonicalName (vi_index v)) (vfio_allocatable v) (gpu_devices m (vi_PciBusID v))"
  from assms(1) have m': "m' = AList.update (vi_PciBusID v) ?ds m"
    by (simp add: AddAllocatableDevice_def GetGPUPCIBusID_def ad_CanonicalName_def by_type_def vfio_allocatable_def)
  have old: "discovered dyn (vi_PciBusID v) (gpu_devices m (vi_PciBusID v))" by (rule discovered_devices [OF assms(2)])
  have sub: "set ?ds \<subseteq> insert (Vfio_CanonicalName (vi_index v), vfio_allocatable v) (set (gpu_devices m (vi_PciBusID v)))"
    by (rule set_update_subset)
  then have "{d \<in> snd ` set ?ds. ad_Vfio d = None} \<subseteq> {d \<in> snd ` set (gpu_devices m (vi_PciBusID v)). ad_Vfio d = None}"
    by (auto simp: vfio_allocatable_def)
  then have "devices_fit dyn {d \<in> snd ` set ?ds. ad_Vfio d = None}"
    using old devices_fit_mono unfolding discovered_def by blast
  moreover have "ad_CanonicalName a = Ok k \<and> GetGPUPCIBusID a = Ok (vi_PciBusID v) \<and> ad_taints a = []" if "(k, a) \<in> set ?ds" for k a
    using subsetD [OF sub that] old
    by (auto simp: discovered_def ad_CanonicalName_def GetGPUPCIBusID_def by_type_def vfio_allocatable_def)
  ultimately have "discovered dyn (vi_PciBusID v) ?ds" using old unfolding discovered_def by auto
  with assms(2) show ?thesis unfolding m' by (rule all_discovered_update)
qed

lemma enumerate_vfio_discovered: "enumerate_vfio pl ds m = Ok m' \<Longrightarrow> all_discovered dyn m \<Longrightarrow> all_discovered dyn m'"
proof (induction pl ds m rule: enumerate_vfio.induct)
  case (2 pl idx pci ds m)
  then show ?case by (auto simp: Let_def split: if_splits) (metis vfio_discovered)+
qed simp

section \<open>What NVML does\<close>

text \<open>
  The documented behaviour of the calls that manage MIG devices. \<open>insts n d\<close> are the GPU instances of the GPU \<open>d\<close> with their compute instances,
  each with the handle of its MIG device; \<open>gi_of\<close> and \<open>ci_of\<close> say what a handle refers to. A call that fails changes nothing.
  Nothing is said about disabling MIG mode while there are instances.
\<close>

record 'd gpu_instance =
  in_Id :: int
  in_Profile :: int
  in_Start :: int
  in_Size :: int
  in_Compute :: "(int \<times> 'd) list"

type_synonym ('n, 'd) instances = "'n \<Rightarrow> 'd \<Rightarrow> 'd gpu_instance list"

definition add_compute :: "int \<Rightarrow> int \<times> 'd \<Rightarrow> 'd gpu_instance list \<Rightarrow> 'd gpu_instance list" where
  "add_compute gid c is = map (\<lambda>i. if in_Id i = gid then i\<lparr>in_Compute := in_Compute i @ [c]\<rparr> else i) is"

definition remove_compute :: "int \<Rightarrow> int \<Rightarrow> 'd gpu_instance list \<Rightarrow> 'd gpu_instance list" where
  "remove_compute gid cid is = map (\<lambda>i. if in_Id i = gid then i\<lparr>in_Compute := filter (\<lambda>c. fst c \<noteq> cid) (in_Compute i)\<rparr> else i) is"

definition nvml_enables :: "('n, 'd, 'g, 'c) nvml_mig \<Rightarrow> ('n, 'd) instances \<Rightarrow> bool" where
  "nvml_enables nm insts \<longleftrightarrow>
     (\<forall>d n. insts (snd (nm_SetMigMode nm d True n)) = insts n) \<and> (\<forall>n. insts (snd (nm_Init nm n)) = insts n) \<and>
     (\<forall>n. insts (nm_Shutdown nm n) = insts n)"

definition nvml_creates_gi :: "('n, 'd, 'g, 'c) nvml_mig \<Rightarrow> ('n, 'd) instances \<Rightarrow> ('g \<Rightarrow> 'd \<times> int) \<Rightarrow> bool" where
  "nvml_creates_gi nm insts gi_of \<longleftrightarrow>
     (\<forall>d p pl n r n'. nm_CreateGpuInstanceWithPlacement nm d p pl n = (r, n') \<longrightarrow> (case r of
        NvFailure _ \<Rightarrow> insts n' = insts n
      | NvSuccess g \<Rightarrow> (\<exists>gid. gid \<notin> in_Id ` set (insts n d) \<and> gi_of g = (d, gid) \<and>
          insts n' = (insts n)(d := insts n d @ [\<lparr>in_Id = gid, in_Profile = ip_Id p, in_Start = fst pl, in_Size = snd pl, in_Compute = []\<rparr>]))))"

definition nvml_creates_ci ::
  "('n, 'd, 'g, 'c) nvml_mig \<Rightarrow> ('n, 'd) instances \<Rightarrow> ('g \<Rightarrow> 'd \<times> int) \<Rightarrow> ('c \<Rightarrow> 'd \<times> int \<times> int) \<Rightarrow> bool" where
  "nvml_creates_ci nm insts gi_of ci_of \<longleftrightarrow>
     (\<forall>g p n r n' d gid. nm_CreateComputeInstance nm g p n = (r, n') \<longrightarrow> gi_of g = (d, gid) \<longrightarrow> (case r of
        NvFailure _ \<Rightarrow> insts n' = insts n
      | NvSuccess c \<Rightarrow> (\<exists>cid h. ci_of c = (d, gid, cid) \<and> insts n' = (insts n)(d := add_compute gid (cid, h) (insts n d)))))"

definition nvml_describes ::
  "('n, 'd, 'g, 'c) nvml_mig \<Rightarrow> ('g \<Rightarrow> 'd \<times> int) \<Rightarrow> ('c \<Rightarrow> 'd \<times> int \<times> int) \<Rightarrow> bool" where
  "nvml_describes nm gi_of ci_of \<longleftrightarrow>
     (\<forall>g n info. nm_gi_GetInfo nm g n = NvSuccess info \<longrightarrow> gn_Id info = snd (gi_of g)) \<and>
     (\<forall>c n info. nm_ci_GetInfo nm c n = NvSuccess info \<longrightarrow> cn_Id info = snd (snd (ci_of c)))"

definition nvml_finds :: "('n, 'd, 'g, 'c) nvml_mig \<Rightarrow> ('n, 'd) instances \<Rightarrow> ('g \<Rightarrow> 'd \<times> int) \<Rightarrow> ('c \<Rightarrow> 'd \<times> int \<times> int) \<Rightarrow> bool" where
  "nvml_finds nm insts gi_of ci_of \<longleftrightarrow>
     (\<forall>d gid n. case nm_GetGpuInstanceById nm d gid n of
        NvSuccess g \<Rightarrow> gi_of g = (d, gid)
      | NvFailure e \<Rightarrow> e \<in> {ERROR_NOT_FOUND, ERROR_NOT_SUPPORTED} \<longrightarrow> gid \<notin> in_Id ` set (insts n d)) \<and>
     (\<forall>g cid n c. nm_GetComputeInstanceById nm g cid n = NvSuccess c \<longrightarrow> ci_of c = (fst (gi_of g), snd (gi_of g), cid))"

definition nvml_destroys :: "('n, 'd, 'g, 'c) nvml_mig \<Rightarrow> ('n, 'd) instances \<Rightarrow> ('g \<Rightarrow> 'd \<times> int) \<Rightarrow> ('c \<Rightarrow> 'd \<times> int \<times> int) \<Rightarrow> bool" where
  "nvml_destroys nm insts gi_of ci_of \<longleftrightarrow>
     (\<forall>g n r n' d gid. nm_gi_Destroy nm g n = (r, n') \<longrightarrow> gi_of g = (d, gid) \<longrightarrow>
        insts n' = (if r = NvSuccess () then (insts n)(d := filter (\<lambda>i. in_Id i \<noteq> gid) (insts n d)) else insts n)) \<and>
     (\<forall>c n r n' d gid cid. nm_ci_Destroy nm c n = (r, n') \<longrightarrow> ci_of c = (d, gid, cid) \<longrightarrow>
        insts n' = (if r = NvSuccess () then (insts n)(d := remove_compute gid cid (insts n d)) else insts n))"

lemma query_eq_Ok: "query msg f s = (Ok a, t) \<longleftrightarrow> f (nb_nvml s) = NvSuccess a \<and> t = s"
  by (auto simp: query_def split: nvml.splits)

lemma query_state: "query msg f s = (r, t) \<Longrightarrow> t = s \<and> (\<forall>p. r \<noteq> Panic p)"
  by (auto simp: query_def split: nvml.splits)

lemma act_result: "act msg f s = (r, t) \<Longrightarrow> \<exists>r'. f (nb_nvml s) = (r', nb_nvml t) \<and>
   (case r' of NvSuccess a \<Rightarrow> r = Ok a | NvFailure _ \<Rightarrow> (\<exists>e. r = Err e))"
  by (cases "f (nb_nvml s)") (auto simp: act_def split: nvml.splits)

lemma gpu_handle_insts:
  assumes "nvml_enables (ne_mig ne) insts" and "gpu_handle ne msg uuid s = (r, t)"
  shows "insts (nb_nvml t) = insts (nb_nvml s) \<and> (\<forall>p. r \<noteq> Panic p)"
proof -
  obtain r' n where init: "nm_Init (ne_mig ne) (nb_nvml s) = (r', n)" by force
  with assms(1) have n: "insts n = insts (nb_nvml s)" "insts (nm_Shutdown (ne_mig ne) n) = insts (nb_nvml s)"
    unfolding nvml_enables_def by (metis snd_conv)+
  show ?thesis
    using assms(2) n init
    by (auto simp: gpu_handle_def DeviceGetHandleByUUID_def ensureNVML_def shutdown_def split: nvml.splits if_splits option.splits)
qed

lemma query_bind:
  assumes "bind_st (query msg q) f s = (r, t)"
  obtains (ok) a where "q (nb_nvml s) = NvSuccess a" "f a s = (r, t)" | (fail) "t = s" "\<not> is_ok r"
  using assms by (elim bind_cases) (auto simp: query_def split: nvml.splits)

lemma act_bind:
  assumes "bind_st (act msg q) f s = (r, t)"
  obtains (ok) a n where "q (nb_nvml s) = (NvSuccess a, n)" "f a (s\<lparr>nb_nvml := n\<rparr>) = (r, t)"
  | (fail) e n where "q (nb_nvml s) = (NvFailure e, n)" "t = s\<lparr>nb_nvml := n\<rparr>" "\<not> is_ok r"
  using assms by (elim bind_cases) (auto simp: act_def split: nvml.splits prod.splits)

lemma add_compute_last:
  "gid \<notin> in_Id ` set old \<Longrightarrow> in_Id inst = gid \<Longrightarrow> add_compute gid c (old @ [inst]) = old @ [inst\<lparr>in_Compute := in_Compute inst @ [c]\<rparr>]"
  by (induction old) (auto simp: add_compute_def)

text \<open>The instance that was added last may have got compute instances.\<close>

definition grown :: "('d \<Rightarrow> 'd gpu_instance list) \<Rightarrow> 'd \<Rightarrow> 'd gpu_instance \<Rightarrow> (int \<times> 'd) list \<Rightarrow> 'd \<Rightarrow> 'd gpu_instance list" where
  "grown before d inst cs = before(d := before d @ [inst\<lparr>in_Compute := cs\<rparr>])"

lemma finish_mig_device_insts:
  assumes "nvml_creates_ci (ne_mig ne) insts gi_of ci_of" and "nvml_describes (ne_mig ne) gi_of ci_of" and "gi_of gi = (d, in_Id inst)"
    and "in_Id inst \<notin> in_Id ` set (before d)" and "insts (nb_nvml s) = grown before d inst []"
    and "finish_mig_device ne spec gip gi s = (r, t)"
  shows "\<exists>cs. insts (nb_nvml t) = grown before d inst cs \<and>
    (\<forall>info. r = Ok info \<longrightarrow> mi_GIID info = in_Id inst \<and> mi_GiProfileID info = ip_Id gip \<and> (\<exists>h. cs = [(mi_CIID info, h)]))"
  using assms(6) unfolding finish_mig_device_def Let_def
proof (cases rule: query_bind)
  case (ok giInfo)
  note gn = assms(2) [unfolded nvml_describes_def, THEN conjunct1, rule_format, OF ok(1)]
  from ok(2) show ?thesis
  proof (cases rule: query_bind)
    case cip: (ok cip)
    from cip(2) show ?thesis
    proof (cases rule: act_bind)
      case ci: (ok ci n)
      from assms(1,3) ci(1) obtain cid h where c: "ci_of ci = (d, in_Id inst, cid)"
        "insts n = (insts (nb_nvml s))(d := add_compute (in_Id inst) (cid, h) (insts (nb_nvml s) d))"
        unfolding nvml_creates_ci_def by fastforce
      have n: "insts n = grown before d inst [(cid, h)]"
        using assms(4) by (simp add: c(2) assms(5) grown_def add_compute_last)
      from ci(2) show ?thesis
      proof (cases rule: query_bind)
        case info: (ok ciInfo)
        have "cn_Id ciInfo = cid"
          using assms(2) [unfolded nvml_describes_def, THEN conjunct2, rule_format, OF info(1)] c(1) by simp
        moreover from info(2) have "t = s\<lparr>nb_nvml := n\<rparr>"
          "\<And>i. r = Ok i \<Longrightarrow> mi_CIID i = cn_Id ciInfo \<and> mi_GIID i = gn_Id giInfo \<and> mi_GiProfileID i = ip_Id gip"
          by (cases rule: query_bind; auto simp: ret_st_def)+
        ultimately show ?thesis using n gn assms(3) by (intro exI [of _ "[(cid, h)]"]) auto
      qed (use n in auto)
    next
      case (fail e n)
      then have "insts n = insts (nb_nvml s)" using assms(1,3) unfolding nvml_creates_ci_def by fastforce
      with fail assms(5) show ?thesis by auto
    qed
  qed (use assms(5) in auto)
qed (use assms(5) in auto)

abbreviation insts_are :: "('n, 'd) instances \<Rightarrow> ('d \<Rightarrow> 'd gpu_instance list) \<Rightarrow> ('n, 'd) nvlib \<Rightarrow> bool" where
  "insts_are insts I \<equiv> (\<lambda>s. insts (nb_nvml s) = I)"

lemma keeps_query [simp]: "keeps P (query msg f)"
  by (simp add: keeps_def query_def)

lemma keeps_act: "(\<And>n. insts (snd (f n)) = insts n) \<Longrightarrow> keeps (insts_are insts I) (act msg f)"
  by (auto simp: keeps_def act_def split: prod.splits) (metis snd_conv)

lemma keeps_enable:
  "nvml_enables (ne_mig ne) insts \<Longrightarrow>
     keeps (insts_are insts I) (if b then ret_st () else act ''error enabling MIG mode'' (nm_SetMigMode (ne_mig ne) d True))"
  by (simp add: keeps_act nvml_enables_def)

lemma create_prefix_insts:
  assumes "nvml_enables (ne_mig ne) insts" and "createMigDevice ne spec s = (r, t)"
  obtains (failed) "insts (nb_nvml t) = insts (nb_nvml s)" "\<not> is_ok r"
  | (creating) d gip u where "insts (nb_nvml u) = insts (nb_nvml s)"
      "bind_st (act ''error creating GPU instance'' (nm_CreateGpuInstanceWithPlacement (ne_mig ne) d gip
         (mp_PlacementStart spec, mp_PlacementSize spec))) (finish_mig_device ne spec gip) u = (r, t)"
  using assms(2) unfolding createMigDevice_def Let_def
proof (cases rule: bind_cases)
  case (ok d u)
  note u = gpu_handle_insts [OF assms(1) ok(1)]
  from ok(2) show thesis
  proof (cases rule: query_bind)
    case (ok migEnabled)
    from ok(2) show thesis
    proof (cases rule: bind_cases)
      case (ok x v)
      have v: "insts (nb_nvml v) = insts (nb_nvml u)"
        using keepsD [OF keeps_enable [OF assms(1)], where s = u, OF refl, of migEnabled d] ok(1) by simp
      from ok(2) show thesis by (cases rule: query_bind) (use u v creating failed in auto)
    next
      case (fail r0)
      then have "insts (nb_nvml t) = insts (nb_nvml u)"
        using keepsD [OF keeps_enable [OF assms(1)], where s = u, OF refl, of migEnabled d] by simp
      with u fail(3) show thesis by (intro failed) simp_all
    qed
  qed (use u failed in auto)
qed (use gpu_handle_insts [OF assms(1)] failed in auto)

subsection \<open>Deletion\<close>

lemma keeps_gpu_handle: "nvml_enables (ne_mig ne) insts \<Longrightarrow> keeps (insts_are insts I) (gpu_handle ne msg uuid)"
  by (intro keepsI) (metis gpu_handle_insts prod.collapse)

lemma keeps_with_nvml:
  fixes ne :: "('n, 'd, 'g, 'c) nvml_env" and m :: "(('n, 'd) nvlib, 'a) gost"
  assumes "nvml_enables (ne_mig ne) insts" and "keeps (insts_are insts I) m"
  shows "keeps (insts_are insts I) (with_nvml ne m)"
proof (rule keepsI)
  fix s :: "('n, 'd) nvlib" assume s: "insts (nb_nvml s) = I"
  obtain r s' where e: "ensureNVML ne s = (r, s')" by force
  then have s': "insts (nb_nvml s') = I"
    using s assms(1) by (auto simp: ensureNVML_def nvml_enables_def split: if_splits prod.splits) (metis snd_conv)
  obtain r2 u where m: "m s' = (r2, u)" by force
  with keepsD [OF assms(2), OF s'] have "insts (nb_nvml u) = I" by simp
  then have "insts (nb_nvml (shutdown ne u)) = I" using assms(1) by (simp add: shutdown_def nvml_enables_def)
  with e m s' show "insts (nb_nvml (snd (with_nvml ne m s))) = I" by (simp add: with_nvml_def split: nvml.split)
qed

lemma keeps_loop: "(\<And>x a. keeps P (f x a)) \<Longrightarrow> keeps P (loop_st f xs a)"
  by (induction xs arbitrary: a) (auto intro: keeps_bind)

lemma keeps_walk:
  assumes "\<And>h a. keeps P (f h a)"
  shows "keeps P (walkMigDevices nm d f a)"
  unfolding walkMigDevices_def
proof (intro keeps_bind keeps_loop)
  fix i b
  show "keeps P (\<lambda>s. case nm_GetMigDeviceHandleByIndex nm d i (nb_nvml s) of
           NvSuccess device \<Rightarrow> f device b s
         | NvFailure ERROR_NOT_FOUND \<Rightarrow> (Ok b, s)
         | NvFailure ERROR_INVALID_ARGUMENT \<Rightarrow> (Ok b, s)
         | NvFailure _ \<Rightarrow> (Err (Errorf ''error getting MIG device handle at index''), s))"
    using assms by (auto simp: keeps_def split: nvml.split nvml_Error.split)
qed simp

lemma keeps_getMigDevices: "nvml_enables (ne_mig ne) insts \<Longrightarrow> keeps (insts_are insts I) (getMigDevices ne g)"
  unfolding getMigDevices_def add_mig_device_def Let_def
  by (simp split: option.split)
    (intro impI keeps_with_nvml keeps_bind keeps_gpu_handle keeps_wrap keeps_walk, auto split: option.split intro!: keeps_bind)

lemma maybeDisable_insts:
  assumes "nvml_enables (ne_mig ne) insts" and "maybeDisableMigMode ne uuid d s = (r, t)"
  shows "insts (nb_nvml t) = insts (nb_nvml s) \<or> (\<exists>n. insts n = insts (nb_nvml s) \<and> nb_nvml t = snd (nm_SetMigMode (ne_mig ne) d False n))"
proof (cases "map_of (nb_gpuInfosByUUID s) uuid")
  case None
  with assms(2) show ?thesis by (auto simp: maybeDisableMigMode_def bind_st_def gets_def err_st_def)
next
  case (Some g)
  note keep = keepsD [OF keeps_wrap [OF keeps_getMigDevices [OF assms(1)]], where s = s, OF refl]
  from assms(2) Some have "bind_st (wrap_st (Wrapf ''error getting MIG devices'') (getMigDevices ne g)) (\<lambda>migs.
      if migs \<noteq> [] then ret_st () else act ''error disabling MIG mode'' (nm_SetMigMode (ne_mig ne) d False)) s = (r, t)"
    by (simp add: maybeDisableMigMode_def bind_st_def gets_def)
  then show ?thesis
  proof (cases rule: bind_cases)
    case (ok migs u)
    from keep [of "Wrapf ''error getting MIG devices''" g] ok(1) have "insts (nb_nvml u) = insts (nb_nvml s)" by simp
    with ok(2) show ?thesis by (auto simp: ret_st_def act_def split: if_splits prod.splits)
  next
    case (fail r0)
    with keep [of "Wrapf ''error getting MIG devices''" g] show ?thesis by simp
  qed
qed

lemma filter_remove_compute: "filter (\<lambda>i. in_Id i \<noteq> gid) (remove_compute gid cid is) = filter (\<lambda>i. in_Id i \<noteq> gid) is"
  by (induction "is") (auto simp: remove_compute_def)

lemma filter_absent: "gid \<notin> in_Id ` set is \<Longrightarrow> filter (\<lambda>i. in_Id i \<noteq> gid) is = is"
  by (induction "is") auto

lemma destroy_instances_insts:
  assumes "nvml_finds nm insts gi_of ci_of" and "nvml_destroys nm insts gi_of ci_of"
    and "gi_of gi = (d, gid)" and "destroy_instances nm gi (nm_GetComputeInstanceById nm gi cid n) s = (Ok (), t)"
  shows "insts (nb_nvml t) = (insts (nb_nvml s))(d := filter (\<lambda>i. in_Id i \<noteq> gid) (insts (nb_nvml s) d))"
proof -
  from assms(4) obtain u where ci: "(case nm_GetComputeInstanceById nm gi cid n of
         NvFailure ERROR_NOT_FOUND \<Rightarrow> ret_st ()
       | NvFailure _ \<Rightarrow> err_st (Errorf ''error getting Compute instance handle for MIG device'')
       | NvSuccess ci \<Rightarrow> act ''error destroying Compute instance'' (nm_ci_Destroy nm ci)) s = (Ok (), u)"
    and gi: "act ''error destroying GPU Instance'' (nm_gi_Destroy nm gi) u = (Ok (), t)"
    by (auto simp: destroy_instances_def bind_st_eq_Ok)
  have u: "insts (nb_nvml u) = insts (nb_nvml s) \<or>
      insts (nb_nvml u) = (insts (nb_nvml s))(d := remove_compute gid cid (insts (nb_nvml s) d))"
  proof (cases "nm_GetComputeInstanceById nm gi cid n")
    case (NvSuccess c)
    with assms(1,3) have "ci_of c = (d, gid, cid)" unfolding nvml_finds_def by fastforce
    moreover from ci NvSuccess have "nm_ci_Destroy nm c (nb_nvml s) = (NvSuccess (), nb_nvml u)"
      by (auto simp: act_def split: prod.splits nvml.splits)
    ultimately show ?thesis using assms(2) unfolding nvml_destroys_def by fastforce
  next
    case (NvFailure e)
    with ci show ?thesis by (cases e) (auto simp: ret_st_def err_st_def)
  qed
  from gi have "nm_gi_Destroy nm gi (nb_nvml u) = (NvSuccess (), nb_nvml t)"
    by (auto simp: act_def split: prod.splits nvml.splits)
  with assms(2,3) have "insts (nb_nvml t) = (insts (nb_nvml u))(d := filter (\<lambda>i. in_Id i \<noteq> gid) (insts (nb_nvml u) d))"
    unfolding nvml_destroys_def by fastforce
  with u show ?thesis by (auto simp: filter_remove_compute)
qed

section \<open>Properties\<close>








section \<open>A GPU that behaves\<close>

text \<open>An NVML with one GPU of two memory slices that meets the assumptions.\<close>

datatype sim_handle = GpuH | MigH int

record sim =
  sm_on :: bool
  sm_insts :: "sim_handle gpu_instance list"

definition sim_insts :: "(sim, sim_handle) instances" where
  "sim_insts n d = (if d = GpuH then sm_insts n else [])"

definition sim_mig :: "(sim, sim_handle, sim_handle \<times> int, sim_handle \<times> int \<times> int) nvml_mig" where
  "sim_mig = \<lparr>nm_Init = (\<lambda>n. (NvSuccess (), n)), nm_Shutdown = (\<lambda>n. n),
     nm_DeviceGetHandleByUUID = (\<lambda>u n. if u = ''GPU-a'' then NvSuccess GpuH else NvFailure ERROR_NOT_FOUND),
     nm_GetGpuInstanceProfileInfo = (\<lambda>d i n. if i = 1 \<or> i = 2 then NvSuccess (example_info i) else NvFailure ERROR_NOT_SUPPORTED),
     nm_SetMigMode = (\<lambda>d b n. (NvSuccess (), n\<lparr>sm_on := b\<rparr>)),
     nm_GetMaxMigDeviceCount = (\<lambda>d n. NvSuccess 2),
     nm_GetMigDeviceHandleByIndex = (\<lambda>d i n. if i < length (sm_insts n) then NvSuccess (MigH (in_Id (sm_insts n ! i))) else NvFailure ERROR_NOT_FOUND),
     nm_GetGpuInstanceId = (\<lambda>d n. case d of MigH i \<Rightarrow> NvSuccess i | GpuH \<Rightarrow> NvFailure ERROR_INVALID_ARGUMENT),
     nm_GetComputeInstanceId = (\<lambda>d n. NvSuccess 0),
     nm_GetGpuInstanceById = (\<lambda>d i n. if i \<in> set (map in_Id (sim_insts n d)) then NvSuccess (d, i) else NvFailure ERROR_NOT_FOUND),
     nm_gi_GetInfo = (\<lambda>g n. case find (\<lambda>i. in_Id i = snd g) (sim_insts n (fst g)) of
        None \<Rightarrow> NvFailure ERROR_INVALID_ARGUMENT
      | Some i \<Rightarrow> NvSuccess \<lparr>gn_Id = snd g, gn_ProfileId = in_Profile i, gn_Start = in_Start i, gn_Size = in_Size i\<rparr>),
     nm_GetComputeInstanceProfileInfo = (\<lambda>g i j n. NvSuccess 0),
     nm_GetComputeInstanceById = (\<lambda>g c n. NvSuccess (fst g, snd g, c)),
     nm_ci_GetInfo = (\<lambda>c n. NvSuccess \<lparr>cn_Id = snd (snd c), cn_ProfileId = 0, cn_Device = MigH (fst (snd c))\<rparr>),
     nm_CreateGpuInstanceWithPlacement = (\<lambda>d p pl n. let gid = 1 + fold Orderings.max (map in_Id (sm_insts n)) 0 in
        if d = GpuH then (NvSuccess (d, gid), n\<lparr>sm_insts := sm_insts n @
          [\<lparr>in_Id = gid, in_Profile = ip_Id p, in_Start = fst pl, in_Size = snd pl, in_Compute = []\<rparr>]\<rparr>)
        else (NvFailure ERROR_INVALID_ARGUMENT, n)),
     nm_CreateComputeInstance = (\<lambda>g p n. if fst g = GpuH
        then (NvSuccess (fst g, snd g, 0), n\<lparr>sm_insts := add_compute (snd g) (0, MigH (snd g)) (sm_insts n)\<rparr>)
        else (NvFailure ERROR_INVALID_ARGUMENT, n)),
     nm_gi_Destroy = (\<lambda>g n. if fst g = GpuH then (NvSuccess (), n\<lparr>sm_insts := filter (\<lambda>i. in_Id i \<noteq> snd g) (sm_insts n)\<rparr>)
        else (NvFailure ERROR_INVALID_ARGUMENT, n)),
     nm_ci_Destroy = (\<lambda>c n. if fst c = GpuH then (NvSuccess (), n\<lparr>sm_insts := remove_compute (fst (snd c)) (snd (snd c)) (sm_insts n)\<rparr>)
        else (NvFailure ERROR_INVALID_ARGUMENT, n))\<rparr>"

lemma max_fold: "x \<in> set xs \<Longrightarrow> x < 1 + fold Orderings.max xs a" "a < 1 + fold Orderings.max xs (a :: int)"
proof (induction xs arbitrary: a)
  case (Cons y ys)
  {
    case 1
    then show ?case using Cons.IH(1) [of "Orderings.max y a"] Cons.IH(2) [of "Orderings.max y a"] by auto
  next
    case 2
    then show ?case using Cons.IH(2) [of "Orderings.max y a"] by simp
  }
qed simp_all

lemma sim_fresh: "i \<in> set (sm_insts n) \<Longrightarrow> in_Id i \<noteq> 1 + fold Orderings.max (map in_Id (sm_insts n)) 0"
  using max_fold(1) [of "in_Id i" "map in_Id (sm_insts n)" 0] by auto

lemma sim_laws:
  "nvml_enables sim_mig sim_insts" "nvml_creates_gi sim_mig sim_insts (\<lambda>g. g)" "nvml_creates_ci sim_mig sim_insts (\<lambda>g. g) (\<lambda>c. c)"
  "nvml_describes sim_mig (\<lambda>g. g) (\<lambda>c. c)" "nvml_finds sim_mig sim_insts (\<lambda>g. g) (\<lambda>c. c)" "nvml_destroys sim_mig sim_insts (\<lambda>g. g) (\<lambda>c. c)"
proof -
  show "nvml_creates_gi sim_mig sim_insts (\<lambda>g. g)"
    by (auto simp: nvml_creates_gi_def sim_mig_def sim_insts_def fun_eq_iff Let_def image_iff split: if_splits) (metis sim_fresh)
qed (auto simp: nvml_enables_def nvml_creates_ci_def nvml_describes_def nvml_finds_def nvml_destroys_def sim_mig_def sim_insts_def fun_eq_iff
    split: if_splits option.splits)

definition sim_info :: "(sim, sim_handle) nvml_info" where
  "sim_info = \<lparr>ni_VisitDevices = (\<lambda>n. Ok [(0, GpuH)]), ni_GetMinorNumber = (\<lambda>d n. NvSuccess 0),
     ni_GetUUID = (\<lambda>d n. NvSuccess (case d of GpuH \<Rightarrow> ''GPU-a'' | MigH i \<Rightarrow> ''MIG-'' @ show_int i)),
     ni_IsMigEnabled = (\<lambda>d n. NvSuccess (sm_on n)), ni_GetMemoryInfo = (\<lambda>d n. NvSuccess 85899345920),
     ni_GetName = (\<lambda>d n. NvSuccess ''H100''), ni_GetArchitectureAsString = (\<lambda>d n. NvSuccess ''Hopper''),
     ni_GetBrandAsString = (\<lambda>d n. NvSuccess ''Nvidia''), ni_GetCudaComputeCapabilityAsString = (\<lambda>d n. NvSuccess ''9.0''),
     ni_SystemGetDriverVersion = (\<lambda>n. NvSuccess ''580.65''), ni_SystemGetCudaDriverVersion = (\<lambda>n. NvSuccess 13000),
     ni_GetPCIBusID = (\<lambda>d n. NvSuccess ''0000:01:00.0''), ni_GetAddressingModeAsString = (\<lambda>d n. NvSuccess ''''),
     ni_GetPCIBusIDAttribute = (\<lambda>p. Ok (''pciBusID'', StringValue p)), ni_GetPCIeRootAttribute = (\<lambda>p. Err (Errorf ''no PCIe root'')),
     ni_NewMigProfile = (\<lambda>i j k a b. Ok ((example_profile i)\<lparr>pr_C := i + j\<rparr>)),
     ni_VisitMigProfiles = (\<lambda>d n. [example_profile 1, example_profile 2]),
     ni_GetGpuInstancePossiblePlacements = (\<lambda>d p n. NvSuccess (if ip_Id p = 1 then [(0, 1), (1, 1)] else [(0, 2)]))\<rparr>"

definition sim_env :: "(sim, sim_handle, sim_handle \<times> int, sim_handle \<times> int \<times> int) nvml_env" where
  "sim_env = \<lparr>ne_gates = mig_gates, ne_info = sim_info, ne_mig = sim_mig\<rparr>"

definition sim_lib :: "bool \<Rightarrow> sim_handle gpu_instance list \<Rightarrow> (sim, sim_handle) nvlib" where
  "sim_lib on is = \<lparr>nb_gpuInfosByUUID = [(''GPU-a'', split_gpu)], nb_gpuUUIDbyPCIBusID = [(''0000:01:00.0'', ''GPU-a'')],
     nb_devhandleByUUID = [(''GPU-a'', GpuH)], nb_nvml = \<lparr>sm_on = on, sm_insts = is\<rparr>\<rparr>"

definition sim_instance :: "int \<Rightarrow> int \<Rightarrow> sim_handle gpu_instance" where
  "sim_instance i start = \<lparr>in_Id = i, in_Profile = 1, in_Start = start, in_Size = 1, in_Compute = [(0, MigH i)]\<rparr>"

definition sim_mig_info :: "int \<Rightarrow> int \<Rightarrow> MigDeviceInfo" where
  "sim_mig_info i start = \<lparr>mi_UUID = ''MIG-'' @ show_int i, mi_Profile = pr_String (example_profile 1), mi_ParentUUID = ''GPU-a'',
     mi_GiProfileID = 1, mi_ParentMinor = 0, mi_CIID = 0, mi_GIID = i, mi_PlacementStart = start, mi_PlacementSize = 1,
     mi_gIInfo = Some i, mi_cIInfo = Some 0, mi_parent = split_gpu, mi_giProfileInfo = None\<rparr>"

lemma sim_lib_simps [simp]:
  "nb_nvml (sim_lib on is) = \<lparr>sm_on = on, sm_insts = is\<rparr>" "(sim_lib on is)\<lparr>nb_nvml := \<lparr>sm_on = a, sm_insts = js\<rparr>\<rparr> = sim_lib a js"
  "nb_gpuInfosByUUID (sim_lib on is) = [(''GPU-a'', split_gpu)]"
  by (simp_all add: sim_lib_def)

lemma sim_calls [simp]:
  "ni_IsMigEnabled (ne_info sim_env) d n = NvSuccess (sm_on n)"
  "ni_GetUUID (ne_info sim_env) (MigH i) n = NvSuccess (''MIG-'' @ show_int i)"
  "nm_GetGpuInstanceProfileInfo (ne_mig sim_env) d 1 n = NvSuccess (example_info 1)"
  "nm_SetMigMode (ne_mig sim_env) d b n = (NvSuccess (), n\<lparr>sm_on := b\<rparr>)"
  "nm_GetGpuInstanceById (ne_mig sim_env) d i n = (if i \<in> in_Id ` set (sim_insts n d) then NvSuccess (d, i) else NvFailure ERROR_NOT_FOUND)"
  "nm_gi_GetInfo (ne_mig sim_env) (d, j) n = (case find (\<lambda>i. in_Id i = j) (sim_insts n d) of None \<Rightarrow> NvFailure ERROR_INVALID_ARGUMENT
     | Some i \<Rightarrow> NvSuccess \<lparr>gn_Id = j, gn_ProfileId = in_Profile i, gn_Start = in_Start i, gn_Size = in_Size i\<rparr>)"
  "nm_GetComputeInstanceProfileInfo (ne_mig sim_env) g x y n = NvSuccess 0"
  "nm_GetComputeInstanceById (ne_mig sim_env) g k n = NvSuccess (fst g, snd g, k)"
  "nm_ci_GetInfo (ne_mig sim_env) c n = NvSuccess \<lparr>cn_Id = snd (snd c), cn_ProfileId = 0, cn_Device = MigH (fst (snd c))\<rparr>"
  "nm_CreateGpuInstanceWithPlacement (ne_mig sim_env) GpuH p pl n = (let gid = 1 + fold Orderings.max (map in_Id (sm_insts n)) 0 in
     (NvSuccess (GpuH, gid), n\<lparr>sm_insts := sm_insts n @
        [\<lparr>in_Id = gid, in_Profile = ip_Id p, in_Start = fst pl, in_Size = snd pl, in_Compute = []\<rparr>]\<rparr>))"
  "nm_CreateComputeInstance (ne_mig sim_env) (GpuH, j) q n =
     (NvSuccess (GpuH, j, 0), n\<lparr>sm_insts := add_compute j (0, MigH j) (sm_insts n)\<rparr>)"
  "nm_gi_Destroy (ne_mig sim_env) (GpuH, j) n = (NvSuccess (), n\<lparr>sm_insts := filter (\<lambda>i. in_Id i \<noteq> j) (sm_insts n)\<rparr>)"
  "nm_ci_Destroy (ne_mig sim_env) (GpuH, j, k) n = (NvSuccess (), n\<lparr>sm_insts := remove_compute j k (sm_insts n)\<rparr>)"
  by (simp_all add: sim_env_def sim_info_def sim_mig_def split: option.split)

lemma sim_handle_known: "gpu_handle sim_env msg ''GPU-a'' (sim_lib on is) = (Ok GpuH, sim_lib on is)"
  by (simp add: gpu_handle_def DeviceGetHandleByUUID_def ensureNVML_def shutdown_def sim_env_def mig_gates_def sim_lib_def)

lemma sim_create:
  assumes "fold Orderings.max (map in_Id is) 0 = i - 1" and "i \<notin> in_Id ` set is"
  shows "createMigDevice sim_env (example_spec 1 start 1) (sim_lib on is) = (Ok (sim_mig_info i start), sim_lib True (is @ [sim_instance i start]))"
proof -
  have old: "add_compute i c is = is" for c using assms(2) by (induction "is") (auto simp: add_compute_def)
  have uuid: "gi_UUID split_gpu = ''GPU-a''" "gi_minor split_gpu = 0" by (simp_all add: split_gpu_def example_gpu_def)
  have new: "add_compute i c (is @ [x]) = is @ [x\<lparr>in_Compute := in_Compute x @ [c]\<rparr>]" if "in_Id x = i" for x c
    using old that by (simp add: add_compute_def)
  have find: "find (\<lambda>x. in_Id x = i) (is @ [y]) = Some y" if "in_Id y = i" for y :: "sim_handle gpu_instance"
    using assms(2) that by (induction "is") auto
  show ?thesis
    unfolding createMigDevice_def finish_mig_device_def Let_def
    using assms(1) by (simp add: bind_st_def uuid sim_handle_known example_spec_def query_def act_def ret_st_def
        example_profile_def Let_def sim_insts_def find new sim_instance_def sim_mig_info_def example_info_def)
qed

lemma sim_maybeDisable:
  "maybeDisableMigMode sim_env ''GPU-a'' d (sim_lib on is) = (Ok (), sim_lib False is)"
proof -
  have "\<not> gi_migEnabled split_gpu" by (simp add: split_gpu_def example_gpu_def)
  then show ?thesis by (simp add: maybeDisableMigMode_def bind_st_def gets_def getMigDevices_def wrap_st_def ret_st_def act_def)
qed

lemma sim_delete:
  assumes "i \<in> in_Id ` set is"
  shows "deleteMigDevice sim_env (LiveTuple (sim_mig_info i start)) (sim_lib on is) = (Ok (), sim_lib False (filter (\<lambda>x. in_Id x \<noteq> i) is))"
  using assms
  by (simp add: deleteMigDevice_def Let_def bind_st_def LiveTuple_def sim_mig_info_def sim_handle_known gets_def sim_insts_def
      destroy_instances_def act_def filter_remove_compute wrap_st_def sim_maybeDisable)



text \<open>MIG mode is switched off under a MIG device in use: the description of the GPU in the library's map is the one made at start-up, when MIG mode was off, so
  after two MIG devices were created, deleting the first finds no other one and disables MIG mode although the second exists.\<close>

theorem mig_mode_disabled_under_device:
  "\<exists>s1 s2 s3 i1 i2. createMigDevice sim_env (example_spec 1 0 1) (sim_lib False []) = (Ok i1, s1) \<and>
     createMigDevice sim_env (example_spec 1 1 1) s1 = (Ok i2, s2) \<and> sm_on (nb_nvml s2) \<and>
     deleteMigDevice sim_env (LiveTuple i1) s2 = (Ok (), s3) \<and>
     sm_insts (nb_nvml s3) = [sim_instance (mi_GIID i2) 1] \<and> \<not> sm_on (nb_nvml s3)"
proof -
  have "createMigDevice sim_env (example_spec 1 0 1) (sim_lib False []) = (Ok (sim_mig_info 1 0), sim_lib True [sim_instance 1 0])"
    using sim_create [of "[]" 1 0 False] by simp
  moreover have "createMigDevice sim_env (example_spec 1 1 1) (sim_lib True [sim_instance 1 0]) =
      (Ok (sim_mig_info 2 1), sim_lib True [sim_instance 1 0, sim_instance 2 1])"
    using sim_create [of "[sim_instance 1 0]" 2 1 True] by (simp add: sim_instance_def)
  moreover have "deleteMigDevice sim_env (LiveTuple (sim_mig_info 1 0)) (sim_lib True [sim_instance 1 0, sim_instance 2 1]) =
      (Ok (), sim_lib False [sim_instance 2 1])"
    using sim_delete [of 1 "[sim_instance 1 0, sim_instance 2 1]" 0 True] by (simp add: sim_instance_def)
  moreover have "mi_GIID (sim_mig_info 2 1) = 2" by (simp add: sim_mig_info_def)
  ultimately show ?thesis by (intro exI conjI) (assumption | simp)+
qed

definition sim_pci :: pci_lib where
  "sim_pci = \<lparr>pl_GetGPUs = Ok [], pl_checkIommuFDEnabled = Ok False, pl_GetPCIBusIDAttribute = (\<lambda>p. Ok (''pciBusID'', StringValue p)),
     pl_GetPCIeRootAttribute = (\<lambda>p. Err (Errorf ''no PCIe root'')), pl_uuid = (\<lambda>s. s)\<rparr>"

definition new_lib :: "(sim, sim_handle) nvlib" where
  "new_lib = \<lparr>nb_gpuInfosByUUID = [], nb_gpuUUIDbyPCIBusID = [], nb_devhandleByUUID = [], nb_nvml = \<lparr>sm_on = False, sm_insts = []\<rparr>\<rparr>"

definition sim_found :: PerGPUAllocatableDevices where
  "sim_found = (case fst (enumerateAllPossibleDevices sim_env sim_pci new_lib) of Ok m \<Rightarrow> m | _ \<Rightarrow> [])"


definition sim_base :: "(sim, sim_handle) nvlib hardware" where
  "sim_base = \<lparr>hw_createMigDevice = createMigDevice sim_env, hw_deleteMigDevice = deleteMigDevice sim_env,
     hw_FindMigDevBySpec = FindMigDevBySpec sim_env, hw_obliterateStaleMIGDevices = obliterateStaleMIGDevices sim_env,
     hw_setComputeMode = (\<lambda>us m. ret_st ()), hw_setTimeSlice = (\<lambda>us i. ret_st ()),
     hw_vfioConfigure = (\<lambda>v. ret_st ()), hw_vfioUnconfigure = (\<lambda>v. ret_st ()),
     hw_discoverVfioDevice = (\<lambda>g. ret_st None), hw_discoverGPUByPCIBusID = (\<lambda>p. ret_st None),
     hw_mpsStart = (\<lambda>i us gs c. ret_st ()), hw_mpsAssertReady = (\<lambda>i. ret_st ()), hw_mpsStop = (\<lambda>i. ret_st ())\<rparr>"

definition sim_gpu_env :: "(sim, sim_handle) nvlib gpu_env" where
  "sim_gpu_env = \<lparr>en_gates = mig_gates, en_decode = (\<lambda>b. Err (Errorf ''no configuration'')), en_hw = nvlib_hardware sim_env sim_pci sim_base,
     en_cdi = example_gpu_cdi, en_get = None, en_update1 = None, en_update2 = None, en_order1 = (\<lambda>m. m), en_order2 = (\<lambda>m. m),
     en_sha256hex = (\<lambda>s. s), en_mpsRoot = ''/mps''\<rparr>"

definition interrupted_node :: "(sim, sim_handle) nvlib gpu_state" where
  "interrupted_node = \<lparr>gst_claims = [(''u1'', started_entry (example_claim ''u1'' ''gpu-0-mig-1g10gb-1-0''))], gst_allocatable = [],
     gst_cdi = [], gst_hw = sim_lib True [sim_instance 1 0]\<rparr>"


end
