(* ===== verification/Gpu_Vfio.thy ===== *)
theory Gpu_Vfio
  imports Gpu_Devices
begin

text \<open>
  Driver binding of passthrough devices (\<open>vfio-device.go\<close>), the scripts it runs (\<open>scripts/unbind_from_driver.sh\<close>,
  \<open>scripts/bind_to_driver.sh\<close>), and the calls of \<open>nvidia-smi\<close> in \<open>nvlib.go\<close>.

  The kernel's view of the PCI bus is a map from addresses to bound drivers. What the kernel and the other programs answer (is
  the GPU in use, do writes to sysfs succeed) is an argument. A write to the \<open>bind\<close> file of a driver only succeeds for a
  device without a driver.
\<close>

section \<open>The PCI bus and the scripts\<close>

definition vfioPciDriver :: string where "vfioPciDriver = ''vfio-pci''"
definition nvidiaDriver :: string where "nvidiaDriver = ''nvidia''"

record pci_bus =
  pb_driver :: "(string, string) gomap"
  pb_override :: "(string, string) gomap"

text \<open>Answers to one run of the two scripts: the unbind lock, the write to \<open>unbind\<close>, and the files of \<open>bind_to_driver.sh\<close>.\<close>

record script_env =
  se_unbindLock :: bool
  se_unbindWritten :: bool
  se_overrideExists :: bool
  se_overrideWritten :: bool
  se_bindExists :: bool
  se_bindWritten :: bool

definition unbind_script :: "script_env \<Rightarrow> string \<Rightarrow> (pci_bus, unit) gost" where
  "unbind_script se gpu b = (case map_of (pb_driver b) gpu of
     None \<Rightarrow> (Ok (), b)
   | Some existing \<Rightarrow>
       if existing = nvidiaDriver \<and> \<not> se_unbindLock se then (Err (Errorf ''exit status 1''), b)
       else (Ok (), if se_unbindWritten se then b\<lparr>pb_driver := AList.delete gpu (pb_driver b)\<rparr> else b))"

definition bind_script :: "script_env \<Rightarrow> string \<Rightarrow> string \<Rightarrow> (pci_bus, unit) gost" where
  "bind_script se gpu driver b =
     (if \<not> se_overrideExists se \<or> \<not> se_overrideWritten se then (Err (Errorf ''exit status 1''), b)
      else let b' = b\<lparr>pb_override := AList.update gpu driver (pb_override b)\<rparr>
        in if \<not> se_bindExists se then (Err (Errorf ''exit status 1''), b')
        else if \<not> se_bindWritten se \<or> map_of (pb_driver b) gpu \<noteq> None
        then (Err (Errorf ''exit status 1''), b\<lparr>pb_override := AList.update gpu '''' (pb_override b)\<rparr>)
        else (Ok (), b'\<lparr>pb_driver := AList.update gpu driver (pb_driver b)\<rparr>))"

section \<open>The manager (vfio-device.go)\<close>

record VfioPciManager =
  vm_driver :: string
  vm_nvidiaEnabled :: bool

datatype stat_answer = StatNotExist | StatError goerr | StatDir | StatFile

definition checkVfioPCIModuleLoaded :: "stat_answer \<Rightarrow> bool go" where
  "checkVfioPCIModuleLoaded f = (case f of
     StatNotExist \<Rightarrow> Ok False
   | StatError e \<Rightarrow> Err (Wrapf ''failed to check if vfio_pci module is loaded'' e)
   | StatDir \<Rightarrow> Ok True
   | StatFile \<Rightarrow> Ok False)"

text \<open>The answer to opening the directory of IOMMU groups, and then to reading one entry; \<open>Ok False\<close> is the end of the directory.\<close>

definition checkIommuEnabled :: "stat_answer \<Rightarrow> bool go \<Rightarrow> bool go" where
  "checkIommuEnabled opened entry = (case opened of
     StatNotExist \<Rightarrow> Ok False
   | StatError e \<Rightarrow> Err e
   | _ \<Rightarrow> entry)"

definition checkIommuFDEnabled :: "stat_answer \<Rightarrow> bool go" where
  "checkIommuFDEnabled f = (case f of
     StatNotExist \<Rightarrow> Ok False
   | StatError e \<Rightarrow> Err (Wrapf ''error checking if iommu device node exists'' e)
   | _ \<Rightarrow> Ok True)"

definition NewVfioPciManager :: "stat_answer \<Rightarrow> unit go \<Rightarrow> bool go \<Rightarrow> bool \<Rightarrow> VfioPciManager go" where
  "NewVfioPciManager moduleDir modprobe iommu nvidiaEnabled =
     bind_go (wrap_go (Wrapf ''error checking if vfio_pci module is loaded'') (checkVfioPCIModuleLoaded moduleDir)) (\<lambda>loaded.
     bind_go (if loaded then Ok () else wrap_go (Wrapf ''failed to load vfio_pci module'') modprobe) (\<lambda>_.
     bind_go (wrap_go (Wrapf ''error checking if IOMMU is enabled'') iommu) (\<lambda>iommuEnabled.
       if \<not> iommuEnabled then Err (Errorf ''IOMMU is not enabled in the kernel'')
       else Ok \<lparr>vm_driver = vfioPciDriver, vm_nvidiaEnabled = nvidiaEnabled\<rparr>)))"

text \<open>The answers of \<open>fuser\<close> at the ticks before the timeout; exit code 1 says that no process has the device open.\<close>

datatype fuser = FuserExit1 | FuserFailed | FuserBusy

fun wait_ticks :: "fuser list \<Rightarrow> unit go" where
  "wait_ticks [] = Err (Errorf ''timed out waiting for gpu to be free'')"
| "wait_ticks (FuserExit1 # ts) = Ok ()"
| "wait_ticks (_ # ts) = wait_ticks ts"

definition WaitForGPUFree :: "fuser list \<Rightarrow> VfioDeviceInfo \<Rightarrow> unit go" where
  "WaitForGPUFree ticks info = (if vi_parent info = None then Ok () else wait_ticks ticks)"

definition verifyDisabledVFs :: "int go \<Rightarrow> unit go" where
  "verifyDisabledVFs numVFs = bind_go numVFs (\<lambda>n. if n > 0 then Err (Errorf ''gpu has VFs, cannot unbind'') else Ok ())"

text \<open>The link to the driver does not exist for a device without a driver.\<close>

definition getDriver :: "string \<Rightarrow> (pci_bus, string) gost" where
  "getDriver pci b = (case map_of (pb_driver b) pci of
     None \<Rightarrow> (Err (Errorf ''readlink: no such file or directory''), b)
   | Some d \<Rightarrow> (Ok d, b))"

definition changeDriver :: "script_env \<Rightarrow> string \<Rightarrow> string \<Rightarrow> (pci_bus, unit) gost" where
  "changeDriver se pci driver = bind_st (unbind_script se pci) (\<lambda>_. bind_script se pci driver)"

definition Configure :: "VfioPciManager \<Rightarrow> script_env \<Rightarrow> fuser list \<Rightarrow> int go \<Rightarrow> VfioDeviceInfo \<Rightarrow> (pci_bus, unit) gost" where
  "Configure vm se ticks numVFs info =
     bind_st (getDriver (vi_PciBusID info)) (\<lambda>driver.
       if driver = vm_driver vm then ret_st ()
       else if \<not> vm_nvidiaEnabled vm \<or> driver \<noteq> nvidiaDriver then err_st (Errorf ''gpu is bound to an unexpected driver'')
       else
         bind_st (lift_st (WaitForGPUFree ticks info)) (\<lambda>_.
         bind_st (lift_st (verifyDisabledVFs numVFs)) (\<lambda>_.
           changeDriver se (vi_PciBusID info) (vm_driver vm))))"

definition Unconfigure :: "VfioPciManager \<Rightarrow> script_env \<Rightarrow> VfioDeviceInfo \<Rightarrow> (pci_bus, unit) gost" where
  "Unconfigure vm se info =
     (if \<not> vm_nvidiaEnabled vm then ret_st ()
      else bind_st (getDriver (vi_PciBusID info)) (\<lambda>driver.
        if driver = nvidiaDriver then ret_st () else changeDriver se (vi_PciBusID info) nvidiaDriver))"

section \<open>Calls of nvidia-smi (nvlib.go)\<close>

definition Getenv :: "string list \<Rightarrow> string \<Rightarrow> string" where
  "Getenv environ key = (case find (\<lambda>e. takeWhile (\<lambda>c. c \<noteq> CHR ''='') e = key \<and> CHR ''='' \<in> set e) environ of
     None \<Rightarrow> '''' | Some e \<Rightarrow> drop (length key + 1) e)"

definition prependPathListEnvvar :: "string list \<Rightarrow> string \<Rightarrow> string list \<Rightarrow> string" where
  "prependPathListEnvvar environ key prepend =
     (if prepend = [] then Getenv environ key
      else strings_Join '':'' (prepend @ (if Getenv environ key = '''' then [] else strings_Split (CHR '':'') (Getenv environ key))))"

definition setOrOverrideEnvvar :: "string list \<Rightarrow> string \<Rightarrow> string \<Rightarrow> string list" where
  "setOrOverrideEnvvar envvars key val =
     filter (\<lambda>e. takeWhile (\<lambda>c. c \<noteq> CHR ''='') e \<noteq> key) envvars @ [key @ ''='' @ val]"

text \<open>\<open>run env args\<close> runs a program.\<close>

definition nvidia_smi ::
  "(string list \<Rightarrow> string list \<Rightarrow> ('s, unit) gost) \<Rightarrow> string list \<Rightarrow> string \<Rightarrow> string list \<Rightarrow> ('s, unit) gost" where
  "nvidia_smi run environ lib args = wrap_st (Wrapf ''error running nvidia-smi'')
     (run (setOrOverrideEnvvar environ ''LD_PRELOAD'' (prependPathListEnvvar environ ''LD_PRELOAD'' [lib])) args)"

definition setTimeSlice ::
  "(string list \<Rightarrow> string list \<Rightarrow> ('s, unit) gost) \<Rightarrow> string list \<Rightarrow> string \<Rightarrow> string \<Rightarrow> string list \<Rightarrow> int \<Rightarrow> ('s, unit) gost" where
  "setTimeSlice run environ smi lib uuids timeSlice =
     each (\<lambda>u. nvidia_smi run environ lib [smi, ''compute-policy'', ''-i'', u, ''--set-timeslice'', show_int timeSlice]) uuids"

definition setComputeMode ::
  "(string list \<Rightarrow> string list \<Rightarrow> ('s, unit) gost) \<Rightarrow> string list \<Rightarrow> string \<Rightarrow> string \<Rightarrow> string list \<Rightarrow> string \<Rightarrow> ('s, unit) gost" where
  "setComputeMode run environ smi lib uuids mode = each (\<lambda>u. nvidia_smi run environ lib [smi, ''-i'', u, ''-c'', mode]) uuids"

section \<open>Lemmas\<close>

lemma drivers_differ [simp]: "vfioPciDriver \<noteq> nvidiaDriver" "nvidiaDriver \<noteq> vfioPciDriver"
  by (simp_all add: vfioPciDriver_def nvidiaDriver_def)

lemma bind_script_Ok: "bind_script se pci d b = (Ok (), b') \<Longrightarrow> map_of (pb_driver b') = (map_of (pb_driver b))(pci \<mapsto> d)"
  by (auto simp: bind_script_def Let_def update_conv' split: if_splits)

lemma bind_script_fail: "bind_script se pci d b = (r, b') \<Longrightarrow> \<not> is_ok r \<Longrightarrow> pb_driver b' = pb_driver b"
  by (auto simp: bind_script_def Let_def split: if_splits)

lemma unbind_script_driver:
  "unbind_script se pci b = (r, b') \<Longrightarrow> map_of (pb_driver b') = map_of (pb_driver b) \<or> map_of (pb_driver b') = (map_of (pb_driver b))(pci := None)"
  by (auto simp: unbind_script_def delete_conv' split: option.splits if_splits)

lemma changeDriver_cases:
  assumes "changeDriver se pci d b = (r, b')"
  shows "if is_ok r then map_of (pb_driver b') = (map_of (pb_driver b))(pci \<mapsto> d)
    else map_of (pb_driver b') = map_of (pb_driver b) \<or> map_of (pb_driver b') = (map_of (pb_driver b))(pci := None)"
  using assms unfolding changeDriver_def
proof (cases rule: bind_cases)
  case (ok x b1)
  from unbind_script_driver [OF ok(1)] have b1: "(map_of (pb_driver b1))(pci \<mapsto> d) = (map_of (pb_driver b))(pci \<mapsto> d)" by auto
  show ?thesis
  proof (cases "is_ok r")
    case True
    with ok(2) have "bind_script se pci d b1 = (Ok (), b')" by (cases r) auto
    from bind_script_Ok [OF this] b1 True show ?thesis by simp
  next
    case False
    with bind_script_fail [OF ok(2)] unbind_script_driver [OF ok(1)] show ?thesis by simp
  qed
qed (use unbind_script_driver in auto)

lemma getDriver_result: "getDriver pci b = (r, b') \<longleftrightarrow> b' = b \<and>
    r = (case map_of (pb_driver b) pci of None \<Rightarrow> Err (Errorf ''readlink: no such file or directory'') | Some d \<Rightarrow> Ok d)"
  by (auto simp: getDriver_def split: option.splits)

lemma wait_ticks_Ok: "wait_ticks ts = Ok () \<longleftrightarrow> FuserExit1 \<in> set ts"
  by (induction ts rule: wait_ticks.induct) auto

lemma verifyDisabledVFs_Ok: "verifyDisabledVFs n = Ok () \<longleftrightarrow> (\<exists>k \<le> 0. n = Ok k)"
  by (cases n) (auto simp: verifyDisabledVFs_def)

definition may_unbind :: "fuser list \<Rightarrow> int go \<Rightarrow> VfioDeviceInfo \<Rightarrow> pci_bus \<Rightarrow> bool" where
  "may_unbind ticks numVFs info b \<longleftrightarrow> map_of (pb_driver b) (vi_PciBusID info) = Some nvidiaDriver \<and>
     (vi_parent info \<noteq> None \<longrightarrow> FuserExit1 \<in> set ticks) \<and> (\<exists>n \<le> 0. numVFs = Ok n)"

lemma lift_fails: "bind_st (lift_st x) f b = (r, b') \<Longrightarrow> x \<noteq> Ok () \<Longrightarrow> b' = b \<and> \<not> is_ok r"
  by (cases x) (auto simp: bind_st_def lift_st_def)

lemma Configure_cases:
  assumes "Configure vm se ticks numVFs info b = (r, b')"
  obtains (bound) "map_of (pb_driver b) (vi_PciBusID info) = Some (vm_driver vm)" "b' = b" "is_ok r"
  | (refused) "b' = b" "\<not> is_ok r"
  | (change) "may_unbind ticks numVFs info b" "changeDriver se (vi_PciBusID info) (vm_driver vm) b = (r, b')"
proof (cases "map_of (pb_driver b) (vi_PciBusID info)")
  case None
  with assms show thesis by (intro refused) (auto simp: Configure_def getDriver_def bind_st_def)
next
  case (Some d)
  consider (same) "d = vm_driver vm" | (unexpected) "d \<noteq> vm_driver vm" "\<not> vm_nvidiaEnabled vm \<or> d \<noteq> nvidiaDriver"
    | (nvidia) "d \<noteq> vm_driver vm" "vm_nvidiaEnabled vm" "d = nvidiaDriver" by blast
  then show thesis
  proof cases
    case same
    with assms Some show thesis by (intro bound) (auto simp: Configure_def getDriver_def bind_st_def ret_st_def)
  next
    case unexpected
    with assms Some show thesis by (intro refused) (auto simp: Configure_def getDriver_def bind_st_def err_st_def)
  next
    case nvidia
    with assms Some have run: "bind_st (lift_st (WaitForGPUFree ticks info)) (\<lambda>_. bind_st (lift_st (verifyDisabledVFs numVFs)) (\<lambda>_.
        changeDriver se (vi_PciBusID info) (vm_driver vm))) b = (r, b')"
      by (simp add: Configure_def getDriver_def fun_cong [OF bind_st_def [of "getDriver (vi_PciBusID info)"]])
    show thesis
    proof (cases "WaitForGPUFree ticks info = Ok () \<and> verifyDisabledVFs numVFs = Ok ()")
      case True
      with nvidia(3) Some have "may_unbind ticks numVFs info b"
        by (auto simp: may_unbind_def WaitForGPUFree_def wait_ticks_Ok verifyDisabledVFs_Ok split: if_splits)
      with True run show thesis by (intro change) simp_all
    next
      case False
      have "b' = b \<and> \<not> is_ok r"
      proof (cases "WaitForGPUFree ticks info = Ok ()")
        case True
        with run have "bind_st (lift_st (verifyDisabledVFs numVFs)) (\<lambda>_. changeDriver se (vi_PciBusID info) (vm_driver vm)) b = (r, b')" by simp
        then show ?thesis by (rule lift_fails) (use True False in simp)
      qed (rule lift_fails [OF run])
      with refused show thesis by blast
    qed
  qed
qed

lemma Unconfigure_cases:
  assumes "Unconfigure vm se info b = (r, b')" and "vm_nvidiaEnabled vm"
  obtains (bound) "map_of (pb_driver b) (vi_PciBusID info) = Some nvidiaDriver" "b' = b" "is_ok r"
  | (refused) "map_of (pb_driver b) (vi_PciBusID info) = None" "b' = b" "\<not> is_ok r"
  | (change) "changeDriver se (vi_PciBusID info) nvidiaDriver b = (r, b')"
  using assms by (cases "map_of (pb_driver b) (vi_PciBusID info)")
    (auto simp: Unconfigure_def getDriver_def bind_st_def ret_st_def split: if_splits)

section \<open>Properties\<close>


text \<open>A change of drivers that fails half-way strands the GPU: the old driver is gone and the new one is not there, the link to the driver
  cannot be read, and all later calls to configure or unconfigure the device fail and change nothing.\<close>

theorem failed_bind_strands_gpu:
  assumes "vm_nvidiaEnabled vm" and "Configure vm se ticks numVFs info b = (r, b')" and "\<not> is_ok r"
    and "map_of (pb_driver b') \<noteq> map_of (pb_driver b)"
  shows "\<not> is_ok (fst (Configure vm se' ticks' numVFs' info b')) \<and> snd (Configure vm se' ticks' numVFs' info b') = b' \<and>
    \<not> is_ok (fst (Unconfigure vm se' info b')) \<and> snd (Unconfigure vm se' info b') = b'"
proof -
  have "map_of (pb_driver b') (vi_PciBusID info) = None"
    using assms(2)
  proof (cases rule: Configure_cases)
    case change
    with changeDriver_cases [OF change(2)] assms(3,4) show ?thesis by auto
  qed (use assms(3,4) in auto)
  then show ?thesis using assms(1) by (simp add: Configure_def Unconfigure_def getDriver_def bind_st_def)
qed

definition example_vm :: VfioPciManager where
  "example_vm = \<lparr>vm_driver = vfioPciDriver, vm_nvidiaEnabled = True\<rparr>"

definition scripts :: "bool \<Rightarrow> script_env" where
  "scripts bound = \<lparr>se_unbindLock = True, se_unbindWritten = True, se_overrideExists = True, se_overrideWritten = True,
     se_bindExists = True, se_bindWritten = bound\<rparr>"

definition example_bus :: "(string, string) gomap \<Rightarrow> (string, string) gomap \<Rightarrow> pci_bus" where
  "example_bus drivers overrides = \<lparr>pb_driver = drivers, pb_override = overrides\<rparr>"

lemma example_address: "vi_PciBusID example_vfio = ''0000:01:00.0''" "vi_parent example_vfio = Some example_gpu"
  by (simp_all add: example_vfio_def)

lemma example_configure:
  "Configure example_vm (scripts bound) [FuserBusy, FuserExit1] (Ok 0) example_vfio (example_bus [(''0000:01:00.0'', nvidiaDriver)] []) =
     (if bound then (Ok (), example_bus [(''0000:01:00.0'', vfioPciDriver)] [(''0000:01:00.0'', vfioPciDriver)])
      else (Err (Errorf ''exit status 1''), example_bus [] [(''0000:01:00.0'', '''')]))"
  by (simp add: Configure_def getDriver_def bind_st_def example_address example_vm_def example_bus_def WaitForGPUFree_def lift_st_def
      verifyDisabledVFs_def changeDriver_def unbind_script_def bind_script_def scripts_def Let_def)

lemma example_unconfigure:
  "Unconfigure example_vm (scripts True) example_vfio (example_bus [(''0000:01:00.0'', vfioPciDriver)] []) =
     (Ok (), example_bus [(''0000:01:00.0'', nvidiaDriver)] [(''0000:01:00.0'', nvidiaDriver)])"
  by (simp add: Unconfigure_def getDriver_def bind_st_def example_address example_vm_def example_bus_def
      changeDriver_def unbind_script_def bind_script_def scripts_def Let_def)


theorem failed_bind_strands_gpu_witness:
  "\<not> is_ok (fst (Unconfigure example_vm (scripts True) example_vfio (example_bus [] [(''0000:01:00.0'', '''')])))"
proof -
  have "map_of [] \<noteq> map_of [(''0000:01:00.0'', nvidiaDriver)]" by (simp add: fun_eq_iff)
  with failed_bind_strands_gpu [OF _ example_configure [of False, unfolded if_False], where se' = "scripts True"] show ?thesis
    by (simp add: example_vm_def example_bus_def)
qed

end
