(* ===== verification/Watch_Cache.thy ===== *)
theory Watch_Cache
  imports Daemon_Common
begin

text \<open>
  The caches the compute-domain controller reads its objects through, and the API server behind them.

  \<^item> \<open>objects\<close>: the objects of one kind on the API server, and for every watcher the copy its informer
    holds, the events that were sent to it and not delivered yet, and its mutation cache. An
    informer lags behind the server arbitrarily, but sees all changes of an object, in order.
  \<^item> \<open>mc_ByIndex\<close>, \<open>Mutation\<close>: the mutation cache the controller lays over the informer
    (\<open>client-go\<close>, with \<open>includeAdds\<close>), so that it sees its own writes before the informer does. Entries
    expire only after an hour; here an entry can be dropped once the informer has seen the object.
  \<^item> \<open>others\<close>: what happens between two calls of the controller: events are delivered, other
    clients change or remove objects, other goroutines of the controller record removed
    finalizers. Other clients do not create objects that the controller watches.
  \<^item> \<open>coherent\<close>, \<open>tracked\<close>: the invariants of a watcher, and the lemmas that a lookup in the mutation
    cache does not miss an object.
\<close>

section \<open>Objects and the API server\<close>

text \<open>\<open>om_UID\<close> stands for the identity the server gives to an object at creation.\<close>

record ObjectMeta =
  om_UID :: nat
  om_Namespace :: string
  om_Name :: string
  om_Labels :: "(string, string) gomap"
  om_Finalizers :: "string list"
  om_Deleting :: bool
  om_ResourceVersion :: nat

text \<open>The key of an object in a store: namespace and name.\<close>

datatype key = Key string string

definition om_key :: "'a ObjectMeta_scheme \<Rightarrow> key" where
  "om_key obj = Key (om_Namespace obj) (om_Name obj)"

definition cd_label :: "'a ObjectMeta_scheme \<Rightarrow> string option" where
  "cd_label obj = map_of (om_Labels obj) computeDomainLabelKey"

record 'o watch =
  wt_store :: "(key, 'o) gomap"
  wt_events :: "(key \<times> 'o option) list"
  wt_mutations :: "(key, 'o) gomap"

record ('w, 'o) objects =
  ob_next :: nat
  ob_objs :: "(key, 'o) gomap"
  ob_watch :: "'w \<Rightarrow> 'o watch"

text \<open>What watcher \<open>w\<close> is told of an object: nothing, when its selector does not match.\<close>

definition visible :: "('w \<Rightarrow> 'o \<Rightarrow> bool) \<Rightarrow> 'w \<Rightarrow> 'o option \<Rightarrow> 'o option" where
  "visible sel w v = (case v of None \<Rightarrow> None | Some obj \<Rightarrow> if sel w obj then Some obj else None)"

definition notify :: "('w \<Rightarrow> 'o \<Rightarrow> bool) \<Rightarrow> key \<Rightarrow> 'o option \<Rightarrow> 'o option \<Rightarrow> ('w \<Rightarrow> 'o watch) \<Rightarrow> 'w \<Rightarrow> 'o watch" where
  "notify sel k old new ws w =
     (if visible sel w old = None \<and> visible sel w new = None then ws w
      else (ws w)\<lparr>wt_events := wt_events (ws w) @ [(k, visible sel w new)]\<rparr>)"

definition put :: "('w \<Rightarrow> 'o \<Rightarrow> bool) \<Rightarrow> key \<Rightarrow> 'o option \<Rightarrow> ('w, 'o) objects \<Rightarrow> ('w, 'o) objects" where
  "put sel k v c = c\<lparr>ob_next := Suc (ob_next c),
     ob_objs := (case v of Some obj \<Rightarrow> AList.update k obj (ob_objs c) | None \<Rightarrow> AList.delete k (ob_objs c)),
     ob_watch := notify sel k (map_of (ob_objs c) k) v (ob_watch c)\<rparr>"

definition api_Create ::
  "('w \<Rightarrow> 'a ObjectMeta_scheme \<Rightarrow> bool) \<Rightarrow> 'a ObjectMeta_scheme \<Rightarrow>
   (('w, 'a ObjectMeta_scheme) objects, 'a ObjectMeta_scheme) gost" where
  "api_Create sel obj c = (case map_of (ob_objs c) (om_key obj) of
     Some _ \<Rightarrow> (Err ApiAlreadyExists, c)
   | None \<Rightarrow> (let new = obj\<lparr>om_UID := ob_next c, om_ResourceVersion := ob_next c, om_Deleting := False\<rparr>
              in (Ok new, put sel (om_key obj) (Some new) c)))"

definition api_Update ::
  "('w \<Rightarrow> 'a ObjectMeta_scheme \<Rightarrow> bool) \<Rightarrow> 'a ObjectMeta_scheme \<Rightarrow>
   (('w, 'a ObjectMeta_scheme) objects, 'a ObjectMeta_scheme) gost" where
  "api_Update sel obj c = (case map_of (ob_objs c) (om_key obj) of
     None \<Rightarrow> (Err ApiNotFound, c)
   | Some old \<Rightarrow>
       if om_UID obj \<noteq> om_UID old \<or> om_ResourceVersion obj \<noteq> om_ResourceVersion old then (Err Conflict, c)
       else (let new = obj\<lparr>om_ResourceVersion := ob_next c, om_Deleting := om_Deleting old\<rparr>
             in (Ok new, put sel (om_key obj)
                   (if om_Deleting new \<and> om_Finalizers new = [] then None else Some new) c)))"

text \<open>An object with finalizers is only marked as being deleted.\<close>

definition api_Delete ::
  "('w \<Rightarrow> 'a ObjectMeta_scheme \<Rightarrow> bool) \<Rightarrow> key \<Rightarrow> (('w, 'a ObjectMeta_scheme) objects, unit) gost" where
  "api_Delete sel k c = (case map_of (ob_objs c) k of
     None \<Rightarrow> (Err ApiNotFound, c)
   | Some old \<Rightarrow>
       if om_Finalizers old = [] then (Ok (), put sel k None c)
       else if om_Deleting old then (Ok (), c)
       else (Ok (), put sel k (Some (old\<lparr>om_Deleting := True, om_ResourceVersion := ob_next c\<rparr>)) c))"

section \<open>Informers and mutation caches\<close>

text \<open>Delivery of the oldest event.\<close>

definition deliver :: "'o watch \<Rightarrow> 'o watch" where
  "deliver x = (case wt_events x of
     [] \<Rightarrow> x
   | (k, v) # es \<Rightarrow> x\<lparr>wt_events := es, wt_store :=
       (case v of Some obj \<Rightarrow> AList.update k obj (wt_store x) | None \<Rightarrow> AList.delete k (wt_store x))\<rparr>)"

type_synonym 'o mutations = "(key, 'o) gomap"

definition newerObject ::
  "key \<Rightarrow> 'a ObjectMeta_scheme \<Rightarrow> 'a ObjectMeta_scheme mutations \<Rightarrow>
   'a ObjectMeta_scheme \<times> 'a ObjectMeta_scheme mutations" where
  "newerObject k backing mc = (case map_of mc k of
     None \<Rightarrow> (backing, mc)
   | Some m \<Rightarrow> if om_ResourceVersion backing \<ge> om_ResourceVersion m then (backing, AList.delete k mc) else (m, mc))"

fun newer_objects ::
  "(key \<times> 'a ObjectMeta_scheme) list \<Rightarrow> 'a ObjectMeta_scheme mutations \<Rightarrow>
   'a ObjectMeta_scheme list \<times> 'a ObjectMeta_scheme mutations" where
  "newer_objects [] mc = ([], mc)"
| "newer_objects ((k, obj) # rest) mc =
     (case newerObject k obj mc of (x, mc') \<Rightarrow> case newer_objects rest mc' of (xs, mc'') \<Rightarrow> (x # xs, mc''))"

definition informer_ByIndex :: "string \<Rightarrow> 'a ObjectMeta_scheme watch \<Rightarrow> (key \<times> 'a ObjectMeta_scheme) list" where
  "informer_ByIndex uid x = filter (\<lambda>(k, obj). cd_label obj = Some uid) (wt_store x)"

definition mc_ByIndex ::
  "string \<Rightarrow> 'a ObjectMeta_scheme watch \<Rightarrow> 'a ObjectMeta_scheme list \<times> 'a ObjectMeta_scheme watch" where
  "mc_ByIndex uid x =
     (let keys = informer_ByIndex uid x;
          (items, mc) = newer_objects keys (wt_mutations x);
          adds = filter (\<lambda>(k, obj). k \<notin> fst ` set keys \<and> cd_label obj = Some uid) mc
      in (items @ map snd adds, x\<lparr>wt_mutations := mc\<rparr>))"

definition Mutation :: "'a ObjectMeta_scheme \<Rightarrow> 'a ObjectMeta_scheme watch \<Rightarrow> 'a ObjectMeta_scheme watch" where
  "Mutation obj x = (case map_of (wt_mutations x) (om_key obj) of
     Some m \<Rightarrow> if om_ResourceVersion obj < om_ResourceVersion m then x
               else x\<lparr>wt_mutations := AList.update (om_key obj) obj (wt_mutations x)\<rparr>
   | None \<Rightarrow> x\<lparr>wt_mutations := AList.update (om_key obj) obj (wt_mutations x)\<rparr>)"

definition on_watch :: "'w \<Rightarrow> ('o watch \<Rightarrow> 'o watch) \<Rightarrow> ('w, 'o) objects \<Rightarrow> ('w, 'o) objects" where
  "on_watch w f c = c\<lparr>ob_watch := (ob_watch c)(w := f (ob_watch c w))\<rparr>"

section \<open>What happens between two calls\<close>

text \<open>The informer of \<open>w\<close> holds a version of the object with this identity.\<close>

definition in_store :: "'a ObjectMeta_scheme watch \<Rightarrow> key \<Rightarrow> nat \<Rightarrow> bool" where
  "in_store x k i \<longleftrightarrow> (\<exists>v. map_of (wt_store x) k = Some v \<and> om_UID v = i)"

text \<open>A version of the object at \<open>k\<close> is older than the present object there, or a version of it.\<close>

definition version_ok :: "('w, 'a ObjectMeta_scheme) objects \<Rightarrow> key \<Rightarrow> 'a ObjectMeta_scheme \<Rightarrow> bool" where
  "version_ok c k v \<longleftrightarrow> om_key v = k \<and> om_UID v \<le> om_ResourceVersion v \<and> om_ResourceVersion v < ob_next c \<and>
     (\<forall>s. map_of (ob_objs c) k = Some s \<longrightarrow>
        (if om_UID v = om_UID s then om_Labels v = om_Labels s else om_ResourceVersion v < om_UID s))"

text \<open>An object a manager may record as being deleted: one its informer has seen, unless it is gone already.\<close>

definition seen_deleting ::
  "('w \<Rightarrow> 'a ObjectMeta_scheme \<Rightarrow> bool) \<Rightarrow> 'w \<Rightarrow> 'a ObjectMeta_scheme \<Rightarrow> ('w, 'a ObjectMeta_scheme) objects \<Rightarrow> bool" where
  "seen_deleting sel w d c \<longleftrightarrow> om_Deleting d \<and> version_ok c (om_key d) d \<and>
     (\<forall>s. map_of (ob_objs c) (om_key d) = Some s \<longrightarrow> om_UID s = om_UID d \<longrightarrow> sel w s \<longrightarrow>
        in_store (ob_watch c w) (om_key d) (om_UID d))"

text \<open>Selectors are selectors on labels.\<close>

definition selector :: "('w \<Rightarrow> 'a ObjectMeta_scheme \<Rightarrow> bool) \<Rightarrow> bool" where
  "selector sel \<longleftrightarrow> (\<forall>w a b. om_key a = om_key b \<longrightarrow> om_Labels a = om_Labels b \<longrightarrow> sel w a = sel w b)"

inductive others ::
  "('w \<Rightarrow> 'a ObjectMeta_scheme \<Rightarrow> bool) \<Rightarrow> ('w, 'a ObjectMeta_scheme) objects \<Rightarrow>
   ('w, 'a ObjectMeta_scheme) objects \<Rightarrow> bool"
  for sel :: "'w \<Rightarrow> 'a ObjectMeta_scheme \<Rightarrow> bool" where
  idle: "others sel c c"
| delivered: "others sel c c1 \<Longrightarrow> others sel c (on_watch w deliver c1)"
| changed: "others sel c c1 \<Longrightarrow> map_of (ob_objs c1) k = Some old \<Longrightarrow>
    om_key new = k \<Longrightarrow> om_UID new = om_UID old \<Longrightarrow> om_Labels new = om_Labels old \<Longrightarrow>
    om_ResourceVersion new = ob_next c1 \<Longrightarrow> others sel c (put sel k (Some new) c1)"
| removed: "others sel c c1 \<Longrightarrow> others sel c (put sel k None c1)"
| unrelated: "others sel c c1 \<Longrightarrow> map_of (ob_objs c1) (om_key new) = None \<Longrightarrow> (\<And>w. \<not> sel w new) \<Longrightarrow>
    om_UID new = ob_next c1 \<Longrightarrow> om_ResourceVersion new = ob_next c1 \<Longrightarrow>
    others sel c (put sel (om_key new) (Some new) c1)"
| dropped: "others sel c c1 \<Longrightarrow> map_of (wt_mutations (ob_watch c1 w)) k = Some m \<Longrightarrow>
    (\<And>s. map_of (ob_objs c1) k = Some s \<Longrightarrow> om_UID s = om_UID m \<Longrightarrow> in_store (ob_watch c1 w) k (om_UID m)) \<Longrightarrow>
    others sel c (on_watch w (\<lambda>x. x\<lparr>wt_mutations := AList.delete k (wt_mutations x)\<rparr>) c1)"
| recorded: "others sel c c1 \<Longrightarrow> seen_deleting sel w d c1 \<Longrightarrow> others sel c (on_watch w (Mutation d) c1)"


section \<open>Invariants of a watcher\<close>

definition replay :: "(key \<times> 'o option) list \<Rightarrow> (key \<rightharpoonup> 'o) \<Rightarrow> (key \<rightharpoonup> 'o)" where
  "replay es m = fold (\<lambda>(k, v) m. m(k := v)) es m"

definition has_id :: "nat \<Rightarrow> 'a ObjectMeta_scheme option \<Rightarrow> bool" where
  "has_id i v \<longleftrightarrow> (\<exists>obj. v = Some obj \<and> om_UID obj = i)"

text \<open>Once an object with identity \<open>i\<close> is seen at a key, it stays.\<close>

fun steady :: "key \<Rightarrow> nat \<Rightarrow> 'a ObjectMeta_scheme option \<Rightarrow> (key \<times> 'a ObjectMeta_scheme option) list \<Rightarrow> bool" where
  "steady k i v [] \<longleftrightarrow> True"
| "steady k i v ((k', v') # es) \<longleftrightarrow>
     (if k' = k then (has_id i v \<longrightarrow> has_id i v') \<and> steady k i v' es else steady k i v es)"

definition known :: "'a ObjectMeta_scheme watch \<Rightarrow> key \<Rightarrow> 'a ObjectMeta_scheme \<Rightarrow> bool" where
  "known x k v \<longleftrightarrow> map_of (wt_store x) k = Some v \<or> (k, Some v) \<in> set (wt_events x) \<or> map_of (wt_mutations x) k = Some v"

definition coherent :: "('w \<Rightarrow> 'a ObjectMeta_scheme \<Rightarrow> bool) \<Rightarrow> 'w \<Rightarrow> ('w, 'a ObjectMeta_scheme) objects \<Rightarrow> bool" where
  "coherent sel w c \<longleftrightarrow>
     gomap (wt_store (ob_watch c w)) \<and> gomap (wt_mutations (ob_watch c w)) \<and>
     (\<forall>k. replay (wt_events (ob_watch c w)) (map_of (wt_store (ob_watch c w))) k = visible sel w (map_of (ob_objs c) k)) \<and>
     (\<forall>k s. map_of (ob_objs c) k = Some s \<longrightarrow> version_ok c k s \<and>
        steady k (om_UID s) (map_of (wt_store (ob_watch c w)) k) (wt_events (ob_watch c w))) \<and>
     (\<forall>k v. known (ob_watch c w) k v \<longrightarrow> version_ok c k v) \<and>
     (\<forall>k m s. map_of (wt_mutations (ob_watch c w)) k = Some m \<longrightarrow> map_of (ob_objs c) k = Some s \<longrightarrow>
        om_UID s = om_UID m \<longrightarrow> sel w s \<longrightarrow> om_Deleting m \<longrightarrow> in_store (ob_watch c w) k (om_UID s))"

text \<open>No object of the watcher is missed: its informer shows it, or the mutation cache does, and then not as
  being deleted.\<close>

definition tracked :: "('w \<Rightarrow> 'a ObjectMeta_scheme \<Rightarrow> bool) \<Rightarrow> 'w \<Rightarrow> ('w, 'a ObjectMeta_scheme) objects \<Rightarrow> bool" where
  "tracked sel w c \<longleftrightarrow> (\<forall>k s. map_of (ob_objs c) k = Some s \<longrightarrow> sel w s \<longrightarrow>
     in_store (ob_watch c w) k (om_UID s) \<or>
     (\<exists>m. map_of (wt_mutations (ob_watch c w)) k = Some m \<and> om_UID m = om_UID s \<and> \<not> om_Deleting m))"

lemma replay_simps [simp]:
  "replay [] m = m" "replay ((k, v) # es) m = replay es (m(k := v))" "replay (es @ fs) m = replay fs (replay es m)"
  by (simp_all add: replay_def)

lemma put_simps [simp]:
  "ob_next (put sel k v c) = Suc (ob_next c)"
  "map_of (ob_objs (put sel k v c)) = (map_of (ob_objs c))(k := v)"
  "ob_watch (put sel k v c) = notify sel k (map_of (ob_objs c) k) v (ob_watch c)"
  by (auto simp: put_def map_simps split: option.splits)

lemma on_watch_simps [simp]:
  "ob_next (on_watch w f c) = ob_next c" "ob_objs (on_watch w f c) = ob_objs c"
  "ob_watch (on_watch w f c) w' = (if w' = w then f (ob_watch c w) else ob_watch c w')"
  by (simp_all add: on_watch_def)

lemma notify_simps [simp]:
  "wt_store (notify sel k old new ws w) = wt_store (ws w)"
  "wt_mutations (notify sel k old new ws w) = wt_mutations (ws w)"
  by (simp_all add: notify_def)

lemma in_store_notify [simp]: "in_store (notify sel k old new ws w) k' i = in_store (ws w) k' i"
  by (simp add: in_store_def)

lemma events_notify:
  "wt_events (notify sel k old new ws w) = wt_events (ws w) @
     (if visible sel w old = None \<and> visible sel w new = None then [] else [(k, visible sel w new)])"
  by (simp add: notify_def)

lemma deliver_simps [simp]: "wt_mutations (deliver x) = wt_mutations x"
  by (simp add: deliver_def split: list.splits prod.splits)

lemma steady_snoc:
  "steady k i (m k) (es @ [(k', v')]) \<longleftrightarrow> steady k i (m k) es \<and>
     (k' = k \<longrightarrow> has_id i (replay es m k) \<longrightarrow> has_id i v')"
proof (induction es arbitrary: m)
  case (Cons e es)
  obtain k1 v1 where e: "e = (k1, v1)" by fastforce
  show ?case using Cons.IH [where m = "m(k1 := v1)"] by (cases "k1 = k") (simp_all add: e fun_upd_def)
qed auto

lemma steady_has_id:
  "steady k i (m k) es \<Longrightarrow> has_id i (m k) \<Longrightarrow> has_id i (replay es m k)"
proof (induction es arbitrary: m)
  case (Cons e es)
  obtain k1 v1 where e: "e = (k1, v1)" by fastforce
  have "steady k i ((m(k1 := v1)) k) es \<and> has_id i ((m(k1 := v1)) k)"
    using Cons.prems by (cases "k1 = k") (simp_all add: e)
  then show ?case using Cons.IH [where m = "m(k1 := v1)"] by (simp only: e replay_simps)
qed simp

lemma steady_fresh:
  assumes "\<not> has_id i v" and "\<And>v'. (k, v') \<in> set es \<Longrightarrow> \<not> has_id i v'"
  shows "steady k i v es"
  using assms by (induction k i v es rule: steady.induct) (auto split: if_splits)

lemma coherentD:
  assumes "coherent sel w c"
  shows "gomap (wt_store (ob_watch c w))" and "gomap (wt_mutations (ob_watch c w))"
    and "replay (wt_events (ob_watch c w)) (map_of (wt_store (ob_watch c w))) k = visible sel w (map_of (ob_objs c) k)"
    and "map_of (ob_objs c) k = Some s \<Longrightarrow> version_ok c k s"
    and "map_of (ob_objs c) k = Some s \<Longrightarrow> steady k (om_UID s) (map_of (wt_store (ob_watch c w)) k) (wt_events (ob_watch c w))"
    and "known (ob_watch c w) k v \<Longrightarrow> version_ok c k v"
    and "map_of (wt_mutations (ob_watch c w)) k = Some m \<Longrightarrow> map_of (ob_objs c) k = Some s \<Longrightarrow>
      om_UID s = om_UID m \<Longrightarrow> sel w s \<Longrightarrow> om_Deleting m \<Longrightarrow> in_store (ob_watch c w) k (om_UID s)"
  using assms unfolding coherent_def by blast+

text \<open>A write to the server: the replayed events follow it.\<close>

lemma replay_put:
  assumes "coherent sel w c"
  shows "replay (wt_events (ob_watch (put sel k v c) w)) (map_of (wt_store (ob_watch (put sel k v c) w))) k' =
    visible sel w (map_of (ob_objs (put sel k v c)) k')"
  using coherentD(3) [OF assms] by (auto simp: events_notify visible_def split: option.splits)

lemma steady_put:
  assumes "coherent sel w c" and "steady k' i (map_of (wt_store (ob_watch c w)) k') (wt_events (ob_watch c w))"
    and "k' = k \<Longrightarrow> has_id i (visible sel w (map_of (ob_objs c) k)) \<Longrightarrow> has_id i (visible sel w v)"
  shows "steady k' i (map_of (wt_store (ob_watch (put sel k v c) w)) k') (wt_events (ob_watch (put sel k v c) w))"
  using assms(2,3) coherentD(3) [OF assms(1), of k'] by (auto simp: events_notify steady_snoc)

lemma known_put:
  "known (ob_watch (put sel k v c) w) k' v' \<Longrightarrow> known (ob_watch c w) k' v' \<or> (k' = k \<and> v = Some v')"
  by (auto simp: known_def events_notify visible_def split: if_splits option.splits)

lemma version_ok_put_other:
  assumes "version_ok c k' v'" and "k' \<noteq> k \<or> v = None"
  shows "version_ok (put sel k v c) k' v'"
  using assms by (auto simp: version_ok_def)

lemma version_ok_changed:
  "version_ok c k' v \<Longrightarrow> map_of (ob_objs c) k = Some old \<Longrightarrow> om_UID new = om_UID old \<Longrightarrow> om_Labels new = om_Labels old \<Longrightarrow>
   version_ok (put sel k (Some new) c) k' v"
  by (auto simp: version_ok_def)

lemma version_ok_created:
  "version_ok c k' v \<Longrightarrow> om_UID new = ob_next c \<Longrightarrow> version_ok (put sel k (Some new) c) k' v"
  by (auto simp: version_ok_def)

lemma version_ok_on_watch [simp]: "version_ok (on_watch w f c) k v = version_ok c k v"
  by (simp add: version_ok_def)

lemma coherent_changed:
  assumes c: "coherent sel w c" and old: "map_of (ob_objs c) k = Some old"
    and new: "om_key new = k" "om_UID new = om_UID old" "om_Labels new = om_Labels old" "sel w new = sel w old"
      "om_ResourceVersion new = ob_next c"
  shows "coherent sel w (put sel k (Some new) c)"
proof -
  have ok_old: "version_ok c k old" using coherentD(4) [OF c old] .
  have v: "version_ok (put sel k (Some new) c) k' v'" if "version_ok c k' v'" for k' v'
    using version_ok_changed [OF that old] new by blast
  have n: "version_ok (put sel k (Some new) c) k new"
    using ok_old new by (auto simp: version_ok_def)
  have st: "steady k (om_UID new) (map_of (wt_store (ob_watch (put sel k (Some new) c) w)) k)
      (wt_events (ob_watch (put sel k (Some new) c) w))"
    using steady_put [OF c coherentD(5) [OF c old], where k = k and v = "Some new"] new old
    by (auto simp: has_id_def visible_def)
  have st': "steady k' (om_UID s) (map_of (wt_store (ob_watch (put sel k (Some new) c) w)) k')
      (wt_events (ob_watch (put sel k (Some new) c) w))" if "map_of (ob_objs c) k' = Some s" "k' \<noteq> k" for k' s
    using steady_put [OF c coherentD(5) [OF c that(1)], where k = k and v = "Some new"] that(2) by auto
  show ?thesis unfolding coherent_def
  proof (intro conjI allI impI)
    fix k' s assume "map_of (ob_objs (put sel k (Some new) c)) k' = Some s"
    then show "version_ok (put sel k (Some new) c) k' s"
      using n v coherentD(4) [OF c] by (auto split: if_splits)
  next
    fix k' s assume "map_of (ob_objs (put sel k (Some new) c)) k' = Some s"
    then show "steady k' (om_UID s) (map_of (wt_store (ob_watch (put sel k (Some new) c) w)) k')
      (wt_events (ob_watch (put sel k (Some new) c) w))" using st st' by (cases "k' = k") auto
  next
    fix k' v' assume "known (ob_watch (put sel k (Some new) c) w) k' v'"
    then show "version_ok (put sel k (Some new) c) k' v'"
      using known_put [of sel k "Some new" c w k' v'] n v coherentD(6) [OF c] by (metis option.inject)
  next
    fix k' m s assume "map_of (wt_mutations (ob_watch (put sel k (Some new) c) w)) k' = Some m" "map_of (ob_objs (put sel k (Some new) c)) k' = Some s"
      "om_UID s = om_UID m" "sel w s" "om_Deleting m"
    then show "in_store (ob_watch (put sel k (Some new) c) w) k' (om_UID s)"
      using coherentD(7) [OF c, where k = k' and m = m] old new by (cases "k' = k") auto
  qed (use replay_put [OF c] coherentD(1,2) [OF c] in auto)
qed

lemma coherent_removed:
  assumes c: "coherent sel w c" shows "coherent sel w (put sel k None c)"
  unfolding coherent_def
proof (intro conjI allI impI)
  fix k' s assume s: "map_of (ob_objs (put sel k None c)) k' = Some s"
  then have k': "k' \<noteq> k" "map_of (ob_objs c) k' = Some s" by (auto split: if_splits)
  show "version_ok (put sel k None c) k' s"
    using version_ok_put_other [OF coherentD(4) [OF c k'(2)]] by blast
  show "steady k' (om_UID s) (map_of (wt_store (ob_watch (put sel k None c) w)) k')
      (wt_events (ob_watch (put sel k None c) w))"
    using steady_put [OF c coherentD(5) [OF c k'(2)]] k'(1) by blast
next
  fix k' v' assume "known (ob_watch (put sel k None c) w) k' v'"
  then show "version_ok (put sel k None c) k' v'"
    using known_put [of sel k None c w k' v'] version_ok_put_other [OF coherentD(6) [OF c]] by blast
next
  fix k' m s assume "map_of (wt_mutations (ob_watch (put sel k None c) w)) k' = Some m" "map_of (ob_objs (put sel k None c)) k' = Some s"
    "om_UID s = om_UID m" "sel w s" "om_Deleting m"
  then show "in_store (ob_watch (put sel k None c) w) k' (om_UID s)"
    using coherentD(7) [OF c, where k = k' and m = m] by (cases "k' = k") auto
qed (use replay_put [OF c] coherentD(1,2) [OF c] in auto)

lemma coherent_created:
  assumes c: "coherent sel w c" and free: "map_of (ob_objs c) (om_key new) = None"
    and new: "om_UID new = ob_next c" "om_ResourceVersion new = ob_next c"
  shows "coherent sel w (put sel (om_key new) (Some new) c)"
proof -
  let ?k = "om_key new" and ?c = "put sel (om_key new) (Some new) c"
  have fresh: "om_UID v < ob_next c" if "known (ob_watch c w) k v" for k v
    using coherentD(6) [OF c that] by (auto simp: version_ok_def)
  have v: "version_ok ?c k' v'" if "version_ok c k' v'" for k' v'
    using version_ok_created [OF that] new by blast
  have n: "version_ok ?c ?k new" using new by (auto simp: version_ok_def)
  have "steady ?k (ob_next c) (map_of (wt_store (ob_watch c w)) ?k) (wt_events (ob_watch c w))"
    using fresh by (intro steady_fresh) (fastforce simp: has_id_def known_def)+
  then have st: "steady ?k (om_UID new) (map_of (wt_store (ob_watch ?c w)) ?k) (wt_events (ob_watch ?c w))"
    using steady_put [OF c, where k' = ?k and k = ?k and v = "Some new" and i = "om_UID new"] new free
    by (auto simp: has_id_def visible_def)
  show ?thesis unfolding coherent_def
  proof (intro conjI allI impI)
    fix k' s assume "map_of (ob_objs ?c) k' = Some s"
    then show "version_ok ?c k' s" using n v coherentD(4) [OF c] by (auto split: if_splits)
  next
    fix k' s assume s: "map_of (ob_objs ?c) k' = Some s"
    show "steady k' (om_UID s) (map_of (wt_store (ob_watch ?c w)) k') (wt_events (ob_watch ?c w))"
    proof (cases "k' = ?k")
      case True
      with s st show ?thesis by auto
    next
      case False
      with s have "map_of (ob_objs c) k' = Some s" by simp
      then show ?thesis using steady_put [OF c coherentD(5) [OF c], where k = ?k and v = "Some new"] False by blast
    qed
  next
    fix k' v' assume "known (ob_watch ?c w) k' v'"
    then show "version_ok ?c k' v'"
      using known_put [of sel ?k "Some new" c w k' v'] n v coherentD(6) [OF c] by (metis option.inject)
  next
    fix k' m s assume "map_of (wt_mutations (ob_watch ?c w)) k' = Some m" "map_of (ob_objs ?c) k' = Some s"
      "om_UID s = om_UID m" "sel w s" "om_Deleting m"
    then show "in_store (ob_watch ?c w) k' (om_UID s)"
      using coherentD(7) [OF c, where k = k' and m = m] fresh [of k' m] new by (cases "k' = om_key new") (auto simp: known_def)
  qed (use replay_put [OF c] coherentD(1,2) [OF c] in auto)
qed


text \<open>Delivering an event, and changes of the mutation cache.\<close>

lemma deliver_cases:
  obtains (none) "wt_events x = []" "deliver x = x"
    | (event) k v es where "wt_events x = (k, v) # es" "wt_events (deliver x) = es"
        "map_of (wt_store (deliver x)) = (map_of (wt_store x))(k := v)"
        "gomap (wt_store x) \<Longrightarrow> gomap (wt_store (deliver x))"
proof (cases "wt_events x")
  case Nil
  then show ?thesis using none by (simp add: deliver_def)
next
  case (Cons e es)
  obtain k v where "e = (k, v)" by fastforce
  with Cons show ?thesis using event by (auto simp: deliver_def map_simps split: option.splits)
qed

text \<open>What the informer shows of an existing object it goes on showing.\<close>

lemma in_store_delivered:
  assumes c: "coherent sel w c" and s: "map_of (ob_objs c) k = Some s" and "in_store (ob_watch c w) k (om_UID s)"
  shows "in_store (deliver (ob_watch c w)) k (om_UID s)"
proof (cases rule: deliver_cases [of "ob_watch c w"])
  case none
  then show ?thesis using assms(3) by simp
next
  case (event k1 v es)
  then show ?thesis
    using coherentD(5) [OF c s] assms(3) by (auto simp: in_store_def has_id_def split: if_splits)
qed

lemma coherent_delivered:
  assumes c: "coherent sel w c" shows "coherent sel w (on_watch w' deliver c)"
proof (cases "w' = w")
  case [simp]: True
  let ?x = "ob_watch c w" and ?y = "deliver (ob_watch c w)"
  show ?thesis
  proof (cases rule: deliver_cases [of ?x])
    case none
    then have "on_watch w' deliver c = c" by (simp add: on_watch_def)
    then show ?thesis using c by simp
  next
    case (event k v es)
    have kn: "known ?x k' v'" if "known ?y k' v'" for k' v'
      using that event by (auto simp: known_def split: if_splits)
    have vo: "version_ok (on_watch w' deliver c) k' v' = version_ok c k' v'" for k' v'
      by (simp add: version_ok_def)
    have st: "steady k' i (map_of (wt_store ?y) k') (wt_events ?y)"
      if "steady k' i (map_of (wt_store ?x) k') (wt_events ?x)" for k' i
      using that event by (auto split: if_splits)
    have "in_store ?y k' (om_UID s)" if "in_store ?x k' (om_UID s)" "map_of (ob_objs c) k' = Some s" for k' s
      using in_store_delivered [OF c that(2,1)] .
    then have "\<forall>k' m s. map_of (wt_mutations ?y) k' = Some m \<longrightarrow> map_of (ob_objs c) k' = Some s \<longrightarrow>
        om_UID s = om_UID m \<longrightarrow> sel w s \<longrightarrow> om_Deleting m \<longrightarrow> in_store ?y k' (om_UID s)"
      using coherentD(7) [OF c] by (metis deliver_simps)
    then show ?thesis unfolding coherent_def vo
      using coherentD(1-6) [OF c] kn st event by simp
  qed
next
  case False
  then show ?thesis using c by (simp add: coherent_def version_ok_def)
qed

lemma coherent_mutations:
  assumes c: "coherent sel w c"
    and mc: "\<And>k m. map_of (wt_mutations (f (ob_watch c w))) k = Some m \<Longrightarrow> version_ok c k m"
      "\<And>k m s. map_of (wt_mutations (f (ob_watch c w))) k = Some m \<Longrightarrow> map_of (ob_objs c) k = Some s \<Longrightarrow>
        om_UID s = om_UID m \<Longrightarrow> sel w s \<Longrightarrow> om_Deleting m \<Longrightarrow> in_store (ob_watch c w) k (om_UID s)"
    and f: "wt_store (f (ob_watch c w)) = wt_store (ob_watch c w)" "wt_events (f (ob_watch c w)) = wt_events (ob_watch c w)"
      "gomap (wt_mutations (f (ob_watch c w)))"
  shows "coherent sel w (on_watch w f c)"
proof -
  have "version_ok (on_watch w f c) k' v' = version_ok c k' v'" for k' v'
    by (simp add: version_ok_def)
  moreover have "version_ok c k v" if "known (f (ob_watch c w)) k v" for k v
    using that mc coherentD(6) [OF c, of k v] f by (auto simp: known_def)
  moreover have "in_store (f (ob_watch c w)) k i = in_store (ob_watch c w) k i" for k i
    using f by (simp add: in_store_def)
  ultimately show ?thesis
    using c f mc(2) by (simp add: coherent_def)
qed

lemma Mutation_cases:
  obtains "Mutation obj x = x"
    | "Mutation obj x = x\<lparr>wt_mutations := AList.update (om_key obj) obj (wt_mutations x)\<rparr>"
      "\<And>m. map_of (wt_mutations x) (om_key obj) = Some m \<Longrightarrow> om_ResourceVersion m \<le> om_ResourceVersion obj"
proof (cases "\<exists>m. map_of (wt_mutations x) (om_key obj) = Some m \<and> om_ResourceVersion obj < om_ResourceVersion m")
  case True
  then have "Mutation obj x = x" by (auto simp: Mutation_def)
  then show ?thesis using that by blast
next
  case False
  then have "Mutation obj x = x\<lparr>wt_mutations := AList.update (om_key obj) obj (wt_mutations x)\<rparr>"
    by (auto simp: Mutation_def split: option.splits)
  with False show ?thesis using that(2) by (meson not_less)
qed

lemma coherent_Mutation:
  assumes c: "coherent sel w c" and "version_ok c (om_key obj) obj"
    and seen: "\<And>s. map_of (ob_objs c) (om_key obj) = Some s \<Longrightarrow> om_UID s = om_UID obj \<Longrightarrow> sel w s \<Longrightarrow> om_Deleting obj \<Longrightarrow>
      in_store (ob_watch c w) (om_key obj) (om_UID s)"
  shows "coherent sel w (on_watch w (Mutation obj) c)"
proof (cases rule: Mutation_cases [where obj = obj and x = "ob_watch c w"])
  case 1
  then have "on_watch w (Mutation obj) c = c" by (simp add: on_watch_def)
  then show ?thesis using c by simp
next
  case 2
  then show ?thesis
  proof (intro coherent_mutations [OF c])
    fix k m assume "map_of (wt_mutations (Mutation obj (ob_watch c w))) k = Some m"
    then show "version_ok c k m"
      using 2 assms(2) coherentD(6) [OF c, of k m]
      by (cases "k = om_key obj") (auto simp: known_def map_simps)
  next
    fix k m s assume "map_of (wt_mutations (Mutation obj (ob_watch c w))) k = Some m" "map_of (ob_objs c) k = Some s"
      "om_UID s = om_UID m" "sel w s" "om_Deleting m"
    then show "in_store (ob_watch c w) k (om_UID s)"
      using 2 seen coherentD(7) [OF c, of k m s] by (cases "k = om_key obj") (auto simp: map_simps)
  qed (use coherentD(2) [OF c] in auto)
qed

lemma coherent_dropped:
  assumes c: "coherent sel w c"
  shows "coherent sel w (on_watch w (\<lambda>x. x\<lparr>wt_mutations := AList.delete k (wt_mutations x)\<rparr>) c)"
proof (rule coherent_mutations [OF c])
  fix k' m assume "map_of (wt_mutations ((ob_watch c w)\<lparr>wt_mutations := AList.delete k (wt_mutations (ob_watch c w))\<rparr>)) k' = Some m"
  then show "version_ok c k' m"
    using coherentD(6) [OF c, of k' m] by (cases "k' = k") (auto simp: known_def)
next
  fix k' m s assume "map_of (wt_mutations ((ob_watch c w)\<lparr>wt_mutations := AList.delete k (wt_mutations (ob_watch c w))\<rparr>)) k' = Some m"
    "map_of (ob_objs c) k' = Some s" "om_UID s = om_UID m" "sel w s" "om_Deleting m"
  then show "in_store (ob_watch c w) k' (om_UID s)"
    using coherentD(7) [OF c, of k' m s] by (cases "k' = k") auto
qed (use coherentD(2) [OF c] in auto)

lemma coherent_other_watch:
  "w' \<noteq> w \<Longrightarrow> coherent sel w (on_watch w' f c) = coherent sel w c"
  by (simp add: coherent_def version_ok_def)


text \<open>Every step of the others keeps both invariants.\<close>

lemma tracked_changed:
  assumes "tracked sel w c" and "map_of (ob_objs c) k = Some old" and "om_UID new = om_UID old" and "sel w new = sel w old"
  shows "tracked sel w (put sel k (Some new) c)"
  using assms unfolding tracked_def by (auto split: if_splits)

lemma tracked_removed: "tracked sel w c \<Longrightarrow> tracked sel w (put sel k None c)"
  unfolding tracked_def by (auto split: if_splits)

lemma tracked_unrelated: "tracked sel w c \<Longrightarrow> \<not> sel w new \<Longrightarrow> tracked sel w (put sel k (Some new) c)"
  unfolding tracked_def by (auto split: if_splits)

lemma tracked_delivered:
  assumes c: "coherent sel w c" and t: "tracked sel w c"
  shows "tracked sel w (on_watch w' deliver c)"
  using in_store_delivered [OF c] t unfolding tracked_def by fastforce

lemma tracked_dropped:
  assumes t: "tracked sel w c" and m: "map_of (wt_mutations (ob_watch c w')) k = Some m"
    and d: "\<And>s. map_of (ob_objs c) k = Some s \<Longrightarrow> om_UID s = om_UID m \<Longrightarrow> in_store (ob_watch c w') k (om_UID m)"
  shows "tracked sel w (on_watch w' (\<lambda>x. x\<lparr>wt_mutations := AList.delete k (wt_mutations x)\<rparr>) c)"
  unfolding tracked_def
proof (intro allI impI)
  let ?c = "on_watch w' (\<lambda>x. x\<lparr>wt_mutations := AList.delete k (wt_mutations x)\<rparr>) c"
  fix k' s assume s: "map_of (ob_objs ?c) k' = Some s" "sel w s"
  then consider "in_store (ob_watch c w) k' (om_UID s)"
    | m' where "map_of (wt_mutations (ob_watch c w)) k' = Some m'" "om_UID m' = om_UID s" "\<not> om_Deleting m'"
    using t unfolding tracked_def by auto
  then show "in_store (ob_watch ?c w) k' (om_UID s) \<or>
      (\<exists>m. map_of (wt_mutations (ob_watch ?c w)) k' = Some m \<and> om_UID m = om_UID s \<and> \<not> om_Deleting m)"
  proof cases
    case 1
    then show ?thesis by (auto simp: in_store_def)
  next
    case 2
    with s(1) d [of s] m show ?thesis by (cases "k' = k"; cases "w' = w") (auto simp: in_store_def)
  qed
qed

lemma tracked_Mutation_seen:
  assumes c: "coherent sel w c" and t: "tracked sel w c" and d: "seen_deleting sel w' d c"
  shows "tracked sel w (on_watch w' (Mutation d) c)"
proof (cases rule: Mutation_cases [where obj = d and x = "ob_watch c w'"])
  case 1
  then have "on_watch w' (Mutation d) c = c" by (simp add: on_watch_def)
  then show ?thesis using t by simp
next
  case 2
  show ?thesis unfolding tracked_def
  proof (intro allI impI)
    let ?c = "on_watch w' (Mutation d) c"
    fix k s assume s: "map_of (ob_objs ?c) k = Some s" "sel w s"
    then have s': "map_of (ob_objs c) k = Some s" by simp
    show "in_store (ob_watch ?c w) k (om_UID s) \<or>
      (\<exists>m. map_of (wt_mutations (ob_watch ?c w)) k = Some m \<and> om_UID m = om_UID s \<and> \<not> om_Deleting m)"
    proof (cases "in_store (ob_watch c w) k (om_UID s)")
      case True
      then show ?thesis using 2(1) by (auto simp: in_store_def)
    next
      case False
      then obtain m where m: "map_of (wt_mutations (ob_watch c w)) k = Some m" "om_UID m = om_UID s" "\<not> om_Deleting m"
        using t s unfolding tracked_def by auto
      then have "om_UID s \<le> om_ResourceVersion m"
        using coherentD(6) [OF c, of k m] by (auto simp: known_def version_ok_def)
      with 2(2) m(1) d s' False have "\<not> (w' = w \<and> k = om_key d)"
        using s(2) by (cases "om_UID s = om_UID d") (auto simp: seen_deleting_def version_ok_def)
      with m 2(1) show ?thesis by (auto simp: map_simps)
    qed
  qed
qed

lemma coherent_recorded: "coherent sel w c \<Longrightarrow> seen_deleting sel w d c \<Longrightarrow> coherent sel w (on_watch w (Mutation d) c)"
  by (rule coherent_Mutation) (auto simp: seen_deleting_def)

lemma others_coherent:
  assumes "others sel c c'" and "selector sel" and "coherent sel w c"
  shows "coherent sel w c'"
  using assms
proof (induction rule: others.induct)
  case (delivered c c1 w')
  then show ?case using coherent_delivered by metis
next
  case (changed c c1 k old new)
  then have "coherent sel w c1" by blast
  then have "om_key old = k" using coherentD(4) changed.hyps(2) by (fastforce simp: version_ok_def)
  then have "sel w new = sel w old" using changed.prems(1) changed.hyps by (auto simp: selector_def)
  then show ?case using coherent_changed changed by metis
next
  case (removed c c1 k)
  then show ?case using coherent_removed by metis
next
  case (unrelated c c1 new)
  then show ?case using coherent_created by metis
next
  case (dropped c c1 w' k m)
  then show ?case
    using coherent_dropped [where k = k] by (cases "w' = w") (auto simp: coherent_other_watch)
next
  case (recorded c c1 w' d)
  then show ?case using coherent_recorded by (cases "w' = w") (auto simp: coherent_other_watch)
qed simp

lemma others_tracked:
  assumes "others sel c c'" and "selector sel" and "coherent sel w c" and "tracked sel w c"
  shows "tracked sel w c'"
  using assms
proof (induction rule: others.induct)
  case (delivered c c1 w')
  then show ?case using others_coherent tracked_delivered by metis
next
  case (changed c c1 k old new)
  have "coherent sel w c1" by (rule others_coherent [OF changed.hyps(1) changed.prems(1,2)])
  then have "om_key old = k" using coherentD(4) changed.hyps(2) by (fastforce simp: version_ok_def)
  then have "sel w new = sel w old" using changed.prems(1) changed.hyps by (auto simp: selector_def)
  then show ?case using tracked_changed changed by metis
next
  case (removed c c1 k)
  then show ?case using tracked_removed by metis
next
  case (unrelated c c1 new)
  then show ?case using tracked_unrelated by metis
next
  case (dropped c c1 w' k m)
  then have t: "tracked sel w c1" by blast
  show ?case by (rule tracked_dropped [OF t dropped.hyps(2)]) (use dropped.hyps(3) in blast)
next
  case (recorded c c1 w' d)
  then show ?case using tracked_Mutation_seen others_coherent by metis
qed simp

lemma others_trans: "others sel c1 c2 \<Longrightarrow> others sel c c1 \<Longrightarrow> others sel c c2"
proof (induction rule: others.induct)
  case (delivered c1 c2 w)
  then show ?case by (metis others.delivered)
next
  case (changed c1 c2 k old new)
  then show ?case by (metis others.changed)
next
  case (removed c1 c2 k)
  then show ?case by (metis others.removed)
next
  case (unrelated c1 c2 new)
  then show ?case by (metis others.unrelated)
next
  case (dropped c1 c2 w k m)
  show ?case by (rule others.dropped [OF dropped.IH [OF dropped.prems] dropped.hyps(2,3)])
next
  case (recorded c1 c2 w d)
  then show ?case by (metis others.recorded)
qed


section \<open>Lookups in the mutation cache\<close>

text \<open>The entries \<open>newer_objects\<close> drops are not newer than what the informer holds.\<close>

definition keep_newer ::
  "(key \<times> 'a ObjectMeta_scheme) list \<Rightarrow> 'a ObjectMeta_scheme mutations \<Rightarrow> key \<Rightarrow> 'a ObjectMeta_scheme option" where
  "keep_newer ks mc k = (case map_of ks k of
     None \<Rightarrow> map_of mc k
   | Some obj \<Rightarrow> (case map_of mc k of
       None \<Rightarrow> None
     | Some m \<Rightarrow> if om_ResourceVersion obj \<ge> om_ResourceVersion m then None else Some m))"

lemma newerObject_fst:
  "fst (newerObject k obj mc) = (case map_of mc k of None \<Rightarrow> obj
     | Some m \<Rightarrow> if om_ResourceVersion obj \<ge> om_ResourceVersion m then obj else m)"
  by (simp add: newerObject_def split: option.splits)

lemma newerObject_snd:
  "map_of (snd (newerObject k obj mc)) = (map_of mc)(k := keep_newer [(k, obj)] mc k)"
  by (auto simp: newerObject_def keep_newer_def map_simps split: option.splits)

lemma newer_objects:
  assumes "gomap ks"
  shows "fst (newer_objects ks mc) = map (\<lambda>(k, obj). fst (newerObject k obj mc)) ks"
    and "map_of (snd (newer_objects ks mc)) = keep_newer ks mc"
  using assms
proof (induction ks mc rule: newer_objects.induct)
  case (1 mc)
  { case 1 show ?case by simp }
  { case 2 show ?case by (simp add: keep_newer_def) }
next
  case (2 k obj rest mc)
  let ?mc = "snd (newerObject k obj mc)"
  have step: "newer_objects ((k, obj) # rest) mc =
      (fst (newerObject k obj mc) # fst (newer_objects rest ?mc), snd (newer_objects rest ?mc))"
    by (simp split: prod.splits)
  { case 1
    then have k: "k \<notin> fst ` set rest" "gomap rest" by auto
    have "fst (newerObject k' obj' ?mc) = fst (newerObject k' obj' mc)" if "(k', obj') \<in> set rest" for k' obj'
    proof -
      have "k' \<noteq> k" using that k(1) by (metis fst_conv image_eqI)
      then show ?thesis by (simp add: newerObject_fst newerObject_snd)
    qed
    then show ?case unfolding step using "2.IH"(1) [OF prod.collapse k(2)] by auto }
  { case 2
    then have k: "k \<notin> fst ` set rest" "gomap rest" by auto
    then have nk: "map_of rest k = None" by (simp add: map_of_eq_None_iff)
    have IH: "map_of (snd (newer_objects rest ?mc)) = keep_newer rest ?mc"
      using "2.IH"(2) [OF prod.collapse k(2)] .
    show ?case unfolding step
    proof (rule ext)
      fix k' show "map_of (snd (fst (newerObject k obj mc) # fst (newer_objects rest ?mc), snd (newer_objects rest ?mc))) k' =
        keep_newer ((k, obj) # rest) mc k'"
        by (cases "k' = k") (simp_all add: IH keep_newer_def newerObject_snd nk split: option.split)
    qed }
qed

lemma gomap_newer_objects: "gomap mc \<Longrightarrow> gomap (snd (newer_objects ks mc))"
proof (induction ks mc rule: newer_objects.induct)
  case (2 k obj rest mc)
  have "gomap (snd (newerObject k obj mc))" using "2.prems" by (simp add: newerObject_def split: option.splits)
  then show ?case using "2.IH" [OF prod.collapse] by (auto split: prod.splits)
qed simp

lemma gomap_filter: "gomap m \<Longrightarrow> gomap (filter P m)"
  by (simp add: distinct_map_filter)

lemma informer_ByIndex_map_of:
  assumes "gomap (wt_store x)"
  shows "gomap (informer_ByIndex uid x)"
    and "map_of (informer_ByIndex uid x) k = Some obj \<longleftrightarrow> map_of (wt_store x) k = Some obj \<and> cd_label obj = Some uid"
  using assms gomap_filter [OF assms]
  by (auto simp: informer_ByIndex_def map_of_iff gomap_filter)

text \<open>What a lookup returns and what it leaves in the mutation cache.\<close>

lemma mc_ByIndex_items:
  assumes "gomap (wt_store x)" and "gomap (wt_mutations x)"
  shows "d \<in> set (fst (mc_ByIndex uid x)) \<longleftrightarrow>
      (\<exists>k obj. map_of (wt_store x) k = Some obj \<and> cd_label obj = Some uid \<and> d = fst (newerObject k obj (wt_mutations x))) \<or>
      (\<exists>k. map_of (wt_mutations x) k = Some d \<and> cd_label d = Some uid \<and>
         \<not> (\<exists>obj. map_of (wt_store x) k = Some obj \<and> cd_label obj = Some uid))" (is ?items)
    and "snd (mc_ByIndex uid x) = x\<lparr>wt_mutations := wt_mutations (snd (mc_ByIndex uid x))\<rparr>"
    and "gomap (wt_mutations (snd (mc_ByIndex uid x)))"
    and "map_of (wt_mutations (snd (mc_ByIndex uid x))) = keep_newer (informer_ByIndex uid x) (wt_mutations x)"
proof -
  let ?ks = "informer_ByIndex uid x" and ?mc = "wt_mutations x"
  note ks = informer_ByIndex_map_of [OF assms(1), of uid]
  note no = newer_objects [OF ks(1), of ?mc]
  have fstdef: "mc_ByIndex uid x = (fst (newer_objects ?ks ?mc) @ map snd (filter (\<lambda>(k, obj). k \<notin> fst ` set ?ks \<and> cd_label obj = Some uid)
      (snd (newer_objects ?ks ?mc))), x\<lparr>wt_mutations := snd (newer_objects ?ks ?mc)\<rparr>)"
    by (simp add: mc_ByIndex_def Let_def split: prod.splits)
  show "snd (mc_ByIndex uid x) = x\<lparr>wt_mutations := wt_mutations (snd (mc_ByIndex uid x))\<rparr>"
    and g: "gomap (wt_mutations (snd (mc_ByIndex uid x)))"
    and m: "map_of (wt_mutations (snd (mc_ByIndex uid x))) = keep_newer ?ks ?mc"
    using gomap_newer_objects [OF assms(2)] no(2) by (simp_all add: fstdef)
  have key: "k \<in> fst ` set ?ks \<longleftrightarrow> (\<exists>obj. map_of (wt_store x) k = Some obj \<and> cd_label obj = Some uid)" for k
    using ks(2) [of k] by (metis map_of_eq_None_iff not_Some_eq)
  have store: "(k, obj) \<in> set ?ks \<longleftrightarrow> map_of (wt_store x) k = Some obj \<and> cd_label obj = Some uid" for k obj
    using ks map_of_iff by metis
  have added: "(k, obj) \<in> set (snd (newer_objects ?ks ?mc)) \<longleftrightarrow> map_of ?mc k = Some obj" if "k \<notin> fst ` set ?ks" for k obj
  proof -
    have "gomap (snd (newer_objects ?ks ?mc))" using gomap_newer_objects [OF assms(2)] .
    moreover have "map_of ?ks k = None" using that by (simp add: map_of_eq_None_iff)
    ultimately show ?thesis using no(2) by (simp add: keep_newer_def flip: map_of_iff)
  qed
  have A: "d \<in> set (map (\<lambda>(k, obj). fst (newerObject k obj ?mc)) ?ks) \<longleftrightarrow>
      (\<exists>k obj. (k, obj) \<in> set ?ks \<and> d = fst (newerObject k obj ?mc))"
    by force
  have "d \<in> set (map snd (filter (\<lambda>(k, obj). k \<notin> fst ` set ?ks \<and> cd_label obj = Some uid) (snd (newer_objects ?ks ?mc)))) \<longleftrightarrow>
      (\<exists>k. (k, d) \<in> set (snd (newer_objects ?ks ?mc)) \<and> k \<notin> fst ` set ?ks \<and> cd_label d = Some uid)"
    by force
  also have "\<dots> \<longleftrightarrow> (\<exists>k. map_of ?mc k = Some d \<and> k \<notin> fst ` set ?ks \<and> cd_label d = Some uid)"
    using added by meson
  finally have B: "d \<in> set (map snd (filter (\<lambda>(k, obj). k \<notin> fst ` set ?ks \<and> cd_label obj = Some uid) (snd (newer_objects ?ks ?mc)))) \<longleftrightarrow>
      (\<exists>k. map_of ?mc k = Some d \<and> cd_label d = Some uid \<and> k \<notin> fst ` set ?ks)"
    by meson
  show ?items
    unfolding fstdef fst_conv set_append Un_iff no(1) A B store unfolding key by (simp only: conj_assoc)
qed

text \<open>A lookup finds every object of its watcher that carries the label, and finds it as being deleted only
  when the informer has seen it.\<close>

lemma lookup_complete:
  assumes c: "coherent sel w c" and t: "tracked sel w c"
    and s: "map_of (ob_objs c) k = Some s" "sel w s" "cd_label s = Some uid"
  shows "\<exists>d \<in> set (fst (mc_ByIndex uid (ob_watch c w))). om_UID d = om_UID s \<and>
    (om_Deleting d \<longrightarrow> in_store (ob_watch c w) k (om_UID s))"
proof -
  let ?x = "ob_watch c w"
  note it = mc_ByIndex_items(1) [OF coherentD(1,2) [OF c], of _ uid]
  have ver: "om_UID v = om_UID s \<Longrightarrow> cd_label v = Some uid" "om_UID v \<noteq> om_UID s \<Longrightarrow> om_ResourceVersion v < om_UID s"
      "om_UID v \<le> om_ResourceVersion v" if "known ?x k v" for v
    using coherentD(6) [OF c that] s by (auto simp: version_ok_def cd_label_def)
  show ?thesis
  proof (cases "in_store ?x k (om_UID s)")
    case True
    then obtain v where v: "map_of (wt_store ?x) k = Some v" "om_UID v = om_UID s" by (auto simp: in_store_def)
    then have kv: "known ?x k v" by (simp add: known_def)
    let ?d = "fst (newerObject k v (wt_mutations ?x))"
    have "om_UID ?d = om_UID s"
    proof (cases "map_of (wt_mutations ?x) k")
      case (Some m)
      then have "known ?x k m" by (simp add: known_def)
      with ver [OF this] ver(3) [OF kv] v(2) Some show ?thesis by (force simp: newerObject_fst)
    qed (simp add: newerObject_fst v)
    moreover have "?d \<in> set (fst (mc_ByIndex uid ?x))"
      using v ver(1) [OF kv] it by blast
    ultimately show ?thesis using True by blast
  next
    case False
    then obtain m where m: "map_of (wt_mutations ?x) k = Some m" "om_UID m = om_UID s" "\<not> om_Deleting m"
      using t s unfolding tracked_def by auto
    then have km: "known ?x k m" by (simp add: known_def)
    have "m \<in> set (fst (mc_ByIndex uid ?x))"
    proof (cases "\<exists>obj. map_of (wt_store ?x) k = Some obj \<and> cd_label obj = Some uid")
      case True
      then obtain v where v: "map_of (wt_store ?x) k = Some v" "cd_label v = Some uid" by blast
      then have "known ?x k v" "om_UID v \<noteq> om_UID s" using False by (auto simp: known_def in_store_def)
      then have "om_ResourceVersion v < om_ResourceVersion m" using ver(2) [of v] ver(3) [OF km] m(2) by simp
      then have "fst (newerObject k v (wt_mutations ?x)) = m" using m(1) by (simp add: newerObject_fst)
      then show ?thesis using it v by metis
    next
      case False
      then show ?thesis using it m ver(1) [OF km] by blast
    qed
    with m show ?thesis by blast
  qed
qed

lemma lookup_known:
  assumes c: "coherent sel w c" and d: "d \<in> set (fst (mc_ByIndex uid (ob_watch c w)))"
  shows "known (ob_watch c w) (om_key d) d"
proof -
  obtain k where k: "known (ob_watch c w) k d"
    using d mc_ByIndex_items(1) [OF coherentD(1,2) [OF c], of d uid]
    by (auto simp: newerObject_fst known_def split: option.splits if_splits)
  then have "om_key d = k" using coherentD(6) [OF c k] by (simp add: version_ok_def)
  with k show ?thesis by simp
qed

lemma lookup_seen_deleting:
  assumes c: "coherent sel w c" and d: "d \<in> set (fst (mc_ByIndex uid (ob_watch c w)))" and "om_Deleting d"
  shows "seen_deleting sel w d c"
proof -
  have k: "known (ob_watch c w) (om_key d) d" by (rule lookup_known [OF c d])
  obtain k where "map_of (wt_store (ob_watch c w)) k = Some d \<or> map_of (wt_mutations (ob_watch c w)) k = Some d"
    using d mc_ByIndex_items(1) [OF coherentD(1,2) [OF c], of d uid]
    by (auto simp: newerObject_fst split: option.splits if_splits)
  moreover from this have "om_key d = k" using coherentD(6) [OF c, of k d] by (auto simp: known_def version_ok_def)
  ultimately have sm: "map_of (wt_store (ob_watch c w)) (om_key d) = Some d \<or> map_of (wt_mutations (ob_watch c w)) (om_key d) = Some d"
    by simp
  have "in_store (ob_watch c w) (om_key d) (om_UID d)"
    if s: "map_of (ob_objs c) (om_key d) = Some s" "om_UID s = om_UID d" "sel w s" for s
    using sm coherentD(7) [OF c, of "om_key d" d s] s assms(3) by (auto simp: in_store_def)
  then show ?thesis
    using coherentD(6) [OF c k] assms(3) by (auto simp: seen_deleting_def)
qed

end
