(* ===== verification/Cd_Children.thy ===== *)
theory Cd_Children
  imports Watch_Cache
begin

text \<open>
  The objects the compute-domain controller creates for a compute domain (its children: the DaemonSet
  of the daemons and the ResourceClaimTemplates), and the operations its managers share.
  \<open>BaseResourceClaimTemplateManager\<close> (\<open>resourceclaimtemplate.go\<close>) and \<open>DaemonSetManager\<close>
  (\<open>daemonset.go\<close>) repeat the same code up to the name of the kind in error messages, so the steps are
  defined once, for any kind of object.

  An operation is a sequence of accesses: a read of a cache or a call of the API server. A
  \<open>kind_env\<close> says, for each access, what others have done before it and whether it fails. A successful
  update and the recording of its result in the mutation cache are one access.
\<close>

section \<open>Accesses\<close>

datatype op = OpGet | OpCreate | OpDelete | OpRemoveFinalizer | OpAssertRemoved

datatype site = Read op | Render | Call op

record ('w, 'o) kind_env =
  ke_env :: "site \<Rightarrow> ('w, 'o) objects \<Rightarrow> ('w, 'o) objects"
  ke_fail :: "site \<Rightarrow> goerr option"

definition at_site :: "('w, 'o) kind_env \<Rightarrow> site \<Rightarrow> (('w, 'o) objects, 'b) gost \<Rightarrow> (('w, 'o) objects, 'b) gost" where
  "at_site ke p m c = (case ke_fail ke p of Some e \<Rightarrow> (Err e, ke_env ke p c) | None \<Rightarrow> m (ke_env ke p c))"

section \<open>Operations (indexers.go, resourceclaimtemplate.go, daemonset.go)\<close>

definition computeDomainFinalizer :: string where
  "computeDomainFinalizer = computeDomainLabelKey"

definition getByComputeDomainUID ::
  "('w, 'a ObjectMeta_scheme) kind_env \<Rightarrow> op \<Rightarrow> 'w \<Rightarrow> string \<Rightarrow> (('w, 'a ObjectMeta_scheme) objects, 'a ObjectMeta_scheme list) gost" where
  "getByComputeDomainUID ke p w uid =
     wrap_st (Wrapf ''error getting objects via ComputeDomain label'')
       (at_site ke (Read p) (\<lambda>c. (Ok (fst (mc_ByIndex uid (ob_watch c w))), on_watch w (\<lambda>x. snd (mc_ByIndex uid x)) c)))"

text \<open>The beginning of every operation: the one object of the compute domain, if any.\<close>

definition lookup_child ::
  "('w, 'a ObjectMeta_scheme) kind_env \<Rightarrow> op \<Rightarrow> 'w \<Rightarrow> string \<Rightarrow> string \<Rightarrow>
   (('w, 'a ObjectMeta_scheme) objects, 'a ObjectMeta_scheme option) gost" where
  "lookup_child ke p w kind uid =
     bind_st (wrap_st (Wrapf (''error retrieving '' @ kind)) (getByComputeDomainUID ke p w uid)) (\<lambda>ds.
     if length ds > 1 then err_st (Errorf (''more than one '' @ kind @ '' found with same ComputeDomain UID''))
     else ret_st (case ds of [] \<Rightarrow> None | d # _ \<Rightarrow> Some d))"

text \<open>Creation of a rendered object, and its recording. Rendering (parsing the template, executing it, decoding
  the result) may fail.\<close>

definition create_child ::
  "('w \<Rightarrow> 'a ObjectMeta_scheme \<Rightarrow> bool) \<Rightarrow> ('w, 'a ObjectMeta_scheme) kind_env \<Rightarrow> 'w \<Rightarrow> string \<Rightarrow> 'a ObjectMeta_scheme \<Rightarrow>
   (('w, 'a ObjectMeta_scheme) objects, 'a ObjectMeta_scheme) gost" where
  "create_child sel ke w kind obj =
     bind_st (at_site ke Render (ret_st ())) (\<lambda>_.
     bind_st (wrap_st (Wrapf (''error creating '' @ kind)) (at_site ke (Call OpCreate) (api_Create sel obj))) (\<lambda>d.
       (\<lambda>c. (Ok d, on_watch w (Mutation d) c))))"

definition tolerate_NotFound :: "goerr \<Rightarrow> (goerr \<Rightarrow> goerr) \<Rightarrow> unit go" where
  "tolerate_NotFound e f = (if IsNotFound e then Ok () else Err (f e))"

definition delete_child ::
  "('w \<Rightarrow> 'a ObjectMeta_scheme \<Rightarrow> bool) \<Rightarrow> ('w, 'a ObjectMeta_scheme) kind_env \<Rightarrow> string \<Rightarrow> 'a ObjectMeta_scheme \<Rightarrow>
   (('w, 'a ObjectMeta_scheme) objects, unit) gost" where
  "delete_child sel ke kind d =
     (if om_Deleting d then ret_st ()
      else (\<lambda>c. case at_site ke (Call OpDelete) (api_Delete sel (om_key d)) c of
             (Err e, c') \<Rightarrow> (tolerate_NotFound e (Wrapf (''erroring deleting '' @ kind)), c')
           | (r, c') \<Rightarrow> (r, c')))"

definition remove_child_finalizer ::
  "('w \<Rightarrow> 'a ObjectMeta_scheme \<Rightarrow> bool) \<Rightarrow> ('w, 'a ObjectMeta_scheme) kind_env \<Rightarrow> 'w \<Rightarrow> string \<Rightarrow> 'a ObjectMeta_scheme \<Rightarrow>
   (('w, 'a ObjectMeta_scheme) objects, unit) gost" where
  "remove_child_finalizer sel ke w kind d =
     (if \<not> om_Deleting d
      then err_st (Errorf (''attempting to remove finalizer before '' @ kind @ '' marked for deletion''))
      else (let newD = d\<lparr>om_Finalizers := filter (\<lambda>f. f \<noteq> computeDomainFinalizer) (om_Finalizers d)\<rparr>
            in if length (om_Finalizers d) = length (om_Finalizers newD) then ret_st ()
               else bind_st (wrap_st (Wrapf (''error updating '' @ kind)) (at_site ke (Call OpRemoveFinalizer) (api_Update sel newD)))
                      (\<lambda>_ c. (Ok (), on_watch w (Mutation newD) c))))"

definition RemoveFinalizer_child ::
  "('w \<Rightarrow> 'a ObjectMeta_scheme \<Rightarrow> bool) \<Rightarrow> ('w, 'a ObjectMeta_scheme) kind_env \<Rightarrow> 'w \<Rightarrow> string \<Rightarrow> string \<Rightarrow>
   (('w, 'a ObjectMeta_scheme) objects, unit) gost" where
  "RemoveFinalizer_child sel ke w kind uid =
     bind_st (lookup_child ke OpRemoveFinalizer w kind uid) (\<lambda>d.
       case d of None \<Rightarrow> ret_st () | Some d \<Rightarrow> remove_child_finalizer sel ke w kind d)"

definition AssertRemoved_child ::
  "('w, 'a ObjectMeta_scheme) kind_env \<Rightarrow> 'w \<Rightarrow> string \<Rightarrow> string \<Rightarrow> (('w, 'a ObjectMeta_scheme) objects, unit) gost" where
  "AssertRemoved_child ke w kind uid =
     bind_st (wrap_st (Wrapf (''error retrieving '' @ kind)) (at_site ke (Read OpAssertRemoved)
       (\<lambda>c. (Ok (informer_ByIndex uid (ob_watch c w)), c)))) (\<lambda>ds.
     if length ds \<noteq> 0 then err_st (Errorf ''still exists'') else ret_st ())"

section \<open>The operations on existing children are steps others may take as well\<close>

definition env_ok :: "('w \<Rightarrow> 'a ObjectMeta_scheme \<Rightarrow> bool) \<Rightarrow> ('w, 'a ObjectMeta_scheme) kind_env \<Rightarrow> bool" where
  "env_ok sel ke \<longleftrightarrow> (\<forall>p c. others sel c (ke_env ke p c))"

text \<open>All of the children's invariants hold, of every watcher.\<close>

definition stays :: "('w \<Rightarrow> 'a ObjectMeta_scheme \<Rightarrow> bool) \<Rightarrow> (('w, 'a ObjectMeta_scheme) objects, 'b) gost \<Rightarrow> bool" where
  "stays sel m \<longleftrightarrow> (\<forall>c. (\<forall>w. coherent sel w c) \<longrightarrow> others sel c (snd (m c)))"

lemma stays_basic [simp]: "stays sel (ret_st a)" "stays sel (err_st e)" "stays sel (lift_st r)"
  by (simp_all add: stays_def others.idle)

lemma stays_wrap [simp]: "stays sel (wrap_st f m) = stays sel m"
  by (simp add: stays_def)

lemma stays_bind:
  assumes sel: "selector sel" and m: "stays sel m" and f: "\<And>a. stays sel (f a)"
  shows "stays sel (bind_st m f)"
  unfolding stays_def
proof (intro allI impI)
  fix c assume c: "\<forall>w. coherent sel w c"
  then have 1: "others sel c (snd (m c))" using m by (simp add: stays_def)
  then have "\<forall>w. coherent sel w (snd (m c))" using others_coherent [OF _ sel] c by blast
  then have "others sel (snd (m c)) (snd (f a (snd (m c))))" for a using f by (simp add: stays_def)
  then show "others sel c (snd (bind_st m f c))"
    using 1 others_trans by (fastforce simp: bind_st_def split: prod.splits go.splits)
qed

lemma stays_at_site:
  assumes sel: "selector sel" and env: "env_ok sel ke" and m: "stays sel m"
  shows "stays sel (at_site ke p m)"
  unfolding stays_def
proof (intro allI impI)
  fix c assume c: "\<forall>w. coherent sel w c"
  have 1: "others sel c (ke_env ke p c)" using env by (simp add: env_ok_def)
  then have "\<forall>w. coherent sel w (ke_env ke p c)" using others_coherent [OF _ sel] c by blast
  then have "others sel (ke_env ke p c) (snd (m (ke_env ke p c)))" using m by (simp add: stays_def)
  then show "others sel c (snd (at_site ke p m c))"
    using 1 others_trans by (auto simp: at_site_def split: option.splits)
qed

text \<open>A lookup only drops entries of the mutation cache that the informer has caught up with.\<close>

lemma others_newer_objects:
  assumes sel: "selector sel" and c: "\<forall>w. coherent sel w c"
    and ks: "\<And>k obj. (k, obj) \<in> set ks \<Longrightarrow> map_of (wt_store (ob_watch c w)) k = Some obj"
  shows "others sel c (on_watch w (\<lambda>x. x\<lparr>wt_mutations := snd (newer_objects ks (wt_mutations x))\<rparr>) c)"
  using c ks
proof (induction ks arbitrary: c)
  case Nil
  have "on_watch w (\<lambda>x. x\<lparr>wt_mutations := snd (newer_objects [] (wt_mutations x))\<rparr>) c = c"
    by (simp add: on_watch_def)
  then show ?case by (simp add: others.idle)
next
  case (Cons e ks)
  obtain k obj where e: "e = (k, obj)" by fastforce
  let ?f = "\<lambda>x. x\<lparr>wt_mutations := snd (newerObject k obj (wt_mutations x))\<rparr>"
  let ?c1 = "on_watch w ?f c"
  have st: "map_of (wt_store (ob_watch c w)) k = Some obj" using Cons.prems(2) e by simp
  have 1: "others sel c ?c1"
  proof (cases "\<exists>m. map_of (wt_mutations (ob_watch c w)) k = Some m \<and> om_ResourceVersion m \<le> om_ResourceVersion obj")
    case True
    then obtain m where m: "map_of (wt_mutations (ob_watch c w)) k = Some m" "om_ResourceVersion m \<le> om_ResourceVersion obj" by blast
    have vo: "version_ok c k obj" "version_ok c k m"
      using coherentD(6) [OF Cons.prems(1) [rule_format]] st m(1) by (auto simp: known_def)
    have seen: "in_store (ob_watch c w) k (om_UID m)" if "map_of (ob_objs c) k = Some s" "om_UID s = om_UID m" for s
    proof -
      have "om_UID m \<le> om_ResourceVersion m" "om_UID obj \<noteq> om_UID s \<Longrightarrow> om_ResourceVersion obj < om_UID s"
        using vo that(1) by (auto simp: version_ok_def)
      with that(2) m(2) have "om_UID obj = om_UID s" by linarith
      with st that show ?thesis by (auto simp: in_store_def)
    qed
    have c1: "?c1 = on_watch w (\<lambda>x. x\<lparr>wt_mutations := AList.delete k (wt_mutations x)\<rparr>) c"
      using m by (simp add: on_watch_def newerObject_def)
    show ?thesis unfolding c1 by (rule others.dropped [OF others.idle m(1)]) (rule seen)
  next
    case False
    then have "?c1 = c" by (auto simp: on_watch_def newerObject_def split: option.splits)
    then show ?thesis by (simp add: others.idle)
  qed
  have "\<forall>w. coherent sel w ?c1" using others_coherent [OF 1 sel] Cons.prems(1) by blast
  moreover have "\<And>k obj. (k, obj) \<in> set ks \<Longrightarrow> map_of (wt_store (ob_watch ?c1 w)) k = Some obj"
    using Cons.prems(2) by simp
  ultimately have "others sel ?c1 (on_watch w (\<lambda>x. x\<lparr>wt_mutations := snd (newer_objects ks (wt_mutations x))\<rparr>) ?c1)"
    by (rule Cons.IH)
  then have "others sel c (on_watch w (\<lambda>x. x\<lparr>wt_mutations := snd (newer_objects ks (wt_mutations x))\<rparr>) ?c1)"
    using 1 others_trans by blast
  moreover have "on_watch w (\<lambda>x. x\<lparr>wt_mutations := snd (newer_objects ks (wt_mutations x))\<rparr>) ?c1 =
      on_watch w (\<lambda>x. x\<lparr>wt_mutations := snd (newer_objects (e # ks) (wt_mutations x))\<rparr>) c"
    by (simp add: on_watch_def e split: prod.splits)
  ultimately show ?case by simp
qed

lemma stays_lookup: "selector sel \<Longrightarrow> stays sel (\<lambda>c. (Ok (fst (mc_ByIndex uid (ob_watch c w))), on_watch w (\<lambda>x. snd (mc_ByIndex uid x)) c))"
  unfolding stays_def
proof (intro allI impI)
  fix c assume sel: "selector sel" and c: "\<forall>w. coherent sel w c"
  have ks: "map_of (wt_store (ob_watch c w)) k = Some obj" if "(k, obj) \<in> set (informer_ByIndex uid (ob_watch c w))" for k obj
    using that informer_ByIndex_map_of [OF coherentD(1) [OF c [rule_format]]] map_of_iff by metis
  have "on_watch w (\<lambda>x. snd (mc_ByIndex uid x)) c =
      on_watch w (\<lambda>x. x\<lparr>wt_mutations := snd (newer_objects (informer_ByIndex uid (ob_watch c w)) (wt_mutations x))\<rparr>) c"
    by (simp add: on_watch_def mc_ByIndex_def Let_def split: prod.splits)
  then show "others sel c (snd (Ok (fst (mc_ByIndex uid (ob_watch c w))), on_watch w (\<lambda>x. snd (mc_ByIndex uid x)) c))"
    using others_newer_objects [OF sel c ks] by simp
qed

lemma stays_api_Delete: "stays sel (api_Delete sel k)"
  unfolding stays_def
proof (intro allI impI)
  fix c assume c: "\<forall>w. coherent sel w c"
  show "others sel c (snd (api_Delete sel k c))"
  proof (cases "map_of (ob_objs c) k")
    case None
    then show ?thesis by (simp add: api_Delete_def others.idle)
  next
    case (Some old)
    have "om_key old = k" using coherentD(4) [OF c [rule_format] Some] by (simp add: version_ok_def)
    then have "om_key (old\<lparr>om_Deleting := True, om_ResourceVersion := ob_next c\<rparr>) = k" by (simp add: om_key_def)
    then show ?thesis
      using Some others.changed [OF others.idle Some] others.removed [OF others.idle]
      by (auto simp: api_Delete_def others.idle)
  qed
qed

lemma others_api_Update:
  assumes "version_ok c (om_key d) d"
  shows "others sel c (snd (api_Update sel d c))"
proof (cases "map_of (ob_objs c) (om_key d)")
  case None
  then show ?thesis by (simp add: api_Update_def others.idle)
next
  case (Some old)
  show ?thesis
  proof (cases "om_UID d \<noteq> om_UID old \<or> om_ResourceVersion d \<noteq> om_ResourceVersion old")
    case True
    then show ?thesis using Some by (simp add: api_Update_def others.idle)
  next
    case False
    then have "om_Labels d = om_Labels old" using assms Some by (auto simp: version_ok_def)
    moreover have "om_key (d\<lparr>om_ResourceVersion := r, om_Deleting := b\<rparr>) = om_key d" for r b by (simp add: om_key_def)
    ultimately show ?thesis
      using Some False others.changed [OF others.idle Some] others.removed [OF others.idle]
      by (auto simp: api_Update_def Let_def)
  qed
qed


section \<open>Removal\<close>

text \<open>No child is hidden from the informer; no child is left.\<close>

definition shown :: "('w \<Rightarrow> 'a ObjectMeta_scheme \<Rightarrow> bool) \<Rightarrow> 'w \<Rightarrow> string \<Rightarrow> ('w, 'a ObjectMeta_scheme) objects \<Rightarrow> bool" where
  "shown sel w uid c \<longleftrightarrow> (\<forall>k s. map_of (ob_objs c) k = Some s \<longrightarrow> sel w s \<longrightarrow> cd_label s = Some uid \<longrightarrow>
     in_store (ob_watch c w) k (om_UID s))"

definition gone :: "('w \<Rightarrow> 'a ObjectMeta_scheme \<Rightarrow> bool) \<Rightarrow> 'w \<Rightarrow> string \<Rightarrow> ('w, 'a ObjectMeta_scheme) objects \<Rightarrow> bool" where
  "gone sel w uid c \<longleftrightarrow> (\<forall>k s. map_of (ob_objs c) k = Some s \<longrightarrow> sel w s \<longrightarrow> cd_label s \<noteq> Some uid)"

lemma Mutation_store [simp]: "wt_store (Mutation d x) = wt_store x"
  by (simp add: Mutation_def split: option.splits)

lemma others_shown:
  assumes "others sel c c'" and "selector sel" and "\<And>w. coherent sel w c" and "shown sel w uid c"
  shows "shown sel w uid c'"
  using assms
proof (induction rule: others.induct)
  case (delivered c c1 w')
  have co: "coherent sel w c1" by (rule others_coherent [OF delivered.hyps delivered.prems(1,2)])
  with delivered in_store_delivered [OF co] show ?case by (fastforce simp: shown_def)
next
  case (changed c c1 k old new)
  have "coherent sel w c1" by (rule others_coherent [OF changed.hyps(1) changed.prems(1,2)])
  then have "om_key old = k" using coherentD(4) changed.hyps(2) by (fastforce simp: version_ok_def)
  then have "sel w new = sel w old" using changed.prems(1) changed.hyps by (auto simp: selector_def)
  with changed show ?case by (auto simp: shown_def cd_label_def split: if_splits)
next
  case (removed c c1 k)
  then show ?case by (auto simp: shown_def split: if_splits)
next
  case (unrelated c c1 new)
  then show ?case by (auto simp: shown_def split: if_splits)
next
  case (dropped c c1 w' k m)
  then have "shown sel w uid c1" by blast
  then show ?case by (auto simp: shown_def in_store_def)
next
  case (recorded c c1 w' d)
  then have "shown sel w uid c1" by blast
  then show ?case by (auto simp: shown_def in_store_def)
qed

lemma others_gone:
  assumes "others sel c c'" and "selector sel" and "\<And>w. coherent sel w c" and "gone sel w uid c"
  shows "gone sel w uid c'"
  using assms
proof (induction rule: others.induct)
  case (changed c c1 k old new)
  have "coherent sel w c1" by (rule others_coherent [OF changed.hyps(1) changed.prems(1,2)])
  then have "om_key old = k" using coherentD(4) changed.hyps(2) by (fastforce simp: version_ok_def)
  then have "sel w new = sel w old" using changed.prems(1) changed.hyps by (auto simp: selector_def)
  with changed show ?case by (auto simp: gone_def cd_label_def split: if_splits)
qed (auto simp: gone_def split: if_splits)

lemma others_version_ok:
  assumes "others sel c c'" and "version_ok c k d"
  shows "version_ok c' k d"
  using assms
proof (induction rule: others.induct)
  case (changed c c1 k' old new)
  then show ?case by (intro version_ok_changed)
next
  case (removed c c1 k')
  then show ?case by (intro version_ok_put_other) auto
next
  case (unrelated c c1 new)
  then show ?case by (intro version_ok_created)
qed simp_all

lemma others_seen_deleting:
  assumes "others sel c c'" and "selector sel" and "\<And>w. coherent sel w c" and "seen_deleting sel w d c"
  shows "seen_deleting sel w d c'"
proof -
  have vo: "version_ok c' (om_key d) d"
    using others_version_ok [OF assms(1)] assms(4) by (simp add: seen_deleting_def)
  have "\<forall>s. map_of (ob_objs c') (om_key d) = Some s \<longrightarrow> om_UID s = om_UID d \<longrightarrow> sel w s \<longrightarrow>
      in_store (ob_watch c' w) (om_key d) (om_UID d)"
    using assms
  proof (induction rule: others.induct)
    case (idle c)
    then show ?case by (simp add: seen_deleting_def)
  next
    case (delivered c c1 w')
    have co: "coherent sel w c1" by (rule others_coherent [OF delivered.hyps delivered.prems(1,2)])
    note IH = delivered.IH [OF delivered.prems]
    show ?case using IH in_store_delivered [OF co] by (metis on_watch_simps(2,3))
  next
    case (changed c c1 k old new)
    have co: "coherent sel w c1" by (rule others_coherent [OF changed.hyps(1) changed.prems(1,2)])
    then have "om_key old = k" using coherentD(4) changed.hyps(2) by (fastforce simp: version_ok_def)
    then have "sel w new = sel w old" using changed.prems(1) changed.hyps by (auto simp: selector_def)
    with changed.IH [OF changed.prems] changed.hyps show ?case by auto
  next
    case (removed c c1 k)
    from removed.IH [OF removed.prems] show ?case by auto
  next
    case (unrelated c c1 new)
    from unrelated.IH [OF unrelated.prems] unrelated.hyps show ?case by auto
  next
    case (dropped c c1 w' k m)
    from dropped.IH [OF dropped.prems] show ?case by (auto simp: in_store_def)
  next
    case (recorded c c1 w' d')
    from recorded.IH [OF recorded.prems] show ?case by (auto simp: in_store_def)
  qed
  with vo assms(4) show ?thesis by (simp add: seen_deleting_def)
qed

lemma stays_getByComputeDomainUID: "selector sel \<Longrightarrow> env_ok sel ke \<Longrightarrow> stays sel (getByComputeDomainUID ke p w uid)"
  unfolding getByComputeDomainUID_def by (simp add: stays_at_site stays_lookup)

lemma stays_lookup_child: "selector sel \<Longrightarrow> env_ok sel ke \<Longrightarrow> stays sel (lookup_child ke p w kind uid)"
  unfolding lookup_child_def by (intro stays_bind) (auto simp: stays_getByComputeDomainUID)

lemma stays_delete_child:
  assumes "selector sel" and "env_ok sel ke" shows "stays sel (delete_child sel ke kind d)"
proof -
  have "stays sel (at_site ke (Call OpDelete) (api_Delete sel (om_key d)))"
    by (rule stays_at_site [OF assms stays_api_Delete])
  then show ?thesis
    by (fastforce simp: delete_child_def stays_def others.idle split: prod.splits go.splits)
qed

text \<open>What a successful lookup returns.\<close>

lemma lookup_child_Ok:
  assumes "lookup_child ke p w kind uid c = (Ok d, c')"
  shows "\<exists>c0. c0 = ke_env ke (Read p) c \<and> c' = on_watch w (\<lambda>x. snd (mc_ByIndex uid x)) c0 \<and>
    fst (mc_ByIndex uid (ob_watch c0 w)) = (case d of None \<Rightarrow> [] | Some d \<Rightarrow> [d])"
  using assms
  by (auto simp: lookup_child_def getByComputeDomainUID_def bind_st_eq_Ok wrap_st_eq_Ok at_site_def ret_st_def err_st_def
      split: option.splits if_splits list.splits)

lemma remove_child_finalizer_others:
  assumes sel: "selector sel" and env: "env_ok sel ke" and c: "\<And>w. coherent sel w c"
    and d: "om_Deleting d \<Longrightarrow> seen_deleting sel w d c"
  shows "others sel c (snd (remove_child_finalizer sel ke w kind d c))"
proof -
  let ?new = "d\<lparr>om_Finalizers := filter (\<lambda>f. f \<noteq> computeDomainFinalizer) (om_Finalizers d)\<rparr>"
  let ?c1 = "ke_env ke (Call OpRemoveFinalizer) c"
  let ?c2 = "snd (api_Update sel ?new ?c1)"
  have new: "seen_deleting sel w ?new c'' = seen_deleting sel w d c''" "version_ok c'' k ?new = version_ok c'' k d" for c'' k
    by (simp_all add: seen_deleting_def version_ok_def om_key_def)
  have key: "om_key ?new = om_key d" by (simp add: om_key_def)
  have 1: "others sel c ?c1" using env by (simp add: env_ok_def)
  show ?thesis
  proof (cases "om_Deleting d")
    case True
    then have s1: "seen_deleting sel w d ?c1" using others_seen_deleting [OF 1 sel c] d by blast
    have vo: "version_ok ?c1 (om_key ?new) ?new" using s1 unfolding new key by (simp add: seen_deleting_def)
    have 2: "others sel ?c1 ?c2" by (rule others_api_Update [OF vo])
    then have 12: "others sel c ?c2" using 1 others_trans by blast
    have "seen_deleting sel w ?new ?c2" using others_seen_deleting [OF 12 sel c] d True unfolding new by blast
    then have "others sel c (on_watch w (Mutation ?new) ?c2)" by (rule others.recorded [OF 12])
    with 1 12 others.idle show ?thesis
      by (auto simp: remove_child_finalizer_def Let_def bind_st_def wrap_st_def at_site_def ret_st_def err_st_def
          split: option.splits prod.splits go.splits)
  qed (simp add: remove_child_finalizer_def others.idle)
qed

lemma stays_RemoveFinalizer_child:
  assumes sel: "selector sel" and env: "env_ok sel ke"
  shows "stays sel (RemoveFinalizer_child sel ke w kind uid)"
  unfolding stays_def
proof (intro allI impI)
  fix c assume c: "\<forall>w. coherent sel w c"
  let ?r = "lookup_child ke OpRemoveFinalizer w kind uid c"
  have 1: "others sel c (snd ?r)" using stays_lookup_child [OF sel env] c by (simp add: stays_def)
  have "others sel (snd ?r) (snd (remove_child_finalizer sel ke w kind d (snd ?r)))" if "fst ?r = Ok (Some d)" for d
  proof (rule remove_child_finalizer_others [OF sel env])
    show "coherent sel w (snd ?r)" for w using others_coherent [OF 1 sel] c by blast
    assume "om_Deleting d"
    from that obtain c0 where c0: "c0 = ke_env ke (Read OpRemoveFinalizer) c"
      "snd ?r = on_watch w (\<lambda>x. snd (mc_ByIndex uid x)) c0" "fst (mc_ByIndex uid (ob_watch c0 w)) = [d]"
      using lookup_child_Ok [of ke OpRemoveFinalizer w kind uid c "Some d" "snd ?r"] by (metis option.simps(5) prod.collapse)
    have "others sel c c0" using env c0(1) by (simp add: env_ok_def)
    then have co: "\<forall>w. coherent sel w c0" using others_coherent [OF _ sel] c by blast
    then have "seen_deleting sel w d c0" using lookup_seen_deleting c0(3) \<open>om_Deleting d\<close> by (metis list.set_intros(1))
    moreover have "others sel c0 (snd ?r)" using stays_lookup [OF sel] co c0(2) by (simp add: stays_def)
    ultimately show "seen_deleting sel w d (snd ?r)" using others_seen_deleting [OF _ sel] co by blast
  qed
  then have "\<And>d. fst ?r = Ok (Some d) \<Longrightarrow> others sel c (snd (remove_child_finalizer sel ke w kind d (snd ?r)))"
    using 1 others_trans by blast
  then show "others sel c (snd (RemoveFinalizer_child sel ke w kind uid c))"
    using 1 by (auto simp: RemoveFinalizer_child_def bind_st_def ret_st_def split: prod.splits go.splits option.splits)
qed

lemma stays_AssertRemoved_child:
  assumes "selector sel" and "env_ok sel ke" shows "stays sel (AssertRemoved_child ke w kind uid)"
proof -
  have "stays sel (\<lambda>c. (Ok (informer_ByIndex uid (ob_watch c w)), c))" by (simp add: stays_def others.idle)
  then show ?thesis unfolding AssertRemoved_child_def by (intro stays_bind) (auto simp: stays_at_site assms)
qed

text \<open>After the finalizer of a child was removed, or no child was found, every child left is known to the informer;
  so when the informer shows none, there is none.\<close>

lemma RemoveFinalizer_shown:
  assumes sel: "selector sel" and env: "env_ok sel ke" and c: "\<And>w. coherent sel w c" and t: "tracked sel w c"
    and r: "RemoveFinalizer_child sel ke w kind uid c = (Ok (), c')"
  shows "shown sel w uid c'"
proof -
  from r obtain d c1 where d: "lookup_child ke OpRemoveFinalizer w kind uid c = (Ok d, c1)"
    and ok: "(case d of None \<Rightarrow> ret_st () | Some d \<Rightarrow> remove_child_finalizer sel ke w kind d) c1 = (Ok (), c')"
    by (auto simp: RemoveFinalizer_child_def bind_st_eq_Ok)
  obtain c0 where c0: "c0 = ke_env ke (Read OpRemoveFinalizer) c" "c1 = on_watch w (\<lambda>x. snd (mc_ByIndex uid x)) c0"
    "fst (mc_ByIndex uid (ob_watch c0 w)) = (case d of None \<Rightarrow> [] | Some d \<Rightarrow> [d])"
    using lookup_child_Ok [OF d] by blast
  have 0: "others sel c c0" using env c0(1) by (simp add: env_ok_def)
  then have co: "\<And>w. coherent sel w c0" and tr: "tracked sel w c0"
    using others_coherent [OF _ sel] others_tracked [OF _ sel] c t by blast+
  have del: "om_Deleting x" if "d = Some x" for x
    using ok that by (auto simp: remove_child_finalizer_def err_st_def split: if_splits)
  have "shown sel w uid c0" unfolding shown_def
  proof (intro allI impI)
    fix k s assume s: "map_of (ob_objs c0) k = Some s" "sel w s" "cd_label s = Some uid"
    obtain x where "x \<in> set (fst (mc_ByIndex uid (ob_watch c0 w)))" "om_Deleting x \<longrightarrow> in_store (ob_watch c0 w) k (om_UID s)"
      using lookup_complete [OF co tr s] by blast
    then show "in_store (ob_watch c0 w) k (om_UID s)" using del c0(3) by (cases d) auto
  qed
  moreover have c1: "others sel c c1"
    using stays_lookup_child [OF sel env, of OpRemoveFinalizer w kind uid] c d unfolding stays_def by (metis snd_conv)
  have "others sel c0 c1" using stays_lookup [OF sel] co c0(2) by (auto simp: stays_def)
  moreover have "others sel c1 c'"
  proof (cases d)
    case (Some x)
    have co1: "\<And>w. coherent sel w c1" using others_coherent [OF c1 sel] c by blast
    have "seen_deleting sel w x c0"
      using lookup_seen_deleting [OF co, of x uid w] del [OF Some] Some c0(3) by simp
    then have "seen_deleting sel w x c1"
      using others_seen_deleting [OF \<open>others sel c0 c1\<close> sel co] by blast
    then have "others sel c1 (snd (remove_child_finalizer sel ke w kind x c1))"
      by (intro remove_child_finalizer_others [OF sel env co1])
    then show ?thesis using ok Some by simp
  qed (use ok others.idle in \<open>auto simp: ret_st_def\<close>)
  ultimately show ?thesis
    using others_shown [OF _ sel] co others_trans by metis
qed

lemma AssertRemoved_gone:
  assumes sel: "selector sel" and env: "env_ok sel ke" and c: "\<And>w. coherent sel w c" and s: "shown sel w uid c"
    and r: "AssertRemoved_child ke w kind uid c = (Ok (), c')"
  shows "gone sel w uid c'"
proof -
  let ?c = "ke_env ke (Read OpAssertRemoved) c"
  from r have c': "c' = ?c" and none: "informer_ByIndex uid (ob_watch ?c w) = []"
    by (auto simp: AssertRemoved_child_def bind_st_eq_Ok wrap_st_eq_Ok at_site_def ret_st_def err_st_def
        split: option.splits if_splits)
  have "others sel c ?c" using env by (simp add: env_ok_def)
  then have co: "coherent sel w ?c" and sh: "shown sel w uid ?c"
    using others_coherent [OF _ sel] others_shown [OF _ sel] c s by blast+
  show ?thesis unfolding gone_def c'
  proof (intro allI impI notI)
    fix k s assume s: "map_of (ob_objs ?c) k = Some s" "sel w s" "cd_label s = Some uid"
    then obtain v where v: "map_of (wt_store (ob_watch ?c w)) k = Some v" "om_UID v = om_UID s"
      using sh by (auto simp: shown_def in_store_def)
    then have "cd_label v = Some uid"
      using coherentD(6) [OF co, of k v] s by (auto simp: known_def version_ok_def cd_label_def)
    with v(1) informer_ByIndex_map_of(2) [OF coherentD(1) [OF co], of uid k v] none show False by simp
  qed
qed


section \<open>Creation\<close>

lemma create_child_cases:
  assumes "create_child sel ke w kind obj c = (r, c')"
  obtains (fails) "c' = ke_env ke Render c \<or> c' = ke_env ke (Call OpCreate) (ke_env ke Render c)" "\<not> is_ok r"
    | (created) c1 new where "c1 = ke_env ke (Call OpCreate) (ke_env ke Render c)" "map_of (ob_objs c1) (om_key new) = None"
        "new = obj\<lparr>om_UID := ob_next c1, om_ResourceVersion := ob_next c1, om_Deleting := False\<rparr>"
        "c' = on_watch w (Mutation new) (put sel (om_key new) (Some new) c1)" "r = Ok new"
proof -
  have key: "om_key (obj\<lparr>om_UID := i, om_ResourceVersion := j, om_Deleting := b\<rparr>) = om_key obj" for i j b
    by (simp add: om_key_def)
  let ?c0 = "ke_env ke Render c" and ?c1 = "ke_env ke (Call OpCreate) (ke_env ke Render c)"
  note step = create_child_def bind_st_def wrap_st_def at_site_def ret_st_def api_Create_def Let_def
  show ?thesis
  proof (cases "ke_fail ke Render")
    case (Some e)
    then have "c' = ?c0" "\<not> is_ok r" using assms by (auto simp: step)
    then show ?thesis using fails by blast
  next
    case None
    note r = None
    show ?thesis
    proof (cases "ke_fail ke (Call OpCreate) \<noteq> None \<or> map_of (ob_objs ?c1) (om_key obj) \<noteq> None")
      case True
      then have "c' = ?c1" "\<not> is_ok r" using assms r by (auto simp: step split: option.splits)
      then show ?thesis using fails by blast
    next
      case False
      let ?new = "obj\<lparr>om_UID := ob_next ?c1, om_ResourceVersion := ob_next ?c1, om_Deleting := False\<rparr>"
      have "r = Ok ?new" "c' = on_watch w (Mutation ?new) (put sel (om_key ?new) (Some ?new) ?c1)"
        using assms r False by (auto simp: step key)
      moreover have "map_of (ob_objs ?c1) (om_key ?new) = None" using False key by simp
      ultimately show ?thesis using created by blast
    qed
  qed
qed

text \<open>The creating manager records the new object, so it keeps seeing all its objects; a manager that does not
  watch the new object is not concerned.\<close>

lemma created_recorded:
  assumes sel: "selector sel" and c: "\<And>w. coherent sel w c" and free: "map_of (ob_objs c) (om_key new) = None"
    and new: "om_UID new = ob_next c" "om_ResourceVersion new = ob_next c" "\<not> om_Deleting new"
    and c'_def: "c' = on_watch w (Mutation new) (put sel (om_key new) (Some new) c)"
  shows "coherent sel w' c'" and "tracked sel w' c \<Longrightarrow> w' = w \<or> \<not> sel w' new \<Longrightarrow> tracked sel w' c'"
proof -
  let ?c1 = "put sel (om_key new) (Some new) c"
  have co: "coherent sel w'' ?c1" for w'' by (rule coherent_created [OF c free new(1,2)])
  have "version_ok ?c1 (om_key new) new" using coherentD(4) [OF co, where k = "om_key new" and s = new] by simp
  then have "coherent sel w (on_watch w (Mutation new) ?c1)"
    by (rule coherent_Mutation [OF co]) (use new(3) in simp)
  then show "coherent sel w' c'"
    unfolding c'_def using co by (cases "w' = w") (simp_all add: coherent_other_watch)
  have "om_ResourceVersion m < ob_next c" if "map_of (wt_mutations (ob_watch c w)) (om_key new) = Some m" for m
    using coherentD(6) [OF c, of w "om_key new" m] that by (simp add: known_def version_ok_def)
  then have mu: "Mutation new (ob_watch ?c1 w) = (ob_watch ?c1 w)\<lparr>wt_mutations := AList.update (om_key new) new (wt_mutations (ob_watch c w))\<rparr>"
    using new(2) by (fastforce simp: Mutation_def split: option.splits)
  show "tracked sel w' c'" if t: "tracked sel w' c" and w': "w' = w \<or> \<not> sel w' new"
    unfolding tracked_def
  proof (intro allI impI)
    fix k s assume "map_of (ob_objs c') k = Some s" "sel w' s"
    then consider "k = om_key new" "s = new" "w' = w" | "k \<noteq> om_key new" "map_of (ob_objs c) k = Some s" "sel w' s"
      using w' by (auto simp: c'_def split: if_splits)
    then show "in_store (ob_watch c' w') k (om_UID s) \<or>
        (\<exists>m. map_of (wt_mutations (ob_watch c' w')) k = Some m \<and> om_UID m = om_UID s \<and> \<not> om_Deleting m)"
    proof cases
      case 1
      then show ?thesis using mu new(3) by (simp add: c'_def)
    next
      case 2
      then have "in_store (ob_watch c w') k (om_UID s) \<or>
          (\<exists>m. map_of (wt_mutations (ob_watch c w')) k = Some m \<and> om_UID m = om_UID s \<and> \<not> om_Deleting m)"
        using t unfolding tracked_def by blast
      then show ?thesis using mu 2(1) by (cases "w' = w") (auto simp: c'_def in_store_def)
    qed
  qed
qed

lemma create_child_keeps:
  assumes sel: "selector sel" and env: "env_ok sel ke" and c: "\<And>w. coherent sel w c"
    and r: "create_child sel ke w kind obj c = (r, c')"
  shows "coherent sel w' c'" and "tracked sel w' c \<Longrightarrow> w' = w \<or> \<not> sel w' obj \<Longrightarrow> tracked sel w' c'"
proof -
  have 1: "others sel c (ke_env ke Render c)" and 2: "others sel c (ke_env ke (Call OpCreate) (ke_env ke Render c))"
    using env others_trans unfolding env_ok_def by blast+
  from r have "coherent sel w' c' \<and> (tracked sel w' c \<longrightarrow> w' = w \<or> \<not> sel w' obj \<longrightarrow> tracked sel w' c')"
  proof (cases rule: create_child_cases)
    case fails
    then have o: "others sel c c'" using 1 2 by (elim disjE) simp_all
    show ?thesis using others_coherent [OF o sel c] others_tracked [OF o sel c] by simp
  next
    case (created c1 new)
    have co: "coherent sel w'' c1" for w'' using others_coherent [OF 2 sel c] created(1) by simp
    have n: "om_UID new = ob_next c1" "om_ResourceVersion new = ob_next c1" "\<not> om_Deleting new" using created(3) by simp_all
    have "om_key new = om_key obj" "om_Labels new = om_Labels obj" using created(3) by (simp_all add: om_key_def)
    then have "sel w' new = sel w' obj" using sel unfolding selector_def by blast
    moreover have "tracked sel w' c \<Longrightarrow> tracked sel w' c1" using others_tracked [OF 2 sel c] created(1) by simp
    moreover note created_recorded [OF sel co created(2) n created(4), where w' = w']
    ultimately show ?thesis by blast
  qed
  then show "coherent sel w' c'" and "tracked sel w' c \<Longrightarrow> w' = w \<or> \<not> sel w' obj \<Longrightarrow> tracked sel w' c'" by blast+
qed


section \<open>Start\<close>

text \<open>When the managers start, they wait until the informers have caught up.\<close>

definition synced :: "('w \<Rightarrow> 'a ObjectMeta_scheme \<Rightarrow> bool) \<Rightarrow> ('w, 'a ObjectMeta_scheme) objects \<Rightarrow> bool" where
  "synced sel c \<longleftrightarrow>
     (\<forall>k s. map_of (ob_objs c) k = Some s \<longrightarrow> om_key s = k \<and> om_UID s \<le> om_ResourceVersion s \<and> om_ResourceVersion s < ob_next c) \<and>
     (\<forall>w. gomap (wt_store (ob_watch c w)) \<and> wt_events (ob_watch c w) = [] \<and> wt_mutations (ob_watch c w) = [] \<and>
        (\<forall>k. map_of (wt_store (ob_watch c w)) k = visible sel w (map_of (ob_objs c) k)))"

lemma synced_coherent:
  assumes c: "synced sel c" shows "coherent sel w c" and "tracked sel w c"
proof -
  have st: "map_of (wt_store (ob_watch c w)) k = visible sel w (map_of (ob_objs c) k)" for k
    using c by (simp add: synced_def)
  have ob: "version_ok c k s" if "map_of (ob_objs c) k = Some s" for k s
    using c that by (auto simp: synced_def version_ok_def)
  have "known (ob_watch c w) k v \<Longrightarrow> map_of (ob_objs c) k = Some v" for k v
    using c st [of k] by (auto simp: known_def synced_def visible_def split: option.splits if_splits)
  then show "coherent sel w c"
    using c ob by (simp add: coherent_def synced_def)
  show "tracked sel w c" unfolding tracked_def
    using st by (auto simp: in_store_def visible_def)
qed


section \<open>Operations while nobody else acts\<close>

definition quiet :: "('w, 'o) kind_env \<Rightarrow> bool" where
  "quiet ke \<longleftrightarrow> (\<forall>p c. ke_env ke p c = c)"

lemma mc_ByIndex_empty: "fst (mc_ByIndex uid x) = [] \<Longrightarrow> snd (mc_ByIndex uid x) = x"
proof -
  assume e: "fst (mc_ByIndex uid x) = []"
  have "informer_ByIndex uid x = []"
  proof (cases "informer_ByIndex uid x")
    case (Cons e es)
    then show ?thesis using e by (cases e) (auto simp: mc_ByIndex_def Let_def split: prod.splits)
  qed simp
  then show ?thesis by (simp add: mc_ByIndex_def)
qed

lemma lookup_child_none:
  assumes "quiet ke" and "fst (mc_ByIndex uid (ob_watch c w)) = []" and "lookup_child ke p w kind uid c = (Ok d, c')"
  shows "d = None \<and> c' = c"
proof -
  from lookup_child_Ok [OF assms(3)] assms(1) have "c' = on_watch w (\<lambda>x. snd (mc_ByIndex uid x)) c"
    and "[] = (case d of None \<Rightarrow> [] | Some d \<Rightarrow> [d])"
    using assms(2) by (auto simp: quiet_def)
  then show ?thesis using mc_ByIndex_empty [OF assms(2)] by (cases d) (auto simp: on_watch_def)
qed

lemma create_child_quiet:
  assumes "quiet ke" and "create_child sel ke w kind obj c = (Ok new, c')"
  shows "new = obj\<lparr>om_UID := ob_next c, om_ResourceVersion := ob_next c, om_Deleting := False\<rparr>"
    and "map_of (ob_objs c') = (map_of (ob_objs c))(om_key obj \<mapsto> new)" and "map_of (ob_objs c) (om_key obj) = None"
    and "w' \<noteq> w \<Longrightarrow> \<not> sel w' obj \<Longrightarrow> selector sel \<Longrightarrow> ob_watch c' w' = ob_watch c w'"
proof -
  from assms(2) obtain c1 new' where n: "c1 = c" "map_of (ob_objs c1) (om_key new') = None"
    "new' = obj\<lparr>om_UID := ob_next c1, om_ResourceVersion := ob_next c1, om_Deleting := False\<rparr>"
    "c' = on_watch w (Mutation new') (put sel (om_key new') (Some new') c1)" "Ok new = Ok new'"
    by (cases rule: create_child_cases) (use assms(1) in \<open>auto simp: quiet_def\<close>)
  then show new: "new = obj\<lparr>om_UID := ob_next c, om_ResourceVersion := ob_next c, om_Deleting := False\<rparr>" by simp
  then have key: "om_key new = om_key obj" by (simp add: om_key_def)
  show "map_of (ob_objs c') = (map_of (ob_objs c))(om_key obj \<mapsto> new)" "map_of (ob_objs c) (om_key obj) = None"
    using n key by auto
  show "ob_watch c' w' = ob_watch c w'" if w': "w' \<noteq> w" "\<not> sel w' obj" "selector sel"
  proof -
    have "om_Labels new = om_Labels obj" using new by simp
    then have "\<not> sel w' new" using w'(2,3) key unfolding selector_def by blast
    then show ?thesis using w'(1) n by (simp add: notify_def visible_def)
  qed
qed

end
