(* ===== verification/Cd_Controller.thy ===== *)
theory Cd_Controller
  imports Cd_Children Cd_Status Api_Config
begin

text \<open>
  The life cycle of a compute domain in the compute-domain controller
  (\<open>cmd/compute-domain-controller\<close>): \<open>computedomain.go\<close> with the managers of ResourceClaimTemplates
  (\<open>resourceclaimtemplate.go\<close>), DaemonSets (\<open>daemonset.go\<close>, \<open>mnsdaemonset.go\<close>) and node labels
  (\<open>node.go\<close>), and the clean-up of stale objects (\<open>cleanup.go\<close>).

  The state \<open>ctl\<close> holds the API server's objects of each kind with the caches of the managers that
  watch them. A handler runs in an environment \<open>ctl_env\<close>: the steps of others before each access and
  the failures, for each kind, and the answers of the cache of compute domains.
\<close>

section \<open>Objects\<close>

record DaemonSetTemplateData =
  dst_Namespace :: string
  dst_Name :: string
  dst_Finalizer :: string
  dst_ComputeDomainLabelKey :: string
  dst_ComputeDomainLabelValue :: string
  dst_ResourceClaimTemplateName :: string
  dst_ImageName :: string
  dst_MaxNodesPerIMEXDomain :: int
  dst_FeatureGates :: "(string, bool) gomap"
  dst_LogVerbosity :: int
  dst_ImagePullSecretNames :: "string list"

record DaemonSet = ObjectMeta +
  ds_Data :: DaemonSetTemplateData
  ds_NumberReady :: int

record ResourceClaimTemplateTemplateData =
  rct_Namespace :: string
  rct_Name :: string
  rct_Finalizer :: string
  rct_ComputeDomainLabelKey :: string
  rct_ComputeDomainLabelValue :: string
  rct_TargetLabelKey :: string
  rct_TargetLabelValue :: string
  rct_DeviceClassName :: string
  rct_DriverName :: string
  rct_ChannelConfig :: "ComputeDomainChannelConfig option"
  rct_DaemonConfig :: "ComputeDomainDaemonConfig option"

record ResourceClaimTemplate = ObjectMeta +
  rct_Data :: ResourceClaimTemplateTemplateData

text \<open>The templates put namespace, name, finalizer and labels into the metadata.\<close>

definition render_DaemonSet :: "DaemonSetTemplateData \<Rightarrow> DaemonSet" where
  "render_DaemonSet d = \<lparr>om_UID = 0, om_Namespace = dst_Namespace d, om_Name = dst_Name d,
     om_Labels = [(dst_ComputeDomainLabelKey d, dst_ComputeDomainLabelValue d)],
     om_Finalizers = [dst_Finalizer d], om_Deleting = False, om_ResourceVersion = 0, ds_Data = d, ds_NumberReady = 0\<rparr>"

definition render_ResourceClaimTemplate :: "ResourceClaimTemplateTemplateData \<Rightarrow> ResourceClaimTemplate" where
  "render_ResourceClaimTemplate d = \<lparr>om_UID = 0, om_Namespace = rct_Namespace d, om_Name = rct_Name d,
     om_Labels = [(rct_ComputeDomainLabelKey d, rct_ComputeDomainLabelValue d), (rct_TargetLabelKey d, rct_TargetLabelValue d)],
     om_Finalizers = [rct_Finalizer d], om_Deleting = False, om_ResourceVersion = 0, rct_Data = d\<rparr>"

definition TargetLabelKey :: string where
  "TargetLabelKey = ''resource.nvidia.com/computeDomainTarget''"

text \<open>One manager of workload templates, and one of daemon templates for every namespace of the driver.\<close>

datatype target = Workload | Daemon string

definition target_label :: "target \<Rightarrow> string" where
  "target_label t = (case t of Workload \<Rightarrow> ''Workload'' | Daemon _ \<Rightarrow> ''Daemon'')"

definition rct_sel :: "target \<Rightarrow> ResourceClaimTemplate \<Rightarrow> bool" where
  "rct_sel t obj \<longleftrightarrow> cd_label obj \<noteq> None \<and> map_of (om_Labels obj) TargetLabelKey = Some (target_label t)"

definition ds_sel :: "string \<Rightarrow> DaemonSet \<Rightarrow> bool" where
  "ds_sel ns obj \<longleftrightarrow> cd_label obj \<noteq> None \<and> om_Namespace obj = ns"

record ctl_config =
  cf_driverNamespace :: string
  cf_additionalNamespaces :: "string list"
  cf_imageName :: string
  cf_maxNodesPerIMEXDomain :: int
  cf_featureGates :: "(string, bool) gomap"
  cf_logVerbosityCDDaemon :: int
  cf_imagePullSecretNames :: "string list"

type_synonym versioned_cd = "nat \<times> ComputeDomain"
type_synonym versioned_labels = "nat \<times> (string, string) gomap"

record ctl =
  ct_RCTs :: "(target, ResourceClaimTemplate) objects"
  ct_DSs :: "(string, DaemonSet) objects"
  ct_CDs :: "(string, versioned_cd) gomap"
  ct_Nodes :: "(string, versioned_labels) gomap"
  ct_cleanup_queued :: bool

datatype cdsite = CdGet | CdGetForRemoval | CdAddFinalizer | CdRemoveFinalizer | CdUpdateStatus

record ctl_env =
  en_rct :: "target \<Rightarrow> (target, ResourceClaimTemplate) kind_env"
  en_ds :: "string \<Rightarrow> (string, DaemonSet) kind_env"
  en_order :: "op \<Rightarrow> string list"
  en_getCD :: "cdsite \<Rightarrow> string \<Rightarrow> versioned_cd list go"
  en_cds :: "cdsite \<Rightarrow> (string, versioned_cd) gomap \<Rightarrow> (string, versioned_cd) gomap"
  en_cdfail :: "cdsite \<Rightarrow> goerr option"
  en_listNodes :: "(string, versioned_labels) gomap \<Rightarrow> (string, versioned_labels) gomap go"
  en_nodes :: "string \<Rightarrow> (string, versioned_labels) gomap \<Rightarrow> (string, versioned_labels) gomap"
  en_nodefail :: "string \<Rightarrow> goerr option"

definition on_rcts :: "((target, ResourceClaimTemplate) objects, 'b) gost \<Rightarrow> (ctl, 'b) gost" where
  "on_rcts m s = (case m (ct_RCTs s) of (r, c) \<Rightarrow> (r, s\<lparr>ct_RCTs := c\<rparr>))"

definition on_dss :: "((string, DaemonSet) objects, 'b) gost \<Rightarrow> (ctl, 'b) gost" where
  "on_dss m s = (case m (ct_DSs s) of (r, c) \<Rightarrow> (r, s\<lparr>ct_DSs := c\<rparr>))"

section \<open>ResourceClaimTemplates (resourceclaimtemplate.go)\<close>

definition rct_kind :: string where "rct_kind = ''ResourceClaimTemplate''"

definition rct_Delete :: "ctl_env \<Rightarrow> target \<Rightarrow> string \<Rightarrow> (ctl, unit) gost" where
  "rct_Delete en t uid = on_rcts (bind_st (lookup_child (en_rct en t) OpDelete t rct_kind uid) (\<lambda>d.
     case d of None \<Rightarrow> ret_st () | Some d \<Rightarrow> delete_child rct_sel (en_rct en t) rct_kind d))"

definition rct_RemoveFinalizer :: "ctl_env \<Rightarrow> target \<Rightarrow> string \<Rightarrow> (ctl, unit) gost" where
  "rct_RemoveFinalizer en t uid = on_rcts (RemoveFinalizer_child rct_sel (en_rct en t) t rct_kind uid)"

definition rct_AssertRemoved :: "ctl_env \<Rightarrow> target \<Rightarrow> string \<Rightarrow> (ctl, unit) gost" where
  "rct_AssertRemoved en t uid = on_rcts (AssertRemoved_child (en_rct en t) t rct_kind uid)"

definition rct_cleanup :: "ctl_env \<Rightarrow> target \<Rightarrow> string \<Rightarrow> (ctl, unit) gost" where
  "rct_cleanup en t uid =
     bind_st (wrap_st (Wrapf ''error deleting ResourceClaimTemplate'') (rct_Delete en t uid)) (\<lambda>_.
       wrap_st (Wrapf ''error removing ResourceClaimTemplate finalizer'') (rct_RemoveFinalizer en t uid))"

definition cd_DriverName :: string where "cd_DriverName = ''compute-domain.nvidia.com''"
definition computeDomainDefaultChannelDeviceClass :: string where
  "computeDomainDefaultChannelDeviceClass = ''compute-domain-default-channel.nvidia.com''"
definition computeDomainDaemonDeviceClass :: string where
  "computeDomainDaemonDeviceClass = ''compute-domain-daemon.nvidia.com''"

definition daemon_name :: "ComputeDomain \<Rightarrow> string" where
  "daemon_name cd = ''computedomain-daemon-'' @ co_UID cd"

definition daemon_template_data :: "string \<Rightarrow> ComputeDomain \<Rightarrow> ResourceClaimTemplateTemplateData" where
  "daemon_template_data ns cd = \<lparr>rct_Namespace = ns, rct_Name = daemon_name cd, rct_Finalizer = computeDomainFinalizer,
     rct_ComputeDomainLabelKey = computeDomainLabelKey, rct_ComputeDomainLabelValue = co_UID cd,
     rct_TargetLabelKey = TargetLabelKey, rct_TargetLabelValue = ''Daemon'',
     rct_DeviceClassName = computeDomainDaemonDeviceClass, rct_DriverName = cd_DriverName, rct_ChannelConfig = None,
     rct_DaemonConfig = Some (DefaultComputeDomainDaemonConfig\<lparr>dc_DomainID := co_UID cd\<rparr>)\<rparr>"

definition workload_template_data :: "ComputeDomainChannelSpec \<Rightarrow> ComputeDomain \<Rightarrow> ResourceClaimTemplateTemplateData" where
  "workload_template_data ch cd = \<lparr>rct_Namespace = co_Namespace cd, rct_Name = cs_TemplateName ch,
     rct_Finalizer = computeDomainFinalizer,
     rct_ComputeDomainLabelKey = computeDomainLabelKey, rct_ComputeDomainLabelValue = co_UID cd,
     rct_TargetLabelKey = TargetLabelKey, rct_TargetLabelValue = ''Workload'',
     rct_DeviceClassName = computeDomainDefaultChannelDeviceClass, rct_DriverName = cd_DriverName,
     rct_ChannelConfig = Some (DefaultComputeDomainChannelConfig\<lparr>chc_DomainID := co_UID cd, chc_AllocationMode := cs_AllocationMode ch\<rparr>),
     rct_DaemonConfig = None\<rparr>"

definition rct_Create :: "ctl_env \<Rightarrow> target \<Rightarrow> ResourceClaimTemplateTemplateData \<Rightarrow> string \<Rightarrow> (ctl, ResourceClaimTemplate) gost" where
  "rct_Create en t data uid = on_rcts (bind_st (lookup_child (en_rct en t) OpCreate t rct_kind uid) (\<lambda>d. case d of
     Some d \<Rightarrow> ret_st d
   | None \<Rightarrow> wrap_st (Wrapf ''error creating ResourceClaimTemplate from base'')
       (create_child rct_sel (en_rct en t) t rct_kind (render_ResourceClaimTemplate data))))"

definition DaemonSetResourceClaimTemplate_Create :: "ctl_env \<Rightarrow> string \<Rightarrow> ComputeDomain \<Rightarrow> (ctl, ResourceClaimTemplate) gost" where
  "DaemonSetResourceClaimTemplate_Create en ns cd = rct_Create en (Daemon ns) (daemon_template_data ns cd) (co_UID cd)"

definition WorkloadResourceClaimTemplate_Create ::
  "ctl_env \<Rightarrow> ComputeDomainChannelSpec \<Rightarrow> ComputeDomain \<Rightarrow> (ctl, ResourceClaimTemplate) gost" where
  "WorkloadResourceClaimTemplate_Create en ch cd = rct_Create en Workload (workload_template_data ch cd) (co_UID cd)"

section \<open>DaemonSets (daemonset.go)\<close>

definition ds_kind :: string where "ds_kind = ''DaemonSet''"

definition ds_template_data :: "ctl_config \<Rightarrow> string \<Rightarrow> ComputeDomain \<Rightarrow> ResourceClaimTemplate \<Rightarrow> DaemonSetTemplateData" where
  "ds_template_data cf ns cd rct = \<lparr>dst_Namespace = ns, dst_Name = daemon_name cd, dst_Finalizer = computeDomainFinalizer,
     dst_ComputeDomainLabelKey = computeDomainLabelKey, dst_ComputeDomainLabelValue = co_UID cd,
     dst_ResourceClaimTemplateName = om_Name rct, dst_ImageName = cf_imageName cf,
     dst_MaxNodesPerIMEXDomain = cf_maxNodesPerIMEXDomain cf, dst_FeatureGates = cf_featureGates cf,
     dst_LogVerbosity = cf_logVerbosityCDDaemon cf, dst_ImagePullSecretNames = cf_imagePullSecretNames cf\<rparr>"

definition ds_Create :: "ctl_env \<Rightarrow> ctl_config \<Rightarrow> string \<Rightarrow> ComputeDomain \<Rightarrow> (ctl, DaemonSet) gost" where
  "ds_Create en cf ns cd =
     bind_st (on_dss (lookup_child (en_ds en ns) OpCreate ns ds_kind (co_UID cd))) (\<lambda>d. case d of
       Some d \<Rightarrow> ret_st d
     | None \<Rightarrow>
         bind_st (wrap_st (Wrapf ''error creating ResourceClaimTemplate'') (DaemonSetResourceClaimTemplate_Create en ns cd)) (\<lambda>rct.
           on_dss (create_child ds_sel (en_ds en ns) ns ds_kind (render_DaemonSet (ds_template_data cf ns cd rct)))))"

definition ds_Get :: "ctl_env \<Rightarrow> string \<Rightarrow> string \<Rightarrow> (ctl, DaemonSet option) gost" where
  "ds_Get en ns uid = on_dss (lookup_child (en_ds en ns) OpGet ns ds_kind uid)"

definition ds_Delete :: "ctl_env \<Rightarrow> string \<Rightarrow> string \<Rightarrow> (ctl, unit) gost" where
  "ds_Delete en ns uid =
     bind_st (on_dss (lookup_child (en_ds en ns) OpDelete ns ds_kind uid)) (\<lambda>d. case d of
       None \<Rightarrow> ret_st ()
     | Some d \<Rightarrow>
         bind_st (wrap_st (Wrapf ''error deleting ResourceClaimTemplate'') (rct_Delete en (Daemon ns) uid)) (\<lambda>_.
           on_dss (delete_child ds_sel (en_ds en ns) ds_kind d)))"

definition ds_removeFinalizer :: "ctl_env \<Rightarrow> string \<Rightarrow> string \<Rightarrow> (ctl, unit) gost" where
  "ds_removeFinalizer en ns uid = on_dss (RemoveFinalizer_child ds_sel (en_ds en ns) ns ds_kind uid)"

definition ds_RemoveFinalizer :: "ctl_env \<Rightarrow> string \<Rightarrow> string \<Rightarrow> (ctl, unit) gost" where
  "ds_RemoveFinalizer en ns uid =
     bind_st (wrap_st (Wrapf ''error removing finalizer on ResourceClaimTemplate'') (rct_RemoveFinalizer en (Daemon ns) uid)) (\<lambda>_.
       wrap_st (Wrapf ''error removing finalizer on DaemonSet'') (ds_removeFinalizer en ns uid))"

definition ds_assertRemoved :: "ctl_env \<Rightarrow> string \<Rightarrow> string \<Rightarrow> (ctl, unit) gost" where
  "ds_assertRemoved en ns uid = on_dss (AssertRemoved_child (en_ds en ns) ns ds_kind uid)"

definition ds_AssertRemoved :: "ctl_env \<Rightarrow> string \<Rightarrow> string \<Rightarrow> (ctl, unit) gost" where
  "ds_AssertRemoved en ns uid =
     bind_st (wrap_st (Wrapf ''error asserting ResourceClaimTemplate removed'') (rct_AssertRemoved en (Daemon ns) uid)) (\<lambda>_.
       wrap_st (Wrapf ''error asserting DaemonSet removal'') (ds_assertRemoved en ns uid))"

definition ds_cleanup :: "ctl_env \<Rightarrow> string \<Rightarrow> string \<Rightarrow> (ctl, unit) gost" where
  "ds_cleanup en ns uid =
     bind_st (wrap_st (Wrapf ''error deleting DaemonSet'') (ds_Delete en ns uid)) (\<lambda>_.
       wrap_st (Wrapf ''error removing DaemonSet finalizer'') (ds_RemoveFinalizer en ns uid))"

section \<open>All namespaces (mnsdaemonset.go)\<close>

text \<open>The namespaces that have a manager; \<open>en_order\<close> is the order in which a loop visits them.\<close>

definition managed :: "ctl_config \<Rightarrow> string set" where
  "managed cf = insert (cf_driverNamespace cf) (set (cf_additionalNamespaces cf))"

fun each_manager :: "(goerr \<Rightarrow> goerr) \<Rightarrow> (string \<Rightarrow> (ctl, unit) gost) \<Rightarrow> string list \<Rightarrow> (ctl, unit) gost" where
  "each_manager f m [] = ret_st ()"
| "each_manager f m (ns # nss) = bind_st (wrap_st f (m ns)) (\<lambda>_. each_manager f m nss)"

fun find_DaemonSet :: "ctl_env \<Rightarrow> string \<Rightarrow> string list \<Rightarrow> (ctl, DaemonSet option) gost" where
  "find_DaemonSet en uid [] = ret_st None"
| "find_DaemonSet en uid (ns # nss) =
     bind_st (wrap_st (Wrapf ''failed to get DaemonSet in namespace'') (ds_Get en ns uid)) (\<lambda>d. case d of
       Some d \<Rightarrow> ret_st (Some d)
     | None \<Rightarrow> find_DaemonSet en uid nss)"

definition mns_Create :: "ctl_env \<Rightarrow> ctl_config \<Rightarrow> ComputeDomain \<Rightarrow> (ctl, DaemonSet) gost" where
  "mns_Create en cf cd =
     bind_st (find_DaemonSet en (co_UID cd) (en_order en OpGet)) (\<lambda>d. case d of
       Some d \<Rightarrow> ret_st d
     | None \<Rightarrow> ds_Create en cf (cf_driverNamespace cf) cd)"

definition mns_Delete :: "ctl_env \<Rightarrow> string \<Rightarrow> (ctl, unit) gost" where
  "mns_Delete en uid = each_manager (Wrapf ''failed to delete DaemonSet in namespace'') (\<lambda>ns. ds_Delete en ns uid) (en_order en OpDelete)"

definition mns_RemoveFinalizer :: "ctl_env \<Rightarrow> string \<Rightarrow> (ctl, unit) gost" where
  "mns_RemoveFinalizer en uid =
     each_manager (Wrapf ''failed to remove finalizer from DaemonSet in namespace'') (\<lambda>ns. ds_RemoveFinalizer en ns uid)
       (en_order en OpRemoveFinalizer)"

definition mns_AssertRemoved :: "ctl_env \<Rightarrow> string \<Rightarrow> (ctl, unit) gost" where
  "mns_AssertRemoved en uid =
     each_manager (Wrapf ''failed to assert DaemonSet removal in namespace'') (\<lambda>ns. ds_AssertRemoved en ns uid)
       (en_order en OpAssertRemoved)"

section \<open>Node labels (node.go)\<close>

definition node_Update :: "ctl_env \<Rightarrow> string \<Rightarrow> nat \<Rightarrow> (string, string) gomap \<Rightarrow> (ctl, unit) gost" where
  "node_Update en name rv labels s =
     (let ns = en_nodes en name (ct_Nodes s) in
      case en_nodefail en name of
        Some e \<Rightarrow> (Err e, s\<lparr>ct_Nodes := ns\<rparr>)
      | None \<Rightarrow> (case map_of ns name of
          None \<Rightarrow> (Err ApiNotFound, s\<lparr>ct_Nodes := ns\<rparr>)
        | Some (latest, _) \<Rightarrow>
            if rv \<noteq> latest then (Err Conflict, s\<lparr>ct_Nodes := ns\<rparr>)
            else (Ok (), s\<lparr>ct_Nodes := AList.update name (Suc rv, labels) ns\<rparr>)))"

fun remove_labels :: "ctl_env \<Rightarrow> (string, versioned_labels) gomap \<Rightarrow> (ctl, unit) gost" where
  "remove_labels en [] = ret_st ()"
| "remove_labels en ((name, rv, labels) # rest) =
     bind_st (wrap_st (Wrapf ''error updating node'') (node_Update en name rv (AList.delete computeDomainLabelKey labels))) (\<lambda>_.
       remove_labels en rest)"

definition labelled_nodes :: "string \<Rightarrow> (string, versioned_labels) gomap \<Rightarrow> (string, versioned_labels) gomap" where
  "labelled_nodes uid nodes = filter (\<lambda>(name, rv, labels). map_of labels computeDomainLabelKey = Some uid) nodes"

definition RemoveComputeDomainLabels :: "ctl_env \<Rightarrow> string \<Rightarrow> (ctl, unit) gost" where
  "RemoveComputeDomainLabels en uid =
     bind_st (wrap_st (Wrapf ''error retrieving nodes'') (\<lambda>s. (en_listNodes en (labelled_nodes uid (ct_Nodes s)), s))) (\<lambda>nodes.
       remove_labels en nodes)"

text \<open>At most one clean-up of labels is queued.\<close>

definition RemoveStaleComputeDomainLabelsAsync :: "(ctl, bool) gost" where
  "RemoveStaleComputeDomainLabelsAsync s =
     (if ct_cleanup_queued s then (Ok False, s) else (Ok True, s\<lparr>ct_cleanup_queued := True\<rparr>))"

definition cleanupLabels :: "ctl_env \<Rightarrow> string \<Rightarrow> (ctl, unit) gost" where
  "cleanupLabels en uid = wrap_st (Wrapf ''error removing ComputeDomain node labels'') (RemoveComputeDomainLabels en uid)"

section \<open>Compute domains (computedomain.go)\<close>

definition cd_Get :: "ctl_env \<Rightarrow> cdsite \<Rightarrow> string \<Rightarrow> versioned_cd option go" where
  "cd_Get en p uid = (case en_getCD en p uid of
     Err e \<Rightarrow> Err (Wrapf ''error retrieving ComputeDomain by UID'' e)
   | Panic e \<Rightarrow> Panic e
   | Ok [] \<Rightarrow> Ok None
   | Ok [cd] \<Rightarrow> Ok (Some cd)
   | Ok _ \<Rightarrow> Err (Errorf ''multiple ComputeDomains with the same UID''))"

text \<open>Updates of the object and of its status; the former does not change the status, nor the latter the
  rest. Removing the last finalizer of an object that is being deleted removes it.\<close>

definition cd_api_write ::
  "ctl_env \<Rightarrow> cdsite \<Rightarrow> versioned_cd \<Rightarrow> (ComputeDomain \<Rightarrow> ComputeDomain) \<Rightarrow> (ctl, unit) gost" where
  "cd_api_write en p cd new s =
     (let cds = en_cds en p (ct_CDs s); uid = co_UID (snd cd) in
      case en_cdfail en p of
        Some e \<Rightarrow> (Err e, s\<lparr>ct_CDs := cds\<rparr>)
      | None \<Rightarrow> (case map_of cds uid of
          None \<Rightarrow> (Err ApiNotFound, s\<lparr>ct_CDs := cds\<rparr>)
        | Some (latest, old) \<Rightarrow>
            if fst cd \<noteq> latest then (Err Conflict, s\<lparr>ct_CDs := cds\<rparr>)
            else (Ok (), s\<lparr>ct_CDs :=
              (if co_Deleting old \<and> co_Finalizers (new old) = [] then AList.delete uid cds
               else AList.update uid (Suc latest, new old) cds)\<rparr>)))"

definition cd_Update :: "ctl_env \<Rightarrow> cdsite \<Rightarrow> versioned_cd \<Rightarrow> (ctl, unit) gost" where
  "cd_Update en p cd = cd_api_write en p cd (\<lambda>old. (snd cd)\<lparr>co_Deleting := co_Deleting old, co_Nodes := co_Nodes old, co_Status := co_Status old\<rparr>)"

definition cd_UpdateStatus :: "ctl_env \<Rightarrow> versioned_cd \<Rightarrow> (ctl, unit) gost" where
  "cd_UpdateStatus en cd =
     (let c = UpdateStatus_object (snd cd)
      in cd_api_write en CdUpdateStatus cd (\<lambda>old. old\<lparr>co_Nodes := co_Nodes c, co_Status := co_Status c\<rparr>))"

definition cd_RemoveFinalizer :: "ctl_env \<Rightarrow> string \<Rightarrow> (ctl, unit) gost" where
  "cd_RemoveFinalizer en uid =
     bind_st (wrap_st (Wrapf ''error retrieving ComputeDomain'') (lift_st (cd_Get en CdGetForRemoval uid))) (\<lambda>r. case r of
       None \<Rightarrow> ret_st ()
     | Some (rv, cd) \<Rightarrow>
         if \<not> co_Deleting cd then err_st (Errorf ''attempting to remove finalizer before ComputeDomain marked for deletion'')
         else (let newCD = cd\<lparr>co_Finalizers := filter (\<lambda>f. f \<noteq> computeDomainFinalizer) (co_Finalizers cd)\<rparr>
               in if length (co_Finalizers cd) = length (co_Finalizers newCD) then ret_st ()
                  else wrap_st (Wrapf ''error updating ComputeDomain'') (cd_Update en CdRemoveFinalizer (rv, newCD))))"

definition cd_addFinalizer :: "ctl_env \<Rightarrow> versioned_cd \<Rightarrow> (ctl, unit) gost" where
  "cd_addFinalizer en cd =
     (if computeDomainFinalizer \<in> set (co_Finalizers (snd cd)) then ret_st ()
      else wrap_st (Wrapf ''error updating ComputeDomain'')
        (cd_Update en CdAddFinalizer (fst cd, (snd cd)\<lparr>co_Finalizers := co_Finalizers (snd cd) @ [computeDomainFinalizer]\<rparr>)))"

definition cd_updateGlobalStatus :: "ctl_env \<Rightarrow> versioned_cd \<Rightarrow> (ctl, unit) gost" where
  "cd_updateGlobalStatus en cd = (case updateGlobalStatus_object (snd cd) of
     None \<Rightarrow> ret_st ()
   | Some newCD \<Rightarrow> wrap_st (Wrapf ''error updating ComputeDomain status'') (cd_UpdateStatus en (fst cd, newCD)))"

text \<open>The deletion of a compute domain up to the removal of its own finalizer.\<close>

definition cd_teardown :: "ctl_env \<Rightarrow> string \<Rightarrow> (ctl, unit) gost" where
  "cd_teardown en uid =
     bind_st (wrap_st (Wrapf ''error deleting ResourceClaimTemplate'') (rct_Delete en Workload uid)) (\<lambda>_.
     bind_st (wrap_st (Wrapf ''error deleting DaemonSet'') (mns_Delete en uid)) (\<lambda>_.
     bind_st (wrap_st (Wrapf ''error removing ComputeDomain node labels'') (RemoveComputeDomainLabels en uid)) (\<lambda>_.
     bind_st (wrap_st (Wrapf ''error removing finalizer on ResourceClaimTemplate'') (rct_RemoveFinalizer en Workload uid)) (\<lambda>_.
     bind_st (wrap_st (Wrapf ''error asserting removal of ResourceClaimTemplate'') (rct_AssertRemoved en Workload uid)) (\<lambda>_.
     bind_st (wrap_st (Wrapf ''error removing finalizer on DaemonSet'') (mns_RemoveFinalizer en uid)) (\<lambda>_.
       wrap_st (Wrapf ''error asserting removal of DaemonSet'') (mns_AssertRemoved en uid)))))))"

definition cd_setup :: "ctl_env \<Rightarrow> ctl_config \<Rightarrow> versioned_cd \<Rightarrow> (ctl, unit) gost" where
  "cd_setup en cf cd =
     bind_st (wrap_st (Wrapf ''error adding finalizer'') (cd_addFinalizer en cd)) (\<lambda>_.
     bind_st RemoveStaleComputeDomainLabelsAsync (\<lambda>_.
     bind_st (wrap_st (Wrapf ''error creating DaemonSet'') (mns_Create en cf (snd cd))) (\<lambda>_.
     case co_Channel (snd cd) of
       None \<Rightarrow> lift_st (Panic ''nil pointer dereference'')
     | Some ch \<Rightarrow>
         bind_st (wrap_st (Wrapf ''error creating ResourceClaimTemplate'') (WorkloadResourceClaimTemplate_Create en ch (snd cd))) (\<lambda>_.
           wrap_st (Wrapf ''error updating global status on ComputeDomain'') (cd_updateGlobalStatus en cd)))))"

definition cd_onAddOrUpdate :: "ctl_env \<Rightarrow> ctl_config \<Rightarrow> string \<Rightarrow> (ctl, unit) gost" where
  "cd_onAddOrUpdate en cf uid =
     bind_st (wrap_st (Wrapf ''error getting ComputeDomain'') (lift_st (cd_Get en CdGet uid))) (\<lambda>r. case r of
       None \<Rightarrow> ret_st ()
     | Some (rv, cd) \<Rightarrow>
         if co_Deleting cd
         then bind_st (cd_teardown en (co_UID cd)) (\<lambda>_. wrap_st (Wrapf ''error removing finalizer'') (cd_RemoveFinalizer en (co_UID cd)))
         else cd_setup en cf (rv, cd))"

text \<open>The handler of DaemonSet events (\<open>daemonset.go\<close>) writes the status directly.\<close>

definition ds_onAddOrUpdate :: "ctl_env \<Rightarrow> DaemonSet \<Rightarrow> (ctl, unit) gost" where
  "ds_onAddOrUpdate en d =
     bind_st (wrap_st (Wrapf ''error getting ComputeDomain'') (lift_st (cd_Get en CdGet (label (om_Labels d) computeDomainLabelKey)))) (\<lambda>r. case r of
       None \<Rightarrow> ret_st ()
     | Some (rv, cd) \<Rightarrow>
         if ds_NumberReady d \<noteq> co_NumNodes cd then ret_st ()
         else wrap_st (Wrapf ''error updating nodes in ComputeDomain status'')
           (cd_api_write en CdUpdateStatus (rv, cd) (\<lambda>old. old\<lparr>co_Nodes := co_Nodes cd, co_Status := ComputeDomainStatusReady\<rparr>)))"

section \<open>Clean-up of stale objects (cleanup.go)\<close>

text \<open>One pass over the objects in the informer's store. Errors are logged, and the pass goes on. The
  environment of the lookups and the callback is indexed by the position in the store.\<close>

fun cleanup_pass ::
  "(nat \<Rightarrow> string \<Rightarrow> versioned_cd option go) \<Rightarrow> (nat \<Rightarrow> string \<Rightarrow> (ctl, unit) gost) \<Rightarrow> nat \<Rightarrow> 'a ObjectMeta_scheme list \<Rightarrow>
   (ctl, unit) gost" where
  "cleanup_pass getCD callback i [] = ret_st ()"
| "cleanup_pass getCD callback i (obj # objs) = (case cd_label obj of
     None \<Rightarrow> cleanup_pass getCD callback (Suc i) objs
   | Some uid \<Rightarrow> (case getCD i uid of
       Panic p \<Rightarrow> lift_st (Panic p)
     | Err e \<Rightarrow> cleanup_pass getCD callback (Suc i) objs
     | Ok (Some cd) \<Rightarrow> cleanup_pass getCD callback (Suc i) objs
     | Ok None \<Rightarrow> (\<lambda>s. case callback i uid s of
         (Panic p, s') \<Rightarrow> (Panic p, s')
       | (_, s') \<Rightarrow> cleanup_pass getCD callback (Suc i) objs s')))"

section \<open>Invariant and steps\<close>

definition holds_finalizer :: "string \<Rightarrow> (string, versioned_cd) gomap \<Rightarrow> bool" where
  "holds_finalizer uid cds \<longleftrightarrow> (\<exists>rv cd. map_of cds uid = Some (rv, cd) \<and> computeDomainFinalizer \<in> set (co_Finalizers cd))"

text \<open>Others change children as \<open>others\<close> allows, and leave this controller's finalizer on compute domains alone;
  a loop over the managers visits all of them; a lookup by UID returns objects with that UID.\<close>

definition ctl_env_ok :: "ctl_config \<Rightarrow> ctl_env \<Rightarrow> bool" where
  "ctl_env_ok cf en \<longleftrightarrow> (\<forall>t. env_ok rct_sel (en_rct en t)) \<and> (\<forall>ns. env_ok ds_sel (en_ds en ns)) \<and>
     (\<forall>p. set (en_order en p) = managed cf) \<and>
     (\<forall>p uid cds. en_getCD en p uid = Ok cds \<longrightarrow> (\<forall>cd \<in> set cds. co_UID (snd cd) = uid)) \<and>
     (\<forall>p cds uid. holds_finalizer uid cds \<longrightarrow> holds_finalizer uid (en_cds en p cds))"

definition all_coherent :: "ctl \<Rightarrow> bool" where
  "all_coherent s \<longleftrightarrow> (\<forall>t. coherent rct_sel t (ct_RCTs s)) \<and> (\<forall>ns. coherent ds_sel ns (ct_DSs s))"

text \<open>The managers that create children see all of them.\<close>

definition ctl_inv :: "ctl_config \<Rightarrow> ctl \<Rightarrow> bool" where
  "ctl_inv cf s \<longleftrightarrow> all_coherent s \<and> tracked rct_sel Workload (ct_RCTs s) \<and>
     tracked rct_sel (Daemon (cf_driverNamespace cf)) (ct_RCTs s) \<and> (\<forall>ns. tracked ds_sel ns (ct_DSs s))"

definition moves :: "ctl \<Rightarrow> ctl \<Rightarrow> bool" where
  "moves s s' \<longleftrightarrow> others rct_sel (ct_RCTs s) (ct_RCTs s') \<and> others ds_sel (ct_DSs s) (ct_DSs s')"

definition ctl_stays :: "(ctl, 'b) gost \<Rightarrow> bool" where
  "ctl_stays m \<longleftrightarrow> (\<forall>s. all_coherent s \<longrightarrow> moves s (snd (m s)))"

lemma selectors [simp]: "selector rct_sel" "selector ds_sel"
  by (auto simp: selector_def rct_sel_def ds_sel_def om_key_def cd_label_def)

lemma moves_refl [simp]: "moves s s"
  by (simp add: moves_def others.idle)

lemma moves_trans: "moves s s1 \<Longrightarrow> moves s1 s2 \<Longrightarrow> moves s s2"
  unfolding moves_def by (meson others_trans)

lemma moves_coherent: "moves s s' \<Longrightarrow> all_coherent s \<Longrightarrow> all_coherent s'"
  unfolding moves_def all_coherent_def
  using others_coherent [OF _ selectors(1)] others_coherent [OF _ selectors(2)] by blast

lemma moves_inv: "moves s s' \<Longrightarrow> ctl_inv cf s \<Longrightarrow> ctl_inv cf s'"
proof -
  assume m: "moves s s'" and i: "ctl_inv cf s"
  have r: "others rct_sel (ct_RCTs s) (ct_RCTs s')" and d: "others ds_sel (ct_DSs s) (ct_DSs s')"
    using m by (simp_all add: moves_def)
  have co: "coherent rct_sel t (ct_RCTs s)" "coherent ds_sel ns (ct_DSs s)" for t ns
    using i by (simp_all add: ctl_inv_def all_coherent_def)
  show ?thesis
    using i moves_coherent [OF m] others_tracked [OF r selectors(1) co(1)] others_tracked [OF d selectors(2) co(2)]
    by (simp add: ctl_inv_def)
qed

lemma ctl_stays_basic [simp]: "ctl_stays (ret_st a)" "ctl_stays (err_st e)" "ctl_stays (lift_st r)"
  by (simp_all add: ctl_stays_def)

lemma ctl_stays_wrap [simp]: "ctl_stays (wrap_st f m) = ctl_stays m"
  by (simp add: ctl_stays_def)

lemma ctl_stays_bind [intro]:
  assumes m: "ctl_stays m" and f: "\<And>a. ctl_stays (f a)"
  shows "ctl_stays (bind_st m f)"
  unfolding ctl_stays_def
proof (intro allI impI)
  fix s assume s: "all_coherent s"
  then have 1: "moves s (snd (m s))" using m by (simp add: ctl_stays_def)
  then have "moves (snd (m s)) (snd (f a (snd (m s))))" for a
    using f moves_coherent s by (simp add: ctl_stays_def)
  then show "moves s (snd (bind_st m f s))"
    using 1 moves_trans by (fastforce simp: bind_st_def split: prod.splits go.splits)
qed

lemma ctl_stays_option [intro]:
  "ctl_stays m \<Longrightarrow> (\<And>a. ctl_stays (f a)) \<Longrightarrow> ctl_stays (case x of None \<Rightarrow> m | Some a \<Rightarrow> f a)"
  by (cases x) auto

lemma ctl_stays_on_rcts: "stays rct_sel m \<Longrightarrow> ctl_stays (on_rcts m)"
  by (fastforce simp: ctl_stays_def stays_def on_rcts_def moves_def all_coherent_def others.idle split: prod.splits)

lemma ctl_stays_on_dss: "stays ds_sel m \<Longrightarrow> ctl_stays (on_dss m)"
  by (fastforce simp: ctl_stays_def stays_def on_dss_def moves_def all_coherent_def others.idle split: prod.splits)

text \<open>Changes of nodes and compute domains do not touch the children.\<close>

lemma ctl_stays_other_kinds:
  "(\<And>s. ct_RCTs (snd (m s)) = ct_RCTs s \<and> ct_DSs (snd (m s)) = ct_DSs s) \<Longrightarrow> ctl_stays m"
  by (simp add: ctl_stays_def moves_def others.idle)

lemma ctl_stays_each_manager: "(\<And>ns. ctl_stays (m ns)) \<Longrightarrow> ctl_stays (each_manager f m nss)"
  by (induction nss) auto

lemma ctl_stays_remove_labels: "ctl_stays (remove_labels en nodes)"
proof (induction en nodes rule: remove_labels.induct)
  case (2 en name rv labels rest)
  have "ctl_stays (node_Update en name rv l)" for l
    by (rule ctl_stays_other_kinds) (simp add: node_Update_def Let_def split: option.splits prod.splits)
  with 2 show ?case by auto
qed simp

lemma ctl_stays_RemoveComputeDomainLabels: "ctl_stays (RemoveComputeDomainLabels en uid)"
  unfolding RemoveComputeDomainLabels_def
  by (intro ctl_stays_bind) (auto intro: ctl_stays_other_kinds ctl_stays_remove_labels)

lemma ctl_env_okD:
  assumes "ctl_env_ok cf en"
  shows "env_ok rct_sel (en_rct en t)" and "env_ok ds_sel (en_ds en ns)" and "set (en_order en p) = managed cf"
  using assms by (simp_all add: ctl_env_ok_def)

lemma ctl_stays_ops:
  assumes en: "ctl_env_ok cf en"
  shows "ctl_stays (rct_Delete en t uid)" and "ctl_stays (rct_RemoveFinalizer en t uid)"
    and "ctl_stays (rct_AssertRemoved en t uid)" and "ctl_stays (ds_Delete en ns uid)"
    and "ctl_stays (ds_RemoveFinalizer en ns uid)" and "ctl_stays (ds_AssertRemoved en ns uid)"
proof -
  note r = ctl_env_okD(1) [OF en] and d = ctl_env_okD(2) [OF en]
  show 1: "ctl_stays (rct_Delete en t uid)" for t
    unfolding rct_Delete_def
    by (intro ctl_stays_on_rcts stays_bind stays_lookup_child selectors r) (auto intro: stays_delete_child r split: option.splits)
  show 2: "ctl_stays (rct_RemoveFinalizer en t uid)" for t
    unfolding rct_RemoveFinalizer_def by (intro ctl_stays_on_rcts stays_RemoveFinalizer_child selectors r)
  show 3: "ctl_stays (rct_AssertRemoved en t uid)" for t
    unfolding rct_AssertRemoved_def by (intro ctl_stays_on_rcts stays_AssertRemoved_child selectors r)
  have l: "ctl_stays (on_dss (lookup_child (en_ds en ns) OpDelete ns ds_kind uid))"
    by (intro ctl_stays_on_dss stays_lookup_child selectors d)
  have x: "ctl_stays (on_dss (delete_child ds_sel (en_ds en ns) ds_kind y))" for y
    by (intro ctl_stays_on_dss stays_delete_child selectors d)
  show "ctl_stays (ds_Delete en ns uid)"
    unfolding ds_Delete_def by (intro ctl_stays_bind ctl_stays_option) (simp_all add: l x 1)
  have "ctl_stays (ds_removeFinalizer en ns uid)"
    unfolding ds_removeFinalizer_def by (intro ctl_stays_on_dss stays_RemoveFinalizer_child selectors d)
  then show "ctl_stays (ds_RemoveFinalizer en ns uid)" unfolding ds_RemoveFinalizer_def using 2 by auto
  have "ctl_stays (ds_assertRemoved en ns uid)"
    unfolding ds_assertRemoved_def by (intro ctl_stays_on_dss stays_AssertRemoved_child selectors d)
  then show "ctl_stays (ds_AssertRemoved en ns uid)" unfolding ds_AssertRemoved_def using 3 by auto
qed

lemma ctl_stays_teardown: "ctl_env_ok cf en \<Longrightarrow> ctl_stays (cd_teardown en uid)"
  unfolding cd_teardown_def mns_Delete_def mns_RemoveFinalizer_def mns_AssertRemoved_def
  by (intro ctl_stays_bind) (simp_all add: ctl_stays_ops ctl_stays_RemoveComputeDomainLabels ctl_stays_each_manager)

text \<open>A loop over the managers visits each of them.\<close>

lemma each_manager_Ok:
  assumes "each_manager f m nss s = (Ok (), s')" and "\<And>ns. ctl_stays (m ns)" and "all_coherent s" and "ns \<in> set nss"
  shows "\<exists>s1 s2. moves s s1 \<and> m ns s1 = (Ok (), s2) \<and> moves s2 s'"
  using assms
proof (induction nss arbitrary: s)
  case (Cons n nss)
  from Cons.prems(1) obtain s1 where 1: "m n s = (Ok (), s1)" and 2: "each_manager f m nss s1 = (Ok (), s')"
    by (auto simp: bind_st_eq_Ok wrap_st_eq_Ok)
  have m1: "moves s s1" using Cons.prems(2,3) 1 by (metis ctl_stays_def snd_conv)
  then have c1: "all_coherent s1" using moves_coherent Cons.prems(3) by blast
  show ?case
  proof (cases "ns = n")
    case True
    have "ctl_stays (each_manager f m nss)" by (rule ctl_stays_each_manager [OF Cons.prems(2)])
    then have "moves s1 s'" using 2 c1 unfolding ctl_stays_def by (metis snd_conv)
    with 1 True show ?thesis by (intro exI [of _ s] exI [of _ s1]) simp
  next
    case False
    then have "ns \<in> set nss" using Cons.prems(4) by simp
    with Cons.IH [OF 2 Cons.prems(2) c1] obtain s2 s3 where
      "moves s1 s2" "m ns s2 = (Ok (), s3)" "moves s3 s'" by blast
    with m1 show ?thesis using moves_trans by blast
  qed
qed simp

definition shown_everywhere :: "ctl_config \<Rightarrow> string \<Rightarrow> ctl \<Rightarrow> bool" where
  "shown_everywhere cf uid s \<longleftrightarrow> shown rct_sel (Daemon (cf_driverNamespace cf)) uid (ct_RCTs s) \<and>
     (\<forall>ns \<in> managed cf. shown ds_sel ns uid (ct_DSs s))"

text \<open>No DaemonSet in a namespace of the driver and no template carries the label of the compute domain.\<close>

definition no_children :: "ctl_config \<Rightarrow> string \<Rightarrow> ctl \<Rightarrow> bool" where
  "no_children cf uid s \<longleftrightarrow> gone rct_sel Workload uid (ct_RCTs s) \<and>
     gone rct_sel (Daemon (cf_driverNamespace cf)) uid (ct_RCTs s) \<and> (\<forall>ns \<in> managed cf. gone ds_sel ns uid (ct_DSs s))"

lemma moves_shown:
  assumes "moves s s'" and "all_coherent s"
  shows "shown rct_sel t uid (ct_RCTs s) \<Longrightarrow> shown rct_sel t uid (ct_RCTs s')"
    and "shown ds_sel ns uid (ct_DSs s) \<Longrightarrow> shown ds_sel ns uid (ct_DSs s')"
    and "gone rct_sel t uid (ct_RCTs s) \<Longrightarrow> gone rct_sel t uid (ct_RCTs s')"
    and "gone ds_sel ns uid (ct_DSs s) \<Longrightarrow> gone ds_sel ns uid (ct_DSs s')"
proof -
  have r: "others rct_sel (ct_RCTs s) (ct_RCTs s')" and d: "others ds_sel (ct_DSs s) (ct_DSs s')"
    and cr: "\<And>t. coherent rct_sel t (ct_RCTs s)" and cd: "\<And>ns. coherent ds_sel ns (ct_DSs s)"
    using assms by (simp_all add: moves_def all_coherent_def)
  show "shown rct_sel t uid (ct_RCTs s) \<Longrightarrow> shown rct_sel t uid (ct_RCTs s')"
    and "gone rct_sel t uid (ct_RCTs s) \<Longrightarrow> gone rct_sel t uid (ct_RCTs s')"
    using others_shown [OF r selectors(1) cr] others_gone [OF r selectors(1) cr] by blast+
  show "shown ds_sel ns uid (ct_DSs s) \<Longrightarrow> shown ds_sel ns uid (ct_DSs s')"
    and "gone ds_sel ns uid (ct_DSs s) \<Longrightarrow> gone ds_sel ns uid (ct_DSs s')"
    using others_shown [OF d selectors(2) cd] others_gone [OF d selectors(2) cd] by blast+
qed

lemma ctl_staysD: "ctl_stays m \<Longrightarrow> all_coherent s \<Longrightarrow> m s = (r, s') \<Longrightarrow> moves s s'"
  unfolding ctl_stays_def by (metis snd_conv)

lemma ctl_inv_coherent: "ctl_inv cf s \<Longrightarrow> all_coherent s"
  by (simp add: ctl_inv_def)

text \<open>The managers' operations on one kind, seen in the state of the controller.\<close>

lemma rct_RemoveFinalizer_shown:
  assumes "ctl_env_ok cf en" and "ctl_inv cf s" and "t = Workload \<or> t = Daemon (cf_driverNamespace cf)"
    and "rct_RemoveFinalizer en t uid s = (Ok (), s')"
  shows "shown rct_sel t uid (ct_RCTs s')"
  using assms RemoveFinalizer_shown [OF selectors(1) ctl_env_okD(1) [OF assms(1)], of "ct_RCTs s" t]
  by (auto simp: rct_RemoveFinalizer_def on_rcts_def ctl_inv_def all_coherent_def split: prod.splits)

lemma ds_removeFinalizer_shown:
  assumes "ctl_env_ok cf en" and "ctl_inv cf s" and "ds_removeFinalizer en ns uid s = (Ok (), s')"
  shows "shown ds_sel ns uid (ct_DSs s')"
  using assms RemoveFinalizer_shown [OF selectors(2) ctl_env_okD(2) [OF assms(1)], of "ct_DSs s" ns]
  by (auto simp: ds_removeFinalizer_def on_dss_def ctl_inv_def all_coherent_def split: prod.splits)

lemma rct_AssertRemoved_gone:
  assumes "ctl_env_ok cf en" and "all_coherent s" and "shown rct_sel t uid (ct_RCTs s)"
    and "rct_AssertRemoved en t uid s = (Ok (), s')"
  shows "gone rct_sel t uid (ct_RCTs s')"
  using assms AssertRemoved_gone [OF selectors(1) ctl_env_okD(1) [OF assms(1)], of "ct_RCTs s" t]
  by (auto simp: rct_AssertRemoved_def on_rcts_def all_coherent_def split: prod.splits)

lemma ds_assertRemoved_gone:
  assumes "ctl_env_ok cf en" and "all_coherent s" and "shown ds_sel ns uid (ct_DSs s)"
    and "ds_assertRemoved en ns uid s = (Ok (), s')"
  shows "gone ds_sel ns uid (ct_DSs s')"
  using assms AssertRemoved_gone [OF selectors(2) ctl_env_okD(2) [OF assms(1)], of "ct_DSs s" ns]
  by (auto simp: ds_assertRemoved_def on_dss_def all_coherent_def split: prod.splits)

lemma ds_removeFinalizer_stays: "ctl_env_ok cf en \<Longrightarrow> ctl_stays (ds_removeFinalizer en ns uid)"
  unfolding ds_removeFinalizer_def by (intro ctl_stays_on_dss stays_RemoveFinalizer_child selectors ctl_env_okD(2))

lemma ds_assertRemoved_stays: "ctl_env_ok cf en \<Longrightarrow> ctl_stays (ds_assertRemoved en ns uid)"
  unfolding ds_assertRemoved_def by (intro ctl_stays_on_dss stays_AssertRemoved_child selectors ctl_env_okD(2))

lemma ds_RemoveFinalizer_shown:
  assumes en: "ctl_env_ok cf en" and s: "ctl_inv cf s" and ok: "ds_RemoveFinalizer en ns uid s = (Ok (), s')"
  shows "shown ds_sel ns uid (ct_DSs s')"
    and "ns = cf_driverNamespace cf \<Longrightarrow> shown rct_sel (Daemon ns) uid (ct_RCTs s')"
proof -
  from ok obtain s1 where 1: "rct_RemoveFinalizer en (Daemon ns) uid s = (Ok (), s1)"
    and 2: "ds_removeFinalizer en ns uid s1 = (Ok (), s')"
    by (auto simp: ds_RemoveFinalizer_def bind_st_eq_Ok wrap_st_eq_Ok)
  have m1: "moves s s1" using ctl_staysD [OF ctl_stays_ops(2) [OF en] ctl_inv_coherent [OF s] 1] .
  have s1: "ctl_inv cf s1" using moves_inv [OF m1 s] .
  show "shown ds_sel ns uid (ct_DSs s')" using ds_removeFinalizer_shown [OF en s1 2] .
  have m2: "moves s1 s'" using ctl_staysD [OF ds_removeFinalizer_stays [OF en] ctl_inv_coherent [OF s1] 2] .
  show "shown rct_sel (Daemon ns) uid (ct_RCTs s')" if "ns = cf_driverNamespace cf"
    using moves_shown(1) [OF m2 ctl_inv_coherent [OF s1]] rct_RemoveFinalizer_shown [OF en s _ 1] that by blast
qed

lemma ds_AssertRemoved_gone:
  assumes en: "ctl_env_ok cf en" and s: "all_coherent s" and ok: "ds_AssertRemoved en ns uid s = (Ok (), s')"
  shows "shown ds_sel ns uid (ct_DSs s) \<Longrightarrow> gone ds_sel ns uid (ct_DSs s')"
    and "shown rct_sel (Daemon ns) uid (ct_RCTs s) \<Longrightarrow> gone rct_sel (Daemon ns) uid (ct_RCTs s')"
proof -
  from ok obtain s1 where 1: "rct_AssertRemoved en (Daemon ns) uid s = (Ok (), s1)"
    and 2: "ds_assertRemoved en ns uid s1 = (Ok (), s')"
    by (auto simp: ds_AssertRemoved_def bind_st_eq_Ok wrap_st_eq_Ok)
  have m1: "moves s s1" using ctl_staysD [OF ctl_stays_ops(3) [OF en] s 1] .
  have s1: "all_coherent s1" using moves_coherent [OF m1 s] .
  have m2: "moves s1 s'" using ctl_staysD [OF ds_assertRemoved_stays [OF en] s1 2] .
  show "gone ds_sel ns uid (ct_DSs s')" if "shown ds_sel ns uid (ct_DSs s)"
    using ds_assertRemoved_gone [OF en s1 moves_shown(2) [OF m1 s that] 2] .
  show "gone rct_sel (Daemon ns) uid (ct_RCTs s')" if "shown rct_sel (Daemon ns) uid (ct_RCTs s)"
    using moves_shown(3) [OF m2 s1 rct_AssertRemoved_gone [OF en s that 1]] .
qed

lemma mns_stays:
  assumes "ctl_env_ok cf en"
  shows "ctl_stays (mns_Delete en uid)" and "ctl_stays (mns_RemoveFinalizer en uid)" and "ctl_stays (mns_AssertRemoved en uid)"
  unfolding mns_Delete_def mns_RemoveFinalizer_def mns_AssertRemoved_def
  by (simp_all add: ctl_stays_each_manager ctl_stays_ops [OF assms])

lemma mns_RemoveFinalizer_shown:
  assumes en: "ctl_env_ok cf en" and s: "ctl_inv cf s" and ok: "mns_RemoveFinalizer en uid s = (Ok (), s')" and ns: "ns \<in> managed cf"
  shows "shown ds_sel ns uid (ct_DSs s')" and "ns = cf_driverNamespace cf \<Longrightarrow> shown rct_sel (Daemon ns) uid (ct_RCTs s')"
proof -
  have "ns \<in> set (en_order en OpRemoveFinalizer)" using ctl_env_okD(3) [OF en] ns by simp
  from each_manager_Ok [OF ok [unfolded mns_RemoveFinalizer_def] ctl_stays_ops(5) [OF en] ctl_inv_coherent [OF s] this]
  obtain a b where a: "moves s a" "ds_RemoveFinalizer en ns uid a = (Ok (), b)" "moves b s'" by (elim exE conjE)
  have ia: "ctl_inv cf a" using moves_inv [OF a(1) s] .
  have cb: "all_coherent b"
    using moves_coherent [OF ctl_staysD [OF ctl_stays_ops(5) [OF en] ctl_inv_coherent [OF ia] a(2)] ctl_inv_coherent [OF ia]] .
  show "shown ds_sel ns uid (ct_DSs s')" using moves_shown(2) [OF a(3) cb ds_RemoveFinalizer_shown(1) [OF en ia a(2)]] .
  show "shown rct_sel (Daemon ns) uid (ct_RCTs s')" if "ns = cf_driverNamespace cf"
    using moves_shown(1) [OF a(3) cb ds_RemoveFinalizer_shown(2) [OF en ia a(2) that]] .
qed

lemma mns_AssertRemoved_gone:
  assumes en: "ctl_env_ok cf en" and s: "all_coherent s" and ok: "mns_AssertRemoved en uid s = (Ok (), s')" and ns: "ns \<in> managed cf"
  shows "shown ds_sel ns uid (ct_DSs s) \<Longrightarrow> gone ds_sel ns uid (ct_DSs s')"
    and "shown rct_sel (Daemon ns) uid (ct_RCTs s) \<Longrightarrow> gone rct_sel (Daemon ns) uid (ct_RCTs s')"
proof -
  have "ns \<in> set (en_order en OpAssertRemoved)" using ctl_env_okD(3) [OF en] ns by simp
  from each_manager_Ok [OF ok [unfolded mns_AssertRemoved_def] ctl_stays_ops(6) [OF en] s this]
  obtain a b where a: "moves s a" "ds_AssertRemoved en ns uid a = (Ok (), b)" "moves b s'" by (elim exE conjE)
  have ca: "all_coherent a" using moves_coherent [OF a(1) s] .
  have cb: "all_coherent b" using moves_coherent [OF ctl_staysD [OF ctl_stays_ops(6) [OF en] ca a(2)] ca] .
  show "gone ds_sel ns uid (ct_DSs s')" if "shown ds_sel ns uid (ct_DSs s)"
    using moves_shown(4) [OF a(3) cb ds_AssertRemoved_gone(1) [OF en ca a(2) moves_shown(2) [OF a(1) s that]]] .
  show "gone rct_sel (Daemon ns) uid (ct_RCTs s')" if "shown rct_sel (Daemon ns) uid (ct_RCTs s)"
    using moves_shown(3) [OF a(3) cb ds_AssertRemoved_gone(2) [OF en ca a(2) moves_shown(1) [OF a(1) s that]]] .
qed

lemma teardown_no_children:
  assumes en: "ctl_env_ok cf en" and s: "ctl_inv cf s" and ok: "cd_teardown en uid s = (Ok (), s')"
  shows "no_children cf uid s'"
proof -
  from ok obtain s1 s2 s3 s4 s5 s6 where
    1: "rct_Delete en Workload uid s = (Ok (), s1)" and 2: "mns_Delete en uid s1 = (Ok (), s2)" and
    3: "RemoveComputeDomainLabels en uid s2 = (Ok (), s3)" and 4: "rct_RemoveFinalizer en Workload uid s3 = (Ok (), s4)" and
    5: "rct_AssertRemoved en Workload uid s4 = (Ok (), s5)" and 6: "mns_RemoveFinalizer en uid s5 = (Ok (), s6)" and
    7: "mns_AssertRemoved en uid s6 = (Ok (), s')"
    by (auto simp: cd_teardown_def bind_st_eq_Ok wrap_st_eq_Ok)
  note stays = ctl_stays_ops [OF en] and mns = mns_stays [OF en]
  have i1: "ctl_inv cf s1" using moves_inv [OF ctl_staysD [OF stays(1) ctl_inv_coherent [OF s] 1] s] .
  have i2: "ctl_inv cf s2" using moves_inv [OF ctl_staysD [OF mns(1) ctl_inv_coherent [OF i1] 2] i1] .
  have i3: "ctl_inv cf s3" using moves_inv [OF ctl_staysD [OF ctl_stays_RemoveComputeDomainLabels ctl_inv_coherent [OF i2] 3] i2] .
  have i4: "ctl_inv cf s4" using moves_inv [OF ctl_staysD [OF stays(2) ctl_inv_coherent [OF i3] 4] i3] .
  have i5: "ctl_inv cf s5" using moves_inv [OF ctl_staysD [OF stays(3) ctl_inv_coherent [OF i4] 5] i4] .
  have m6: "moves s5 s6" using ctl_staysD [OF mns(2) ctl_inv_coherent [OF i5] 6] .
  have i6: "ctl_inv cf s6" using moves_inv [OF m6 i5] .
  have m7: "moves s6 s'" using ctl_staysD [OF mns(3) ctl_inv_coherent [OF i6] 7] .
  have "gone rct_sel Workload uid (ct_RCTs s5)"
    using rct_AssertRemoved_gone [OF en ctl_inv_coherent [OF i4] rct_RemoveFinalizer_shown [OF en i3 disjI1 [OF refl] 4] 5] .
  then have w: "gone rct_sel Workload uid (ct_RCTs s')"
    using moves_shown(3) [OF moves_trans [OF m6 m7] ctl_inv_coherent [OF i5]] by blast
  have d: "gone ds_sel ns uid (ct_DSs s')" if "ns \<in> managed cf" for ns
    using mns_AssertRemoved_gone(1) [OF en ctl_inv_coherent [OF i6] 7 that mns_RemoveFinalizer_shown(1) [OF en i5 6 that]] .
  have dr: "cf_driverNamespace cf \<in> managed cf" by (simp add: managed_def)
  have "gone rct_sel (Daemon (cf_driverNamespace cf)) uid (ct_RCTs s')"
    using mns_AssertRemoved_gone(2) [OF en ctl_inv_coherent [OF i6] 7 dr mns_RemoveFinalizer_shown(2) [OF en i5 6 dr refl]] .
  with w d show ?thesis by (simp add: no_children_def)
qed


section \<open>Finalizers\<close>

abbreviation finalizer_kept :: "string \<Rightarrow> (ctl, 'b) gost \<Rightarrow> bool" where
  "finalizer_kept uid \<equiv> keeps (\<lambda>s. holds_finalizer uid (ct_CDs s))"

lemma finalizer_kept_same: "(\<And>s. ct_CDs (snd (m s)) = ct_CDs s) \<Longrightarrow> finalizer_kept uid m"
  by (simp add: keeps_def)

lemma finalizer_kept_kinds: "finalizer_kept uid (on_rcts m)" "finalizer_kept uid (on_dss m')"
  by (rule finalizer_kept_same; simp add: on_rcts_def on_dss_def split: prod.splits)+

lemma keeps_option: "keeps P m \<Longrightarrow> (\<And>a. keeps P (f a)) \<Longrightarrow> keeps P (case x of None \<Rightarrow> m | Some a \<Rightarrow> f a)"
  by (cases x) auto

lemmas keeps_intros = keeps_bind keeps_wrap keeps_option keeps_ret keeps_err keeps_lift

lemma cd_Get_UID: "ctl_env_ok cf en \<Longrightarrow> cd_Get en p uid = Ok (Some (rv, cd)) \<Longrightarrow> co_UID cd = uid"
  by (fastforce simp: cd_Get_def ctl_env_ok_def split: go.splits list.splits)

lemma finalizer_kept_each: "(\<And>ns. finalizer_kept uid (m ns)) \<Longrightarrow> finalizer_kept uid (each_manager f m nss)"
  by (induction nss) (auto intro!: keeps_intros)

lemma finalizer_kept_remove_labels: "finalizer_kept uid (remove_labels en nodes)"
proof (induction en nodes rule: remove_labels.induct)
  case (2 en name rv labels rest)
  have "finalizer_kept uid (node_Update en name rv l)" for l
    by (rule finalizer_kept_same) (simp add: node_Update_def Let_def split: option.splits prod.splits)
  with 2 show ?case by (auto intro!: keeps_intros)
qed simp

lemma finalizer_kept_children:
  "finalizer_kept uid (rct_Delete en t u)" "finalizer_kept uid (rct_RemoveFinalizer en t u)"
  "finalizer_kept uid (rct_AssertRemoved en t u)" "finalizer_kept uid (ds_Delete en ns u)"
  "finalizer_kept uid (ds_RemoveFinalizer en ns u)" "finalizer_kept uid (ds_AssertRemoved en ns u)"
  "finalizer_kept uid (rct_Create en t data u)" "finalizer_kept uid (ds_Get en ns u)" "finalizer_kept uid (ds_Create en cf ns cd)"
  unfolding rct_Delete_def rct_RemoveFinalizer_def rct_AssertRemoved_def ds_Delete_def ds_RemoveFinalizer_def
    ds_AssertRemoved_def ds_removeFinalizer_def ds_assertRemoved_def rct_Create_def ds_Get_def ds_Create_def
    DaemonSetResourceClaimTemplate_Create_def
  by (intro keeps_intros finalizer_kept_kinds)+

lemma finalizer_kept_teardown: "finalizer_kept uid (cd_teardown en u)"
  unfolding cd_teardown_def mns_Delete_def mns_RemoveFinalizer_def mns_AssertRemoved_def RemoveComputeDomainLabels_def
  by (intro keeps_intros finalizer_kept_each finalizer_kept_children finalizer_kept_remove_labels) (rule finalizer_kept_same, simp)

lemma finalizer_kept_write:
  assumes en: "ctl_env_ok cf en"
    and new: "\<And>old. co_UID (snd cd) = uid \<Longrightarrow> computeDomainFinalizer \<in> set (co_Finalizers old) \<Longrightarrow> computeDomainFinalizer \<in> set (co_Finalizers (new old))"
  shows "finalizer_kept uid (cd_api_write en p cd new)"
proof (rule keepsI)
  fix s :: ctl assume "holds_finalizer uid (ct_CDs s)"
  then have h: "holds_finalizer uid (en_cds en p (ct_CDs s))" using en by (simp add: ctl_env_ok_def)
  then show "holds_finalizer uid (ct_CDs (snd (cd_api_write en p cd new s)))"
    using new by (auto simp: cd_api_write_def Let_def holds_finalizer_def map_simps split: option.splits prod.splits)
      (metis empty_iff empty_set)
qed

lemma finalizer_kept_setup:
  assumes en: "ctl_env_ok cf en" shows "finalizer_kept uid (cd_setup en cf cd)"
proof -
  have a: "finalizer_kept uid (cd_addFinalizer en cd)"
    by (auto simp: cd_addFinalizer_def cd_Update_def intro!: keeps_intros finalizer_kept_write [OF en])
  have b: "finalizer_kept uid (cd_updateGlobalStatus en cd)"
    by (auto simp: cd_updateGlobalStatus_def cd_UpdateStatus_def Let_def intro!: keeps_intros finalizer_kept_write [OF en] split: option.splits)
  have c: "finalizer_kept uid (find_DaemonSet en u nss)" for u nss
  proof (induction nss)
    case (Cons ns nss)
    then show ?case by (simp only: find_DaemonSet.simps) (intro keeps_intros finalizer_kept_children)
  qed simp
  have q: "finalizer_kept uid RemoveStaleComputeDomainLabelsAsync"
    by (rule finalizer_kept_same) (simp add: RemoveStaleComputeDomainLabelsAsync_def)
  show ?thesis unfolding cd_setup_def mns_Create_def WorkloadResourceClaimTemplate_Create_def
    by (intro keeps_intros finalizer_kept_children a b c q)
qed


lemma wrap_st_lift: "wrap_st f (lift_st r) = lift_st (wrap_go f r)"
  by (simp add: wrap_st_def lift_st_def)

text \<open>What the removal of the finalizer changes.\<close>

lemma cd_RemoveFinalizer_cases:
  obtains (same) "\<And>s. snd (cd_RemoveFinalizer en u s) = s"
    | (update) rv cd fs where "cd_Get en CdGetForRemoval u = Ok (Some (rv, cd))"
        "cd_RemoveFinalizer en u = wrap_st (Wrapf ''error updating ComputeDomain'') (cd_Update en CdRemoveFinalizer (rv, cd\<lparr>co_Finalizers := fs\<rparr>))"
proof (cases "cd_Get en CdGetForRemoval u")
  case (Ok r)
  show ?thesis
  proof (cases r)
    case None
    then show ?thesis using Ok same by (simp add: cd_RemoveFinalizer_def bind_st_def wrap_st_def lift_st_def)
  next
    case (Some v)
    obtain rv cd where v: "v = (rv, cd)" by fastforce
    have "cd_RemoveFinalizer en u = (if \<not> co_Deleting cd then err_st (Errorf ''attempting to remove finalizer before ComputeDomain marked for deletion'')
         else (let newCD = cd\<lparr>co_Finalizers := filter (\<lambda>f. f \<noteq> computeDomainFinalizer) (co_Finalizers cd)\<rparr>
               in if length (co_Finalizers cd) = length (co_Finalizers newCD) then ret_st ()
                  else wrap_st (Wrapf ''error updating ComputeDomain'') (cd_Update en CdRemoveFinalizer (rv, newCD))))"
      by (simp add: fun_eq_iff cd_RemoveFinalizer_def bind_st_def wrap_st_def lift_st_def Ok Some v)
    then show ?thesis
      using same update [of rv cd] Ok Some v by (auto simp: Let_def split: if_splits)
  qed
qed (auto intro: same simp: cd_RemoveFinalizer_def bind_st_def wrap_st_def lift_st_def)

lemma cd_RemoveFinalizer_children:
  "ct_RCTs (snd (cd_RemoveFinalizer en u s)) = ct_RCTs s \<and> ct_DSs (snd (cd_RemoveFinalizer en u s)) = ct_DSs s"
proof (cases rule: cd_RemoveFinalizer_cases [of en u])
  case (update rv cd fs)
  then show ?thesis by (simp add: cd_Update_def cd_api_write_def Let_def split: option.splits prod.splits)
qed simp

lemma finalizer_kept_other_cd:
  assumes en: "ctl_env_ok cf en" and "u \<noteq> uid" shows "finalizer_kept uid (cd_RemoveFinalizer en u)"
proof (cases rule: cd_RemoveFinalizer_cases [of en u])
  case same
  then show ?thesis by (simp add: keeps_def)
next
  case (update rv cd fs)
  have "co_UID cd \<noteq> uid" using cd_Get_UID [OF en update(1)] \<open>u \<noteq> uid\<close> by simp
  then show ?thesis unfolding update(2) cd_Update_def
    by (intro keeps_wrap finalizer_kept_write [OF en]) auto
qed

lemma cd_onAddOrUpdate_kept:
  assumes en: "ctl_env_ok cf en" and "\<not> finalizer_kept uid (cd_onAddOrUpdate en cf u)"
  obtains rv cd where "cd_Get en CdGet u = Ok (Some (rv, cd))" and "co_Deleting cd"
proof (cases "cd_Get en CdGet u")
  case (Ok r)
  show ?thesis
  proof (cases r)
    case None
    then show ?thesis using assms(2) Ok by (simp add: cd_onAddOrUpdate_def wrap_st_lift)
  next
    case (Some v)
    obtain rv cd where v: "v = (rv, cd)" by fastforce
    show ?thesis
    proof (cases "co_Deleting cd")
      case False
      then have "cd_onAddOrUpdate en cf u = cd_setup en cf (rv, cd)"
        using Ok Some v by (simp add: cd_onAddOrUpdate_def wrap_st_lift)
      then show ?thesis using assms(2) finalizer_kept_setup [OF en] by simp
    qed (use that Ok Some v in blast)
  qed
qed (use assms(2) in \<open>simp_all add: cd_onAddOrUpdate_def wrap_st_lift\<close>)

section \<open>Runs\<close>

text \<open>The invariant is kept by every handler.\<close>

lemma keeps_stays: "ctl_stays m \<Longrightarrow> keeps (ctl_inv cf) m"
  by (metis ctl_inv_coherent ctl_stays_def keepsI moves_inv)

lemma keeps_inv_kinds:
  assumes "\<And>c. (\<forall>t. coherent rct_sel t c) \<Longrightarrow> (\<forall>t. coherent rct_sel t (snd (m c))) \<and>
      (\<forall>t \<in> {Workload, Daemon (cf_driverNamespace cf)}. tracked rct_sel t c \<longrightarrow> tracked rct_sel t (snd (m c)))"
  shows "keeps (ctl_inv cf) (on_rcts m)"
proof (rule keepsI)
  fix s assume s: "ctl_inv cf s"
  have "ct_RCTs (snd (on_rcts m s)) = snd (m (ct_RCTs s))" "ct_DSs (snd (on_rcts m s)) = ct_DSs s"
    by (simp_all add: on_rcts_def split: prod.splits)
  with s assms [of "ct_RCTs s"] show "ctl_inv cf (snd (on_rcts m s))"
    by (simp add: ctl_inv_def all_coherent_def)
qed

lemma keeps_inv_dss:
  assumes "\<And>c. (\<forall>ns. coherent ds_sel ns c) \<Longrightarrow> (\<forall>ns. coherent ds_sel ns (snd (m c))) \<and>
      ((\<forall>ns. tracked ds_sel ns c) \<longrightarrow> (\<forall>ns. tracked ds_sel ns (snd (m c))))"
  shows "keeps (ctl_inv cf) (on_dss m)"
proof (rule keepsI)
  fix s assume s: "ctl_inv cf s"
  have "ct_DSs (snd (on_dss m s)) = snd (m (ct_DSs s))" "ct_RCTs (snd (on_dss m s)) = ct_RCTs s"
    by (simp_all add: on_dss_def split: prod.splits)
  with s assms [of "ct_DSs s"] show "ctl_inv cf (snd (on_dss m s))"
    by (simp add: ctl_inv_def all_coherent_def)
qed

lemma on_rcts_bind: "on_rcts (bind_st m f) = bind_st (on_rcts m) (\<lambda>a. on_rcts (f a))"
  by (rule ext) (auto simp: on_rcts_def bind_st_def split: prod.splits go.splits)

lemma on_rcts_simps: "on_rcts (ret_st a) = ret_st a" "on_rcts (wrap_st f m) = wrap_st f (on_rcts m)"
  by (rule ext, auto simp: on_rcts_def ret_st_def wrap_st_def split: prod.splits)+

lemma keeps_rct_Create:
  assumes en: "ctl_env_ok cf en" and t: "t = Workload \<or> t = Daemon (cf_driverNamespace cf)"
    and data: "rct_TargetLabelKey data = TargetLabelKey" "rct_TargetLabelValue data = target_label t"
      "rct_ComputeDomainLabelKey data = computeDomainLabelKey"
  shows "keeps (ctl_inv cf) (rct_Create en t data uid)"
proof -
  let ?obj = "render_ResourceClaimTemplate data"
  have lab: "map_of (om_Labels ?obj) TargetLabelKey = Some (target_label t)"
    by (simp add: render_ResourceClaimTemplate_def data TargetLabelKey_def computeDomainLabelKey_def)
  have watch: "t' = t \<or> \<not> rct_sel t' ?obj" if "t' \<in> {Workload, Daemon (cf_driverNamespace cf)}" for t'
    using that t lab by (auto simp: rct_sel_def target_label_def)
  have "keeps (ctl_inv cf) (on_rcts (create_child rct_sel (en_rct en t) t rct_kind ?obj))"
  proof (rule keeps_inv_kinds)
    fix c assume c: "\<forall>t. coherent rct_sel t c"
    note k = create_child_keeps [OF selectors(1) ctl_env_okD(1) [OF en], of c t t rct_kind ?obj]
    show "(\<forall>t'. coherent rct_sel t' (snd (create_child rct_sel (en_rct en t) t rct_kind ?obj c))) \<and>
      (\<forall>t' \<in> {Workload, Daemon (cf_driverNamespace cf)}. tracked rct_sel t' c \<longrightarrow>
         tracked rct_sel t' (snd (create_child rct_sel (en_rct en t) t rct_kind ?obj c)))"
      using k(1) [OF c [rule_format] surjective_pairing] k(2) [OF c [rule_format] surjective_pairing] watch by blast
  qed
  moreover have "keeps (ctl_inv cf) (on_rcts (lookup_child (en_rct en t) OpCreate t rct_kind uid))"
    by (intro keeps_stays ctl_stays_on_rcts stays_lookup_child selectors ctl_env_okD(1) [OF en])
  ultimately show ?thesis
    unfolding rct_Create_def on_rcts_bind
    by (auto intro!: keeps_intros simp: on_rcts_simps split: option.splits)
qed

lemma keeps_ds_create:
  assumes en: "ctl_env_ok cf en" and "om_Namespace obj = ns"
  shows "keeps (ctl_inv cf) (on_dss (create_child ds_sel (en_ds en ns) ns ds_kind obj))"
proof (rule keeps_inv_dss)
  fix c assume c: "\<forall>ns. coherent ds_sel ns c"
  have watch: "ns' = ns \<or> \<not> ds_sel ns' obj" for ns' using assms(2) by (auto simp: ds_sel_def)
  note k = create_child_keeps [OF selectors(2) ctl_env_okD(2) [OF en], of c ns ns ds_kind obj]
  show "(\<forall>ns'. coherent ds_sel ns' (snd (create_child ds_sel (en_ds en ns) ns ds_kind obj c))) \<and>
      ((\<forall>ns'. tracked ds_sel ns' c) \<longrightarrow> (\<forall>ns'. tracked ds_sel ns' (snd (create_child ds_sel (en_ds en ns) ns ds_kind obj c))))"
    using k(1) [OF c [rule_format] surjective_pairing] k(2) [OF c [rule_format] surjective_pairing] watch by blast
qed

lemma keeps_setup:
  assumes en: "ctl_env_ok cf en" shows "keeps (ctl_inv cf) (cd_setup en cf cd)"
proof -
  have wr: "ctl_stays (cd_api_write en p x new)" for p x new
    by (rule ctl_stays_other_kinds) (simp add: cd_api_write_def Let_def split: option.splits prod.splits)
  have a: "keeps (ctl_inv cf) (cd_addFinalizer en cd)"
    by (auto simp: cd_addFinalizer_def cd_Update_def intro!: keeps_intros keeps_stays wr)
  have b: "keeps (ctl_inv cf) (cd_updateGlobalStatus en cd)"
    by (auto simp: cd_updateGlobalStatus_def cd_UpdateStatus_def Let_def intro!: keeps_intros keeps_stays wr split: option.splits)
  have look: "keeps (ctl_inv cf) (on_dss (lookup_child (en_ds en ns) p ns ds_kind u))" for ns p u
    by (intro keeps_stays ctl_stays_on_dss stays_lookup_child selectors ctl_env_okD(2) [OF en])
  have c: "keeps (ctl_inv cf) (find_DaemonSet en u nss)" for u nss
  proof (induction nss)
    case (Cons ns nss)
    then show ?case by (simp only: find_DaemonSet.simps ds_Get_def) (intro keeps_intros look)
  qed simp
  have q: "keeps (ctl_inv cf) RemoveStaleComputeDomainLabelsAsync"
    by (intro keeps_stays ctl_stays_other_kinds) (simp add: RemoveStaleComputeDomainLabelsAsync_def)
  have w: "keeps (ctl_inv cf) (WorkloadResourceClaimTemplate_Create en ch (snd cd))" for ch
    unfolding WorkloadResourceClaimTemplate_Create_def
    by (rule keeps_rct_Create [OF en]) (simp_all add: workload_template_data_def target_label_def)
  have d: "keeps (ctl_inv cf) (DaemonSetResourceClaimTemplate_Create en (cf_driverNamespace cf) (snd cd))"
    unfolding DaemonSetResourceClaimTemplate_Create_def
    by (rule keeps_rct_Create [OF en]) (simp_all add: daemon_template_data_def target_label_def)
  have "keeps (ctl_inv cf) (ds_Create en cf (cf_driverNamespace cf) (snd cd))"
    unfolding ds_Create_def
    by (intro keeps_intros look d keeps_ds_create [OF en]) (simp add: render_DaemonSet_def ds_template_data_def)
  then show ?thesis unfolding cd_setup_def mns_Create_def by (intro keeps_intros a b c q w)
qed

lemma keeps_onAddOrUpdate:
  assumes en: "ctl_env_ok cf en" shows "keeps (ctl_inv cf) (cd_onAddOrUpdate en cf u)"
proof -
  have "keeps (ctl_inv cf) (cd_RemoveFinalizer en v)" for v
    using cd_RemoveFinalizer_children by (intro keeps_stays ctl_stays_other_kinds) blast
  then show ?thesis unfolding cd_onAddOrUpdate_def
    using keeps_setup [OF en] keeps_stays [OF ctl_stays_teardown [OF en]]
    by (auto intro!: keeps_intros split: option.splits)
qed

lemma keeps_cleanup_pass:
  assumes "\<And>i u. keeps P (callback i u)" shows "keeps P (cleanup_pass getCD callback i objs)"
proof (induction objs arbitrary: i)
  case (Cons obj objs)
  have "keeps P (\<lambda>s. case callback i u s of (Panic p, s') \<Rightarrow> (Panic p, s')
      | (_, s') \<Rightarrow> cleanup_pass getCD callback (Suc i) objs s')" for u
  proof (rule keepsI)
    fix s assume "P s"
    obtain r s1 where r: "callback i u s = (r, s1)" by fastforce
    have "P s1" using keepsD [OF assms \<open>P s\<close>, of i u] r by simp
    then have "P (snd (cleanup_pass getCD callback (Suc i) objs s1))" by (rule keepsD [OF Cons.IH])
    with \<open>P s1\<close> show "P (snd (case callback i u s of (Panic p, s') \<Rightarrow> (Panic p, s')
        | (_, s') \<Rightarrow> cleanup_pass getCD callback (Suc i) objs s'))"
      using r by (cases r) simp_all
  qed
  then show ?case using Cons.IH [of "Suc i"]
    by (cases "cd_label obj") (simp_all split: option.split go.split)
qed simp

text \<open>Runs of the controller: events of compute domains and DaemonSets, clean-up passes, and the steps of others
  in between, who may also change compute domains and nodes in any way.\<close>

inductive ctl_run :: "ctl_config \<Rightarrow> ctl \<Rightarrow> bool" for cf :: ctl_config where
  started: "synced rct_sel (ct_RCTs s) \<Longrightarrow> synced ds_sel (ct_DSs s) \<Longrightarrow> ctl_run cf s"
| cd_event: "ctl_run cf s \<Longrightarrow> ctl_env_ok cf en \<Longrightarrow> ctl_run cf (snd (cd_onAddOrUpdate en cf u s))"
| ds_event: "ctl_run cf s \<Longrightarrow> ctl_run cf (snd (ds_onAddOrUpdate en d s))"
| rct_cleanup: "ctl_run cf s \<Longrightarrow> (\<And>i. ctl_env_ok cf (ens i)) \<Longrightarrow>
    ctl_run cf (snd (cleanup_pass getCD (\<lambda>i. rct_cleanup (ens i) t) 0 (map snd (wt_store (ob_watch (ct_RCTs s) t))) s))"
| ds_cleanup: "ctl_run cf s \<Longrightarrow> (\<And>i. ctl_env_ok cf (ens i)) \<Longrightarrow>
    ctl_run cf (snd (cleanup_pass getCD (\<lambda>i. ds_cleanup (ens i) ns) 0 (map snd (wt_store (ob_watch (ct_DSs s) ns))) s))"
| others: "ctl_run cf s \<Longrightarrow> moves s s' \<Longrightarrow> ctl_run cf s'"

lemma ctl_run_inv: "ctl_run cf s \<Longrightarrow> ctl_inv cf s"
proof (induction rule: ctl_run.induct)
  case (started s)
  then show ?case by (auto simp: ctl_inv_def all_coherent_def synced_coherent)
next
  case (cd_event s en u)
  show ?case by (rule keepsD [OF keeps_onAddOrUpdate [OF cd_event.hyps(2)] cd_event.IH])
next
  case (ds_event s en d)
  have "ctl_stays (ds_onAddOrUpdate en d)"
    by (rule ctl_stays_other_kinds)
      (simp add: ds_onAddOrUpdate_def cd_api_write_def bind_st_def wrap_st_def lift_st_def ret_st_def Let_def
        split: go.splits option.splits prod.splits)
  then show ?case by (rule keepsD [where P = "ctl_inv cf", OF keeps_stays ds_event.IH])
next
  case (rct_cleanup s ens getCD t)
  have "keeps (ctl_inv cf) (Cd_Controller.rct_cleanup (ens i) t u)" for i u
    unfolding rct_cleanup_def by (intro keeps_intros keeps_stays ctl_stays_ops [OF rct_cleanup.hyps(2)])
  then show ?case by (rule keepsD [where P = "ctl_inv cf", OF keeps_cleanup_pass rct_cleanup.IH])
next
  case (ds_cleanup s ens getCD ns)
  have "keeps (ctl_inv cf) (Cd_Controller.ds_cleanup (ens i) ns u)" for i u
    unfolding ds_cleanup_def by (intro keeps_intros keeps_stays ctl_stays_ops [OF ds_cleanup.hyps(2)])
  then show ?case by (rule keepsD [where P = "ctl_inv cf", OF keeps_cleanup_pass ds_cleanup.IH])
next
  case (others s s')
  then show ?case using moves_inv by blast
qed


section \<open>The first reconciliation\<close>

definition quiet_env :: "ctl_env \<Rightarrow> bool" where
  "quiet_env en \<longleftrightarrow> (\<forall>t. quiet (en_rct en t)) \<and> (\<forall>ns. quiet (en_ds en ns)) \<and> (\<forall>p cds. en_cds en p cds = cds)"

definition no_cached_children :: "ctl_config \<Rightarrow> string \<Rightarrow> ctl \<Rightarrow> bool" where
  "no_cached_children cf uid s \<longleftrightarrow>
     (\<forall>t \<in> {Workload, Daemon (cf_driverNamespace cf)}. fst (mc_ByIndex uid (ob_watch (ct_RCTs s) t)) = []) \<and>
     (\<forall>ns \<in> managed cf. fst (mc_ByIndex uid (ob_watch (ct_DSs s) ns)) = [])"

lemma on_dss_none:
  assumes "quiet (en_ds en ns)" and "fst (mc_ByIndex uid (ob_watch (ct_DSs s) ns)) = []"
    and "on_dss (lookup_child (en_ds en ns) p ns ds_kind uid) s = (Ok d, s')"
  shows "d = None \<and> s' = s"
  using assms(3) lookup_child_none [OF assms(1,2), of p ds_kind d] by (auto simp: on_dss_def split: prod.splits)

lemma find_DaemonSet_none:
  assumes "\<And>ns. quiet (en_ds en ns)" and "\<And>ns. ns \<in> set nss \<Longrightarrow> fst (mc_ByIndex uid (ob_watch (ct_DSs s) ns)) = []"
    and "find_DaemonSet en uid nss s = (Ok d, s')"
  shows "d = None \<and> s' = s"
  using assms(2,3)
proof (induction nss)
  case (Cons ns nss)
  from Cons.prems(2) obtain r s1 where r: "on_dss (lookup_child (en_ds en ns) OpGet ns ds_kind uid) s = (Ok r, s1)"
    and rest: "(case r of Some d \<Rightarrow> ret_st (Some d) | None \<Rightarrow> find_DaemonSet en uid nss) s1 = (Ok d, s')"
    by (auto simp: bind_st_eq_Ok wrap_st_eq_Ok ds_Get_def)
  have "r = None \<and> s1 = s" using on_dss_none [OF assms(1) _ r] Cons.prems(1) by simp
  with rest Cons show ?case by simp
qed (simp add: ret_st_def)

lemma rct_Create_quiet:
  assumes q: "quiet (en_rct en t)" and none: "fst (mc_ByIndex uid (ob_watch (ct_RCTs s) t)) = []"
    and ok: "rct_Create en t data uid s = (Ok new, s')"
  shows "new = (render_ResourceClaimTemplate data)\<lparr>om_UID := ob_next (ct_RCTs s), om_ResourceVersion := ob_next (ct_RCTs s)\<rparr>"
    and "map_of (ob_objs (ct_RCTs s')) = (map_of (ob_objs (ct_RCTs s)))(Key (rct_Namespace data) (rct_Name data) \<mapsto> new)"
    and "map_of (ob_objs (ct_RCTs s)) (Key (rct_Namespace data) (rct_Name data)) = None"
    and "ct_DSs s' = ct_DSs s \<and> ct_CDs s' = ct_CDs s"
    and "t' \<noteq> t \<Longrightarrow> \<not> rct_sel t' (render_ResourceClaimTemplate data) \<Longrightarrow> ob_watch (ct_RCTs s') t' = ob_watch (ct_RCTs s) t'"
proof -
  let ?obj = "render_ResourceClaimTemplate data"
  obtain r c' where r: "bind_st (lookup_child (en_rct en t) OpCreate t rct_kind uid) (\<lambda>d. case d of
      Some d \<Rightarrow> ret_st d
    | None \<Rightarrow> wrap_st (Wrapf ''error creating ResourceClaimTemplate from base'')
       (create_child rct_sel (en_rct en t) t rct_kind ?obj)) (ct_RCTs s) = (r, c')" by fastforce
  with ok have s': "s' = s\<lparr>ct_RCTs := c'\<rparr>" and "r = Ok new" by (auto simp: rct_Create_def on_rcts_def)
  with r obtain d c1 where l: "lookup_child (en_rct en t) OpCreate t rct_kind uid (ct_RCTs s) = (Ok d, c1)"
    and c: "(case d of Some d \<Rightarrow> ret_st d | None \<Rightarrow> wrap_st (Wrapf ''error creating ResourceClaimTemplate from base'')
       (create_child rct_sel (en_rct en t) t rct_kind ?obj)) c1 = (Ok new, c')"
    by (auto simp: bind_st_eq_Ok)
  have "d = None \<and> c1 = ct_RCTs s" using lookup_child_none [OF q none l] .
  with c have cr: "create_child rct_sel (en_rct en t) t rct_kind ?obj (ct_RCTs s) = (Ok new, c')" by (simp add: wrap_st_eq_Ok)
  have key: "om_key ?obj = Key (rct_Namespace data) (rct_Name data)" "om_Deleting ?obj = False"
    by (simp_all add: om_key_def render_ResourceClaimTemplate_def)
  note cq = create_child_quiet [OF q cr]
  show "new = ?obj\<lparr>om_UID := ob_next (ct_RCTs s), om_ResourceVersion := ob_next (ct_RCTs s)\<rparr>"
    using cq(1) by (simp add: render_ResourceClaimTemplate_def)
  show "map_of (ob_objs (ct_RCTs s')) = (map_of (ob_objs (ct_RCTs s)))(Key (rct_Namespace data) (rct_Name data) \<mapsto> new)"
    "map_of (ob_objs (ct_RCTs s)) (Key (rct_Namespace data) (rct_Name data)) = None"
    "ct_DSs s' = ct_DSs s \<and> ct_CDs s' = ct_CDs s"
    using cq(2,3) key s' by simp_all
  show "t' \<noteq> t \<Longrightarrow> \<not> rct_sel t' ?obj \<Longrightarrow> ob_watch (ct_RCTs s') t' = ob_watch (ct_RCTs s) t'"
    using cq(4) s' by simp
qed

text \<open>A child as the controller creates it.\<close>

definition fresh_child :: "string \<Rightarrow> 'a ObjectMeta_scheme \<Rightarrow> bool" where
  "fresh_child uid obj \<longleftrightarrow> cd_label obj = Some uid \<and> om_Finalizers obj = [computeDomainFinalizer] \<and> \<not> om_Deleting obj"

lemma ds_Create_quiet:
  assumes q: "quiet_env en" and none: "no_cached_children cf (co_UID cd) s" and ns: "ns = cf_driverNamespace cf"
    and ok: "ds_Create en cf ns cd s = (Ok ds, s')"
  obtains rct where "map_of (ob_objs (ct_RCTs s')) = (map_of (ob_objs (ct_RCTs s)))(Key ns (daemon_name cd) \<mapsto> rct)"
    "map_of (ob_objs (ct_DSs s')) (Key ns (daemon_name cd)) = Some ds"
    "rct_Data rct = daemon_template_data ns cd" "ds_Data ds = ds_template_data cf ns cd rct"
    "fresh_child (co_UID cd) rct" "fresh_child (co_UID cd) ds" "ct_CDs s' = ct_CDs s"
    "ob_watch (ct_RCTs s') Workload = ob_watch (ct_RCTs s) Workload"
proof -
  have m: "ns \<in> managed cf" using ns by (simp add: managed_def)
  have qd: "quiet (en_ds en ns)" "quiet (en_rct en (Daemon ns))" using q by (simp_all add: quiet_env_def)
  from ok obtain d s1 where l: "on_dss (lookup_child (en_ds en ns) OpCreate ns ds_kind (co_UID cd)) s = (Ok d, s1)"
    and rest: "(case d of Some d \<Rightarrow> ret_st d | None \<Rightarrow>
         bind_st (wrap_st (Wrapf ''error creating ResourceClaimTemplate'') (DaemonSetResourceClaimTemplate_Create en ns cd)) (\<lambda>rct.
           on_dss (create_child ds_sel (en_ds en ns) ns ds_kind (render_DaemonSet (ds_template_data cf ns cd rct))))) s1 = (Ok ds, s')"
    by (auto simp: ds_Create_def bind_st_eq_Ok)
  have "d = None \<and> s1 = s" using on_dss_none [OF qd(1) _ l] none m by (auto simp: no_cached_children_def)
  with rest obtain rct s2 where c: "rct_Create en (Daemon ns) (daemon_template_data ns cd) (co_UID cd) s = (Ok rct, s2)"
    and e: "on_dss (create_child ds_sel (en_ds en ns) ns ds_kind (render_DaemonSet (ds_template_data cf ns cd rct))) s2 = (Ok ds, s')"
    by (auto simp: bind_st_eq_Ok wrap_st_eq_Ok DaemonSetResourceClaimTemplate_Create_def)
  have nr: "fst (mc_ByIndex (co_UID cd) (ob_watch (ct_RCTs s) (Daemon ns))) = []" using none ns by (simp add: no_cached_children_def)
  note cr = rct_Create_quiet [OF qd(2) nr c]
  from e obtain c' where e': "create_child ds_sel (en_ds en ns) ns ds_kind (render_DaemonSet (ds_template_data cf ns cd rct)) (ct_DSs s2) = (Ok ds, c')"
    and s': "s' = s2\<lparr>ct_DSs := c'\<rparr>" by (auto simp: on_dss_def split: prod.splits)
  note cd' = create_child_quiet [OF qd(1) e']
  have sel: "\<not> rct_sel Workload (render_ResourceClaimTemplate (daemon_template_data ns cd))"
    by (simp add: rct_sel_def render_ResourceClaimTemplate_def daemon_template_data_def target_label_def TargetLabelKey_def computeDomainLabelKey_def)
  show thesis
  proof (rule that)
    show "map_of (ob_objs (ct_RCTs s')) = (map_of (ob_objs (ct_RCTs s)))(Key ns (daemon_name cd) \<mapsto> rct)"
      using cr(2) s' by (simp add: daemon_template_data_def)
    show "map_of (ob_objs (ct_DSs s')) (Key ns (daemon_name cd)) = Some ds"
      using cd'(2) s' by (simp add: om_key_def render_DaemonSet_def ds_template_data_def)
    show "rct_Data rct = daemon_template_data ns cd" "ds_Data ds = ds_template_data cf ns cd rct"
      using cr(1) cd'(1) by (simp_all add: render_ResourceClaimTemplate_def render_DaemonSet_def)
    show "fresh_child (co_UID cd) rct" "fresh_child (co_UID cd) ds"
      using cr(1) cd'(1) by (simp_all add: fresh_child_def cd_label_def render_ResourceClaimTemplate_def render_DaemonSet_def
          daemon_template_data_def ds_template_data_def)
    show "ct_CDs s' = ct_CDs s" using cr(4) s' by simp
    show "ob_watch (ct_RCTs s') Workload = ob_watch (ct_RCTs s) Workload" using cr(5) [of Workload] sel s' by simp
  qed
qed

lemma addFinalizer_holds:
  assumes "quiet_env en" and "map_of (ct_CDs s) (co_UID cd) = Some (rv, cd)" and "\<not> co_Deleting cd"
    and "cd_addFinalizer en (rv, cd) s = (Ok (), s')"
  shows "holds_finalizer (co_UID cd) (ct_CDs s') \<and> ct_RCTs s' = ct_RCTs s \<and> ct_DSs s' = ct_DSs s"
  using assms
  by (auto simp: cd_addFinalizer_def cd_Update_def cd_api_write_def quiet_env_def holds_finalizer_def Let_def ret_st_def
      wrap_st_eq_Ok split: if_splits option.splits)


section \<open>Examples\<close>

definition example_cf :: ctl_config where
  "example_cf = \<lparr>cf_driverNamespace = ''drv'', cf_additionalNamespaces = [], cf_imageName = ''img'', cf_maxNodesPerIMEXDomain = 18,
     cf_featureGates = [], cf_logVerbosityCDDaemon = 4, cf_imagePullSecretNames = []\<rparr>"

definition example_domain :: "bool \<Rightarrow> string list \<Rightarrow> ComputeDomain" where
  "example_domain deleting fs = \<lparr>co_UID = ''u'', co_Name = ''cd'', co_Namespace = ''ns'', co_Deleting = deleting, co_Finalizers = fs,
     co_NumNodes = 0, co_Channel = Some \<lparr>cs_TemplateName = ''chan'', cs_AllocationMode = ''Single''\<rparr>, co_Nodes = [],
     co_Status = ComputeDomainStatusReady\<rparr>"

text \<open>Nobody acts, except that the informers catch up before the controller asks them.\<close>

definition example_ke :: "'w \<Rightarrow> ('w, 'o) kind_env" where
  "example_ke w = \<lparr>ke_env = (\<lambda>p c. if p = Read OpAssertRemoved then on_watch w deliver c else c), ke_fail = (\<lambda>_. None)\<rparr>"

definition still_ke :: "('w, 'o) kind_env" where
  "still_ke = \<lparr>ke_env = (\<lambda>_ c. c), ke_fail = (\<lambda>_. None)\<rparr>"

definition example_ctl_env :: "bool \<Rightarrow> ComputeDomain \<Rightarrow> ctl_env" where
  "example_ctl_env sync cd = \<lparr>en_rct = (if sync then example_ke else (\<lambda>_. still_ke)), en_ds = (if sync then example_ke else (\<lambda>_. still_ke)),
     en_order = (\<lambda>_. [''drv'']), en_getCD = (\<lambda>_ uid. Ok (if uid = co_UID cd then [(1, cd)] else [])),
     en_cds = (\<lambda>_ cds. cds), en_cdfail = (\<lambda>_. None), en_listNodes = Ok, en_nodes = (\<lambda>_ ns. ns), en_nodefail = (\<lambda>_. None)\<rparr>"

definition example_template :: ResourceClaimTemplate where
  "example_template = (render_ResourceClaimTemplate (workload_template_data \<lparr>cs_TemplateName = ''chan'', cs_AllocationMode = ''Single''\<rparr>
     (example_domain True [])))\<lparr>om_Deleting := True\<rparr>"

definition example_ctl :: "ResourceClaimTemplate list \<Rightarrow> ComputeDomain \<Rightarrow> ctl" where
  "example_ctl rcts cd = \<lparr>ct_RCTs = \<lparr>ob_next = 1, ob_objs = map (\<lambda>r. (om_key r, r)) rcts,
       ob_watch = (\<lambda>t. \<lparr>wt_store = (if t = Workload then map (\<lambda>r. (om_key r, r)) rcts else []), wt_events = [], wt_mutations = []\<rparr>)\<rparr>,
     ct_DSs = \<lparr>ob_next = 1, ob_objs = [], ob_watch = (\<lambda>_. \<lparr>wt_store = [], wt_events = [], wt_mutations = []\<rparr>)\<rparr>,
     ct_CDs = [(''u'', 1, cd)], ct_Nodes = [], ct_cleanup_queued = False\<rparr>"

lemma example_ke_ok: "env_ok sel (example_ke w)" "env_ok sel still_ke"
  using others.delivered [OF others.idle] others.idle by (auto simp: env_ok_def example_ke_def still_ke_def)

lemma example_ctl_env_ok: "ctl_env_ok example_cf (example_ctl_env sync cd)"
  by (simp add: ctl_env_ok_def example_ctl_env_def managed_def example_cf_def example_ke_ok)

lemma label_keys [simp]: "TargetLabelKey \<noteq> computeDomainLabelKey" "computeDomainLabelKey \<noteq> TargetLabelKey"
  by (simp_all add: TargetLabelKey_def computeDomainLabelKey_def)

lemmas example_defs = cd_onAddOrUpdate_def cd_Get_def cd_teardown_def cd_setup_def rct_Delete_def rct_RemoveFinalizer_def rct_AssertRemoved_def
  mns_Delete_def mns_RemoveFinalizer_def mns_AssertRemoved_def mns_Create_def ds_Delete_def ds_RemoveFinalizer_def ds_removeFinalizer_def
  ds_AssertRemoved_def ds_assertRemoved_def ds_Get_def ds_Create_def rct_Create_def DaemonSetResourceClaimTemplate_Create_def
  WorkloadResourceClaimTemplate_Create_def RemoveComputeDomainLabels_def labelled_nodes_def RemoveStaleComputeDomainLabelsAsync_def
  cd_RemoveFinalizer_def cd_addFinalizer_def cd_updateGlobalStatus_def updateGlobalStatus_object_def calculateGlobalStatus_def cd_Update_def cd_api_write_def
  on_rcts_def on_dss_def lookup_child_def getByComputeDomainUID_def at_site_def create_child_def delete_child_def
  remove_child_finalizer_def RemoveFinalizer_child_def AssertRemoved_child_def computeDomainFinalizer_def
  mc_ByIndex_def informer_ByIndex_def newerObject_def api_Create_def api_Update_def api_Delete_def Mutation_def on_watch_def put_def notify_def
  visible_def deliver_def om_key_def cd_label_def rct_sel_def ds_sel_def target_label_def
  bind_st_def wrap_st_def ret_st_def err_st_def lift_st_def Let_def
  example_ctl_env_def example_ke_def still_ke_def example_ctl_def example_domain_def example_template_def example_cf_def
  render_ResourceClaimTemplate_def render_DaemonSet_def workload_template_data_def daemon_template_data_def ds_template_data_def daemon_name_def

lemma example_runs:
  "ctl_run cf (example_ctl [example_template] cd)" "ctl_run cf (example_ctl [] cd)"
proof -
  have "rct_sel t example_template \<longleftrightarrow> t = Workload" for t
    by (cases t) (simp_all add: rct_sel_def example_template_def render_ResourceClaimTemplate_def workload_template_data_def
        cd_label_def target_label_def TargetLabelKey_def computeDomainLabelKey_def)
  then show "ctl_run cf (example_ctl [example_template] cd)"
    by (intro ctl_run.started) (auto simp: synced_def example_ctl_def visible_def example_template_def render_ResourceClaimTemplate_def)
  show "ctl_run cf (example_ctl [] cd)"
    by (intro ctl_run.started) (auto simp: synced_def example_ctl_def visible_def)
qed



text \<open>The state after the template of the first domain was removed and before its informer knows.\<close>

definition example_removed :: ctl where
  "example_removed = (example_ctl [] (example_domain True [computeDomainFinalizer]))\<lparr>ct_RCTs := \<lparr>ob_next = 2, ob_objs = [], ob_watch = (\<lambda>t.
     if t = Workload then \<lparr>wt_store = [(Key ''ns'' ''chan'', example_template)], wt_events = [(Key ''ns'' ''chan'', None)],
       wt_mutations = [(Key ''ns'' ''chan'', example_template\<lparr>om_Finalizers := []\<rparr>)]\<rparr>
     else \<lparr>wt_store = [], wt_events = [], wt_mutations = []\<rparr>)\<rparr>\<rparr>"

lemma example_removed:
  "snd (cd_onAddOrUpdate (example_ctl_env False (example_domain True [computeDomainFinalizer])) example_cf ''u''
     (example_ctl [example_template] (example_domain True [computeDomainFinalizer]))) = example_removed"
  by (simp add: example_defs example_removed_def fun_eq_iff split: target.split)

text \<open>A compute domain that is being deleted can take the template of another one with it: when two compute
  domains of one namespace name the same template, the informer still holds the removed template of the first
  and the second has already created its own, then handling the first again marks the template of
  the second for deletion. The cache is asked for objects with the first domain's label, but returns the
  newest version of the object it finds, whatever its label.\<close>

theorem deletion_hits_other_domain:
  "\<exists>s s' t t'. ctl_run example_cf s \<and> snd (cd_onAddOrUpdate (example_ctl_env False (example_domain True [computeDomainFinalizer])) example_cf ''u'' s) = s' \<and>
     map_of (ob_objs (ct_RCTs s)) (Key ''ns'' ''chan'') = Some t \<and> cd_label t = Some ''v'' \<and> \<not> om_Deleting t \<and>
     map_of (ob_objs (ct_RCTs s')) (Key ''ns'' ''chan'') = Some t' \<and> cd_label t' = Some ''v'' \<and> om_Deleting t'"
proof -
  let ?A = "example_domain True [computeDomainFinalizer]" and ?B = "(example_domain False [computeDomainFinalizer])\<lparr>co_UID := ''v''\<rparr>"
  let ?s0 = "example_ctl [example_template] ?A"
  define s2 where "s2 = snd (cd_onAddOrUpdate (example_ctl_env False ?B) example_cf ''v'' example_removed)"
  have run: "ctl_run example_cf s2"
    unfolding s2_def example_removed [symmetric] by (intro ctl_run.cd_event example_ctl_env_ok example_runs)
  let ?T = "(render_ResourceClaimTemplate (workload_template_data \<lparr>cs_TemplateName = ''chan'', cs_AllocationMode = ''Single''\<rparr> ?B))
    \<lparr>om_UID := 3, om_ResourceVersion := 3\<rparr>"
  let ?D = "(render_DaemonSet (ds_template_data example_cf ''drv'' ?B (render_ResourceClaimTemplate (daemon_template_data ''drv'' ?B))))
    \<lparr>om_UID := 1, om_ResourceVersion := 1\<rparr>"
  have s2: "map_of (ob_objs (ct_RCTs s2)) (Key ''ns'' ''chan'') = Some ?T"
    "wt_store (ob_watch (ct_RCTs s2) Workload) = [(Key ''ns'' ''chan'', example_template)]"
    "wt_mutations (ob_watch (ct_RCTs s2) Workload) = [(Key ''ns'' ''chan'', ?T)]" "ct_Nodes s2 = []"
    "wt_store (ob_watch (ct_DSs s2) ''drv'') = []" "wt_mutations (ob_watch (ct_DSs s2) ''drv'') = [(Key ''drv'' ''computedomain-daemon-v'', ?D)]"
    unfolding s2_def by (simp_all add: example_defs example_removed_def)
  define s3 where "s3 = snd (cd_onAddOrUpdate (example_ctl_env False ?A) example_cf ''u'' s2)"
  have s3: "\<exists>t'. map_of (ob_objs (ct_RCTs s3)) (Key ''ns'' ''chan'') = Some t' \<and> cd_label t' = Some ''v'' \<and> om_Deleting t'"
    unfolding s3_def by (simp add: example_defs s2)
  have "cd_label ?T = Some ''v'' \<and> \<not> om_Deleting ?T"
    by (simp add: cd_label_def render_ResourceClaimTemplate_def workload_template_data_def)
  with run s2(1) s3 s3_def show ?thesis by blast
qed

end
