(* ===== verification/Nvcaps.thy ===== *)
theory Nvcaps
  imports Cdi_Spec
begin

text \<open>
  NVIDIA capability files (\<open>internal/common/nvcaps.go\<close>): the device nodes that give access to IMEX channels, the
  IMEX management capability and MIG devices.

  The contents of \<open>/proc/devices\<close> and of a capability file are arguments. \<open>GetDeviceMajor\<close> searches with a regular
  expression; \<open>find_major\<close> is the search that expression describes: the first run of digits after
  \<open>Character devices:\<close> that a blank, the name and a newline follow, with \<open>Block devices:\<close> somewhere later.
\<close>

section \<open>Data\<close>

record NVcapDeviceInfo =
  nv_Major :: int
  nv_Minor :: int
  nv_Mode :: int
  nv_Modify :: int
  nv_Path :: string

text \<open>\<open>os.FileMode\<close> has 32 bits, \<open>int\<close> has 64.\<close>

definition CDICharDevNode :: "NVcapDeviceInfo \<Rightarrow> DeviceNode" where
  "CDICharDevNode i = \<lparr>dn_Path = nv_Path i, dn_Type = ''c'', dn_FileMode = Some (nv_Mode i mod 2 ^ 32),
     dn_Major = nv_Major i, dn_Minor = nv_Minor i\<rparr>"

section \<open>Device numbers (\<open>/proc/devices\<close>)\<close>

definition newline :: char where "newline = CHR 0x0A"

fun after_first :: "string \<Rightarrow> string \<Rightarrow> string option" where
  "after_first pat [] = (if pat = [] then Some [] else None)"
| "after_first pat (c # cs) = (if prefix pat (c # cs) then Some (drop (length pat) (c # cs)) else after_first pat cs)"

fun find_major :: "string \<Rightarrow> string \<Rightarrow> string option" where
  "find_major name [] = None"
| "find_major name (c # cs) =
     (let digits = takeWhile is_digit (c # cs);
          rest = dropWhile is_digit (c # cs);
          entry = CHR '' '' # name @ [newline]
      in if digits \<noteq> [] \<and> prefix entry rest \<and> strings_Contains (drop (length entry) rest) ''Block devices:''
         then Some digits else find_major name cs)"

text \<open>\<open>strconv.ParseInt(s, 10, 32)\<close> on digits.\<close>

definition parse_int32 :: "string \<Rightarrow> int go" where
  "parse_int32 digits = (if read_nat 0 digits < 2 ^ 31 then Ok (int (read_nat 0 digits)) else Err (Errorf ''value out of range''))"

definition GetDeviceMajor :: "string go \<Rightarrow> string \<Rightarrow> int go" where
  "GetDeviceMajor procDevices name =
     bind_go (wrap_go (Wrapf ''error reading /proc/devices'') procDevices) (\<lambda>data.
       case after_first ''Character devices:'' data of
         None \<Rightarrow> Err (Errorf ''error parsing: unexpected regex match'')
       | Some rest \<Rightarrow>
           (case find_major name rest of
              None \<Rightarrow> Err (Errorf ''error parsing: unexpected regex match'')
            | Some digits \<Rightarrow> wrap_go (Wrapf ''int conversion failed'') (parse_int32 digits)))"

section \<open>Capability files\<close>

definition nvidiaCapsDeviceName :: string where "nvidiaCapsDeviceName = ''nvidia-caps''"
definition devNvidiaCapsPath :: string where "devNvidiaCapsPath = ''/dev/nvidia-caps''"

text \<open>\<open>fmt.Sscanf(value, "%d", &x)\<close>: an optional sign and digits; on an error \<open>x\<close> keeps its value.\<close>

definition sscanf_d :: "string \<Rightarrow> int \<Rightarrow> int" where
  "sscanf_d value x =
     (let v = dropWhile is_space value;
          neg = (case v of c # _ \<Rightarrow> c = CHR ''-'' | [] \<Rightarrow> False);
          body = (case v of c # cs \<Rightarrow> if c = CHR ''-'' \<or> c = CHR ''+'' then cs else v | [] \<Rightarrow> []);
          digits = takeWhile is_digit body;
          i = (if neg then - int (read_nat 0 digits) else int (read_nat 0 digits))
      in if digits \<noteq> [] \<and> in_int64 i then i else x)"

text \<open>One line \<open>key: value\<close> of the file.\<close>

definition parse_line :: "string \<Rightarrow> NVcapDeviceInfo \<Rightarrow> NVcapDeviceInfo" where
  "parse_line line info =
     (if CHR '':'' \<notin> set line then info
      else let key = strings_TrimSpace (takeWhile (\<lambda>c. c \<noteq> CHR '':'') line);
               value = strings_TrimSpace (tl (dropWhile (\<lambda>c. c \<noteq> CHR '':'') line))
           in if key = ''DeviceFileMinor'' then info\<lparr>nv_Minor := sscanf_d value (nv_Minor info)\<rparr>
              else if key = ''DeviceFileMode'' then info\<lparr>nv_Mode := sscanf_d value (nv_Mode info)\<rparr>
              else if key = ''DeviceFileModify'' then info\<lparr>nv_Modify := sscanf_d value (nv_Modify info)\<rparr>
              else info)"

text \<open>\<open>bufio.Scanner\<close> by lines: it stops with an error at a line that does not fit its buffer.\<close>

definition MaxScanTokenSize :: nat where "MaxScanTokenSize = 65536"

fun scan_lines :: "string list \<Rightarrow> NVcapDeviceInfo \<Rightarrow> NVcapDeviceInfo \<times> goerr option" where
  "scan_lines [] info = (info, None)"
| "scan_lines (l # ls) info =
     (if length l \<ge> MaxScanTokenSize then (info, Some (Errorf ''bufio.Scanner: token too long''))
      else scan_lines ls (parse_line l info))"

definition ParseNVCapDeviceInfo :: "string go \<Rightarrow> string go \<Rightarrow> NVcapDeviceInfo go" where
  "ParseNVCapDeviceInfo capsFile procDevices =
     bind_go capsFile (\<lambda>text.
     bind_go (wrap_go (Wrapf ''error getting device major'') (GetDeviceMajor procDevices nvidiaCapsDeviceName)) (\<lambda>major.
       case scan_lines (strings_Split newline text)
           \<lparr>nv_Major = major, nv_Minor = 0, nv_Mode = 0, nv_Modify = 0, nv_Path = ''''\<rparr> of
         (info, Some e) \<Rightarrow> Err e
       | (info, None) \<Rightarrow> Ok (info\<lparr>nv_Path := devNvidiaCapsPath @ ''/nvidia-cap'' @ show_int (nv_Minor info)\<rparr>)))"

section \<open>Lemmas\<close>

text \<open>\<open>find_major\<close> stops at the first position that has the entry.\<close>

definition entry_at :: "string \<Rightarrow> string \<Rightarrow> bool" where
  "entry_at name s \<longleftrightarrow> takeWhile is_digit s \<noteq> [] \<and>
     (\<exists>t. dropWhile is_digit s = CHR '' '' # name @ newline # t \<and> strings_Contains t ''Block devices:'')"

lemma find_major_Cons:
  "find_major name (c # cs) = (if entry_at name (c # cs) then Some (takeWhile is_digit (c # cs)) else find_major name cs)"
proof -
  have "prefix (CHR '' '' # name @ [newline]) rest \<and> strings_Contains (drop (length (CHR '' '' # name @ [newline])) rest) b \<longleftrightarrow>
      (\<exists>t. rest = CHR '' '' # name @ newline # t \<and> strings_Contains t b)" for rest b
    by (auto simp: prefix_def)
  then show ?thesis unfolding find_major.simps Let_def entry_at_def by presburger
qed

declare find_major.simps(2) [simp del]

lemma find_major_skip:
  "(\<And>ys zs. xs = ys @ zs \<Longrightarrow> zs \<noteq> [] \<Longrightarrow> \<not> entry_at name (zs @ rest)) \<Longrightarrow> find_major name (xs @ rest) = find_major name rest"
proof (induction xs)
  case (Cons x xs)
  from Cons.prems [of "[]" "x # xs"] have "\<not> entry_at name (x # xs @ rest)" by simp
  moreover have "\<not> entry_at name (zs @ rest)" if "xs = ys @ zs" "zs \<noteq> []" for ys zs
    using Cons.prems [of "x # ys" zs] that by simp
  ultimately show ?case using Cons.IH by (simp add: find_major_Cons)
qed simp

lemma entry_at_digit: "entry_at name (c # cs) \<Longrightarrow> is_digit c"
  by (auto simp: entry_at_def split: if_splits)

lemma newline_not_digit [simp]: "\<not> is_digit newline"
  by (simp add: is_digit_def newline_def)

lemma entry_atD:
  assumes "entry_at name s"
  obtains ds t where "s = ds @ CHR '' '' # name @ newline # t" and "newline \<notin> set ds"
proof -
  have "newline \<notin> set (takeWhile is_digit s)" using set_takeWhileD newline_not_digit by metis
  then show thesis
    using assms takeWhile_dropWhile_id [of is_digit s] that unfolding entry_at_def by metis
qed

lemma find_major_None: "\<not> strings_Contains s ''Block devices:'' \<Longrightarrow> find_major name s = None"
proof (induction s)
  case (Cons c cs)
  have "\<not> entry_at name (c # cs)"
  proof
    assume "entry_at name (c # cs)"
    then obtain t where "dropWhile is_digit (c # cs) = CHR '' '' # name @ newline # t" "strings_Contains t ''Block devices:''"
      unfolding entry_at_def by blast
    then have "strings_Contains (c # cs) ''Block devices:''"
      using takeWhile_dropWhile_id [of is_digit "c # cs"] unfolding strings_Contains_def sublist_def
      by (metis append.assoc append_Cons)
    with Cons.prems show False by simp
  qed
  moreover have "\<not> strings_Contains cs ''Block devices:''"
    using Cons.prems unfolding strings_Contains_def by (meson sublist_Cons_right)
  ultimately show ?case using Cons.IH by (simp add: find_major_Cons)
qed simp

text \<open>A line of \<open>/proc/devices\<close>, printed by the kernel with \<open>%3d %s\<close>.\<close>

definition device_line :: "nat \<times> string \<Rightarrow> string" where
  "device_line e = (case e of (major, name) \<Rightarrow>
     replicate (3 - length (show_nat major)) CHR '' '' @ show_nat major @ CHR '' '' # name @ [newline])"

definition proc_devices :: "(nat \<times> string) list \<Rightarrow> string \<Rightarrow> string" where
  "proc_devices chars blocks =
     ''Character devices:'' @ [newline] @ concat (map device_line chars) @ [newline] @ ''Block devices:'' @ [newline] @ blocks"

definition plain_name :: "string \<Rightarrow> bool" where
  "plain_name n \<longleftrightarrow> CHR '' '' \<notin> set n \<and> newline \<notin> set n"

lemma newline_simps [simp]: "newline \<noteq> CHR '' ''" "CHR '' '' \<noteq> newline" "\<not> is_digit CHR '' ''"
  by (simp_all add: is_digit_def newline_def)

lemma newline_not_show_nat [simp]: "newline \<notin> set (show_nat m)"
  using show_nat_digits [of m] newline_not_digit by (metis list_all_iff)

lemma takeWhile_until: "c \<notin> set xs \<Longrightarrow> takeWhile (\<lambda>x. x \<noteq> c) (xs @ c # ys) = xs"
  by (induction xs) auto

lemma other_line_no_entry:
  assumes "plain_name n" and "plain_name name" and "n \<noteq> name"
    and "device_line (m, n) = ys @ zs" and "zs \<noteq> []"
  shows "\<not> entry_at name (zs @ rest)"
proof
  assume "entry_at name (zs @ rest)"
  then obtain ds t where eq: "zs @ rest = ds @ CHR '' '' # name @ newline # t" and ds: "newline \<notin> set ds" by (rule entry_atD)
  let ?head = "replicate (3 - length (show_nat m)) CHR '' '' @ show_nat m"
  have line: "(?head @ CHR '' '' # n) @ [newline] = ys @ zs" using assms(4) by (simp add: device_line_def)
  then obtain zs0 where zs: "zs = zs0 @ [newline]" "?head @ CHR '' '' # n = ys @ zs0"
    using assms(5) by (metis append_butlast_last_id append.assoc butlast_append butlast_snoc last_appendR last_snoc)
  have "newline \<notin> set (ys @ zs0)"
    unfolding zs(2) [symmetric] using assms(1) by (auto simp: plain_name_def)
  then have z0: "newline \<notin> set zs0" by simp
  have "zs0 @ newline # rest = ds @ (CHR '' '' # name) @ newline # t" using eq zs(1) by simp
  moreover have "newline \<notin> set (ds @ CHR '' '' # name)" using ds assms(2) by (auto simp: plain_name_def)
  ultimately have "zs0 = ds @ CHR '' '' # name"
    using takeWhile_until [OF z0, of rest] takeWhile_until [of newline "ds @ CHR '' '' # name" t] by simp
  then have "rev n @ CHR '' '' # rev ?head = rev name @ CHR '' '' # rev (ys @ ds)" using zs(2)
    by (metis append.assoc append_Cons append_Nil rev.simps(2) rev_append)
  then have "rev n = rev name"
    using assms(1,2) takeWhile_until [of "CHR '' ''" "rev n"] takeWhile_until [of "CHR '' ''" "rev name"]
    by (metis plain_name_def set_rev)
  with assms(3) show False by simp
qed

lemma find_major_line:
  assumes "plain_name n" and "plain_name name" and "strings_Contains rest ''Block devices:''"
  shows "find_major name (device_line (m, n) @ rest) = (if n = name then Some (show_nat m) else find_major name rest)"
proof (cases "n = name")
  case True
  let ?pad = "replicate (3 - length (show_nat m)) CHR '' ''"
  let ?body = "show_nat m @ CHR '' '' # name @ newline # rest"
  have "\<not> entry_at name (zs @ ?body)" if "?pad = ys @ zs" "zs \<noteq> []" for ys zs
  proof -
    from that obtain c cs where "zs = c # cs" by (cases zs) auto
    with that(1) have "c = CHR '' ''" by (metis in_set_conv_decomp in_set_replicate)
    with \<open>zs = c # cs\<close> show ?thesis using entry_at_digit newline_simps by (metis append_Cons)
  qed
  then have skip: "find_major name (?pad @ ?body) = find_major name ?body" by (rule find_major_skip)
  have digits: "takeWhile is_digit ?body = show_nat m" "dropWhile is_digit ?body = CHR '' '' # name @ newline # rest"
    using show_nat_digits [of m] by (simp_all add: list_all_iff takeWhile_append2 dropWhile_append2)
  then have "entry_at name ?body" using assms(3) unfolding entry_at_def by auto
  moreover obtain c cs where "?body = c # cs" by (cases ?body) auto
  ultimately have "find_major name ?body = Some (show_nat m)" using digits find_major_Cons by metis
  with skip True show ?thesis by (simp add: device_line_def)
next
  case False
  with find_major_skip [OF other_line_no_entry [OF assms(1,2) False]] show ?thesis by simp
qed

lemma find_major_lines:
  assumes "\<forall>(m, n) \<in> set es. plain_name n" and "plain_name name" and "strings_Contains rest ''Block devices:''"
  shows "find_major name (concat (map device_line es) @ rest) =
    (case map_of (map prod.swap es) name of Some m \<Rightarrow> Some (show_nat m) | None \<Rightarrow> find_major name rest)"
  using assms(1)
proof (induction es)
  case (Cons e es)
  obtain m n where e: "e = (m, n)" by (cases e)
  have "strings_Contains (concat (map device_line es) @ rest) ''Block devices:''"
    using assms(3) unfolding strings_Contains_def by (simp add: sublist_append)
  from find_major_line [OF _ assms(2) this, of n m] Cons show ?case by (simp add: e)
qed simp

section \<open>Properties\<close>

text \<open>C39. Reading \<open>/proc/devices\<close> as the kernel prints it gives the major number of the first character device
  with exactly the requested name, if it fits 32 bits, and an error for a name that no
  character device has.\<close>

theorem device_major_correct:
  assumes "\<forall>(m, n) \<in> set chars. plain_name n" and "plain_name name" and "\<not> strings_Contains blocks ''Block devices:''"
  shows "(\<forall>major. GetDeviceMajor (Ok (proc_devices chars blocks)) name = Ok major \<longleftrightarrow>
      (\<exists>m. map_of (map prod.swap chars) name = Some m \<and> m < 2 ^ 31 \<and> major = int m)) \<and>
    (map_of (map prod.swap chars) name = None \<longrightarrow>
      (\<exists>e. GetDeviceMajor (Ok (proc_devices chars blocks)) name = Err e))"
proof -
  let ?tail = "[newline] @ ''Block devices:'' @ [newline] @ blocks"
  have "after_first ''Character devices:'' (proc_devices chars blocks) =
      Some ([newline] @ concat (map device_line chars) @ ?tail)"
    by (simp add: proc_devices_def)
  moreover have "find_major name ([newline] @ concat (map device_line chars) @ ?tail) =
      (case map_of (map prod.swap chars) name of Some m \<Rightarrow> Some (show_nat m) | None \<Rightarrow> None)"
  proof -
    have tail: "find_major name ?tail = None"
      using find_major_None [OF assms(3)] by (simp add: find_major_Cons entry_at_def is_digit_def newline_def)
    have "strings_Contains ?tail ''Block devices:''" unfolding strings_Contains_def sublist_def by blast
    note lines = find_major_lines [OF assms(1,2) this]
    have "find_major name ([newline] @ concat (map device_line chars) @ ?tail) = find_major name (concat (map device_line chars) @ ?tail)"
      by (simp add: find_major_Cons [of _ newline] entry_at_def)
    then show ?thesis unfolding lines tail .
  qed
  ultimately show ?thesis
    by (auto simp: GetDeviceMajor_def parse_int32_def read_show_nat split: option.splits if_splits)
qed

theorem device_major_correct_witness:
  "GetDeviceMajor (Ok (proc_devices [(1, ''mem''), (234, ''nvidia-caps-imex-channels''), (195, ''nvidia-caps'')] ''  7 loop''))
     ''nvidia-caps'' = Ok 195"
  using device_major_correct [of "[(1, ''mem''), (234, ''nvidia-caps-imex-channels''), (195, ''nvidia-caps'')]" "''nvidia-caps''"
      "''  7 loop''"]
  by (simp add: plain_name_def newline_def strings_Contains_code)

end
