(* ===== verification/Cd_Devices.thy ===== *)
theory Cd_Devices
  imports Nvcaps Prepared_Claims
begin

text \<open>
  The devices of the compute-domain kubelet plugin: IMEX channels and the daemon device
  (\<open>deviceinfo.go\<close>, \<open>allocatable.go\<close>), prepared devices (\<open>prepared.go\<close>), what the plugin finds out about the node at
  start-up (\<open>nvlib.go\<close>) and the checkpoint format of releases before 25.3.0 (\<open>checkpoint_legacy.go\<close>).

  Pointers that the code follows without a test are options, and following \<open>None\<close> is a panic. The NVML
  library is a parameter: its answers for each GPU (\<open>gpu_answers\<close>), in the order of \<open>VisitDevices\<close>.
\<close>

section \<open>Devices (deviceinfo.go, allocatable.go)\<close>

definition ComputeDomainChannelType :: string where "ComputeDomainChannelType = ''channel''"
definition ComputeDomainDaemonType :: string where "ComputeDomainDaemonType = ''daemon''"
definition cd_UnknownDeviceType :: string where "cd_UnknownDeviceType = ''unknown''"

lemma cd_types_differ [simp]:
  "ComputeDomainChannelType \<noteq> ComputeDomainDaemonType" "ComputeDomainDaemonType \<noteq> ComputeDomainChannelType"
  "cd_UnknownDeviceType \<noteq> ComputeDomainChannelType" "cd_UnknownDeviceType \<noteq> ComputeDomainDaemonType"
  by (simp_all add: ComputeDomainChannelType_def ComputeDomainDaemonType_def cd_UnknownDeviceType_def)

record ComputeDomainChannelInfo =
  chi_ID :: int

record ComputeDomainDaemonDeviceInfo =
  dmi_ID :: int

definition Channel_CanonicalName :: "ComputeDomainChannelInfo \<Rightarrow> string" where
  "Channel_CanonicalName d = ComputeDomainChannelType @ ''-'' @ show_int (chi_ID d)"

definition Daemon_CanonicalName :: "ComputeDomainDaemonDeviceInfo \<Rightarrow> string" where
  "Daemon_CanonicalName d = ComputeDomainDaemonType @ ''-'' @ show_int (dmi_ID d)"

record cd_AllocatableDevice =
  cad_Channel :: "ComputeDomainChannelInfo option"
  cad_Daemon :: "ComputeDomainDaemonDeviceInfo option"

type_synonym cd_AllocatableDevices = "(string, cd_AllocatableDevice) gomap"

definition cad_Type :: "cd_AllocatableDevice \<Rightarrow> string" where
  "cad_Type d = (if cad_Channel d \<noteq> None then ComputeDomainChannelType
     else if cad_Daemon d \<noteq> None then ComputeDomainDaemonType else cd_UnknownDeviceType)"

definition cad_CanonicalName :: "cd_AllocatableDevice \<Rightarrow> string go" where
  "cad_CanonicalName d = (case cad_Channel d of
     Some c \<Rightarrow> Ok (Channel_CanonicalName c)
   | None \<Rightarrow> (case cad_Daemon d of Some m \<Rightarrow> Ok (Daemon_CanonicalName m)
              | None \<Rightarrow> Panic ''unexpected type for AllocatableDevice''))"

section \<open>Prepared devices (prepared.go)\<close>

record PreparedComputeDomainChannel =
  pch_Info :: "ComputeDomainChannelInfo option"
  pch_Device :: "kubelet_Device option"

record PreparedComputeDomainDaemon =
  pdm_Info :: "ComputeDomainDaemonDeviceInfo option"
  pdm_Device :: "kubelet_Device option"

record cd_PreparedDevice =
  cpd_Channel :: "PreparedComputeDomainChannel option"
  cpd_Daemon :: "PreparedComputeDomainDaemon option"

text \<open>The container edits of a group are kept in memory only: a field of type \<open>ContainerEdits option\<close> there
  and of type \<open>unit\<close> in the checkpoint.\<close>

record 'e cd_DeviceConfigState =
  dst_Type :: string
  dst_ComputeDomain :: string
  dst_containerEdits :: 'e

record 'e cd_PreparedDeviceGroup =
  cg_Devices :: "cd_PreparedDevice list"
  cg_ConfigState :: "'e cd_DeviceConfigState"

type_synonym 'e cd_PreparedDevices = "'e cd_PreparedDeviceGroup list"
type_synonym cd_stored = "unit cd_PreparedDevices"

definition cd_serialised :: "'e cd_PreparedDevices \<Rightarrow> cd_stored" where
  "cd_serialised d = map (\<lambda>g. \<lparr>cg_Devices = cg_Devices g,
     cg_ConfigState = \<lparr>dst_Type = dst_Type (cg_ConfigState g), dst_ComputeDomain = dst_ComputeDomain (cg_ConfigState g),
       dst_containerEdits = ()\<rparr>\<rparr>) d"

definition cpd_Type :: "cd_PreparedDevice \<Rightarrow> string" where
  "cpd_Type d = (if cpd_Channel d \<noteq> None then ComputeDomainChannelType
     else if cpd_Daemon d \<noteq> None then ComputeDomainDaemonType else cd_UnknownDeviceType)"

text \<open>Following a pointer.\<close>

definition deref :: "'a option \<Rightarrow> 'a go" where
  "deref p = (case p of None \<Rightarrow> Panic ''nil pointer dereference'' | Some a \<Rightarrow> Ok a)"

definition cpd_CanonicalName :: "cd_PreparedDevice \<Rightarrow> string go" where
  "cpd_CanonicalName d = (case cpd_Channel d of
     Some c \<Rightarrow> bind_go (deref (pch_Info c)) (\<lambda>i. Ok (Channel_CanonicalName i))
   | None \<Rightarrow> (case cpd_Daemon d of
       Some m \<Rightarrow> bind_go (deref (pdm_Info m)) (\<lambda>i. Ok (Daemon_CanonicalName i))
     | None \<Rightarrow> Panic ''unexpected type for AllocatableDevice''))"

definition ComputeDomainChannels :: "cd_PreparedDevice list \<Rightarrow> cd_PreparedDevice list" where
  "ComputeDomainChannels l = filter (\<lambda>d. cpd_Type d = ComputeDomainChannelType) l"

definition ComputeDomainDaemons :: "cd_PreparedDevice list \<Rightarrow> cd_PreparedDevice list" where
  "ComputeDomainDaemons l = filter (\<lambda>d. cpd_Type d = ComputeDomainDaemonType) l"

fun cg_GetDevices :: "cd_PreparedDevice list \<Rightarrow> kubelet_Device list go" where
  "cg_GetDevices [] = Ok []"
| "cg_GetDevices (d # ds) =
     bind_go (case cpd_Channel d of
         Some c \<Rightarrow> bind_go (deref (pch_Device c)) (\<lambda>k. Ok [k])
       | None \<Rightarrow> (case cpd_Daemon d of
           Some m \<Rightarrow> bind_go (deref (pdm_Device m)) (\<lambda>k. Ok [k]) | None \<Rightarrow> Ok [])) (\<lambda>k.
     bind_go (cg_GetDevices ds) (\<lambda>ks. Ok (k @ ks)))"

fun cd_GetDevices :: "'e cd_PreparedDevices \<Rightarrow> kubelet_Device list go" where
  "cd_GetDevices [] = Ok []"
| "cd_GetDevices (g # gs) =
     bind_go (cg_GetDevices (cg_Devices g)) (\<lambda>k.
     bind_go (cd_GetDevices gs) (\<lambda>ks. Ok (k @ ks)))"

section \<open>The node (nvlib.go)\<close>

definition maxImexChannelCount :: nat where "maxImexChannelCount = 2048"

definition getNVCapIMEXChannelDeviceInfo :: "string go \<Rightarrow> nat \<Rightarrow> NVcapDeviceInfo go" where
  "getNVCapIMEXChannelDeviceInfo procDevices channelID =
     bind_go (wrap_go (Wrapf ''error getting device major'') (GetDeviceMajor procDevices ''nvidia-caps-imex-channels'')) (\<lambda>major.
       Ok \<lparr>nv_Major = major, nv_Minor = int channelID, nv_Mode = 438, nv_Modify = 0,
           nv_Path = ''/dev/nvidia-caps-imex-channels/channel'' @ show_nat channelID\<rparr>)"

text \<open>The loop of \<open>newDeviceLib\<close>; \<open>read\<close> is the outcome of reading the file for a channel.\<close>

fun channel_infos :: "(nat \<Rightarrow> string go) \<Rightarrow> nat list \<Rightarrow> NVcapDeviceInfo list go" where
  "channel_infos read [] = Ok []"
| "channel_infos read (i # is) =
     bind_go (wrap_go (Wrapf ''error getting nvcap for IMEX channel'') (getNVCapIMEXChannelDeviceInfo (read i) i)) (\<lambda>info.
     bind_go (channel_infos read is) (\<lambda>infos. Ok (info # infos)))"

definition enumerateComputeDomainChannels :: "nat \<Rightarrow> cd_AllocatableDevices" where
  "enumerateComputeDomainChannels mic =
     fold (\<lambda>i m. AList.update (Channel_CanonicalName \<lparr>chi_ID = int i\<rparr>)
       \<lparr>cad_Channel = Some \<lparr>chi_ID = int i\<rparr>, cad_Daemon = None\<rparr> m) [0..<mic] []"

definition enumerateComputeDomainDaemons :: cd_AllocatableDevices where
  "enumerateComputeDomainDaemons =
     [(Daemon_CanonicalName \<lparr>dmi_ID = 0\<rparr>, \<lparr>cad_Channel = None, cad_Daemon = Some \<lparr>dmi_ID = 0\<rparr>\<rparr>)]"

definition cd_enumerateAllPossibleDevices :: "nat \<Rightarrow> cd_AllocatableDevices" where
  "cd_enumerateAllPossibleDevices mic =
     fold (\<lambda>(k, v) m. AList.update k v m) (enumerateComputeDomainChannels mic @ enumerateComputeDomainDaemons) []"

text \<open>The devices that are announced to the scheduler (\<open>NewDriver\<close>).\<close>

definition announced :: "cd_AllocatableDevices \<Rightarrow> cd_AllocatableDevice list" where
  "announced allocatable = filter (\<lambda>d. case cad_Channel d of Some c \<Rightarrow> chi_ID c = 0 | None \<Rightarrow> True) (map snd allocatable)"

subsection \<open>The clique of the node\<close>

record GpuFabricInfo =
  fi_ClusterUuid :: "nat list"
  fi_CliqueId :: nat
  fi_State :: nat
  fi_Status :: nat

datatype nvml_FabricInfo = FabricInfo GpuFabricInfo | ErrorNotSupported | ErrorOther string

record gpu_answers =
  ga_UUID :: "string go"
  ga_IsFabricAttached :: "bool go"
  ga_GetGpuFabricInfo :: nvml_FabricInfo

definition GPU_FABRIC_STATE_NOT_SUPPORTED :: nat where "GPU_FABRIC_STATE_NOT_SUPPORTED = 0"
definition GPU_FABRIC_STATE_COMPLETED :: nat where "GPU_FABRIC_STATE_COMPLETED = 3"
definition nvml_SUCCESS :: nat where "nvml_SUCCESS = 0"

text \<open>What one device adds to the two sets: nothing, or its cluster UUID and clique ID. \<open>uuidString\<close> prints a UUID.\<close>

definition fabric_ids :: "(nat list \<Rightarrow> string) \<Rightarrow> GpuFabricInfo \<Rightarrow> string \<times> string" where
  "fabric_ids uuidString info = (uuidString (fi_ClusterUuid info), show_nat (fi_CliqueId info))"

definition visit_legacy :: "(nat list \<Rightarrow> string) \<Rightarrow> gpu_answers \<Rightarrow> (string \<times> string) option go" where
  "visit_legacy uuidString d =
     bind_go (wrap_go (Wrapf ''failed to read device uuid'') (ga_UUID d)) (\<lambda>_.
     bind_go (wrap_go (Wrapf ''error checking if fabric is attached'') (ga_IsFabricAttached d)) (\<lambda>attached.
       if \<not> attached then Ok None
       else case ga_GetGpuFabricInfo d of
         FabricInfo info \<Rightarrow> Ok (Some (fabric_ids uuidString info))
       | _ \<Rightarrow> Err (Errorf ''failed to get GPU fabric info'')))"

definition visit_strict :: "(nat list \<Rightarrow> string) \<Rightarrow> gpu_answers \<Rightarrow> (string \<times> string) option go" where
  "visit_strict uuidString d =
     bind_go (wrap_go (Wrapf ''failed to read device uuid'') (ga_UUID d)) (\<lambda>_.
       case ga_GetGpuFabricInfo d of
         ErrorNotSupported \<Rightarrow> Ok None
       | ErrorOther e \<Rightarrow> Err (Errorf ''failed to get GPU fabric info'')
       | FabricInfo info \<Rightarrow>
           if fi_State info = GPU_FABRIC_STATE_NOT_SUPPORTED then Ok None
           else if fi_State info \<noteq> GPU_FABRIC_STATE_COMPLETED then Err (Errorf ''NVLink fabric not attached, refusing to start'')
           else if fi_Status info \<noteq> nvml_SUCCESS then Err (Errorf ''NVLink fabric registration error, refusing to start'')
           else if fi_ClusterUuid info = replicate 16 0 then Ok None
           else Ok (Some (fabric_ids uuidString info)))"

fun visit_devices ::
  "(gpu_answers \<Rightarrow> (string \<times> string) option go) \<Rightarrow> gpu_answers list \<Rightarrow>
   (string, unit) gomap \<times> (string, unit) gomap \<Rightarrow> ((string, unit) gomap \<times> (string, unit) gomap) go" where
  "visit_devices visit [] acc = Ok acc"
| "visit_devices visit (d # ds) acc =
     bind_go (visit d) (\<lambda>ids. visit_devices visit ds
       (case ids of None \<Rightarrow> acc | Some (u, c) \<Rightarrow> (AList.update u () (fst acc), AList.update c () (snd acc))))"

definition clique_of_sets :: "(string, unit) gomap \<times> (string, unit) gomap \<Rightarrow> string go" where
  "clique_of_sets acc =
     (case acc of (uuids, cliques) \<Rightarrow>
        if uuids = [] \<and> cliques = [] then Ok ''''
        else if length uuids \<noteq> 1 then Err (Errorf ''unexpected number of unique ClusterUUIDs found on devices'')
        else if length cliques \<noteq> 1 then Err (Errorf ''unexpected number of unique CliqueIDs found on devices'')
        else Ok (fst (hd uuids) @ ''.'' @ fst (hd cliques)))"

definition getCliqueIDLegacy :: "(nat list \<Rightarrow> string) \<Rightarrow> gpu_answers list \<Rightarrow> string go" where
  "getCliqueIDLegacy uuidString ds =
     bind_go (wrap_go (Wrapf ''error getting fabric information from one or more devices'')
       (visit_devices (visit_legacy uuidString) ds ([], []))) clique_of_sets"

definition getCliqueIDStrict :: "(nat list \<Rightarrow> string) \<Rightarrow> gpu_answers list \<Rightarrow> string go" where
  "getCliqueIDStrict uuidString ds =
     bind_go (wrap_go (Wrapf ''error getting fabric information from one or more devices'')
       (visit_devices (visit_strict uuidString) ds ([], []))) clique_of_sets"

definition getCliqueID :: "gates \<Rightarrow> goerr option \<Rightarrow> (nat list \<Rightarrow> string) \<Rightarrow> gpu_answers list \<Rightarrow> string go" where
  "getCliqueID g initFails uuidString ds = (case initFails of
     Some e \<Rightarrow> Err (Wrapf ''error initializing deviceLib'' e)
   | None \<Rightarrow> if g CrashOnNVLinkFabricErrors then getCliqueIDStrict uuidString ds else getCliqueIDLegacy uuidString ds)"

section \<open>Legacy checkpoints (checkpoint_legacy.go)\<close>

text \<open>\<open>drapbv1.Device\<close>.\<close>

record drapb_Device =
  db_RequestNames :: "string list"
  db_PoolName :: string
  db_DeviceName :: string
  db_CdiDeviceIds :: "string list"

record PreparedComputeDomainChannel2503RC2 =
  ch0_Info :: "ComputeDomainChannelInfo option"
  ch0_Device :: "drapb_Device option"

record PreparedComputeDomainDaemon2503RC2 =
  dm0_Info :: "ComputeDomainDaemonDeviceInfo option"
  dm0_Device :: "drapb_Device option"

record PreparedDevice2503RC2 =
  pd0_Channel :: "PreparedComputeDomainChannel2503RC2 option"
  pd0_Daemon :: "PreparedComputeDomainDaemon2503RC2 option"

record PreparedDeviceGroup2503RC2 =
  gr0_Devices :: "PreparedDevice2503RC2 list"
  gr0_ConfigState :: "unit cd_DeviceConfigState"

record Checkpoint2503RC2 =
  cp0_Checksum :: nat
  cp0_V1 :: "(string, PreparedDeviceGroup2503RC2 list) gomap option"

definition device_of_drapb :: "drapb_Device \<Rightarrow> kubelet_Device" where
  "device_of_drapb d = \<lparr>kd_Requests = db_RequestNames d, kd_PoolName = db_PoolName d, kd_DeviceName = db_DeviceName d,
     kd_CDIDeviceIDs = db_CdiDeviceIds d, kd_Metadata = None\<rparr>"

definition Channel2503RC2_ToV1 :: "PreparedComputeDomainChannel2503RC2 \<Rightarrow> PreparedComputeDomainChannel" where
  "Channel2503RC2_ToV1 c = \<lparr>pch_Info = ch0_Info c, pch_Device = map_option device_of_drapb (ch0_Device c)\<rparr>"

definition Daemon2503RC2_ToV1 :: "PreparedComputeDomainDaemon2503RC2 \<Rightarrow> PreparedComputeDomainDaemon" where
  "Daemon2503RC2_ToV1 d = \<lparr>pdm_Info = dm0_Info d, pdm_Device = map_option device_of_drapb (dm0_Device d)\<rparr>"

definition Device2503RC2_ToV1 :: "PreparedDevice2503RC2 \<Rightarrow> cd_PreparedDevice" where
  "Device2503RC2_ToV1 d = \<lparr>cpd_Channel = map_option Channel2503RC2_ToV1 (pd0_Channel d),
     cpd_Daemon = map_option Daemon2503RC2_ToV1 (pd0_Daemon d)\<rparr>"

definition Group2503RC2_ToV1 :: "PreparedDeviceGroup2503RC2 \<Rightarrow> unit cd_PreparedDeviceGroup" where
  "Group2503RC2_ToV1 g = \<lparr>cg_Devices = map Device2503RC2_ToV1 (gr0_Devices g), cg_ConfigState = gr0_ConfigState g\<rparr>"

text \<open>The claims have no status: the old format did not store it.\<close>

definition Checkpoint2503RC2_ToV1 :: "Checkpoint2503RC2 \<Rightarrow> cd_stored Checkpoint go" where
  "Checkpoint2503RC2_ToV1 cp = bind_go (deref (cp0_V1 cp)) (\<lambda>claims.
     Ok \<lparr>cp_Checksum = 0,
         cp_V1 = Some \<lparr>c1_PreparedClaims = Some (map (\<lambda>(k, v).
           (k, \<lparr>p1_Allocation = None, p1_PreparedDevices = map Group2503RC2_ToV1 v\<rparr>)) claims)\<rparr>,
         cp_V2 = None\<rparr>)"

text \<open>\<open>encoding/json\<close> on the old format, and its checksum.\<close>

record 'b legacy_lib =
  ll_marshal :: "Checkpoint2503RC2 \<Rightarrow> 'b go"
  ll_unmarshal :: "'b \<Rightarrow> Checkpoint2503RC2 go"
  ll_checksum :: "'b \<Rightarrow> nat"

definition Checkpoint2503RC2_VerifyChecksum :: "'b legacy_lib \<Rightarrow> Checkpoint2503RC2 \<Rightarrow> unit go" where
  "Checkpoint2503RC2_VerifyChecksum ll cp =
     bind_go (ll_marshal ll (cp\<lparr>cp0_Checksum := 0\<rparr>)) (\<lambda>out.
       if ll_checksum ll out = cp0_Checksum cp then Ok () else Err (Errorf ''checkpoint is corrupted''))"

definition convert_legacy :: "(cd_stored, 'b) json_lib \<Rightarrow> 'b legacy_lib \<Rightarrow> 'b \<Rightarrow> 'b go" where
  "convert_legacy lib ll data =
     bind_go (wrap_go (\<lambda>_. Errorf ''unable to unmarshal'') (ll_unmarshal ll data)) (\<lambda>cp.
     bind_go (wrap_go (Wrapf ''error verifying checksum'') (Checkpoint2503RC2_VerifyChecksum ll cp)) (\<lambda>_.
     bind_go (Checkpoint2503RC2_ToV1 cp) (\<lambda>cpconv.
       wrap_go (Wrapf ''error remarshalling'') (MarshalCheckpoint lib cpconv))))"

text \<open>The method calls itself on the converted bytes.\<close>

partial_function (option) cd_UnmarshalCheckpoint ::
  "(cd_stored, 'b) json_lib \<Rightarrow> 'b legacy_lib \<Rightarrow> 'b \<Rightarrow> cd_stored Checkpoint go option" where
  [code]: "cd_UnmarshalCheckpoint lib ll data =
     (case jl_unmarshal lib data of
        Ok cp \<Rightarrow> Some (Ok cp)
      | Panic p \<Rightarrow> Some (Panic p)
      | Err _ \<Rightarrow> (case convert_legacy lib ll data of
          Ok data' \<Rightarrow> cd_UnmarshalCheckpoint lib ll data'
        | Err e \<Rightarrow> Some (Err e)
        | Panic p \<Rightarrow> Some (Panic p)))"

section \<open>Properties\<close>

text \<open>Entries of an old checkpoint become completed claims without a status.\<close>

definition upgraded_claims :: "Checkpoint2503RC2 \<Rightarrow> (string, cd_stored PreparedClaimV2) gomap" where
  "upgraded_claims cp = map (\<lambda>(k, v). (k, \<lparr>pc_CheckpointState = ClaimCheckpointStatePrepareCompleted, pc_Allocation = None,
     pc_PreparedDevices = map Group2503RC2_ToV1 v, pc_Name = '''', pc_Namespace = ''''\<rparr>)) (entries (cp0_V1 cp))"

lemma convert_legacy_loads:
  assumes "json_ok lib" and "convert_legacy lib ll data = Ok data'"
  shows "\<exists>cp cp0. ll_unmarshal ll data = Ok cp0 \<and> jl_unmarshal lib data' = Ok cp \<and> VerifyChecksum lib cp = Ok () \<and>
    latest_claims cp = upgraded_claims cp0"
proof -
  from assms(2) obtain cp0 cl cpconv where cp0: "ll_unmarshal ll data = Ok cp0" "cp0_V1 cp0 = Some cl"
    and conv: "Checkpoint2503RC2_ToV1 cp0 = Ok cpconv" and m: "MarshalCheckpoint lib cpconv = Ok data'"
    by (auto simp: convert_legacy_def Checkpoint2503RC2_ToV1_def deref_def split: option.splits)
  from written_file [OF assms(1), of cpconv] m obtain v2 k where
    l: "load_checkpoint lib data' = Ok (canon \<lparr>cp_Checksum = k, cp_V1 = Some (CheckpointV2_ToV1 v2), cp_V2 = Some v2\<rparr>)"
    and claims: "entries (c2_PreparedClaims v2) = latest_claims cpconv"
    by auto
  have "latest_claims cpconv = upgraded_claims cp0"
    using conv cp0(2) by (auto simp: Checkpoint2503RC2_ToV1_def deref_def latest_claims_def ToLatestVersion_def
        CheckpointV1_ToV2_def upgraded_claims_def)
  with l claims cp0(1) show ?thesis
    by (auto simp: load_checkpoint_def latest_claims_V2 canon_def canonV2_def)
qed

text \<open>C40. Reading a checkpoint file always ends, also when the file is in the format of an older release and
  the reader calls itself on the converted bytes; a file of the old format is read
  as a checkpoint with valid checksums in which every stored claim is completed, with its
  devices and without a status.\<close>

theorem legacy_checkpoint_upgrade:
  assumes "json_ok lib"
  shows "(\<exists>r. cd_UnmarshalCheckpoint lib ll data = Some r) \<and>
    (\<forall>e data'. jl_unmarshal lib data = Err e \<longrightarrow> convert_legacy lib ll data = Ok data' \<longrightarrow>
      (\<exists>cp cp0. cd_UnmarshalCheckpoint lib ll data = Some (Ok cp) \<and> VerifyChecksum lib cp = Ok () \<and>
         ll_unmarshal ll data = Ok cp0 \<and> latest_claims cp = upgraded_claims cp0))"
proof -
  have conv: "\<exists>cp cp0. cd_UnmarshalCheckpoint lib ll data' = Some (Ok cp) \<and> VerifyChecksum lib cp = Ok () \<and>
      ll_unmarshal ll data = Ok cp0 \<and> latest_claims cp = upgraded_claims cp0"
    if "convert_legacy lib ll data = Ok data'" for data'
    using convert_legacy_loads [OF assms that] by (auto simp: cd_UnmarshalCheckpoint.simps [of lib ll data'])
  moreover have "\<exists>r. cd_UnmarshalCheckpoint lib ll data = Some r"
    using conv by (fastforce simp: cd_UnmarshalCheckpoint.simps [of lib ll data] split: go.split)
  ultimately show ?thesis by (simp add: cd_UnmarshalCheckpoint.simps [of lib ll data])
qed

text \<open>A codec in which bytes are values, and an old checkpoint with one claim.\<close>

definition old_checkpoint :: Checkpoint2503RC2 where
  "old_checkpoint = \<lparr>cp0_Checksum = 0, cp0_V1 = Some [(''u1'',
     [\<lparr>gr0_Devices = [\<lparr>pd0_Channel = Some \<lparr>ch0_Info = Some \<lparr>chi_ID = 0\<rparr>, ch0_Device = None\<rparr>, pd0_Daemon = None\<rparr>],
       gr0_ConfigState = \<lparr>dst_Type = ComputeDomainChannelType, dst_ComputeDomain = ''d1'', dst_containerEdits = ()\<rparr>\<rparr>])]\<rparr>"

definition old_bytes :: "cd_stored Checkpoint + cd_stored CheckpointV2" where
  "old_bytes = Inr \<lparr>c2_Checksum = 0, c2_PreparedClaims = None\<rparr>"

definition example_legacy :: "(cd_stored Checkpoint + cd_stored CheckpointV2) legacy_lib" where
  "example_legacy = \<lparr>ll_marshal = (\<lambda>_. Ok old_bytes), ll_unmarshal = (\<lambda>_. Ok old_checkpoint), ll_checksum = (\<lambda>_. 0)\<rparr>"

theorem legacy_checkpoint_upgrade_witness:
  "\<exists>cp. cd_UnmarshalCheckpoint example_json example_legacy old_bytes = Some (Ok cp) \<and>
     map fst (latest_claims cp) = [''u1'']"
proof -
  have "is_ok (convert_legacy example_json example_legacy old_bytes)" by code_simp
  then obtain data' where "convert_legacy example_json example_legacy old_bytes = Ok data'" by (auto simp: is_ok_iff)
  moreover have "jl_unmarshal example_json old_bytes = Err (Errorf ''not a checkpoint'')"
    by (simp add: example_json_def old_bytes_def)
  ultimately obtain cp cp0 where cp: "cd_UnmarshalCheckpoint example_json example_legacy old_bytes = Some (Ok cp)"
    "ll_unmarshal example_legacy old_bytes = Ok cp0" "latest_claims cp = upgraded_claims cp0"
    using legacy_checkpoint_upgrade [OF example_json_ok, of example_legacy old_bytes] by blast
  moreover from cp(2) have "cp0 = old_checkpoint" by (simp add: example_legacy_def)
  ultimately show ?thesis by (simp add: upgraded_claims_def old_checkpoint_def)
qed

subsection \<open>Clique IDs\<close>

lemma visit_devices_sets:
  "visit_devices visit ds (a, b) = Ok (a', b') \<Longrightarrow> gomap a \<Longrightarrow> gomap b \<Longrightarrow>
     gomap a' \<and> gomap b' \<and> (\<forall>d \<in> set ds. is_ok (visit d)) \<and>
     fst ` set a' = fst ` set a \<union> {u. \<exists>d \<in> set ds. \<exists>c. visit d = Ok (Some (u, c))} \<and>
     fst ` set b' = fst ` set b \<union> {c. \<exists>d \<in> set ds. \<exists>u. visit d = Ok (Some (u, c))}"
proof (induction ds arbitrary: a b)
  case (Cons d ds)
  then obtain ids where ids: "visit d = Ok ids" by auto
  show ?case
  proof (cases ids)
    case None
    with Cons.prems Cons.IH [of a b] ids show ?thesis by simp
  next
    case (Some uc)
    obtain u c where uc: "uc = (u, c)" by (cases uc)
    have keys: "fst ` set (AList.update u () a) = insert u (fst ` set a)" "fst ` set (AList.update c () b) = insert c (fst ` set b)"
      by (simp_all add: dom_map_of_conv_image_fst [symmetric] update_conv')
    show ?thesis
      using Cons.prems Cons.IH [of "AList.update u () a" "AList.update c () b"] ids by (auto simp: Some uc keys)
  qed
qed simp

lemma visit_devices_Ok: "\<forall>d \<in> set ds. is_ok (visit d) \<Longrightarrow> is_ok (visit_devices visit ds acc)"
proof (induction ds arbitrary: acc)
  case (Cons d ds)
  then obtain ids where "visit d = Ok ids" by (auto simp: is_ok_iff)
  with Cons show ?case by simp
qed simp

lemma unit_map_length: "gomap m \<Longrightarrow> length m = card (fst ` set m)" for m :: "(string, unit) gomap"
  by (metis distinct_card length_map list.set_map)

lemma unit_map_singleton: "gomap m \<Longrightarrow> length m = 1 \<longleftrightarrow> (\<exists>k. fst ` set m = {k})" for m :: "(string, unit) gomap"
  by (simp add: unit_map_length card_1_singleton_iff)

lemma unit_map_hd: "fst ` set m = {k} \<Longrightarrow> fst (hd m) = k" for m :: "(string, unit) gomap"
  by (cases m) auto

lemma agreeing_sets:
  assumes "d0 \<in> set ds" and "v d0 = Ok (Some (u0, c0))"
    and "\<And>d. d \<in> set ds \<Longrightarrow> v d = Ok None \<or> (\<exists>u c. v d = Ok (Some (u, c)))"
  shows "{u. \<exists>d \<in> set ds. \<exists>c. v d = Ok (Some (u, c))} = {u0} \<and> {c. \<exists>d \<in> set ds. \<exists>u. v d = Ok (Some (u, c))} = {c0} \<longleftrightarrow>
    (\<forall>d \<in> set ds. v d \<in> {Ok None, Ok (Some (u0, c0))})"
    (is "?U = _ \<and> ?C = _ \<longleftrightarrow> ?same")
proof
  assume eq: "?U = {u0} \<and> ?C = {c0}"
  show ?same
  proof
    fix d
    assume d: "d \<in> set ds"
    have "u = u0 \<and> c = c0" if "v d = Ok (Some (u, c))" for u c
    proof -
      have "u \<in> ?U" "c \<in> ?C" using d that by blast+
      with eq show ?thesis by simp
    qed
    with assms(3) [OF d] show "v d \<in> {Ok None, Ok (Some (u0, c0))}" by auto
  qed
next
  assume ?same
  then have "u = u0 \<and> c = c0" if "d \<in> set ds" "v d = Ok (Some (u, c))" for d u c using that by fastforce
  then have "?U \<subseteq> {u0}" "?C \<subseteq> {c0}" by blast+
  moreover have "u0 \<in> ?U" "c0 \<in> ?C" using assms(1,2) by blast+
  ultimately show "?U = {u0} \<and> ?C = {c0}" by blast
qed

definition fabric_visit :: "gates \<Rightarrow> (nat list \<Rightarrow> string) \<Rightarrow> gpu_answers \<Rightarrow> (string \<times> string) option go" where
  "fabric_visit g uuidString = (if g CrashOnNVLinkFabricErrors then visit_strict uuidString else visit_legacy uuidString)"

lemma getCliqueID_visit:
  "getCliqueID g None uuidString ds =
     bind_go (wrap_go (Wrapf ''error getting fabric information from one or more devices'')
       (visit_devices (fabric_visit g uuidString) ds ([], []))) clique_of_sets"
  by (simp add: getCliqueID_def fabric_visit_def getCliqueIDStrict_def getCliqueIDLegacy_def)

text \<open>The clique of a node: the plugin starts exactly when every GPU answers and all GPUs attached to a
  fabric report the same cluster UUID and clique ID, which then make up the clique ID; it is empty
  exactly when no GPU is attached.\<close>

theorem clique_id_correct:
  "getCliqueID g None uuidString ds = Ok cid \<longleftrightarrow>
     (\<forall>d \<in> set ds. fabric_visit g uuidString d = Ok None) \<and> cid = '''' \<or>
     (\<exists>u c. cid = u @ ''.'' @ c \<and> (\<exists>d \<in> set ds. fabric_visit g uuidString d = Ok (Some (u, c))) \<and>
        (\<forall>d \<in> set ds. fabric_visit g uuidString d \<in> {Ok None, Ok (Some (u, c))}))"
  (is "?L \<longleftrightarrow> ?R")
proof (cases "\<forall>d \<in> set ds. is_ok (fabric_visit g uuidString d)")
  case False
  then have "\<not> is_ok (visit_devices (fabric_visit g uuidString) ds ([], []))"
    using visit_devices_sets [of "fabric_visit g uuidString" ds "[]" "[]"] by (force simp: is_ok_iff)
  with False show ?thesis by (fastforce simp: getCliqueID_visit is_ok_iff)
next
  case True
  define v where "v = fabric_visit g uuidString"
  from visit_devices_Ok [OF True] obtain a b where ab: "visit_devices v ds ([], []) = Ok (a, b)"
    by (force simp: is_ok_iff v_def)
  from visit_devices_sets [OF ab] have g: "gomap a" "gomap b"
    and U: "fst ` set a = {u. \<exists>d \<in> set ds. \<exists>c. v d = Ok (Some (u, c))}"
    and C: "fst ` set b = {c. \<exists>d \<in> set ds. \<exists>u. v d = Ok (Some (u, c))}" by simp_all
  have ok: "v d = Ok None \<or> (\<exists>u c. v d = Ok (Some (u, c)))" if "d \<in> set ds" for d
    using True that unfolding v_def is_ok_iff by (metis option.exhaust surj_pair)
  have L: "?L \<longleftrightarrow> clique_of_sets (a, b) = Ok cid" using ab by (simp add: getCliqueID_visit v_def)
  show ?thesis
  proof (cases "\<forall>d \<in> set ds. v d = Ok None")
    case True
    then have "a = []" "b = []" using U C by auto
    with L True show ?thesis unfolding clique_of_sets_def v_def by auto
  next
    case False
    then obtain d0 u0 c0 where d0: "d0 \<in> set ds" "v d0 = Ok (Some (u0, c0))" using ok by blast
    then have ne: "a \<noteq> []" "u0 \<in> fst ` set a" "c0 \<in> fst ` set b" using U C by force+
    have "?L \<longleftrightarrow> fst ` set a = {u0} \<and> fst ` set b = {c0} \<and> cid = u0 @ ''.'' @ c0"
    proof -
      have "length a = 1 \<longleftrightarrow> fst ` set a = {u0}" "length b = 1 \<longleftrightarrow> fst ` set b = {c0}"
        unfolding unit_map_singleton [OF g(1)] unit_map_singleton [OF g(2)] using ne(2,3) by (metis singletonD)+
      with L ne(1) unit_map_hd show ?thesis unfolding clique_of_sets_def by auto
    qed
    also have "fst ` set a = {u0} \<and> fst ` set b = {c0} \<and> cid = u0 @ ''.'' @ c0 \<longleftrightarrow> (fst ` set a = {u0} \<and> fst ` set b = {c0}) \<and> cid = u0 @ ''.'' @ c0" by blast
    also have "fst ` set a = {u0} \<and> fst ` set b = {c0} \<longleftrightarrow> (\<forall>d \<in> set ds. v d \<in> {Ok None, Ok (Some (u0, c0))})"
      unfolding U C by (rule agreeing_sets [where v = v, OF d0 ok])
    finally have "?L \<longleftrightarrow> (\<forall>d \<in> set ds. v d \<in> {Ok None, Ok (Some (u0, c0))}) \<and> cid = u0 @ ''.'' @ c0" by blast
    moreover have "?R \<longleftrightarrow> (\<forall>d \<in> set ds. v d \<in> {Ok None, Ok (Some (u0, c0))}) \<and> cid = u0 @ ''.'' @ c0"
    proof -
      have "u = u0 \<and> c = c0" if "\<forall>d \<in> set ds. v d \<in> {Ok None, Ok (Some (u, c))}" for u c
        using bspec [OF that d0(1)] d0(2) by simp
      with False d0 show ?thesis unfolding v_def [symmetric] by blast
    qed
    ultimately show ?thesis by simp
  qed
qed

definition fabric_gpu :: "nat \<Rightarrow> gpu_answers" where
  "fabric_gpu state = \<lparr>ga_UUID = Ok ''GPU-1'', ga_IsFabricAttached = Ok True,
     ga_GetGpuFabricInfo = FabricInfo \<lparr>fi_ClusterUuid = replicate 16 1, fi_CliqueId = 7, fi_State = state, fi_Status = 0\<rparr>\<rparr>"

theorem clique_id_correct_witness:
  "getCliqueID (\<lambda>_. True) None (\<lambda>_. ''cluster'') [fabric_gpu 3, fabric_gpu 0, fabric_gpu 3] = Ok ''cluster.7''"
proof -
  have seven: "show_nat 7 = ''7''" by code_simp
  show ?thesis
    unfolding clique_id_correct
    by (intro disjI2, rule exI [of _ "''cluster''"], rule exI [of _ "''7''"])
      (simp add: fabric_visit_def visit_strict_def fabric_gpu_def fabric_ids_def seven
      GPU_FABRIC_STATE_NOT_SUPPORTED_def GPU_FABRIC_STATE_COMPLETED_def nvml_SUCCESS_def)
qed

end
