(* ===== verification/Cd_State.thy ===== *)
theory Cd_State
  imports Cd_Devices Daemon_Common
begin

text \<open>
  The device state of the compute-domain kubelet plugin (\<open>device_state.go\<close>, \<open>cdi.go\<close>) and its compute-domain
  manager (\<open>computedomain.go\<close>): preparing a claim for an IMEX channel or for the daemon of a compute
  domain, and unpreparing it.

  The state \<open>cd_state\<close> holds the claims of the checkpoint (latest version), the CDI spec files, the Node object of the
  machine on the API server, and the directories with daemon configurations, by domain ID (a UID, so without
  path separators). The environment \<open>cd_env\<close> of a call holds what the plugin found out at start-up, the failures of
  checkpoint and CDI accesses, the orders in which Go visits its maps and, for each configuration of the claim,
  a \<open>config_env\<close> with the answers of the API server and the file system. Others may change the Node before
  each access (\<open>ke_others1\<close>, \<open>ke_others2\<close>: new labels); an update of an outdated object is refused.
\<close>

section \<open>State and environment\<close>

type_synonym cd_claims = "(string, cd_stored PreparedClaimV2) gomap"

record cd_node =
  nd_version :: nat
  nd_labels :: "(string, string) gomap"

record claim_spec =
  sf_Vendor :: string
  sf_Class :: string
  sf_Devices :: "cdispec_Device list"

record cd_state =
  cst_claims :: cd_claims
  cst_cdi :: "(string, claim_spec) gomap"
  cst_node :: cd_node
  cst_dirs :: "(string, (string, string) gomap) gomap"

record config_env =
  ke_list1 :: "ComputeDomain list go"
  ke_list2 :: "ComputeDomain list go"
  ke_clique :: "ComputeDomainClique go"
  ke_getCheckpoint :: "goerr option"
  ke_others1 :: "(string, string) gomap option"
  ke_nodeGet :: "goerr option"
  ke_others2 :: "(string, string) gomap option"
  ke_nodeUpdate :: "goerr option"
  ke_mkdir :: "goerr option"
  ke_template :: "string go"
  ke_write :: "goerr option"
  ke_caps :: "string go"
  ke_procDevices :: "string go"

type_synonym cd_config_map = "(nat, DeviceRequestAllocationResult list) gomap"

record cd_env =
  pe_gates :: gates
  pe_strict :: "string \<Rightarrow> RuntimeObject go"
  pe_nonstrict :: "string \<Rightarrow> RuntimeObject go"
  pe_allocatable :: cd_AllocatableDevices
  pe_cliqueID :: string
  pe_nodeName :: string
  pe_root :: string
  pe_channelInfos :: "NVcapDeviceInfo list"
  pe_maxChannels :: nat
  pe_get :: "goerr option"
  pe_update1 :: "goerr option"
  pe_update2 :: "goerr option"
  pe_fetch :: "AllocationResult option go"
  pe_config :: "nat \<Rightarrow> config_env"
  pe_order1 :: "cd_config_map \<Rightarrow> cd_config_map"
  pe_order2 :: "cd_config_map \<Rightarrow> cd_config_map"
  pe_newSpec :: "cdispec_Device list \<Rightarrow> goerr option"
  pe_transform :: "ContainerEdits \<Rightarrow> ContainerEdits"
  pe_save :: "goerr option"
  pe_remove :: "goerr option"

section \<open>The compute-domain manager (computedomain.go)\<close>

text \<open>\<open>cds\<close> is the answer of the informer's index of compute domains by UID.\<close>

definition GetComputeDomain :: "ComputeDomain list go \<Rightarrow> ComputeDomain option go" where
  "GetComputeDomain answer =
     bind_go (wrap_go (Wrapf ''error retrieving ComputeDomain by UID'') answer) (\<lambda>cds.
       case cds of [] \<Rightarrow> Ok None | [cd] \<Rightarrow> Ok (Some cd)
       | _ \<Rightarrow> Err (Errorf ''multiple ComputeDomains with the same UID''))"

definition found_ComputeDomain :: "ComputeDomain list go \<Rightarrow> ComputeDomain go" where
  "found_ComputeDomain answer =
     bind_go (wrap_go (Wrapf ''error getting ComputeDomain'') (GetComputeDomain answer)) (\<lambda>cd.
       case cd of None \<Rightarrow> Err (Errorf ''ComputeDomain not found'') | Some cd \<Rightarrow> Ok cd)"

definition AssertComputeDomainNamespace :: "ComputeDomain list go \<Rightarrow> string \<Rightarrow> unit go" where
  "AssertComputeDomainNamespace answer claimNamespace =
     bind_go (found_ComputeDomain answer) (\<lambda>cd.
       if co_Namespace cd \<noteq> claimNamespace
       then Err (Errorf ''the ResourceClaim's namespace is different than the ComputeDomain's namespace'') else Ok ())"

definition isCurrentNodeReadyInStatus :: "string \<Rightarrow> ComputeDomain \<Rightarrow> bool" where
  "isCurrentNodeReadyInStatus nodeName cd = (case find (\<lambda>n. cn_Name n = nodeName) (co_Nodes cd) of
     None \<Rightarrow> False | Some n \<Rightarrow> cn_Status n = ComputeDomainStatusReady)"

definition isCurrentNodeReadyInClique :: "string \<Rightarrow> ComputeDomainClique go \<Rightarrow> bool go" where
  "isCurrentNodeReadyInClique nodeName answer = (case answer of
     Err e \<Rightarrow> Ok False
   | Panic p \<Rightarrow> Panic p
   | Ok clique \<Rightarrow> Ok (case find (\<lambda>d. di_NodeName d = nodeName) (cq_Daemons clique) of
       None \<Rightarrow> False | Some d \<Rightarrow> di_Status d = ComputeDomainStatusReady))"

definition isCurrentNodeReady :: "cd_env \<Rightarrow> config_env \<Rightarrow> ComputeDomain \<Rightarrow> bool go" where
  "isCurrentNodeReady en k cd =
     (if pe_gates en ComputeDomainCliques
      then bind_go (isCurrentNodeReadyInClique (pe_nodeName en) (ke_clique k)) (\<lambda>ready.
        if ready then Ok True else Ok (isCurrentNodeReadyInStatus (pe_nodeName en) cd))
      else Ok (isCurrentNodeReadyInStatus (pe_nodeName en) cd))"

definition AssertComputeDomainReady :: "cd_env \<Rightarrow> config_env \<Rightarrow> unit go" where
  "AssertComputeDomainReady en k =
     bind_go (found_ComputeDomain (ke_list2 k)) (\<lambda>cd.
     bind_go (isCurrentNodeReady en k cd) (\<lambda>ready.
       if \<not> ready then Err (Errorf ''current node not ready in ComputeDomain'') else Ok ()))"

subsection \<open>The label of the Node\<close>

definition others_node :: "(string, string) gomap option \<Rightarrow> cd_state \<Rightarrow> cd_state" where
  "others_node change s = (case change of
     None \<Rightarrow> s
   | Some labels \<Rightarrow> s\<lparr>cst_node := \<lparr>nd_version = Suc (nd_version (cst_node s)), nd_labels = labels\<rparr>\<rparr>)"

definition nodes_Get :: "config_env \<Rightarrow> (cd_state, cd_node) gost" where
  "nodes_Get k s = (let s = others_node (ke_others1 k) s in
     case ke_nodeGet k of Some e \<Rightarrow> (Err e, s) | None \<Rightarrow> (Ok (cst_node s), s))"

definition nodes_Update :: "config_env \<Rightarrow> cd_node \<Rightarrow> (cd_state, unit) gost" where
  "nodes_Update k node s = (let s = others_node (ke_others2 k) s in
     case ke_nodeUpdate k of
       Some e \<Rightarrow> (Err e, s)
     | None \<Rightarrow> if nd_version node \<noteq> nd_version (cst_node s) then (Err (ApiError ''Conflict''), s)
               else (Ok (), s\<lparr>cst_node := node\<lparr>nd_version := Suc (nd_version node)\<rparr>\<rparr>))"

definition AddNodeLabel :: "config_env \<Rightarrow> string \<Rightarrow> (cd_state, unit) gost" where
  "AddNodeLabel k cdUID =
     bind_st (wrap_st (Wrapf ''error retrieving Node'') (nodes_Get k)) (\<lambda>node.
       case map_of (nd_labels node) computeDomainLabelKey of
         Some v \<Rightarrow> if v \<noteq> cdUID then err_st (Errorf ''label already exists for a different ComputeDomain'') else ret_st ()
       | None \<Rightarrow> wrap_st (Wrapf ''error updating Node with label'')
           (nodes_Update k (node\<lparr>nd_labels := AList.update computeDomainLabelKey cdUID (nd_labels node)\<rparr>)))"

definition RemoveNodeLabel :: "config_env \<Rightarrow> string \<Rightarrow> (cd_state, unit) gost" where
  "RemoveNodeLabel k cdUID =
     bind_st (wrap_st (Wrapf ''error retrieving Node'') (nodes_Get k)) (\<lambda>node.
       case map_of (nd_labels node) computeDomainLabelKey of
         None \<Rightarrow> ret_st ()
       | Some v \<Rightarrow> if v \<noteq> cdUID then ret_st ()
           else wrap_st (Wrapf ''error updating Node to remove label'')
             (nodes_Update k (node\<lparr>nd_labels := AList.delete computeDomainLabelKey (nd_labels node)\<rparr>)))"

subsection \<open>Daemon settings\<close>

definition settings_rootDir :: "cd_env \<Rightarrow> string \<Rightarrow> string" where
  "settings_rootDir en domainID = pe_root en @ ''/'' @ domainID"

definition WriteConfigFile :: "config_env \<Rightarrow> string \<Rightarrow> (cd_state, unit) gost" where
  "WriteConfigFile k domainID =
     bind_st (lift_st (wrap_go (Wrapf ''error reading template file'') (ke_template k))) (\<lambda>bytes s.
       case ke_write k of
         Some e \<Rightarrow> (Err (Wrapf ''error writing config file'' e), s)
       | None \<Rightarrow> (Ok (), s\<lparr>cst_dirs := AList.update domainID
           (AList.update ''imexd.cfg.tmpl'' bytes (case map_of (cst_dirs s) domainID of None \<Rightarrow> [] | Some fs \<Rightarrow> fs)) (cst_dirs s)\<rparr>))"

definition settings_Prepare :: "config_env \<Rightarrow> string \<Rightarrow> (cd_state, unit) gost" where
  "settings_Prepare k domainID s = (case ke_mkdir k of
     Some e \<Rightarrow> (Err (Wrapf ''error creating directory'' e), s)
   | None \<Rightarrow>
       let s = (case map_of (cst_dirs s) domainID of
                  None \<Rightarrow> s\<lparr>cst_dirs := AList.update domainID [] (cst_dirs s)\<rparr> | Some _ \<Rightarrow> s)
       in wrap_st (Wrapf ''error writing config file'') (WriteConfigFile k domainID) s)"

text \<open>Unpreparing a daemon leaves its directory to the periodic clean-up.\<close>

definition settings_Unprepare :: "string \<Rightarrow> (cd_state, unit) gost" where
  "settings_Unprepare domainID = ret_st ()"

definition GetComputeDomainChannelContainerEdits :: "NVcapDeviceInfo \<Rightarrow> ContainerEdits" where
  "GetComputeDomainChannelContainerEdits info = no_edits\<lparr>ce_DeviceNodes := [CDICharDevNode info]\<rparr>"

definition GetCDIContainerEditsForImex :: "NVcapDeviceInfo \<Rightarrow> ContainerEdits" where
  "GetCDIContainerEditsForImex info = no_edits\<lparr>ce_DeviceNodes := [CDICharDevNode info]\<rparr>"

definition GetCDIContainerEditsCommon :: "cd_env \<Rightarrow> config_env \<Rightarrow> string \<Rightarrow> ContainerEdits go" where
  "GetCDIContainerEditsCommon en k domainID =
     bind_go (found_ComputeDomain (ke_list1 k)) (\<lambda>cd.
       Ok (no_edits\<lparr>
         ce_Env := [''CLIQUE_ID='' @ pe_cliqueID en, ''COMPUTE_DOMAIN_UUID='' @ co_UID cd,
                    ''COMPUTE_DOMAIN_NAME='' @ co_Name cd, ''COMPUTE_DOMAIN_NAMESPACE='' @ co_Namespace cd],
         ce_Mounts := [\<lparr>mt_ContainerPath = ''/imexd'', mt_HostPath = settings_rootDir en domainID,
                        mt_Options = [''rw'', ''nosuid'', ''nodev'', ''bind'']\<rparr>]\<rparr>))"

text \<open>One pass of \<open>periodicCleanup\<close> over the directories: \<open>entries\<close> is what reading the root directory gave,
  \<open>remains\<close> what a failing removal leaves.\<close>

definition cleanup_dir ::
  "(string \<Rightarrow> ComputeDomain list go) \<Rightarrow> (string \<Rightarrow> (string, string) gomap option) \<Rightarrow> string \<Rightarrow> cd_state \<Rightarrow> cd_state" where
  "cleanup_dir answers remains uid s = (case GetComputeDomain (answers uid) of
     Ok None \<Rightarrow> (case remains uid of
         None \<Rightarrow> s\<lparr>cst_dirs := AList.delete uid (cst_dirs s)\<rparr>
       | Some fs \<Rightarrow> s\<lparr>cst_dirs := AList.update uid fs (cst_dirs s)\<rparr>)
   | _ \<Rightarrow> s)"

definition periodicCleanup ::
  "string list go \<Rightarrow> (string \<Rightarrow> ComputeDomain list go) \<Rightarrow> (string \<Rightarrow> (string, string) gomap option) \<Rightarrow> cd_state \<Rightarrow> cd_state" where
  "periodicCleanup dir answers remains s = (case dir of
     Ok uids \<Rightarrow> fold (cleanup_dir answers remains) uids s | _ \<Rightarrow> s)"

section \<open>CDI spec files (cdi.go)\<close>

definition cd_cdiVendor :: string where "cd_cdiVendor = ''k8s.'' @ cd_DriverName"
definition cd_cdiDeviceClass :: string where "cd_cdiDeviceClass = ''device''"
definition cd_cdiClaimClass :: string where "cd_cdiClaimClass = ''claim''"

definition cd_spec_name :: "string \<Rightarrow> string" where
  "cd_spec_name claimUID = GenerateTransientSpecName cd_cdiVendor cd_cdiClaimClass claimUID"

definition GetStandardDevice :: "cd_AllocatableDevice \<Rightarrow> string" where
  "GetStandardDevice d = (if cad_Type d = ComputeDomainChannelType then ''''
     else QualifiedName cd_cdiVendor cd_cdiDeviceClass ''all'')"

definition GetClaimDevice :: "string \<Rightarrow> cd_AllocatableDevice \<Rightarrow> ContainerEdits option \<Rightarrow> string go" where
  "GetClaimDevice claimUID d edits = (case edits of
     None \<Rightarrow> Ok ''''
   | Some _ \<Rightarrow> bind_go (cad_CanonicalName d) (\<lambda>name.
       Ok (QualifiedName cd_cdiVendor cd_cdiClaimClass (claimUID @ ''-'' @ name))))"

fun claim_device_specs :: "string \<Rightarrow> ContainerEdits \<Rightarrow> cd_PreparedDevice list \<Rightarrow> cdispec_Device list go" where
  "claim_device_specs claimUID edits [] = Ok []"
| "claim_device_specs claimUID edits (d # ds) =
     bind_go (cpd_CanonicalName d) (\<lambda>name.
     bind_go (claim_device_specs claimUID edits ds) (\<lambda>specs.
       Ok (\<lparr>sp_Name = claimUID @ ''-'' @ name, sp_Edits = edits\<rparr> # specs)))"

fun claim_specs :: "string \<Rightarrow> ContainerEdits option cd_PreparedDevices \<Rightarrow> cdispec_Device list go" where
  "claim_specs claimUID [] = Ok []"
| "claim_specs claimUID (g # gs) = (case dst_containerEdits (cg_ConfigState g) of
     None \<Rightarrow> claim_specs claimUID gs
   | Some edits \<Rightarrow>
       bind_go (claim_device_specs claimUID edits (cg_Devices g)) (\<lambda>specs.
       bind_go (claim_specs claimUID gs) (\<lambda>rest. Ok (specs @ rest))))"

definition cd_CreateClaimSpecFile ::
  "cd_env \<Rightarrow> string \<Rightarrow> ContainerEdits option cd_PreparedDevices \<Rightarrow> (cd_state, unit) gost" where
  "cd_CreateClaimSpecFile en claimUID devices =
     bind_st (lift_st (claim_specs claimUID devices)) (\<lambda>specs.
       if specs = [] then ret_st ()
       else case pe_newSpec en specs of
         Some e \<Rightarrow> err_st (Wrapf ''failed to create CDI spec'' e)
       | None \<Rightarrow> (\<lambda>s. case pe_save en of
           Some e \<Rightarrow> (Err e, s)
         | None \<Rightarrow> (Ok (), s\<lparr>cst_cdi := AList.update (cd_spec_name claimUID)
             \<lparr>sf_Vendor = cd_cdiVendor, sf_Class = cd_cdiClaimClass,
              sf_Devices = map (\<lambda>d. d\<lparr>sp_Edits := pe_transform en (sp_Edits d)\<rparr>) specs\<rparr> (cst_cdi s)\<rparr>)))"

definition cd_DeleteClaimSpecFileIfExists :: "cd_env \<Rightarrow> string \<Rightarrow> (cd_state, unit) gost" where
  "cd_DeleteClaimSpecFileIfExists en claimUID s = (case pe_remove en of
     Some e \<Rightarrow> (Err e, s)
   | None \<Rightarrow> (Ok (), s\<lparr>cst_cdi := AList.delete (cd_spec_name claimUID) (cst_cdi s)\<rparr>))"

section \<open>Checkpoint access (device_state.go)\<close>

definition cd_getCheckpoint :: "goerr option \<Rightarrow> (cd_state, cd_claims) gost" where
  "cd_getCheckpoint fail = (case fail of Some e \<Rightarrow> err_st e | None \<Rightarrow> gets cst_claims)"

definition cd_updateCheckpoint :: "goerr option \<Rightarrow> (cd_claims \<Rightarrow> cd_claims) \<Rightarrow> (cd_state, unit) gost" where
  "cd_updateCheckpoint fail mutate s = (case fail of
     Some e \<Rightarrow> (Err e, s)
   | None \<Rightarrow> (Ok (), s\<lparr>cst_claims := mutate (cst_claims s)\<rparr>))"

definition cd_deleteClaimFromCheckpoint :: "goerr option \<Rightarrow> string \<Rightarrow> (cd_state, unit) gost" where
  "cd_deleteClaimFromCheckpoint fail uid =
     wrap_st (Wrapf ''unable to update checkpoint'') (cd_updateCheckpoint fail (AList.delete uid))"

text \<open>The search of \<open>assertImexChannelNotAllocated\<close> for a prepared channel.\<close>

fun channel_in_devices :: "int \<Rightarrow> cd_PreparedDevice list \<Rightarrow> bool go" where
  "channel_in_devices i [] = Ok False"
| "channel_in_devices i (d # ds) = (case cpd_Channel d of
     None \<Rightarrow> channel_in_devices i ds
   | Some c \<Rightarrow> bind_go (deref (pch_Info c)) (\<lambda>info.
       if chi_ID info = i then Ok True else channel_in_devices i ds))"

fun channel_in_groups :: "int \<Rightarrow> cd_stored \<Rightarrow> bool go" where
  "channel_in_groups i [] = Ok False"
| "channel_in_groups i (g # gs) =
     bind_go (channel_in_devices i (cg_Devices g)) (\<lambda>found. if found then Ok True else channel_in_groups i gs)"

fun channel_in_claims :: "int \<Rightarrow> cd_claims \<Rightarrow> unit go" where
  "channel_in_claims i [] = Ok ()"
| "channel_in_claims i ((uid, pc) # rest) =
     (if pc_CheckpointState pc \<noteq> ClaimCheckpointStatePrepareCompleted then channel_in_claims i rest
      else bind_go (channel_in_groups i (pc_PreparedDevices pc)) (\<lambda>found.
        if found then Err (Errorf ''channel already allocated by claim'') else channel_in_claims i rest))"

definition assertImexChannelNotAllocated :: "config_env \<Rightarrow> int \<Rightarrow> (cd_state, unit) gost" where
  "assertImexChannelNotAllocated k i =
     bind_st (wrap_st (Wrapf ''unable to get checkpoint'') (cd_getCheckpoint (ke_getCheckpoint k))) (\<lambda>claims.
       lift_st (channel_in_claims i claims))"

section \<open>Configurations of a claim\<close>

definition cd_applicable :: "cd_AllocatableDevice \<Rightarrow> RuntimeObject \<Rightarrow> bool" where
  "cd_applicable d config = (case config of
     ChannelConfigObj _ \<Rightarrow> cad_Type d = ComputeDomainChannelType
   | DaemonConfigObj _ \<Rightarrow> cad_Type d = ComputeDomainDaemonType
   | _ \<Rightarrow> True)"

definition cd_with_defaults :: "OpaqueDeviceConfig list \<Rightarrow> OpaqueDeviceConfig list" where
  "cd_with_defaults configs =
     \<lparr>odc_Requests = [], odc_Config = DaemonConfigObj DefaultComputeDomainDaemonConfig\<rparr> #
     \<lparr>odc_Requests = [], odc_Config = ChannelConfigObj DefaultComputeDomainChannelConfig\<rparr> # configs"

text \<open>The result is the list of configurations, which stands for the keys, and the map from
  their positions to the results they apply to.\<close>

definition getConfigResultsMap ::
  "cd_env \<Rightarrow> (string \<Rightarrow> RuntimeObject go) \<Rightarrow> AllocationResult option \<Rightarrow> (OpaqueDeviceConfig list \<times> cd_config_map) go" where
  "getConfigResultsMap en decode alloc =
     bind_go (deref alloc) (\<lambda>al.
     bind_go (wrap_go (Wrapf ''error getting opaque device configs'') (cd_GetOpaqueDeviceConfigs decode cd_DriverName (al_Config al))) (\<lambda>opaque.
       let configs = cd_with_defaults opaque
       in bind_go (config_results (\<lambda>n. map_option cd_applicable (map_of (pe_allocatable en) n)) cd_DriverName configs (al_Results al) [])
            (\<lambda>crm. Ok (configs, crm))))"

section \<open>Applying configurations\<close>

definition opt_Append :: "ContainerEdits option \<Rightarrow> ContainerEdits \<Rightarrow> ContainerEdits option" where
  "opt_Append e edits = Some (case e of None \<Rightarrow> edits | Some e \<Rightarrow> edits_Append e edits)"

text \<open>The loop over \<open>nvCapImexChanDevInfos[:chancount]\<close>.\<close>

definition channel_edits :: "cd_env \<Rightarrow> nat \<Rightarrow> ContainerEdits option go" where
  "channel_edits en chancount =
     (if chancount > length (pe_channelInfos en) then Panic ''slice bounds out of range''
      else Ok (fold (\<lambda>info e. opt_Append e (GetComputeDomainChannelContainerEdits info)) (take chancount (pe_channelInfos en)) None))"

definition ComputeDomainChannelAllocationModeAll :: string where "ComputeDomainChannelAllocationModeAll = ''All''"

definition applyComputeDomainChannelConfig ::
  "cd_env \<Rightarrow> config_env \<Rightarrow> ComputeDomainChannelConfig \<Rightarrow> ResourceClaim \<Rightarrow> DeviceRequestAllocationResult list \<Rightarrow>
   (cd_state, ContainerEdits option cd_DeviceConfigState) gost" where
  "applyComputeDomainChannelConfig en k config claim results =
     (if length results \<noteq> 1 then err_st (Errorf ''applyComputeDomainChannelConfig: unexpected results'')
      else
        let chancount = (if chc_AllocationMode config = ComputeDomainChannelAllocationModeAll then pe_maxChannels en else 1)
        in bind_st (wrap_st (Wrapf ''allocation failed'') (assertImexChannelNotAllocated k 0)) (\<lambda>_.
           bind_st (lift_st (wrap_go (\<lambda>e. PermanentError (Wrapf ''error asserting ComputeDomain's namespace'' e))
             (AssertComputeDomainNamespace (ke_list1 k) (rc_Namespace claim)))) (\<lambda>_.
           bind_st (wrap_st (Wrapf ''error adding Node label for ComputeDomain'') (AddNodeLabel k (chc_DomainID config))) (\<lambda>_.
           bind_st (lift_st (wrap_go (Wrapf ''error asserting ComputeDomain Ready'') (AssertComputeDomainReady en k))) (\<lambda>_.
           bind_st (if pe_cliqueID en = '''' then ret_st None else lift_st (channel_edits en chancount)) (\<lambda>edits.
             ret_st \<lparr>dst_Type = ComputeDomainChannelType, dst_ComputeDomain = chc_DomainID config, dst_containerEdits = edits\<rparr>))))))"

definition applyComputeDomainDaemonConfig ::
  "cd_env \<Rightarrow> config_env \<Rightarrow> ComputeDomainDaemonConfig \<Rightarrow> ResourceClaim \<Rightarrow> DeviceRequestAllocationResult list \<Rightarrow>
   (cd_state, ContainerEdits option cd_DeviceConfigState) gost" where
  "applyComputeDomainDaemonConfig en k config claim results =
     (if length (remdups (map dr_Device results)) \<noteq> 1 then err_st (Errorf ''only expected 1 device for requests in claim'')
      else
        bind_st (wrap_st (Wrapf ''error preparing ComputeDomain daemon settings'') (settings_Prepare k (dc_DomainID config))) (\<lambda>_.
        bind_st (lift_st (wrap_go (Wrapf ''error getting common container edits'')
          (GetCDIContainerEditsCommon en k (dc_DomainID config)))) (\<lambda>common.
        bind_st (if pe_cliqueID en = '''' then ret_st (opt_Append None common)
                 else bind_st (lift_st (wrap_go (Wrapf ''error parsing nvcap device info for fabric-imex-mgmt'')
                     (ParseNVCapDeviceInfo (ke_caps k) (ke_procDevices k)))) (\<lambda>info.
                   ret_st (opt_Append (opt_Append None common) (GetCDIContainerEditsForImex info)))) (\<lambda>edits.
          ret_st \<lparr>dst_Type = ComputeDomainDaemonType, dst_ComputeDomain = dc_DomainID config, dst_containerEdits = edits\<rparr>))))"

text \<open>The cast, normalisation and validation of a configuration, and its application.\<close>

definition cd_normalize_and_validate :: "RuntimeObject \<Rightarrow> RuntimeObject go" where
  "cd_normalize_and_validate config = (case config of
     ChannelConfigObj c \<Rightarrow> bind_go (wrap_go (Wrapf ''error normalizing config'') (ComputeDomainChannelConfig_Normalize c)) (\<lambda>c.
       bind_go (wrap_go (Wrapf ''error validating config'') (ComputeDomainChannelConfig_Validate c)) (\<lambda>_. Ok (ChannelConfigObj c)))
   | DaemonConfigObj c \<Rightarrow> bind_go (wrap_go (Wrapf ''error normalizing config'') (ComputeDomainDaemonConfig_Normalize c)) (\<lambda>c.
       bind_go (wrap_go (Wrapf ''error validating config'') (ComputeDomainDaemonConfig_Validate c)) (\<lambda>_. Ok (DaemonConfigObj c)))
   | _ \<Rightarrow> Err (Errorf ''runtime object is not a recognized configuration''))"

definition cd_applyConfig ::
  "cd_env \<Rightarrow> config_env \<Rightarrow> RuntimeObject \<Rightarrow> ResourceClaim \<Rightarrow> DeviceRequestAllocationResult list \<Rightarrow>
   (cd_state, ContainerEdits option cd_DeviceConfigState) gost" where
  "cd_applyConfig en k config claim results = (case config of
     ChannelConfigObj c \<Rightarrow> applyComputeDomainChannelConfig en k c claim results
   | DaemonConfigObj c \<Rightarrow> applyComputeDomainDaemonConfig en k c claim results
   | _ \<Rightarrow> err_st (Errorf ''unknown config type''))"

fun cd_apply_configs ::
  "cd_env \<Rightarrow> ResourceClaim \<Rightarrow> OpaqueDeviceConfig list \<Rightarrow> cd_config_map \<Rightarrow>
   (cd_state, (nat, ContainerEdits option cd_DeviceConfigState) gomap) gost" where
  "cd_apply_configs en claim configs [] = ret_st []"
| "cd_apply_configs en claim configs ((i, results) # rest) =
     bind_st (lift_st (cd_normalize_and_validate (odc_Config (configs ! i)))) (\<lambda>config.
     bind_st (wrap_st (Wrapf ''error applying config'') (cd_applyConfig en (pe_config en i) config claim results)) (\<lambda>cs.
     bind_st (cd_apply_configs en claim configs rest) (\<lambda>states.
       ret_st ((i, cs) # states))))"

section \<open>Preparing and unpreparing a claim\<close>

definition cd_prepare_result ::
  "cd_env \<Rightarrow> string \<Rightarrow> ContainerEdits option \<Rightarrow> DeviceRequestAllocationResult \<Rightarrow> cd_PreparedDevice go" where
  "cd_prepare_result en claimUID edits r =
     bind_go (deref (map_of (pe_allocatable en) (dr_Device r))) (\<lambda>d.
     bind_go (GetClaimDevice claimUID d edits) (\<lambda>claimDevice.
       let std = GetStandardDevice d;
           device = \<lparr>kd_Requests = [dr_Request r], kd_PoolName = dr_Pool r, kd_DeviceName = dr_Device r,
             kd_CDIDeviceIDs = (if std \<noteq> '''' then [std] else []) @ (if claimDevice \<noteq> '''' then [claimDevice] else []),
             kd_Metadata = None\<rparr>
       in Ok (if cad_Type d = ComputeDomainChannelType then
                \<lparr>cpd_Channel = Some \<lparr>pch_Info = cad_Channel d, pch_Device = Some device\<rparr>, cpd_Daemon = None\<rparr>
              else if cad_Type d = ComputeDomainDaemonType then
                \<lparr>cpd_Channel = None, cpd_Daemon = Some \<lparr>pdm_Info = cad_Daemon d, pdm_Device = Some device\<rparr>\<rparr>
              else \<lparr>cpd_Channel = None, cpd_Daemon = None\<rparr>)))"

fun cd_prepare_results ::
  "cd_env \<Rightarrow> string \<Rightarrow> ContainerEdits option \<Rightarrow> DeviceRequestAllocationResult list \<Rightarrow> cd_PreparedDevice list go" where
  "cd_prepare_results en claimUID edits [] = Ok []"
| "cd_prepare_results en claimUID edits (r # rs) =
     bind_go (cd_prepare_result en claimUID edits r) (\<lambda>d.
     bind_go (cd_prepare_results en claimUID edits rs) (\<lambda>ds. Ok (d # ds)))"

fun cd_prepare_groups ::
  "cd_env \<Rightarrow> string \<Rightarrow> (nat, ContainerEdits option cd_DeviceConfigState) gomap \<Rightarrow> cd_config_map \<Rightarrow>
   ContainerEdits option cd_PreparedDevices go" where
  "cd_prepare_groups en claimUID states [] = Ok []"
| "cd_prepare_groups en claimUID states ((i, results) # rest) =
     bind_go (deref (map_of states i)) (\<lambda>cs.
     bind_go (cd_prepare_results en claimUID (dst_containerEdits cs) results) (\<lambda>ds.
     bind_go (cd_prepare_groups en claimUID states rest) (\<lambda>gs.
       Ok (\<lparr>cg_Devices = ds, cg_ConfigState = cs\<rparr> # gs))))"

definition cd_prepareDevices :: "cd_env \<Rightarrow> ResourceClaim \<Rightarrow> (cd_state, ContainerEdits option cd_PreparedDevices) gost" where
  "cd_prepareDevices en claim =
     bind_st (lift_st (wrap_go (Wrapf ''error generating configResultsMap'')
       (getConfigResultsMap en (pe_strict en) (rc_Allocation claim)))) (\<lambda>(configs, crm).
     bind_st (cd_apply_configs en claim configs (pe_order1 en crm)) (\<lambda>states.
       lift_st (cd_prepare_groups en (rc_UID claim) states (pe_order2 en crm))))"

definition cd_started_entry :: "ResourceClaim \<Rightarrow> cd_stored PreparedClaimV2" where
  "cd_started_entry claim = \<lparr>pc_CheckpointState = ClaimCheckpointStatePrepareStarted, pc_Allocation = rc_Allocation claim,
     pc_PreparedDevices = [], pc_Name = rc_Name claim, pc_Namespace = rc_Namespace claim\<rparr>"

definition cd_completed_entry :: "ResourceClaim \<Rightarrow> ContainerEdits option cd_PreparedDevices \<Rightarrow> cd_stored PreparedClaimV2" where
  "cd_completed_entry claim devices = \<lparr>pc_CheckpointState = ClaimCheckpointStatePrepareCompleted, pc_Allocation = rc_Allocation claim,
     pc_PreparedDevices = cd_serialised devices, pc_Name = '''', pc_Namespace = ''''\<rparr>"

text \<open>The overlap check is the one of \<open>Prepared_Claims\<close> with the name of this driver.\<close>

definition cd_requestedNonAdminDevices :: "ResourceClaim \<Rightarrow> string list go" where
  [simp]: "cd_requestedNonAdminDevices claim = requestedNonAdminDevices cd_DriverName claim"

definition cd_validateNoOverlappingPreparedDevices :: "cd_claims \<Rightarrow> ResourceClaim \<Rightarrow> unit go" where
  "cd_validateNoOverlappingPreparedDevices cp claim =
     bind_go (cd_requestedNonAdminDevices claim) (\<lambda>requested.
       if requested = [] then Ok () else overlap_loop cd_DriverName (rc_UID claim) requested cp)"

lemma cd_validate_eq [simp]:
  "cd_validateNoOverlappingPreparedDevices cp claim = validateNoOverlappingPreparedDevices cd_DriverName cp claim"
  by (simp add: cd_validateNoOverlappingPreparedDevices_def validateNoOverlappingPreparedDevices_def)

definition cd_prepare_fresh :: "cd_env \<Rightarrow> ResourceClaim \<Rightarrow> cd_claims \<Rightarrow> (cd_state, kubelet_Device list) gost" where
  "cd_prepare_fresh en claim cp =
     bind_st (lift_st (wrap_go (Wrapf ''unable to prepare claim'') (cd_validateNoOverlappingPreparedDevices cp claim))) (\<lambda>_.
     bind_st (wrap_st (Wrapf ''unable to update checkpoint'')
       (cd_updateCheckpoint (pe_update1 en) (AList.update (rc_UID claim) (cd_started_entry claim)))) (\<lambda>_.
     bind_st (wrap_st (Wrapf ''prepare devices failed'') (cd_prepareDevices en claim)) (\<lambda>devices.
     bind_st (wrap_st (Wrapf ''unable to create CDI spec file for claim'') (cd_CreateClaimSpecFile en (rc_UID claim) devices)) (\<lambda>_.
     bind_st (wrap_st (Wrapf ''unable to update checkpoint'')
       (cd_updateCheckpoint (pe_update2 en) (AList.update (rc_UID claim) (cd_completed_entry claim devices)))) (\<lambda>_.
       lift_st (cd_GetDevices devices))))))"

definition cd_Prepare :: "cd_env \<Rightarrow> ResourceClaim \<Rightarrow> (cd_state, kubelet_Device list) gost" where
  "cd_Prepare en claim =
     bind_st (wrap_st (Wrapf ''unable to get checkpoint'') (cd_getCheckpoint (pe_get en))) (\<lambda>cp.
       case map_of cp (rc_UID claim) of
         Some pc \<Rightarrow>
           if pc_CheckpointState pc = ClaimCheckpointStatePrepareCompleted
           then lift_st (cd_GetDevices (pc_PreparedDevices pc))
           else cd_prepare_fresh en claim cp
       | None \<Rightarrow> cd_prepare_fresh en claim cp)"

definition cd_unprepare_config :: "cd_env \<Rightarrow> OpaqueDeviceConfig list \<Rightarrow> nat \<Rightarrow> (cd_state, unit) gost" where
  "cd_unprepare_config en configs i = (case odc_Config (configs ! i) of
     ChannelConfigObj c \<Rightarrow> wrap_st (Wrapf ''error removing Node label for ComputeDomain'')
       (RemoveNodeLabel (pe_config en i) (chc_DomainID c))
   | DaemonConfigObj c \<Rightarrow> wrap_st (Wrapf ''error unpreparing ComputeDomain daemon settings'')
       (settings_Unprepare (dc_DomainID c))
   | _ \<Rightarrow> ret_st ())"

definition cd_unprepareDevices :: "cd_env \<Rightarrow> AllocationResult option \<Rightarrow> (cd_state, unit) gost" where
  "cd_unprepareDevices en alloc =
     bind_st (lift_st (wrap_go (Wrapf ''error generating configResultsMap'')
       (getConfigResultsMap en (pe_nonstrict en) alloc))) (\<lambda>(configs, crm).
       each (cd_unprepare_config en configs) (map fst (pe_order1 en crm)))"

text \<open>The allocation of a claim: for an entry of an old checkpoint it is fetched from the API server.\<close>

definition cd_allocation :: "cd_env \<Rightarrow> cd_stored PreparedClaimV2 \<Rightarrow> AllocationResult option go" where
  "cd_allocation en pc = (case pc_Allocation pc of
     Some al \<Rightarrow> Ok (Some al)
   | None \<Rightarrow> (case pe_fetch en of
       Err e \<Rightarrow> Err (PermanentError (Wrapf ''failed to fetch ResourceClaim'' e))
     | Panic p \<Rightarrow> Panic p
     | Ok None \<Rightarrow> Err (PermanentError (Errorf ''no allocation set in ResourceClaim''))
     | Ok (Some al) \<Rightarrow> Ok (Some al)))"

definition cd_Unprepare :: "cd_env \<Rightarrow> NamespacedObject \<Rightarrow> (cd_state, unit) gost" where
  "cd_Unprepare en ref =
     bind_st (wrap_st (Wrapf ''unable to get checkpoint'') (cd_getCheckpoint (pe_get en))) (\<lambda>cp.
       case map_of cp (no_UID ref) of
         None \<Rightarrow> ret_st ()
       | Some pc \<Rightarrow>
           bind_st (lift_st (cd_allocation en pc)) (\<lambda>alloc.
           bind_st (if pc_CheckpointState pc = ClaimCheckpointStatePrepareStarted \<or>
                       pc_CheckpointState pc = ClaimCheckpointStatePrepareCompleted
                    then wrap_st (Wrapf ''unprepare devices failed'') (cd_unprepareDevices en alloc)
                    else err_st (Errorf ''unsupported ClaimCheckpointState'')) (\<lambda>_.
           bind_st (wrap_st (Wrapf ''unable to delete CDI spec file for claim'') (cd_DeleteClaimSpecFileIfExists en (no_UID ref))) (\<lambda>_.
             wrap_st (Wrapf ''error deleting claim from checkpoint'') (cd_deleteClaimFromCheckpoint (pe_update1 en) (no_UID ref))))))"

section \<open>Request handlers (driver.go)\<close>

text \<open>\<open>lock\<close> is the outcome of acquiring the lock file of the node. The boolean says whether the work is done.\<close>

definition cd_nodePrepareResource ::
  "goerr option \<Rightarrow> cd_env \<Rightarrow> ResourceClaim \<Rightarrow> cd_state \<Rightarrow> (bool \<times> kubelet_Device list go) \<times> cd_state" where
  "cd_nodePrepareResource lock en claim s = (case lock of
     Some e \<Rightarrow> ((False, Err (Wrapf ''error acquiring prep/unprep lock'' e)), s)
   | None \<Rightarrow>
       if rc_Allocation claim = None then ((True, Err (Errorf ''no allocation set in ResourceClaim'')), s)
       else case cd_Prepare en claim s of
         (Ok devs, s') \<Rightarrow> ((True, Ok devs), s')
       | (Err e, s') \<Rightarrow> ((isPermanentError e, Err (Wrapf ''error preparing devices for claim'' e)), s')
       | (Panic p, s') \<Rightarrow> ((False, Panic p), s'))"

definition cd_nodeUnprepareResource ::
  "goerr option \<Rightarrow> cd_env \<Rightarrow> NamespacedObject \<Rightarrow> cd_state \<Rightarrow> (bool \<times> unit go) \<times> cd_state" where
  "cd_nodeUnprepareResource lock en ref s = (case lock of
     Some e \<Rightarrow> ((False, Err (Wrapf ''error acquiring prep/unprep lock'' e)), s)
   | None \<Rightarrow>
       case cd_Unprepare en ref s of
         (Ok u, s') \<Rightarrow> ((True, Ok u), s')
       | (Err e, s') \<Rightarrow> ((isPermanentError e, Err (Wrapf ''error unpreparing devices for claim'' e)), s')
       | (Panic p, s') \<Rightarrow> ((False, Panic p), s'))"

end
