(* ===== verification/Cd_Plugin.thy ===== *)
theory Cd_Plugin
  imports Cd_State
begin

text \<open>
  Properties of the compute-domain kubelet plugin: what preparing and unpreparing a claim do to the checkpoint, the node
  label and the CDI spec files, and the invariants of its runs (\<open>cd_run\<close>). The lock file makes the
  handlers atomic, so a run is a sequence of handler calls, clean-up steps and changes by others.
\<close>

section \<open>Frames\<close>

text \<open>
  A predicate that the directories do not matter for and that adding the node label keeps is kept by preparing devices
  (\<open>apply_frame\<close>). One that does not depend on the Node either is kept by unpreparing them, too
  (\<open>node_frame\<close>).
\<close>

locale apply_frame =
  fixes P :: "cd_state \<Rightarrow> bool" and en :: cd_env
  assumes dirs: "P s \<Longrightarrow> P (s\<lparr>cst_dirs := d\<rparr>)"
    and add: "keeps P (AddNodeLabel (pe_config en i) uid)"
begin

lemma keeps_settings_Prepare: "keeps P (settings_Prepare k d)"
proof -
  have "keeps P (WriteConfigFile k d)"
    unfolding WriteConfigFile_def by (intro keeps_bind keepsI) (auto simp: lift_st_def dirs split: option.split)
  then show ?thesis
    by (auto simp: settings_Prepare_def keeps_def Let_def dirs split: option.split)
qed

lemma keeps_getCheckpoint: "keeps P (cd_getCheckpoint fail)"
  by (auto simp: cd_getCheckpoint_def split: option.split)

lemma keeps_applyConfig: "keeps P (cd_applyConfig en (pe_config en i) config claim results)"
  by (auto simp: cd_applyConfig_def applyComputeDomainChannelConfig_def applyComputeDomainDaemonConfig_def Let_def
      assertImexChannelNotAllocated_def split: RuntimeObject.split
      intro!: keeps_rules add keeps_settings_Prepare keeps_getCheckpoint)

lemma keeps_prepareDevices: "keeps P (cd_prepareDevices en claim)"
proof -
  have "keeps P (cd_apply_configs en claim configs crm)" for configs crm
    by (induction crm) (auto split: prod.splits intro!: keeps_rules keeps_applyConfig)
  then show ?thesis by (auto simp: cd_prepareDevices_def split: prod.splits intro!: keeps_rules)
qed

end

locale node_frame =
  fixes P :: "cd_state \<Rightarrow> bool" and en :: cd_env
  assumes node: "P s \<Longrightarrow> P (s\<lparr>cst_node := n\<rparr>)" and dirs': "P s \<Longrightarrow> P (s\<lparr>cst_dirs := d\<rparr>)"
begin

lemma others: "P s \<Longrightarrow> P (others_node ch s)"
  by (cases ch) (simp_all add: others_node_def node)

lemma keeps_nodes_Get: "keeps P (nodes_Get k)"
  by (auto simp: keeps_def nodes_Get_def Let_def others split: option.split)

lemma keeps_nodes_Update: "keeps P (nodes_Update k n)"
  by (auto simp: keeps_def nodes_Update_def Let_def others node split: option.split)

lemma keeps_AddNodeLabel: "keeps P (AddNodeLabel k uid)"
  by (auto simp: AddNodeLabel_def split: option.split intro!: keeps_rules keeps_nodes_Get keeps_nodes_Update)

lemma keeps_RemoveNodeLabel: "keeps P (RemoveNodeLabel k uid)"
  by (auto simp: RemoveNodeLabel_def split: option.split intro!: keeps_rules keeps_nodes_Get keeps_nodes_Update)

lemma keeps_unprepareDevices: "keeps P (cd_unprepareDevices en alloc)"
proof -
  have "keeps P (cd_unprepare_config en configs i)" for configs i
    by (auto simp: cd_unprepare_config_def settings_Unprepare_def split: RuntimeObject.split intro!: keeps_rules keeps_RemoveNodeLabel)
  then show ?thesis by (auto simp: cd_unprepareDevices_def split: prod.splits intro!: keeps_rules)
qed

end

sublocale node_frame \<subseteq> apply_frame P en
  by unfold_locales (simp_all add: dirs' keeps_AddNodeLabel)

interpretation claims_frame: node_frame "\<lambda>s. cst_claims s = c" en for c en
  by unfold_locales simp_all

lemma keeps_eqD: "keeps (\<lambda>s. f s = f s0) m \<Longrightarrow> m s0 = (r, s') \<Longrightarrow> f s' = f s0"
  using keepsD [of "\<lambda>s. f s = f s0" m s0] by simp

lemmas prepareDevices_claims = keeps_eqD [where f = cst_claims, OF claims_frame.keeps_prepareDevices]
lemmas unprepareDevices_claims = keeps_eqD [where f = cst_claims, OF claims_frame.keeps_unprepareDevices]

lemma CreateClaimSpecFile_frame:
  assumes "cd_CreateClaimSpecFile en uid devices s = (r, s')"
  shows "cst_claims s' = cst_claims s \<and> cst_node s' = cst_node s \<and> cst_dirs s' = cst_dirs s"
proof -
  have "keeps (\<lambda>t. cst_claims t = cst_claims s \<and> cst_node t = cst_node s \<and> cst_dirs t = cst_dirs s)
      (cd_CreateClaimSpecFile en uid devices)"
    by (auto simp: cd_CreateClaimSpecFile_def split: option.split intro!: keeps_bind) (simp add: keeps_def split: option.split)
  from keepsD [OF this, of s] assms show ?thesis by simp
qed

lemma cd_updateCheckpoint_cases:
  assumes "cd_updateCheckpoint fail f s = (r, s')"
  obtains (written) "r = Ok ()" and "s' = s\<lparr>cst_claims := f (cst_claims s)\<rparr>"
  | (failed) "\<not> is_ok r" and "s' = s"
  using assms by (cases fail) (auto simp: cd_updateCheckpoint_def)

lemma bind_cd_getCheckpoint:
  "bind_st (wrap_st w (cd_getCheckpoint fail)) f s = (if fail = None then f (cst_claims s) s else (Err (w (the fail)), s))"
  by (cases fail) (simp_all add: bind_st_def wrap_st_def cd_getCheckpoint_def gets_def err_st_def)

section \<open>What the operations do to the checkpoint\<close>

lemma cd_prepare_fresh_cases:
  assumes "cd_prepare_fresh en claim (cst_claims s) s = (r, s')"
  obtains (unchanged) "\<not> is_ok r" and "cst_claims s' = cst_claims s"
  | (started) "\<not> is_ok r" and "validateNoOverlappingPreparedDevices cd_DriverName (cst_claims s) claim = Ok ()"
      and "cst_claims s' = AList.update (rc_UID claim) (cd_started_entry claim) (cst_claims s)"
  | (completed) devices s1 s2 s3 where "validateNoOverlappingPreparedDevices cd_DriverName (cst_claims s) claim = Ok ()"
      and "s1 = s\<lparr>cst_claims := AList.update (rc_UID claim) (cd_started_entry claim) (cst_claims s)\<rparr>"
      and "cd_prepareDevices en claim s1 = (Ok devices, s2)"
      and "cd_CreateClaimSpecFile en (rc_UID claim) devices s2 = (Ok (), s3)"
      and "s' = s3\<lparr>cst_claims := AList.update (rc_UID claim) (cd_completed_entry claim devices) (cst_claims s3)\<rparr>"
      and "r = cd_GetDevices devices"
  using assms unfolding cd_prepare_fresh_def
proof (cases rule: bind_cases)
  case (fail r0)
  then show thesis by (intro unchanged) (auto simp: go_simps)
next
  case (ok a t)
  then have v: "validateNoOverlappingPreparedDevices cd_DriverName (cst_claims s) claim = Ok ()" and [simp]: "t = s"
    by (auto simp: go_simps)
  from ok(2) show thesis
  proof (cases rule: bind_cases)
    case (fail r0)
    then show thesis by (elim wrap_cases cd_updateCheckpoint_cases) (auto intro: unchanged)
  next
    case (ok b s1)
    then have s1: "s1 = s\<lparr>cst_claims := AList.update (rc_UID claim) (cd_started_entry claim) (cst_claims s)\<rparr>"
      by (elim wrap_cases cd_updateCheckpoint_cases) auto
    from ok(2) show thesis
    proof (cases rule: bind_cases)
      case (fail r0)
      then obtain r1 where "cd_prepareDevices en claim s1 = (r1, s')" by (elim wrap_cases)
      from prepareDevices_claims [OF this] fail v s1 show thesis by (intro started) auto
    next
      case (ok devices s2)
      then have pd: "cd_prepareDevices en claim s1 = (Ok devices, s2)" by (simp add: wrap_st_eq_Ok)
      note c2 = prepareDevices_claims [OF pd]
      from ok(2) show thesis
      proof (cases rule: bind_cases)
        case (fail r0)
        then obtain r1 where "cd_CreateClaimSpecFile en (rc_UID claim) devices s2 = (r1, s')" by (elim wrap_cases)
        from CreateClaimSpecFile_frame [OF this] fail v c2 s1 show thesis by (intro started) auto
      next
        case (ok u s3)
        then have cf: "cd_CreateClaimSpecFile en (rc_UID claim) devices s2 = (Ok (), s3)" by (simp add: wrap_st_eq_Ok)
        note c3 = CreateClaimSpecFile_frame [OF cf]
        from ok(2) show thesis
        proof (cases rule: bind_cases)
          case (fail r0)
          then show thesis using c2 c3 v s1
            by (elim wrap_cases cd_updateCheckpoint_cases) (auto intro: started)
        next
          case (ok x s4)
          then show thesis using completed [OF v s1 pd cf]
            by (elim wrap_cases cd_updateCheckpoint_cases) (auto simp: go_simps)
        qed
      qed
    qed
  qed
qed

lemma cd_Prepare_eq:
  "cd_Prepare en claim s =
     (if pe_get en \<noteq> None then (Err (Wrapf ''unable to get checkpoint'' (the (pe_get en))), s)
      else case map_of (cst_claims s) (rc_UID claim) of
        Some pc \<Rightarrow> if completed pc then (cd_GetDevices (pc_PreparedDevices pc), s) else cd_prepare_fresh en claim (cst_claims s) s
      | None \<Rightarrow> cd_prepare_fresh en claim (cst_claims s) s)"
  by (simp add: cd_Prepare_def bind_cd_getCheckpoint completed_def lift_st_def split: option.split)

lemma cd_Prepare_cases:
  assumes "cd_Prepare en claim s = (r, s')"
  obtains (no_checkpoint) "\<not> is_ok r" and "s' = s"
  | (again) pc where "map_of (cst_claims s) (rc_UID claim) = Some pc" and "completed pc"
      and "r = cd_GetDevices (pc_PreparedDevices pc)" and "s' = s"
  | (fresh) "\<forall>pc. map_of (cst_claims s) (rc_UID claim) = Some pc \<longrightarrow> \<not> completed pc"
      and "cd_prepare_fresh en claim (cst_claims s) s = (r, s')"
proof (cases "pe_get en = None")
  case False
  with assms show thesis by (intro no_checkpoint) (auto simp: cd_Prepare_eq)
next
  case get: True
  show thesis
  proof (cases "\<exists>pc. map_of (cst_claims s) (rc_UID claim) = Some pc \<and> completed pc")
    case True
    then obtain pc where "map_of (cst_claims s) (rc_UID claim) = Some pc" "completed pc" by blast
    with assms get show thesis by (intro again [of pc]) (simp_all add: cd_Prepare_eq)
  next
    case False
    with assms get show thesis by (intro fresh) (auto simp: cd_Prepare_eq split: option.splits)
  qed
qed

lemma cd_completed_entry_simps [simp]:
  "completed (cd_completed_entry claim devices)" "pc_Allocation (cd_completed_entry claim devices) = rc_Allocation claim"
  "\<not> completed (cd_started_entry claim)"
  by (simp_all add: completed_def cd_completed_entry_def cd_started_entry_def)

lemma cd_Prepare_claims:
  "cst_claims (snd (cd_Prepare en claim s)) = cst_claims s \<or>
   (\<exists>pc. cst_claims (snd (cd_Prepare en claim s)) = AList.update (rc_UID claim) pc (cst_claims s) \<and>
      (completed pc \<longrightarrow> validateNoOverlappingPreparedDevices cd_DriverName (cst_claims s) claim = Ok () \<and>
         pc_Allocation pc = rc_Allocation claim))"
proof -
  obtain r s' where p: "cd_Prepare en claim s = (r, s')" by fastforce
  then show ?thesis
  proof (cases rule: cd_Prepare_cases)
    case fresh
    from fresh(2) show ?thesis
    proof (cases rule: cd_prepare_fresh_cases)
      case unchanged
      with p show ?thesis by simp
    next
      case started
      with p show ?thesis by (intro disjI2 exI [of _ "cd_started_entry claim"]) simp
    next
      case (completed devices s1 s2 s3)
      from prepareDevices_claims [OF completed(3)] CreateClaimSpecFile_frame [OF completed(4)] completed(1,2,5) p
      show ?thesis by (intro disjI2 exI [of _ "cd_completed_entry claim devices"]) simp
    qed
  qed (use p in auto)
qed

lemma cd_Unprepare_claims:
  assumes "cd_Unprepare en ref s = (r, s')"
  shows "cst_claims s' = (if is_ok r then AList.delete (no_UID ref) (cst_claims s) else cst_claims s)"
proof (cases "pe_get en \<noteq> None \<or> map_of (cst_claims s) (no_UID ref) = None")
  case True
  then have "map_of (cst_claims s) (no_UID ref) = None \<Longrightarrow> AList.delete (no_UID ref) (cst_claims s) = cst_claims s"
    by (intro AList.delete_id) (simp add: map_of_eq_None_iff)
  with True assms show ?thesis
    by (auto simp: cd_Unprepare_def bind_cd_getCheckpoint go_simps split: if_splits option.splits)
next
  case False
  then obtain pc where pc: "map_of (cst_claims s) (no_UID ref) = Some pc" "pe_get en = None" by auto
  let ?m1 = "\<lambda>alloc. if pc_CheckpointState pc = ClaimCheckpointStatePrepareStarted \<or> pc_CheckpointState pc = ClaimCheckpointStatePrepareCompleted
    then wrap_st (Wrapf ''unprepare devices failed'') (cd_unprepareDevices en alloc)
    else err_st (Errorf ''unsupported ClaimCheckpointState'')"
  let ?rest = "bind_st (wrap_st (Wrapf ''unable to delete CDI spec file for claim'') (cd_DeleteClaimSpecFileIfExists en (no_UID ref))) (\<lambda>_.
    wrap_st (Wrapf ''error deleting claim from checkpoint'') (cd_deleteClaimFromCheckpoint (pe_update1 en) (no_UID ref)))"
  have k1: "keeps (\<lambda>t. cst_claims t = cst_claims s) (?m1 alloc)" for alloc
    by (auto intro!: keeps_rules claims_frame.keeps_unprepareDevices)
  have rest: "cst_claims t' = (if is_ok r' then AList.delete (no_UID ref) (cst_claims t) else cst_claims t)"
    if "?rest t = (r', t')" for t r' t'
    using that by (auto simp: cd_DeleteClaimSpecFileIfExists_def cd_deleteClaimFromCheckpoint_def cd_updateCheckpoint_def go_simps
        bind_st_def wrap_st_def split: option.splits)
  from assms pc have "bind_st (lift_st (cd_allocation en pc)) (\<lambda>alloc. bind_st (?m1 alloc) (\<lambda>_. ?rest)) s = (r, s')"
    by (simp add: cd_Unprepare_def bind_cd_getCheckpoint)
  then show ?thesis
  proof (cases rule: bind_cases)
    case (fail r0)
    then show ?thesis by (auto simp: go_simps)
  next
    case (ok alloc t)
    then have [simp]: "t = s" by (simp add: go_simps)
    from ok(2) show ?thesis
    proof (cases rule: bind_cases)
      case (fail r0)
      with keeps_eqD [where f = cst_claims, OF k1, of alloc r0 s'] show ?thesis by simp
    next
      case (ok b u)
      with keeps_eqD [where f = cst_claims, OF k1, of alloc "Ok b" u] rest [OF ok(2)] show ?thesis by simp
    qed
  qed
qed

lemma snd_cd_nodePrepareResource:
  "snd (cd_nodePrepareResource lock en claim s) =
     (if lock = None \<and> rc_Allocation claim \<noteq> None then snd (cd_Prepare en claim s) else s)"
  by (cases "cd_Prepare en claim s"; cases "fst (cd_Prepare en claim s)") (auto simp: cd_nodePrepareResource_def split: option.split)

lemma snd_cd_nodeUnprepareResource:
  "snd (cd_nodeUnprepareResource lock en ref s) = (if lock = None then snd (cd_Unprepare en ref s) else s)"
  by (cases "cd_Unprepare en ref s"; cases "fst (cd_Unprepare en ref s)") (auto simp: cd_nodeUnprepareResource_def split: option.split)

text \<open>The unprepare handler as clean-up calls it, without the flag.\<close>

definition cd_unprepfunc :: "goerr option \<times> cd_env \<Rightarrow> NamespacedObject \<Rightarrow> (cd_state, unit) gost" where
  "cd_unprepfunc c ref s = (case cd_nodeUnprepareResource (fst c) (snd c) ref s of ((_, r), s') \<Rightarrow> (r, s'))"

definition cd_unprepareIfStale ::
  "(string \<Rightarrow> string \<Rightarrow> string go) \<Rightarrow> (string \<Rightarrow> goerr option \<times> cd_env) \<Rightarrow> string \<Rightarrow> cd_stored PreparedClaimV2 \<Rightarrow>
   (cd_state, unit) gost" where
  "cd_unprepareIfStale getClaim calls = unprepareIfStale getClaim (\<lambda>ref. cd_unprepfunc (calls (no_UID ref)) ref)"

definition cd_cleanup ::
  "goerr option \<Rightarrow> (string \<Rightarrow> string \<Rightarrow> string go) \<Rightarrow> (string \<Rightarrow> goerr option \<times> cd_env) \<Rightarrow> (cd_state, unit) gost" where
  "cd_cleanup fail getClaim calls s = (case cd_getCheckpoint fail s of
     (Ok cp, s') \<Rightarrow>
       each (\<lambda>(cpuid, cpclaim). cd_unprepareIfStale getClaim calls cpuid cpclaim)
         (filter (\<lambda>(uid, c). pc_CheckpointState c = ClaimCheckpointStatePrepareStarted) cp) s'
   | (_, s') \<Rightarrow> (Ok (), s'))"

lemma cd_cleanup_eq:
  "cd_cleanup fail getClaim calls =
     cleanup (cd_getCheckpoint fail) getClaim (\<lambda>ref. cd_unprepfunc (calls (no_UID ref)) ref)"
  by (rule ext) (unfold cd_cleanup_def cleanup_def cd_unprepareIfStale_def, rule refl)

lemma snd_cd_unprepfunc: "snd (cd_unprepfunc c ref s) = snd (cd_nodeUnprepareResource (fst c) (snd c) ref s)"
  by (auto simp: cd_unprepfunc_def split: prod.splits)

interpretation cd: claim_handlers cst_claims cd_DriverName
    "\<lambda>c claim s. snd (cd_nodePrepareResource (fst c) (snd c) claim s)" cd_unprepfunc
proof
  show "cst_claims (snd (cd_unprepfunc c ref s)) \<in> {cst_claims s, AList.delete (no_UID ref) (cst_claims s)}" for c ref s
    using cd_Unprepare_claims [OF prod.collapse [symmetric], of "snd c" ref s]
    by (auto simp: snd_cd_unprepfunc snd_cd_nodeUnprepareResource)
qed (use cd_Prepare_claims snd_cd_nodePrepareResource in auto)

section \<open>Exclusive use of channel 0\<close>

definition holds_channel :: "int \<Rightarrow> 'e cd_PreparedDevices \<Rightarrow> bool" where
  "holds_channel i devices \<longleftrightarrow> (\<exists>g \<in> set devices. \<exists>d \<in> set (cg_Devices g). \<exists>c info.
     cpd_Channel d = Some c \<and> pch_Info c = Some info \<and> chi_ID info = i)"

lemma holds_channel_serialised [simp]: "holds_channel i (cd_serialised devices) = holds_channel i devices"
  by (simp add: holds_channel_def cd_serialised_def)

lemma channel_in_devices_False:
  "channel_in_devices i ds = Ok False \<Longrightarrow> d \<in> set ds \<Longrightarrow> cpd_Channel d = Some c \<Longrightarrow> pch_Info c = Some info \<Longrightarrow> chi_ID info \<noteq> i"
  by (induction ds) (auto simp: deref_def split: option.splits if_splits)

lemma channel_in_groups_False: "channel_in_groups i gs = Ok False \<Longrightarrow> \<not> holds_channel i gs"
proof (induction gs)
  case (Cons g gs)
  then have "channel_in_devices i (cg_Devices g) = Ok False" "channel_in_groups i gs = Ok False"
    by (auto split: if_splits)
  with Cons.IH channel_in_devices_False show ?case unfolding holds_channel_def by fastforce
qed (simp add: holds_channel_def)

lemma channel_in_claims_Ok:
  "channel_in_claims i cs = Ok () \<Longrightarrow> (u, pc) \<in> set cs \<Longrightarrow> completed pc \<Longrightarrow> \<not> holds_channel i (pc_PreparedDevices pc)"
  by (induction cs) (auto simp: completed_def channel_in_groups_False split: if_splits)

lemma apply_channel_asserts:
  "applyComputeDomainChannelConfig en k c claim results s = (Ok cs, s') \<Longrightarrow> channel_in_claims 0 (cst_claims s) = Ok ()"
  unfolding applyComputeDomainChannelConfig_def assertImexChannelNotAllocated_def Let_def
  by (auto simp: bind_st_eq_Ok wrap_st_eq_Ok cd_getCheckpoint_def gets_def go_simps split: if_splits option.splits)

lemma apply_configs_Ok:
  assumes "cd_apply_configs en claim configs crm s = (Ok states, s')" and "(i, results) \<in> set crm"
  shows "(\<exists>c. odc_Config (configs ! i) = ChannelConfigObj c \<and> channel_in_claims 0 (cst_claims s) = Ok ()) \<or>
    (\<exists>c. odc_Config (configs ! i) = DaemonConfigObj c)"
  using assms
proof (induction crm arbitrary: s states)
  case (Cons x crm)
  obtain j rs where x: "x = (j, rs)" by (cases x)
  from Cons.prems(1) obtain config cs s1 states1 where n: "cd_normalize_and_validate (odc_Config (configs ! j)) = Ok config"
    and a: "cd_applyConfig en (pe_config en j) config claim rs s = (Ok cs, s1)"
    and r: "cd_apply_configs en claim configs crm s1 = (Ok states1, s')"
    by (auto simp: x bind_st_eq_Ok wrap_st_eq_Ok go_simps)
  from keeps_eqD [where f = cst_claims, OF claims_frame.keeps_applyConfig a] have c1: "cst_claims s1 = cst_claims s" .
  show ?case
  proof (cases "(i, results) \<in> set crm")
    case True
    from Cons.IH [OF r this] c1 show ?thesis by simp
  next
    case False
    with Cons.prems(2) x have ij: "i = j" by simp
    from n a show ?thesis unfolding ij cd_normalize_and_validate_def cd_applyConfig_def
      by (auto simp: ComputeDomainChannelConfig_Normalize_def dest!: apply_channel_asserts split: RuntimeObject.splits)
  qed
qed simp

lemma prepare_result_channel:
  "cd_prepare_result en uid edits r = Ok d \<Longrightarrow> cpd_Channel d = Some c \<Longrightarrow>
     \<exists>dev. map_of (pe_allocatable en) (dr_Device r) = Some dev \<and> cad_Type dev = ComputeDomainChannelType"
  by (auto simp: cd_prepare_result_def deref_def Let_def split: option.splits if_splits)

lemma prepare_results_channel:
  "cd_prepare_results en uid edits rs = Ok ds \<Longrightarrow> d \<in> set ds \<Longrightarrow> cpd_Channel d = Some c \<Longrightarrow>
     \<exists>r \<in> set rs. \<exists>dev. map_of (pe_allocatable en) (dr_Device r) = Some dev \<and> cad_Type dev = ComputeDomainChannelType"
  by (induction rs arbitrary: ds) (auto dest: prepare_result_channel)

lemma prepare_groups_channel:
  assumes "cd_prepare_groups en uid states crm = Ok gs" and "holds_channel n gs"
  shows "\<exists>(i, rs) \<in> set crm. \<exists>r \<in> set rs. \<exists>dev. map_of (pe_allocatable en) (dr_Device r) = Some dev \<and>
    cad_Type dev = ComputeDomainChannelType"
  using assms
proof (induction crm arbitrary: gs)
  case (Cons x crm)
  obtain i rs where x: "x = (i, rs)" by (cases x)
  from Cons.prems(1) obtain cs ds gs' where d: "cd_prepare_results en uid (dst_containerEdits cs) rs = Ok ds"
    and g: "cd_prepare_groups en uid states crm = Ok gs'" and gs: "gs = \<lparr>cg_Devices = ds, cg_ConfigState = cs\<rparr> # gs'"
    by (auto simp: x)
  show ?case
  proof (cases "holds_channel n gs'")
    case True
    from Cons.IH [OF g this] show ?thesis by auto
  next
    case False
    with Cons.prems(2) obtain dv c where "dv \<in> set ds" "cpd_Channel dv = Some c"
      unfolding gs holds_channel_def by fastforce
    from prepare_results_channel [OF d this] show ?thesis by (auto simp: x)
  qed
qed (simp add: holds_channel_def)

text \<open>The two loops visit the whole map of configurations, in some order.\<close>

definition cd_orders_ok :: "cd_env \<Rightarrow> bool" where
  "cd_orders_ok en \<longleftrightarrow> (\<forall>m. mset (pe_order1 en m) = mset m \<and> mset (pe_order2 en m) = mset m)"

lemma prepareDevices_channel:
  assumes "cd_prepareDevices en claim s = (Ok devices, s')" and "cd_orders_ok en" and "holds_channel n devices"
  shows "channel_in_claims 0 (cst_claims s) = Ok ()"
proof -
  from assms(1) obtain configs crm states s1 where m: "getConfigResultsMap en (pe_strict en) (rc_Allocation claim) = Ok (configs, crm)"
    and a: "cd_apply_configs en claim configs (pe_order1 en crm) s = (Ok states, s1)"
    and g: "cd_prepare_groups en (rc_UID claim) states (pe_order2 en crm) = Ok devices"
    by (auto simp: cd_prepareDevices_def bind_st_eq_Ok wrap_st_eq_Ok go_simps)
  have sets: "set (pe_order1 en crm) = set crm" "set (pe_order2 en crm) = set crm"
    using assms(2) unfolding cd_orders_ok_def by (metis mset_eq_setD)+
  from prepare_groups_channel [OF g assms(3)] obtain i rs r dev where i: "(i, rs) \<in> set crm" "r \<in> set rs"
    and dev: "map_of (pe_allocatable en) (dr_Device r) = Some dev" "cad_Type dev = ComputeDomainChannelType"
    unfolding sets by blast
  from m obtain al :: AllocationResult where "config_results (\<lambda>n. map_option cd_applicable (map_of (pe_allocatable en) n)) cd_DriverName configs
      (al_Results al) [] = Ok crm"
    by (auto simp: getConfigResultsMap_def Let_def)
  then have "well_assigned (\<lambda>n. map_option cd_applicable (map_of (pe_allocatable en) n)) configs crm"
    by (rule config_results_well_assigned) (simp add: well_assigned_def)
  with i dev have "cd_applicable dev (odc_Config (configs ! i))" unfolding well_assigned_def by fastforce
  with dev(2) apply_configs_Ok [OF a, of i rs] i(1) show ?thesis unfolding sets by (auto simp: cd_applicable_def)
qed

text \<open>At most one completed claim holds channel 0.\<close>

definition channel_exclusive :: "cd_claims \<Rightarrow> bool" where
  "channel_exclusive cs \<longleftrightarrow> (\<forall>u1 c1 u2 c2. map_of cs u1 = Some c1 \<and> map_of cs u2 = Some c2 \<and> completed c1 \<and> completed c2 \<and>
     holds_channel 0 (pc_PreparedDevices c1) \<and> holds_channel 0 (pc_PreparedDevices c2) \<longrightarrow> u1 = u2)"

lemma channel_exclusive_delete: "channel_exclusive cs \<Longrightarrow> channel_exclusive (AList.delete u cs)"
  unfolding channel_exclusive_def delete_conv' by (auto simp: restrict_map_def split: if_splits)

lemma channel_exclusive_update:
  assumes "channel_exclusive cs"
    and "\<And>u' c'. completed c \<Longrightarrow> holds_channel 0 (pc_PreparedDevices c) \<Longrightarrow> map_of cs u' = Some c' \<Longrightarrow> completed c' \<Longrightarrow>
      \<not> holds_channel 0 (pc_PreparedDevices c')"
  shows "channel_exclusive (AList.update u c cs)"
  unfolding channel_exclusive_def
proof (intro allI impI, elim conjE)
  fix u1 c1 u2 c2
  assume "map_of (AList.update u c cs) u1 = Some c1" "map_of (AList.update u c cs) u2 = Some c2" "completed c1" "completed c2"
    "holds_channel 0 (pc_PreparedDevices c1)" "holds_channel 0 (pc_PreparedDevices c2)"
  with assms(1) assms(2) [of u1 c1] assms(2) [of u2 c2] show "u1 = u2"
    by (cases "u1 = u"; cases "u2 = u") (auto simp: channel_exclusive_def)
qed

lemma channel_exclusive_Prepare:
  assumes "channel_exclusive (cst_claims s)" and "cd_orders_ok en"
  shows "channel_exclusive (cst_claims (snd (cd_Prepare en claim s)))"
proof -
  obtain r s' where p: "cd_Prepare en claim s = (r, s')" by fastforce
  have started: "channel_exclusive (AList.update (rc_UID claim) (cd_started_entry claim) (cst_claims s))"
    by (rule channel_exclusive_update [OF assms(1)]) simp
  from p have "channel_exclusive (cst_claims s')"
  proof (cases rule: cd_Prepare_cases)
    case fresh
    from fresh(2) show ?thesis
    proof (cases rule: cd_prepare_fresh_cases)
      case (completed devices s1 s2 s3)
      have c3: "cst_claims s3 = cst_claims s1"
        using prepareDevices_claims [OF completed(3)] CreateClaimSpecFile_frame [OF completed(4)] by simp
      have "\<not> holds_channel 0 (pc_PreparedDevices c)"
        if "holds_channel 0 devices" "map_of (cst_claims s1) u = Some c" "completed c" for u c
        using channel_in_claims_Ok [OF prepareDevices_channel [OF completed(3) assms(2) that(1)] map_of_SomeD [OF that(2)] that(3)] .
      moreover have "channel_exclusive (cst_claims s1)" using started by (simp add: completed(2))
      ultimately have "channel_exclusive (AList.update (rc_UID claim) (cd_completed_entry claim devices) (cst_claims s1))"
        by (intro channel_exclusive_update) (simp_all add: cd_completed_entry_def)
      with c3 completed(5) show ?thesis by simp
    qed (use assms(1) started in auto)
  qed (use assms(1) in auto)
  with p show ?thesis by simp
qed

section \<open>Runs of the plugin\<close>

text \<open>Between calls, others change the Node, stale directories are removed, and a restart of the machine may lose the
  spec files.\<close>

inductive cd_run :: "cd_state \<Rightarrow> bool" where
  start: "cst_claims s = [] \<Longrightarrow> cd_run s"
| prepare: "cd_run s \<Longrightarrow> cd_orders_ok en \<Longrightarrow> cd_run (snd (cd_nodePrepareResource lock en claim s))"
| unprepare: "cd_run s \<Longrightarrow> cd_run (snd (cd_nodeUnprepareResource lock en ref s))"
| stale: "cd_run s \<Longrightarrow> cd_run (snd (unprepareIfStale getClaim (cd_unprepfunc c) uid (pc :: cd_stored PreparedClaimV2) s))"
| others: "cd_run s \<Longrightarrow> cd_run (s\<lparr>cst_node := n\<rparr>)"
| dirs: "cd_run s \<Longrightarrow> cd_run (periodicCleanup dir answers remains s)"
| reboot: "cd_run s \<Longrightarrow> cd_run (s\<lparr>cst_cdi := f\<rparr>)"

definition cd_inv :: "cd_state \<Rightarrow> bool" where
  "cd_inv s \<longleftrightarrow> gomap (cst_claims s) \<and> exclusive cd_DriverName (cst_claims s) \<and> channel_exclusive (cst_claims s)"

lemma periodicCleanup_claims [simp]: "cst_claims (periodicCleanup dir answers remains s) = cst_claims s"
proof -
  have step: "cst_claims (cleanup_dir answers remains uid t) = cst_claims t" for uid t
    by (auto simp: cleanup_dir_def split: go.split option.split)
  have "cst_claims (fold (cleanup_dir answers remains) uids t) = cst_claims t" for uids t
    by (induction uids arbitrary: t) (simp_all add: step)
  then show ?thesis by (auto simp: periodicCleanup_def split: go.split)
qed

lemma cd_inv_unprepfunc: "cd_inv s \<Longrightarrow> cd_inv (snd (cd_unprepfunc c ref s))"
  using cd.unprepare_entries [of c ref s] cd.exclusive_unprepare [of s c ref] cd.gomap_unprepare [of s c ref] channel_exclusive_delete
  unfolding cd_inv_def by fastforce

lemma cd_run_inv: "cd_run s \<Longrightarrow> cd_inv s"
proof (induction rule: cd_run.induct)
  case (start s)
  then show ?case by (simp add: cd_inv_def channel_exclusive_def)
next
  case (prepare s en lock claim)
  then show ?case
    using cd.exclusive_prepare [of s "(lock, en)" claim] cd.gomap_prepare [of s "(lock, en)" claim] channel_exclusive_Prepare [of s en claim]
    by (simp add: cd_inv_def snd_cd_nodePrepareResource)
next
  case (unprepare s lock en ref)
  then show ?case using cd_inv_unprepfunc [of s "(lock, en)" ref] by (simp add: snd_cd_unprepfunc)
next
  case (stale s getClaim c uid pc)
  then show ?case using cd.snd_unprepareIfStale [of getClaim c uid pc s] cd_inv_unprepfunc by metis
qed (simp_all add: cd_inv_def)

section \<open>A prepared channel\<close>

lemma AddNodeLabel_Ok:
  "AddNodeLabel k uid s = (Ok (), s') \<Longrightarrow> map_of (nd_labels (cst_node s')) computeDomainLabelKey = Some uid"
  by (auto simp: AddNodeLabel_def nodes_Get_def nodes_Update_def bind_st_eq_Ok wrap_st_eq_Ok Let_def go_simps
      split: option.splits if_splits)

text \<open>What has been checked when the configuration of a channel has been applied.\<close>

definition channel_checked :: "cd_env \<Rightarrow> config_env \<Rightarrow> ResourceClaim \<Rightarrow> bool" where
  "channel_checked en k claim \<longleftrightarrow> (\<exists>cd cd'. GetComputeDomain (ke_list1 k) = Ok (Some cd) \<and> co_Namespace cd = rc_Namespace claim \<and>
     GetComputeDomain (ke_list2 k) = Ok (Some cd') \<and> isCurrentNodeReady en k cd' = Ok True)"

definition channel_count :: "cd_env \<Rightarrow> ComputeDomainChannelConfig \<Rightarrow> nat" where
  "channel_count en config = (if chc_AllocationMode config = ComputeDomainChannelAllocationModeAll then pe_maxChannels en else 1)"

lemma fold_channel_edits:
  "ce_DeviceNodes (the (fold (\<lambda>info e. opt_Append e (GetComputeDomainChannelContainerEdits info)) infos (Some e))) =
     ce_DeviceNodes e @ map CDICharDevNode infos \<and>
   fold (\<lambda>info e. opt_Append e (GetComputeDomainChannelContainerEdits info)) infos (Some e) \<noteq> None"
  by (induction infos arbitrary: e)
    (simp_all add: opt_Append_def edits_Append_def GetComputeDomainChannelContainerEdits_def no_edits_def)

lemma channel_edits_Ok:
  assumes "channel_edits en n = Ok e" and "0 < n"
  shows "\<exists>edits. e = Some edits \<and> ce_DeviceNodes edits = map CDICharDevNode (take n (pe_channelInfos en))"
proof -
  from assms(1) have n: "n \<le> length (pe_channelInfos en)" by (auto simp: channel_edits_def split: if_splits)
  with assms(2) obtain x xs where xs: "take n (pe_channelInfos en) = x # xs" by (cases "take n (pe_channelInfos en)") auto
  let ?x = "GetComputeDomainChannelContainerEdits x"
  from assms(1) n have "e = fold (\<lambda>info e. opt_Append e (GetComputeDomainChannelContainerEdits info)) xs (Some ?x)"
    by (simp add: channel_edits_def xs opt_Append_def [of None] split: if_splits)
  moreover have "ce_DeviceNodes ?x = [CDICharDevNode x]" by (simp add: GetComputeDomainChannelContainerEdits_def)
  ultimately show ?thesis using fold_channel_edits [of xs ?x] by (auto simp: xs)
qed

text \<open>The container edits of a prepared channel: none without a clique, otherwise the device nodes of the channels.\<close>

definition channel_edits_for :: "cd_env \<Rightarrow> ComputeDomainChannelConfig \<Rightarrow> ContainerEdits option \<Rightarrow> bool" where
  "channel_edits_for en config e \<longleftrightarrow> (if pe_cliqueID en = '''' then e = None
     else \<exists>edits. e = Some edits \<and> ce_DeviceNodes edits = map CDICharDevNode (take (channel_count en config) (pe_channelInfos en)))"

lemma found_Ok: "found_ComputeDomain answer = Ok cd \<longleftrightarrow> GetComputeDomain answer = Ok (Some cd)"
  by (auto simp: found_ComputeDomain_def split: option.splits)

lemma apply_channel_Ok:
  assumes "applyComputeDomainChannelConfig en k config claim results s = (Ok cs, s')" and "0 < pe_maxChannels en"
  shows "channel_checked en k claim \<and> map_of (nd_labels (cst_node s')) computeDomainLabelKey = Some (chc_DomainID config) \<and>
    channel_edits_for en config (dst_containerEdits cs)"
proof -
  have pos: "0 < channel_count en config" using assms(2) by (simp add: channel_count_def)
  from assms(1) obtain s1 e where ns: "AssertComputeDomainNamespace (ke_list1 k) (rc_Namespace claim) = Ok ()"
    and l: "AddNodeLabel k (chc_DomainID config) s1 = (Ok (), s')" and r: "AssertComputeDomainReady en k = Ok ()"
    and e: "(if pe_cliqueID en = '''' then ret_st None else lift_st (channel_edits en (channel_count en config))) s' = (Ok e, s')"
    and cs: "dst_containerEdits cs = e"
    unfolding applyComputeDomainChannelConfig_def channel_count_def Let_def
    by (auto simp: bind_st_eq_Ok wrap_st_eq_Ok go_simps split: if_splits)
  from ns r have "channel_checked en k claim"
    by (auto simp: channel_checked_def AssertComputeDomainNamespace_def AssertComputeDomainReady_def found_Ok split: if_splits)
  moreover from e have "channel_edits_for en config e"
    using channel_edits_Ok [OF _ pos] by (auto simp: channel_edits_for_def go_simps split: if_splits)
  ultimately show ?thesis using AddNodeLabel_Ok [OF l] cs by simp
qed

lemma single_config:
  assumes "getConfigResultsMap en decode (Some al) = Ok (configs, crm)"
    and "filter (\<lambda>r. dr_Driver r = cd_DriverName) (al_Results al) = [r]"
    and "map_of (pe_allocatable en) (dr_Device r) = Some d" and "cad_Channel d = Some ch"
  obtains i where "crm = [(i, [r])]" and "i < length configs" and "cd_applicable d (odc_Config (configs ! i))"
proof -
  let ?device = "\<lambda>n. map_option cd_applicable (map_of (pe_allocatable en) n)"
  from assms(1) obtain opaque where configs: "configs = cd_with_defaults opaque"
    and crm: "config_results ?device cd_DriverName configs (al_Results al) [] = Ok crm"
    by (auto simp: getConfigResultsMap_def deref_def Let_def)
  have driver: "dr_Driver r = cd_DriverName"
    using arg_cong [OF assms(2), of set] by auto
  have "\<lparr>odc_Requests = [], odc_Config = ChannelConfigObj DefaultComputeDomainChannelConfig\<rparr> \<in> set configs"
    by (simp add: configs cd_with_defaults_def)
  then have not_None: "pick_config (cd_applicable d) (dr_Request r) (rev (enumerate 0 configs)) \<noteq> Ok None"
    by (rule pick_config_fallback) (simp_all add: cd_applicable_def cad_Type_def assms(4))
  from crm have "config_results ?device cd_DriverName configs [r] [] = Ok crm"
    using config_results_filter [of ?device cd_DriverName configs "al_Results al" "[]"] assms(2) by simp
  then obtain i where "pick_config (cd_applicable d) (dr_Request r) (rev (enumerate 0 configs)) = Ok (Some i)" "crm = [(i, [r])]"
    using not_None driver by (auto simp: assms(3) split: option.splits)
  with that show thesis by (simp add: pick_config_last)
qed

lemma singleton_order: "cd_orders_ok en \<Longrightarrow> pe_order1 en [x] = [x] \<and> pe_order2 en [x] = [x]"
  unfolding cd_orders_ok_def by (metis mset.simps mset_single_iff)

text \<open>The device that a channel claim gets.\<close>

definition channel_device :: "string \<Rightarrow> DeviceRequestAllocationResult \<Rightarrow> ComputeDomainChannelInfo \<Rightarrow> ContainerEdits option \<Rightarrow> kubelet_Device" where
  "channel_device uid r ch e = \<lparr>kd_Requests = [dr_Request r], kd_PoolName = dr_Pool r, kd_DeviceName = dr_Device r,
     kd_CDIDeviceIDs = (if e = None then []
       else [QualifiedName cd_cdiVendor cd_cdiClaimClass (uid @ ''-'' @ Channel_CanonicalName ch)]), kd_Metadata = None\<rparr>"

lemma prepare_result_channel_device:
  assumes "map_of (pe_allocatable en) (dr_Device r) = Some d" and "cad_Channel d = Some ch"
  shows "cd_prepare_result en uid e r =
    Ok \<lparr>cpd_Channel = Some \<lparr>pch_Info = Some ch, pch_Device = Some (channel_device uid r ch e)\<rparr>, cpd_Daemon = None\<rparr>"
  by (cases e) (simp_all add: cd_prepare_result_def deref_def assms cad_Type_def GetClaimDevice_def GetStandardDevice_def
      cad_CanonicalName_def channel_device_def QualifiedName_def)

lemma prepareDevices_single_channel:
  assumes "cd_prepareDevices en claim s = (Ok devices, s')" and "cd_orders_ok en" and "0 < pe_maxChannels en"
    and "rc_Allocation claim = Some al" and "filter (\<lambda>r. dr_Driver r = cd_DriverName) (al_Results al) = [r]"
    and "map_of (pe_allocatable en) (dr_Device r) = Some d" and "cad_Channel d = Some ch"
  obtains opaque i config cs where
    "cd_GetOpaqueDeviceConfigs (pe_strict en) cd_DriverName (al_Config al) = Ok opaque"
    and "i < length (cd_with_defaults opaque)" and "odc_Config (cd_with_defaults opaque ! i) = ChannelConfigObj config"
    and "chc_DomainID config \<noteq> []" and "channel_checked en (pe_config en i) claim"
    and "map_of (nd_labels (cst_node s')) computeDomainLabelKey = Some (chc_DomainID config)"
    and "channel_edits_for en config (dst_containerEdits cs)"
    and "devices = [\<lparr>cg_Devices = [\<lparr>cpd_Channel = Some \<lparr>pch_Info = Some ch,
       pch_Device = Some (channel_device (rc_UID claim) r ch (dst_containerEdits cs))\<rparr>, cpd_Daemon = None\<rparr>], cg_ConfigState = cs\<rparr>]"
proof -
  from assms(1,4) obtain configs crm states where m: "getConfigResultsMap en (pe_strict en) (Some al) = Ok (configs, crm)"
    and a: "cd_apply_configs en claim configs (pe_order1 en crm) s = (Ok states, s')"
    and g: "cd_prepare_groups en (rc_UID claim) states (pe_order2 en crm) = Ok devices"
    by (auto simp: cd_prepareDevices_def bind_st_eq_Ok wrap_st_eq_Ok go_simps)
  from m obtain opaque where opaque: "cd_GetOpaqueDeviceConfigs (pe_strict en) cd_DriverName (al_Config al) = Ok opaque"
    and configs: "configs = cd_with_defaults opaque"
    by (auto simp: getConfigResultsMap_def deref_def Let_def)
  from single_config [OF m assms(5-7)] obtain i where i: "crm = [(i, [r])]" "i < length configs" "cd_applicable d (odc_Config (configs ! i))"
    by blast
  from a obtain obj cs where n: "cd_normalize_and_validate (odc_Config (configs ! i)) = Ok obj"
    and ap: "cd_applyConfig en (pe_config en i) obj claim [r] s = (Ok cs, s')" and st: "states = [(i, cs)]"
    using singleton_order [OF assms(2), of "(i, [r])"] by (auto simp: i(1) bind_st_eq_Ok wrap_st_eq_Ok go_simps)
  from n i(3) obtain config where c: "odc_Config (configs ! i) = ChannelConfigObj config" "obj = ChannelConfigObj config" "chc_DomainID config \<noteq> []"
    by (auto simp: cd_normalize_and_validate_def cd_applicable_def cad_Type_def assms(7) ComputeDomainChannelConfig_Normalize_def
        ComputeDomainChannelConfig_Validate_def split: RuntimeObject.splits if_splits)
  from ap have "applyComputeDomainChannelConfig en (pe_config en i) config claim [r] s = (Ok cs, s')"
    by (simp add: cd_applyConfig_def c(2))
  note ch = apply_channel_Ok [OF this assms(3)]
  from g have "devices = [\<lparr>cg_Devices = [\<lparr>cpd_Channel = Some \<lparr>pch_Info = Some ch,
       pch_Device = Some (channel_device (rc_UID claim) r ch (dst_containerEdits cs))\<rparr>, cpd_Daemon = None\<rparr>], cg_ConfigState = cs\<rparr>]"
    using singleton_order [OF assms(2), of "(i, [r])"]
    by (simp add: i(1) st deref_def prepare_result_channel_device [OF assms(6,7)])
  with that [OF opaque _ _ c(3)] i(2) c(1) ch show thesis by (simp add: configs)
qed

section \<open>The node label\<close>

abbreviation domain_label :: "cd_state \<Rightarrow> string option" where
  "domain_label s \<equiv> map_of (nd_labels (cst_node s)) computeDomainLabelKey"

abbreviation other_labels :: "cd_state \<Rightarrow> string \<rightharpoonup> string" where
  "other_labels s \<equiv> (map_of (nd_labels (cst_node s))) (computeDomainLabelKey := None)"

text \<open>Nobody else changes the Node during a call.\<close>

definition undisturbed :: "cd_env \<Rightarrow> bool" where
  "undisturbed en \<longleftrightarrow> (\<forall>i. ke_others1 (pe_config en i) = None \<and> ke_others2 (pe_config en i) = None)"

lemma AddNodeLabel_label:
  assumes "undisturbed en"
  shows "keeps (\<lambda>t. other_labels t = o0 \<and> (l0 \<noteq> None \<longrightarrow> domain_label t = l0)) (AddNodeLabel (pe_config en i) uid)"
  using assms unfolding undisturbed_def
  by (auto simp: keeps_def AddNodeLabel_def nodes_Get_def nodes_Update_def others_node_def bind_st_def wrap_st_def Let_def go_simps
      update_conv' split: option.splits)

lemma RemoveNodeLabel_label:
  assumes "undisturbed en" and "uid \<in> D"
  shows "keeps (\<lambda>t. other_labels t = o0 \<and> (domain_label t = l0 \<or> domain_label t = None \<and> l0 \<in> Some ` D))
    (RemoveNodeLabel (pe_config en i) uid)"
  using assms unfolding undisturbed_def
  by (auto simp: keeps_def RemoveNodeLabel_def nodes_Get_def nodes_Update_def others_node_def bind_st_def wrap_st_def Let_def go_simps
      delete_conv' split: option.splits)

text \<open>The domains that the configurations of an allocation name for channels.\<close>

definition channel_domains :: "cd_env \<Rightarrow> AllocationResult option \<Rightarrow> string set" where
  "channel_domains en alloc = {chc_DomainID c |al opaque oc c. alloc = Some al \<and>
     cd_GetOpaqueDeviceConfigs (pe_nonstrict en) cd_DriverName (al_Config al) = Ok opaque \<and>
     oc \<in> set (cd_with_defaults opaque) \<and> odc_Config oc = ChannelConfigObj c}"

lemma unprepareDevices_label:
  assumes "undisturbed en" and "cd_orders_ok en"
  shows "keeps (\<lambda>t. other_labels t = o0 \<and> (domain_label t = l0 \<or> domain_label t = None \<and> l0 \<in> Some ` channel_domains en alloc))
    (cd_unprepareDevices en alloc)"
  (is "keeps ?P _")
  unfolding cd_unprepareDevices_def
proof (rule keepsI)
  fix s
  assume P: "?P s"
  let ?map = "getConfigResultsMap en (pe_nonstrict en) alloc"
  show "?P (snd (bind_st (lift_st (wrap_go (Wrapf ''error generating configResultsMap'') ?map))
      (\<lambda>(configs, crm). each (cd_unprepare_config en configs) (map fst (pe_order1 en crm))) s))"
  proof (cases ?map)
    case (Ok cc)
    then obtain configs crm where cc: "?map = Ok (configs, crm)" by (cases cc) auto
    from cc obtain al opaque where al: "alloc = Some al"
      and o: "cd_GetOpaqueDeviceConfigs (pe_nonstrict en) cd_DriverName (al_Config al) = Ok opaque" "configs = cd_with_defaults opaque"
      and crm: "config_results (\<lambda>n. map_option cd_applicable (map_of (pe_allocatable en) n)) cd_DriverName configs (al_Results al) [] = Ok crm"
      by (auto simp: getConfigResultsMap_def deref_def Let_def split: option.splits)
    have "well_assigned (\<lambda>n. map_option cd_applicable (map_of (pe_allocatable en) n)) configs crm"
      by (rule config_results_well_assigned [OF crm]) (simp add: well_assigned_def)
    moreover have "set (pe_order1 en crm) = set crm" using assms(2) unfolding cd_orders_ok_def by (metis mset_eq_setD)
    ultimately have len: "i < length configs" if "i \<in> set (map fst (pe_order1 en crm))" for i
      using that unfolding well_assigned_def by auto
    have "keeps ?P (cd_unprepare_config en configs i)" if "i \<in> set (map fst (pe_order1 en crm))" for i
    proof -
      have "chc_DomainID c \<in> channel_domains en alloc" if "odc_Config (configs ! i) = ChannelConfigObj c" for c
        using nth_mem [OF len [OF \<open>i \<in> _\<close>]] that al o unfolding channel_domains_def by blast
      then show ?thesis
        by (auto simp: cd_unprepare_config_def settings_Unprepare_def split: RuntimeObject.split
            intro!: keeps_wrap RemoveNodeLabel_label [OF assms(1)])
    qed
    then have k: "keeps ?P (each (cd_unprepare_config en configs) (map fst (pe_order1 en crm)))" by (rule keeps_each_in)
    have eq: "bind_st (lift_st (wrap_go (Wrapf ''error generating configResultsMap'') ?map))
      (\<lambda>(configs, crm). each (cd_unprepare_config en configs) (map fst (pe_order1 en crm))) s =
      each (cd_unprepare_config en configs) (map fst (pe_order1 en crm)) s"
      by (simp add: cc)
    show ?thesis unfolding eq by (rule keepsD [where P = ?P, OF k P])
  qed (use P in \<open>simp_all add: bind_st_def go_simps\<close>)
qed

lemma keeps_Prepare:
  assumes "\<And>s c. P s \<Longrightarrow> P (s\<lparr>cst_claims := c\<rparr>)" and "\<And>s f. P s \<Longrightarrow> P (s\<lparr>cst_cdi := f\<rparr>)"
    and "keeps P (cd_prepareDevices en claim)"
  shows "keeps P (cd_Prepare en claim)"
proof -
  have u: "keeps P (cd_updateCheckpoint fail f)" for fail f
    by (auto simp: keeps_def cd_updateCheckpoint_def assms(1) split: option.split)
  have c: "keeps P (cd_CreateClaimSpecFile en uid devices)" for uid devices
    by (auto simp: cd_CreateClaimSpecFile_def split: option.split intro!: keeps_bind) (simp add: keeps_def assms(2) split: option.split)
  have g: "keeps P (cd_getCheckpoint fail)" for fail by (simp add: cd_getCheckpoint_def split: option.split)
  have "keeps P (cd_prepare_fresh en claim cp)" for cp
    unfolding cd_prepare_fresh_def by (intro keeps_rules keeps_lift u c assms(3))
  then show ?thesis
    unfolding cd_Prepare_def by (auto split: option.split intro!: keeps_rules g)
qed

lemma keeps_unprepare_rest:
  assumes "\<And>s c. P s \<Longrightarrow> P (s\<lparr>cst_claims := c\<rparr>)" and "\<And>s f. P s \<Longrightarrow> P (s\<lparr>cst_cdi := f\<rparr>)"
  shows "keeps P (bind_st (wrap_st w1 (cd_DeleteClaimSpecFileIfExists en uid)) (\<lambda>_. wrap_st w2 (cd_deleteClaimFromCheckpoint fail uid)))"
proof -
  have "keeps P (cd_DeleteClaimSpecFileIfExists en uid)" "keeps P (cd_updateCheckpoint fail f)" for f
    by (auto simp: keeps_def cd_DeleteClaimSpecFileIfExists_def cd_updateCheckpoint_def assms split: option.split)
  then show ?thesis unfolding cd_deleteClaimFromCheckpoint_def by (intro keeps_rules)
qed

lemma Unprepare_label:
  fixes s :: cd_state and ref :: NamespacedObject
  assumes "undisturbed en" and "cd_orders_ok en"
  defines "s' \<equiv> snd (cd_Unprepare en ref s)"
  shows "other_labels s' = other_labels s \<and>
    (domain_label s' = domain_label s \<or> domain_label s' = None \<and>
      (\<exists>pc alloc. map_of (cst_claims s) (no_UID ref) = Some pc \<and> cd_allocation en pc = Ok alloc \<and>
         domain_label s \<in> Some ` channel_domains en alloc))"
proof (cases "pe_get en = None \<and> (\<exists>pc alloc. map_of (cst_claims s) (no_UID ref) = Some pc \<and> cd_allocation en pc = Ok alloc)")
  case False
  then have "s' = s"
    by (cases "map_of (cst_claims s) (no_UID ref)"; cases "cd_allocation en (the (map_of (cst_claims s) (no_UID ref)))")
      (auto simp: s'_def cd_Unprepare_def bind_cd_getCheckpoint ret_st_def)
  then show ?thesis by simp
next
  case True
  then obtain pc alloc where pc: "pe_get en = None" "map_of (cst_claims s) (no_UID ref) = Some pc" "cd_allocation en pc = Ok alloc" by blast
  let ?P = "\<lambda>t. other_labels t = other_labels s \<and>
    (domain_label t = domain_label s \<or> domain_label t = None \<and> domain_label s \<in> Some ` channel_domains en alloc)"
  let ?m = "bind_st (if pc_CheckpointState pc = ClaimCheckpointStatePrepareStarted \<or> pc_CheckpointState pc = ClaimCheckpointStatePrepareCompleted
      then wrap_st (Wrapf ''unprepare devices failed'') (cd_unprepareDevices en alloc)
      else err_st (Errorf ''unsupported ClaimCheckpointState'')) (\<lambda>_.
    bind_st (wrap_st (Wrapf ''unable to delete CDI spec file for claim'') (cd_DeleteClaimSpecFileIfExists en (no_UID ref))) (\<lambda>_.
      wrap_st (Wrapf ''error deleting claim from checkpoint'') (cd_deleteClaimFromCheckpoint (pe_update1 en) (no_UID ref))))"
  have "keeps ?P ?m"
    by (auto intro!: keeps_bind keeps_wrap unprepareDevices_label [OF assms(1,2)] keeps_unprepare_rest)
  then have "?P (snd (?m s))" by (rule keepsD) simp
  moreover have "s' = snd (?m s)" using pc by (simp add: s'_def cd_Unprepare_def bind_cd_getCheckpoint)
  ultimately show ?thesis using pc by blast
qed

section \<open>Properties\<close>

text \<open>C3. IMEX channel 0 is in use by one claim at a time: in every run of the plugin, whatever calls fail, whatever
  others do to the Node and however often calls are repeated, no two completely prepared claims hold channel
  0, not even with admin access, and two completed claims share no device of this driver unless one has it with admin access.\<close>

theorem cd_channel_exclusive:
  assumes "cd_run s" and "map_of (cst_claims s) u1 = Some c1" and "map_of (cst_claims s) u2 = Some c2"
    and "u1 \<noteq> u2" and "completed c1" and "completed c2"
  shows "\<not> (holds_channel 0 (pc_PreparedDevices c1) \<and> holds_channel 0 (pc_PreparedDevices c2)) \<and>
    nonadmin cd_DriverName c1 \<inter> nonadmin cd_DriverName c2 = {}"
  using cd_run_inv [OF assms(1)] assms(2-6) unfolding cd_inv_def exclusive_def channel_exclusive_def by blast



text \<open>A successful Unprepare removes exactly the entry of the claim and its spec file; a failed one changes no entry; and
  after a success, repeating the call is a no-op.\<close>

theorem cd_unprepare_effect:
  assumes "cd_Unprepare en ref s = (r, s')"
  shows "cst_claims s' = (if is_ok r then AList.delete (no_UID ref) (cst_claims s) else cst_claims s) \<and>
    (is_ok r \<and> map_of (cst_claims s) (no_UID ref) \<noteq> None \<longrightarrow> map_of (cst_cdi s') (cd_spec_name (no_UID ref)) = None) \<and>
    (is_ok r \<and> pe_get en' = None \<longrightarrow> cd_Unprepare en' ref s' = (Ok (), s'))"
proof -
  note cl = cd_Unprepare_claims [OF assms]
  have "map_of (cst_cdi s') (cd_spec_name (no_UID ref)) = None"
    if "is_ok r" "map_of (cst_claims s) (no_UID ref) \<noteq> None"
  proof -
    from that assms obtain pc t where "bind_st (wrap_st (Wrapf ''unable to delete CDI spec file for claim'')
        (cd_DeleteClaimSpecFileIfExists en (no_UID ref))) (\<lambda>_. wrap_st (Wrapf ''error deleting claim from checkpoint'')
        (cd_deleteClaimFromCheckpoint (pe_update1 en) (no_UID ref))) t = (Ok (), s')"
      by (auto simp: is_ok_iff cd_Unprepare_def bind_cd_getCheckpoint bind_st_eq_Ok split: if_splits)
    then show ?thesis
      by (auto simp: bind_st_eq_Ok wrap_st_eq_Ok cd_DeleteClaimSpecFileIfExists_def cd_deleteClaimFromCheckpoint_def
          cd_updateCheckpoint_def split: option.splits)
  qed
  moreover have "cd_Unprepare en' ref s' = (Ok (), s')" if "is_ok r" "pe_get en' = None"
    using cl that by (simp add: cd_Unprepare_def bind_cd_getCheckpoint ret_st_def)
  ultimately show ?thesis using cl by blast
qed

subsection \<open>Examples\<close>

text \<open>A node in a clique with one channel, and claims for channel 0 of domain \<open>d1\<close>; \<open>ready\<close> says whether the node is ready in
  the domain.\<close>

definition example_domain :: "bool \<Rightarrow> ComputeDomain" where
  "example_domain ready = \<lparr>co_UID = ''d1'', co_Name = ''cd'', co_Namespace = ''ns'', co_Deleting = False, co_Finalizers = [],
     co_NumNodes = 1, co_Channel = None,
     co_Nodes = [\<lparr>cn_Name = ''node1'', cn_IPAddress = '''', cn_CliqueID = ''c.1'', cn_Index = 0, cn_Status = status_of ready\<rparr>],
     co_Status = ''''\<rparr>"

definition example_config_env :: "bool \<Rightarrow> config_env" where
  "example_config_env ready = \<lparr>ke_list1 = Ok [example_domain ready], ke_list2 = Ok [example_domain ready],
     ke_clique = Err ApiNotFound, ke_getCheckpoint = None, ke_others1 = None, ke_nodeGet = None, ke_others2 = None,
     ke_nodeUpdate = None, ke_mkdir = None, ke_template = Ok '''', ke_write = None, ke_caps = Ok '''',
     ke_procDevices = Ok (proc_devices [(195, ''nvidia-caps'')] '''')\<rparr>"

definition example_decode :: "string \<Rightarrow> RuntimeObject go" where
  "example_decode raw = (if raw = ''daemon'' then Ok (DaemonConfigObj (DefaultComputeDomainDaemonConfig\<lparr>dc_DomainID := ''d1''\<rparr>))
     else Ok (ChannelConfigObj (DefaultComputeDomainChannelConfig\<lparr>chc_DomainID := raw\<rparr>)))"

definition example_info :: NVcapDeviceInfo where
  "example_info = \<lparr>nv_Major = 234, nv_Minor = 0, nv_Mode = 438, nv_Modify = 0, nv_Path = ''channel0''\<rparr>"

definition example_cd_env :: "bool \<Rightarrow> cd_env" where
  "example_cd_env ready = \<lparr>pe_gates = (\<lambda>_. False), pe_strict = example_decode, pe_nonstrict = example_decode,
     pe_allocatable = [(''channel-0'', \<lparr>cad_Channel = Some \<lparr>chi_ID = 0\<rparr>, cad_Daemon = None\<rparr>),
       (''daemon-0'', \<lparr>cad_Channel = None, cad_Daemon = Some \<lparr>dmi_ID = 0\<rparr>\<rparr>)],
     pe_cliqueID = ''c.1'', pe_nodeName = ''node1'', pe_root = ''/domains'', pe_channelInfos = [example_info], pe_maxChannels = 1,
     pe_get = None, pe_update1 = None, pe_update2 = None, pe_fetch = Err ApiNotFound, pe_config = (\<lambda>_. example_config_env ready),
     pe_order1 = id, pe_order2 = id, pe_newSpec = (\<lambda>_. None), pe_transform = id, pe_save = None, pe_remove = None\<rparr>"

definition example_cd_result :: "string \<Rightarrow> DeviceRequestAllocationResult" where
  "example_cd_result device = \<lparr>dr_Request = ''r'', dr_Driver = cd_DriverName, dr_Pool = ''node1'', dr_Device = device, dr_AdminAccess = None\<rparr>"

definition example_cd_alloc :: "string \<Rightarrow> string \<Rightarrow> AllocationResult" where
  "example_cd_alloc device params = \<lparr>al_Results = [example_cd_result device],
     al_Config = [\<lparr>dac_Source = AllocationConfigSourceClaim, dac_Requests = [''r''],
       dac_Opaque = Some \<lparr>oc_Driver = cd_DriverName, oc_Parameters = params\<rparr>\<rparr>]\<rparr>"

definition example_cd_claim :: "string \<Rightarrow> string \<Rightarrow> string \<Rightarrow> ResourceClaim" where
  "example_cd_claim uid device params = \<lparr>rc_UID = uid, rc_Name = uid, rc_Namespace = ''ns'', rc_Annotations = None, rc_SpecConfig = [],
     rc_Allocation = Some (example_cd_alloc device params)\<rparr>"

definition example_cd_ref :: "string \<Rightarrow> NamespacedObject" where
  "example_cd_ref uid = \<lparr>no_UID = uid, no_Name = uid, no_Namespace = ''ns''\<rparr>"

definition fresh_node :: cd_state where
  "fresh_node = \<lparr>cst_claims = [], cst_cdi = [], cst_node = \<lparr>nd_version = 1, nd_labels = []\<rparr>, cst_dirs = []\<rparr>"

text \<open>Claim \<open>ub\<close> is tried first, while the node is not ready; then claim \<open>ua\<close> of the same domain is prepared.\<close>

definition waiting_node :: cd_state where
  "waiting_node = snd (cd_nodePrepareResource None (example_cd_env False) (example_cd_claim ''ub'' ''channel-0'' ''d1'') fresh_node)"

definition busy_node :: cd_state where
  "busy_node = snd (cd_nodePrepareResource None (example_cd_env True) (example_cd_claim ''ua'' ''channel-0'' ''d1'') waiting_node)"

lemma example_env_ok: "cd_orders_ok (example_cd_env ready)" "undisturbed (example_cd_env ready)" "0 < pe_maxChannels (example_cd_env ready)"
  by (simp_all add: cd_orders_ok_def undisturbed_def example_cd_env_def example_config_env_def)

lemma busy_node_run: "cd_run busy_node"
  unfolding busy_node_def waiting_node_def by (intro cd_run.intros example_env_ok) (simp add: fresh_node_def)

definition entry_summary :: "cd_state \<Rightarrow> (string \<times> string \<times> string list \<times> bool) list" where
  "entry_summary s = map (\<lambda>(u, pc). (u, pc_CheckpointState pc, map (\<lambda>g. dst_ComputeDomain (cg_ConfigState g)) (pc_PreparedDevices pc),
     channel_in_groups 0 (pc_PreparedDevices pc) = Ok True)) (cst_claims s)"

text \<open>Unpreparing a claim that was never completed removes the node label that a completed claim of the same domain
  relies on: after claim \<open>ub\<close> failed because the node was not ready and claim \<open>ua\<close> for the same domain succeeded, a
  successful Unprepare of \<open>ub\<close> takes the label of the domain off the node while \<open>ua\<close> still holds channel 0 of that domain.\<close>

theorem cd_label_lost:
  "entry_summary busy_node = [(''ub'', ''PrepareStarted'', [], False), (''ua'', ''PrepareCompleted'', [''d1''], True)] \<and>
   domain_label busy_node = Some ''d1'' \<and>
   fst (cd_nodeUnprepareResource None (example_cd_env True) (example_cd_ref ''ub'') busy_node) = (True, Ok ()) \<and>
   (let s = snd (cd_nodeUnprepareResource None (example_cd_env True) (example_cd_ref ''ub'') busy_node) in
      domain_label s = None \<and> entry_summary s = [(''ua'', ''PrepareCompleted'', [''d1''], True)])"
  by code_simp

subsection \<open>Witnesses\<close>

definition daemon_node :: cd_state where
  "daemon_node = snd (cd_nodePrepareResource None (example_cd_env True\<lparr>pe_cliqueID := ''''\<rparr>)
     (example_cd_claim ''uc'' ''daemon-0'' ''daemon'') busy_node)"

theorem cd_channel_exclusive_witness:
  "\<exists>c1 c2. map_of (cst_claims daemon_node) ''ua'' = Some c1 \<and> map_of (cst_claims daemon_node) ''uc'' = Some c2 \<and>
     channel_in_groups 0 (pc_PreparedDevices c1) = Ok True \<and> \<not> (holds_channel 0 (pc_PreparedDevices c1) \<and> holds_channel 0 (pc_PreparedDevices c2))"
proof -
  have run: "cd_run daemon_node"
    unfolding daemon_node_def using example_env_ok [of True]
    by (intro cd_run.prepare busy_node_run) (simp_all add: cd_orders_ok_def)
  have "map_option completed (map_of (cst_claims daemon_node) ''ua'') = Some True"
    "map_option completed (map_of (cst_claims daemon_node) ''uc'') = Some True"
    "map_option (\<lambda>c. channel_in_groups 0 (pc_PreparedDevices c)) (map_of (cst_claims daemon_node) ''ua'') = Some (Ok True)"
    by code_simp+
  then obtain c1 c2 where "map_of (cst_claims daemon_node) ''ua'' = Some c1" "completed c1"
    "channel_in_groups 0 (pc_PreparedDevices c1) = Ok True"
    "map_of (cst_claims daemon_node) ''uc'' = Some c2" "completed c2" by auto
  with cd_channel_exclusive [OF run, of "''ua''" c1 "''uc''" c2] show ?thesis by auto
qed



theorem cd_unprepare_effect_witness:
  "cd_Unprepare (example_cd_env True) (example_cd_ref ''ua'') (snd (cd_Unprepare (example_cd_env True) (example_cd_ref ''ua'') busy_node)) =
     (Ok (), snd (cd_Unprepare (example_cd_env True) (example_cd_ref ''ua'') busy_node)) \<and>
   map_of (cst_cdi busy_node) (cd_spec_name ''ua'') \<noteq> None \<and>
   map_of (cst_cdi (snd (cd_Unprepare (example_cd_env True) (example_cd_ref ''ua'') busy_node))) (cd_spec_name ''ua'') = None"
proof -
  let ?u = "cd_Unprepare (example_cd_env True) (example_cd_ref ''ua'') busy_node"
  have "is_ok (fst ?u)" "map_of (cst_claims busy_node) ''ua'' \<noteq> None" "map_of (cst_cdi busy_node) (cd_spec_name ''ua'') \<noteq> None" by code_simp+
  with cd_unprepare_effect [OF prod.collapse [symmetric], of "example_cd_env True" "example_cd_ref ''ua''" busy_node "example_cd_env True"]
  show ?thesis by (simp add: example_cd_ref_def) (simp add: example_cd_env_def)
qed

end
