(* ===== verification/Spec2Isabelle.thy ===== *)
theory Spec2Isabelle
  imports Webhook Mps_Limits Kvcache_Plugin Daemon_Status Daemon_Process Gpu_Driver Gpu_Health Gpu_Nvlib Gpu_Vfio Cd_Controller Cd_Plugin
begin

text \<open>
  A model of the NVIDIA driver for dynamic resource allocation in Kubernetes, with KV cache pools: the
  program under \<open>src/\<close>, and the theorems that make its parts correct.

  \<^bold>\<open>The program.\<close> A user asks for devices with a \<open>ResourceClaim\<close>, and attaches opaque configurations to it. The admission
  webhook (\<open>cmd/webhook\<close>) looks at them when the claim is created. The scheduler allocates devices that the kubelet
  plugins announce; the plugin of the node then prepares the claim (writes a CDI spec file, configures the
  hardware, records its progress in a checkpoint file) and unprepares it at the end. There are three plugins:

  \<^item> for GPUs, MIG devices and VFIO devices (\<open>cmd/gpu-kubelet-plugin\<close>);
  \<^item> for the IMEX channels and the daemon of a compute domain (\<open>cmd/compute-domain-kubelet-plugin\<close>);
  \<^item> for KV cache slices (\<open>cmd/kvcache-kubelet-plugin\<close>).

  A compute domain is a set of nodes that share memory. Its controller (\<open>cmd/compute-domain-controller\<close>) creates a
  DaemonSet and claim templates for every \<open>ComputeDomain\<close> object and removes them; preparing a channel labels the node, which
  starts a daemon (\<open>cmd/compute-domain-daemon\<close>) there; the daemons register in the domain's status or in a
  \<open>ComputeDomainClique\<close> object, from which they compute their peers' names, and from which the controller computes the
  status that the plugin waits for. The KV cache controller (\<open>cmd/kvcache-controller\<close>) binds claims to pools, which the plugin
  looks up.

  \<^bold>\<open>Conventions\<close> (\<open>Prelude\<close>). A Go call ends with a value, an error or a panic (type \<open>go\<close>); a call that changes state is a function
  from a state to an outcome and the new state (type \<open>gost\<close>), so an error keeps the effects made before it. Error values
  keep the chain of wrapped errors, since the code inspects it (\<open>IsNotFound\<close>, \<open>isPermanentError\<close>). A Go map is an
  association list; where the code ranges over a map, the order is an argument, or the theorem holds for every list. A
  nil pointer is \<open>None\<close>; following it is a panic. Go's \<open>int\<close> is \<open>int\<close> where the values are bounded by the code, and the
  width is written out where it matters (\<open>Nvcaps\<close>). Answers of the API server, the file system, NVML, nvcdi, JSON and the
  hardware are arguments: fields of an environment record or a function. Logging and metrics are left out.

  \<^bold>\<open>Theories\<close>, in the order of the dependencies.

  \<^item> \<open>Featuregates\<close>: \<open>pkg/featuregates\<close>, the gates with their defaults and dependencies.
  \<^item> \<open>Api_Config\<close>, \<open>Mps_Limits\<close>: \<open>api/nvidia.com/resource/v1beta1\<close>, the opaque configurations with \<open>Normalize\<close> and
    \<open>Validate\<close>, and the limits of pinned memory. Locale \<open>config_interface\<close> is the Go interface of the configurations, interpreted
    for the six types. Theorems: exactly which GPU configurations are accepted and which panic; every
    device gets the limit its selector or the default says.
  \<^item> \<open>Claims\<close>: \<open>GetOpaqueDeviceConfigs\<close> of the three plugins and the assignment of configurations to devices. Theorem: the
    plugins agree, in the order of precedence.
  \<^item> \<open>Webhook\<close>: \<open>cmd/webhook\<close>. Theorem: a claim is admitted exactly when all configurations for the driver are valid.
  \<^item> \<open>Kvcache_Controller\<close>, \<open>Kvcache_Plugin\<close>: both reconcilers over an API server that other clients change between any two
    calls, and the plugin. Theorems: a bound pool is compatible under every interleaving, a prepared claim exposes
    exactly its pool, the plugin resolves what the controller bound, and the cases where they disagree.
  \<^item> \<open>Api_Server\<close>: one object with optimistic concurrency; locale \<open>shared_object\<close> gives that an invariant kept by all
    operations on their own copy holds of every stored version, whatever stale copies the clients use.
  \<^item> \<open>Daemon_Common\<close>, \<open>Daemon_Clique\<close>, \<open>Daemon_Status\<close>, \<open>Dns_Names\<close>: the daemon. Locale \<open>index_allocator\<close> is the contract of the two
    index searches, interpreted for the clique and the status. Theorems: indices are unique, in range and stable under
    every interleaving of daemons and controller; what a daemon pushes to its IMEX process; host names are
    consistent on all nodes.
  \<^item> \<open>Daemon_Process\<close>: how the daemon runs its IMEX process (\<open>process.go\<close>, \<open>main.go\<close>): the process manager, start-up and configuration files as operations;
    \<open>pm_step\<close> interleaves the update loop, the watchdog, the child and the goroutine that waits for it. Theorems: at most one child, always
    supervised; a child never runs without its configuration; the supervision never deadlocks. A run shows a race of watchdog and
    update loop that ends the daemon (\<open>watchdog_race_ends_daemon\<close>).
  \<^item> \<open>Cd_Status\<close>: the periodic status sync of the controller (\<open>cdstatus.go\<close>), which \<open>Daemon_Status\<close> shows to refine the cliques.
  \<^item> \<open>Watch_Cache\<close>, \<open>Cd_Children\<close>, \<open>Cd_Controller\<close>: the controller's managers over an API server with lagging informers and
    mutation caches. Theorems: the finalizer of a domain goes only after all its children are gone, in every run;
    what the first reconciliation creates.
  \<^item> \<open>Mig\<close>, \<open>Gpu_Devices\<close>, \<open>Cdi_Spec\<close>, \<open>Gpu_Cdi\<close>: device names and their parser, allocatable and prepared devices, CDI specs.
  \<^item> \<open>Checkpoint\<close>: both checkpoint versions, with checksums; the round trip through the file.
  \<^item> \<open>Prepared_Claims\<close>: what the plugins for GPUs and compute domains do alike with checkpointed claims. Locale \<open>claim_handlers\<close> is
    the contract of a plugin's handlers with the checkpoint (which entries they may change, and that a completed
    claim passed the overlap check); it gives exclusive use of devices and what clean-up removes. It is
    interpreted as \<open>gpu\<close> and \<open>cd\<close>.
  \<^item> \<open>Gpu_State\<close>, \<open>Gpu_Driver\<close>: \<open>device_state.go\<close>, \<open>driver.go\<close> and \<open>cleanup.go\<close> of the GPU plugin. Locales \<open>hw_frame\<close> and
    \<open>device_frame\<close> collect which parts of the state each operation keeps. Theorems: what a successful
    or failed Prepare and Unprepare leave behind, roll-back spares devices in use, devices are used exclusively in
    every run.
  \<^item> \<open>Gpu_Announce\<close>: what the GPU plugin tells the scheduler about its devices (\<open>partitions.go\<close>, \<open>deviceinfo.go\<close>, \<open>mig.go\<close>, \<open>driver.go\<close>, and the
    walk over MIG profiles in \<open>nvlib.go\<close>). Theorems: devices that the counters allow to be allocated together share no memory slice, and
    every device alone fits into its GPU.
  \<^item> \<open>Gpu_Health\<close>: the health monitor (\<open>device_health.go\<close>) and the driver's loop over its notifications, with a bounded channel
    between them. Theorems: which taints devices get and when they are published; a run in which a taint is lost.
  \<^item> \<open>Gpu_Nvlib\<close>: \<open>nvlib.go\<close> over NVML as a parameter: discovery, creation, search and deletion of MIG devices, and the instance
    \<open>nvlib_hardware\<close> of the hardware parameter of \<open>Gpu_State\<close>. Theorems: what discovery finds is what the runs of the other
    theories start from; what creating and deleting a MIG device does to the GPU instances, for every NVML that behaves as documented
    (\<open>nvml_creates_gi\<close> and the like); roll-back of dynamic MIG devices can never succeed; MIG mode may go off under a device.
  \<^item> \<open>Gpu_Vfio\<close>: \<open>vfio-device.go\<close> and its shell scripts over the drivers of the PCI bus. Theorems: which driver a GPU has
    afterwards and when one is taken away; a failed change strands the GPU.
  \<^item> \<open>Nvcaps\<close>, \<open>Cd_Devices\<close>, \<open>Cd_State\<close>, \<open>Cd_Plugin\<close>: \<open>internal/common/nvcaps.go\<close> and the compute-domain plugin: devices, clique ID,
    checkpoint formats with the legacy one, the compute-domain manager, CDI files, Prepare, Unprepare,
    handlers and clean-up. Locales \<open>apply_frame\<close> and \<open>node_frame\<close> (a sublocale) say what the operations keep. Theorems:
    channel 0 is never held by two claims, when a channel is handed out, how the node label changes.

  \<^bold>\<open>Runs.\<close> \<open>clique_run\<close>, \<open>status_run\<close>, \<open>ctl_run\<close>, \<open>gpu_run\<close>, \<open>cd_run\<close>, \<open>health_run\<close> and \<open>pm_run\<close> are the reachable states: any sequence of handler calls, each
  with an arbitrary environment (failing calls, stale caches, map orders), and steps of other clients (for \<open>pm_run\<close>, single steps of the goroutines). Retries of the work
  queues are repeated calls. Handlers of one plugin do not interleave, because of its lock file; the KV cache controller's
  calls do interleave with other clients, one API call at a time.

  \<^bold>\<open>Loops.\<close> The search for an unused index ends by a measure. Reading a legacy checkpoint, where \<open>UnmarshalCheckpoint\<close> calls
  itself on the converted data, is a \<open>partial_function (option)\<close>; \<open>legacy_checkpoint_upgrade\<close> shows that it always returns. All
  other loops run over lists. No definition uses fuel.

  \<^bold>\<open>Assumptions.\<close> They are hypotheses of the theorems that need them.

  \<^item> JSON: decoding an encoded checkpoint gives it back, up to what \<open>omitempty\<close> drops (\<open>json_ok\<close>, shown consistent by an instance).
  \<^item> Orders of map iterations are permutations (\<open>cd_orders_ok\<close>).
  \<^item> \<open>ctl_env_ok\<close>: the controller's own informers deliver events in order; one controller is active (leader election); an
    entry of a mutation cache is dropped only after its informer has seen the object, that is, the cache's time to live
    exceeds the informer's lag.
  \<^item> \<open>undisturbed\<close>, \<open>quiet\<close>: no other client changes the object between two calls; only where a theorem states an exact result.

  \<^item> \<open>nvml_enables\<close>, \<open>nvml_creates_gi\<close>, \<open>nvml_creates_ci\<close>, \<open>nvml_describes\<close>, \<open>nvml_finds\<close>, \<open>nvml_destroys\<close>: NVML manages MIG instances as documented; shown
    consistent by a simulated GPU.

  \<^bold>\<open>Not modelled\<close>: NVML, nvpci and go-nvlib themselves, the search for driver
  files (\<open>root.go\<close>), generated code (deep copies, clients), HTTP and gRPC servers, flags and start-up. A cached CDI spec of the GPU plugin is cloned
  shallowly; the model takes the clone to be a copy.
\<close>

end
